(* ===== verification/Prelude.thy ===== *)
theory Prelude
  imports Main "HOL-Library.Word" "HOL-Library.AList" "HOL-Library.Multiset"
begin

text \<open>
  The vocabulary every component of the gateway shares: the machine integers of the
  Rust sources, instants and time spans, results that may also unwind, hash maps and JSON
  values. The interface of a hash map is the locale \<open>hash_map\<close>; it is interpreted on
  association lists, the executable representation used by the component theories.
\<close>

named_theorems audit_intros \<open>what a stage of the pipeline leaves in the audit log\<close>

section \<open>Machine integers, identifiers and time\<close>

text \<open>
  \<open>u64\<close> and \<open>i32\<close> are kept at their width; arithmetic wraps as in a release build.
  A UUID is a 128 bit word. Instants and spans of the chrono crate are integers counting
  nanoseconds.
\<close>

type_synonym u64 = "64 word"
type_synonym i32 = "32 word"
type_synonym uuid = "128 word"
type_synonym instant = int
type_synonym span = int

text \<open>
  \<open>chrono::Duration::seconds\<close> is documented to panic beyond \<open>i64::MAX\<close> milliseconds in
  either direction; \<open>None\<close> stands for that panic.
\<close>

definition duration_seconds :: "int \<Rightarrow> span option" where
  "duration_seconds s =
     (if \<bar>s\<bar> \<le> 9223372036854775 then Some (s * 1000000000) else None)"

lemma duration_seconds_Some [simp]:
  "\<bar>s\<bar> \<le> 9223372036854775 \<Longrightarrow> duration_seconds s = Some (s * 1000000000)"
  by (simp add: duration_seconds_def)

section \<open>Results\<close>

text \<open>A call returns \<open>Ok\<close>, returns \<open>Err\<close>, or unwinds.\<close>

datatype ('a, 'e) result = Ok 'a | Err 'e | Panic

fun is_ok :: "('a, 'e) result \<Rightarrow> bool" where
  "is_ok (Ok _) = True"
| "is_ok _ = False"

lemma is_ok_iff: "is_ok r \<longleftrightarrow> (\<exists>x. r = Ok x)"
  by (cases r) auto

text \<open>
  Fallible calls on a state, in sequence: \<open>and_then\<close> is the question mark operator followed by the
  rest of the body, \<open>map_err\<close> converts the error first.
\<close>

fun and_then ::
  "('a, 'e) result \<times> 's \<Rightarrow> ('a \<Rightarrow> 's \<Rightarrow> ('c, 'e) result \<times> 's) \<Rightarrow> ('c, 'e) result \<times> 's" where
  "and_then (Ok x, s) f = f x s"
| "and_then (Err e, s) f = (Err e, s)"
| "and_then (Panic, s) f = (Panic, s)"

fun map_err :: "('e \<Rightarrow> 'f) \<Rightarrow> ('a, 'e) result \<times> 's \<Rightarrow> ('a, 'f) result \<times> 's" where
  "map_err f (Ok x, s) = (Ok x, s)"
| "map_err f (Err e, s) = (Err (f e), s)"
| "map_err f (Panic, s) = (Panic, s)"

lemma and_then_Ok: "and_then m f = (Ok y, s') \<longleftrightarrow> (\<exists>x s. m = (Ok x, s) \<and> f x s = (Ok y, s'))"
  by (cases m rule: prod.exhaust, rename_tac r s, case_tac r) auto

lemma map_err_Ok [simp]: "map_err f m = (Ok x, s) \<longleftrightarrow> m = (Ok x, s)"
  by (cases m rule: prod.exhaust, rename_tac r s', case_tac r) auto

section \<open>Hash maps\<close>

text \<open>
  What the components rely on of \<open>HashMap\<close>: lookups after insertions and removals,
  and how the multiset of stored values changes.
\<close>

locale hash_map =
  fixes get :: "'m \<Rightarrow> 'k \<Rightarrow> 'v option"
    and put :: "'k \<Rightarrow> 'v \<Rightarrow> 'm \<Rightarrow> 'm"
    and rem :: "'k \<Rightarrow> 'm \<Rightarrow> 'm"
    and vals :: "'m \<Rightarrow> 'v list"
    and ok :: "'m \<Rightarrow> bool"
  assumes get_put: "get (put k v m) k' = (if k' = k then Some v else get m k')"
    and get_rem: "ok m \<Longrightarrow> get (rem k m) k' = (if k' = k then None else get m k')"
    and ok_put: "ok m \<Longrightarrow> ok (put k v m)"
    and ok_rem: "ok m \<Longrightarrow> ok (rem k m)"
    and vals_ran: "ok m \<Longrightarrow> set (vals m) = ran (get m)"
    and vals_put_new: "get m k = None \<Longrightarrow> mset (vals (put k v m)) = add_mset v (mset (vals m))"
    and vals_put_old: "ok m \<Longrightarrow> get m k = Some w \<Longrightarrow>
      add_mset w (mset (vals (put k v m))) = add_mset v (mset (vals m))"
begin

lemma count_put_new:
  assumes "get m k = None"
  shows "length (filter P (vals (put k v m))) = length (filter P (vals m)) + of_bool (P v)"
proof -
  have "size (filter_mset P (mset (vals (put k v m)))) =
      size (filter_mset P (add_mset v (mset (vals m))))"
    by (simp only: vals_put_new [OF assms])
  then show ?thesis
    by (simp split: if_splits flip: mset_filter)
qed

lemma count_put_old:
  assumes "ok m" and "get m k = Some w"
  shows "length (filter P (vals (put k v m))) + of_bool (P w) =
    length (filter P (vals m)) + of_bool (P v)"
proof -
  have "size (filter_mset P (add_mset w (mset (vals (put k v m))))) =
      size (filter_mset P (add_mset v (mset (vals m))))"
    by (simp only: vals_put_old [OF assms])
  then show ?thesis
    by (simp split: if_splits flip: mset_filter)
qed

lemma all_vals_put:
  "ok m \<Longrightarrow> (\<forall>x \<in> set (vals m). P x) \<Longrightarrow> P v \<Longrightarrow> (\<forall>x \<in> set (vals (put k v m)). P x)"
  by (auto simp: vals_ran ok_put ran_def get_put split: if_splits)

lemma get_in_vals: "ok m \<Longrightarrow> get m k = Some v \<Longrightarrow> v \<in> set (vals m)"
  by (auto simp: vals_ran ran_def)

end

abbreviation keys_distinct :: "('k \<times> 'v) list \<Rightarrow> bool" where
  "keys_distinct m \<equiv> distinct (map fst m)"

lemma mset_vals_update_new:
  "map_of m k = None \<Longrightarrow> mset (map snd (AList.update k v m)) = add_mset v (mset (map snd m))"
  by (induction m) (auto split: if_splits)

lemma mset_vals_update_old:
  "keys_distinct m \<Longrightarrow> map_of m k = Some w \<Longrightarrow>
   add_mset w (mset (map snd (AList.update k v m))) = add_mset v (mset (map snd m))"
  by (induction m) (auto split: if_splits)

interpretation hm: hash_map map_of AList.update AList.delete "map snd" keys_distinct
proof unfold_locales
  fix m :: "('a \<times> 'b) list" and k k' v w
  show "map_of (AList.update k v m) k' = (if k' = k then Some v else map_of m k')"
    by (simp add: update_conv')
  show "keys_distinct m \<Longrightarrow> map_of (AList.delete k m) k' = (if k' = k then None else map_of m k')"
    by (simp add: delete_conv')
  show "keys_distinct m \<Longrightarrow> keys_distinct (AList.update k v m)"
    by (rule distinct_update)
  show "keys_distinct m \<Longrightarrow> keys_distinct (AList.delete k m)"
    by (rule distinct_delete)
  show "keys_distinct m \<Longrightarrow> set (map snd m) = ran (map_of m)"
    by (simp add: ran_distinct)
qed (fact mset_vals_update_new mset_vals_update_old)+

lemmas hm_simps [simp] = hm.get_put hm.get_rem

lemma map_of_map_vals [simp]:
  "map_of (map (\<lambda>(k, v). (k, f v)) m) k = map_option f (map_of m k)"
  by (induction m) auto

lemma keys_distinct_map_vals [simp]:
  "keys_distinct (map (\<lambda>(k, v). (k, f v)) m) = keys_distinct m"
  by (simp add: case_prod_unfold comp_def)

lemma keys_distinct_filter: "keys_distinct m \<Longrightarrow> keys_distinct (filter P m)"
  by (simp add: distinct_map_filter)

lemma map_of_filter_vals:
  "keys_distinct m \<Longrightarrow>
   map_of (filter (\<lambda>(k, v). P v) m) k =
     (case map_of m k of Some v \<Rightarrow> if P v then Some v else None | None \<Rightarrow> None)"
  by (induction m) (auto split: option.splits dest: map_of_SomeD simp: image_iff)

end
