(* ===== verification/Session.thy ===== *)
theory Session
  imports Prelude
begin

text \<open>
  The task sessions of \<open>crates/arbiter-session\<close>: the record \<open>TaskSession\<close> with its
  guards (\<open>model.rs\<close>), the errors and their HTTP status (\<open>error.rs\<close>, \<open>middleware.rs\<close>) and
  the in-memory \<open>SessionStore\<close> (\<open>store.rs\<close>). Every store operation runs under the write
  lock, so it is one atomic function of the store. Each reading of the wall clock and each
  fresh UUID is an argument.
\<close>

section \<open>Sessions\<close>

datatype data_sensitivity = Public | Internal | Confidential | Restricted

text \<open>The derived order of the sensitivity levels.\<close>

fun sensitivity_rank :: "data_sensitivity \<Rightarrow> nat" where
  "sensitivity_rank Public = 0"
| "sensitivity_rank Internal = 1"
| "sensitivity_rank Confidential = 2"
| "sensitivity_rank Restricted = 3"

instantiation data_sensitivity :: linorder
begin

definition less_eq_data_sensitivity :: "data_sensitivity \<Rightarrow> data_sensitivity \<Rightarrow> bool" where
  "less_eq_data_sensitivity a b \<longleftrightarrow> sensitivity_rank a \<le> sensitivity_rank b"

definition less_data_sensitivity :: "data_sensitivity \<Rightarrow> data_sensitivity \<Rightarrow> bool" where
  "less_data_sensitivity a b \<longleftrightarrow> sensitivity_rank a < sensitivity_rank b"

instance
proof
  fix a b :: data_sensitivity
  show "a \<le> b \<Longrightarrow> b \<le> a \<Longrightarrow> a = b"
    by (cases a; cases b) (simp_all add: less_eq_data_sensitivity_def)
qed (auto simp: less_eq_data_sensitivity_def less_data_sensitivity_def)

end

datatype session_status = StActive | StClosed | StExpired

record task_session =
  ts_session_id :: uuid
  ts_agent_id :: uuid
  ts_delegation_chain_snapshot :: "string list"
  ts_declared_intent :: string
  ts_authorized_tools :: "string list"
  ts_authorized_credentials :: "string list"
  ts_time_limit :: span
  ts_call_budget :: u64
  ts_calls_made :: u64
  ts_rate_limit_per_minute :: "u64 option"
  ts_rate_window_start :: instant
  ts_rate_window_calls :: u64
  ts_rate_limit_window_secs :: u64
  ts_data_sensitivity_ceiling :: data_sensitivity
  ts_created_at :: instant
  ts_status :: session_status

definition is_expired :: "instant \<Rightarrow> task_session \<Rightarrow> bool" where
  "is_expired now s \<longleftrightarrow> now - ts_created_at s > ts_time_limit s \<or> ts_status s = StExpired"

definition is_budget_exceeded :: "task_session \<Rightarrow> bool" where
  "is_budget_exceeded s \<longleftrightarrow> ts_calls_made s \<ge> ts_call_budget s"

definition is_tool_authorized :: "task_session \<Rightarrow> string \<Rightarrow> bool" where
  "is_tool_authorized s tool_name \<longleftrightarrow>
     ts_authorized_tools s = [] \<or> list_ex (\<lambda>t. t = tool_name) (ts_authorized_tools s)"

definition is_credential_authorized :: "task_session \<Rightarrow> string \<Rightarrow> bool" where
  "is_credential_authorized s reference \<longleftrightarrow>
     ts_authorized_credentials s = [] \<or> list_ex (\<lambda>c. c = reference) (ts_authorized_credentials s)"

definition is_active :: "instant \<Rightarrow> task_session \<Rightarrow> bool" where
  "is_active now s \<longleftrightarrow>
     ts_status s = StActive \<and> \<not> is_expired now s \<and> \<not> is_budget_exceeded s"

text \<open>
  The length of the rate window: the \<open>u64\<close> field is cast to \<open>i64\<close> before it becomes a
  duration, so it is read as two's complement.
\<close>

definition rate_window_span :: "task_session \<Rightarrow> span option" where
  "rate_window_span s = duration_seconds (sint (ts_rate_limit_window_secs s))"

definition check_rate_limit :: "instant \<Rightarrow> task_session \<Rightarrow> (task_session \<times> bool) option" where
  "check_rate_limit now s =
     (case ts_rate_limit_per_minute s of
        None \<Rightarrow> Some (s, False)
      | Some limit \<Rightarrow>
          (case rate_window_span s of
             None \<Rightarrow> None
           | Some w \<Rightarrow>
               if now - ts_rate_window_start s \<ge> w
               then Some (s\<lparr>ts_rate_window_start := now, ts_rate_window_calls := 1\<rparr>, False)
               else if ts_rate_window_calls s \<ge> limit then Some (s, True)
               else Some (s\<lparr>ts_rate_window_calls := ts_rate_window_calls s + 1\<rparr>, False)))"

section \<open>Errors\<close>

datatype session_error =
    SessNotFound uuid
  | SessExpired uuid
  | BudgetExceeded uuid u64 u64
  | ToolNotAuthorized uuid string
  | AlreadyClosed uuid
  | RateLimited uuid u64
  | AgentMismatch uuid uuid uuid
  | StorageWriteThrough uuid string
  | TooManySessions string u64 u64

fun status_code_for_error :: "session_error \<Rightarrow> nat" where
  "status_code_for_error (SessNotFound _) = 404"
| "status_code_for_error (SessExpired _) = 408"
| "status_code_for_error (BudgetExceeded _ _ _) = 429"
| "status_code_for_error (ToolNotAuthorized _ _) = 403"
| "status_code_for_error (AlreadyClosed _) = 410"
| "status_code_for_error (RateLimited _ _) = 429"
| "status_code_for_error (TooManySessions _ _ _) = 429"
| "status_code_for_error (AgentMismatch _ _ _) = 403"
| "status_code_for_error (StorageWriteThrough _ _) = 503"

section \<open>The in-memory store\<close>

record create_session_request =
  csr_agent_id :: uuid
  csr_delegation_chain_snapshot :: "string list"
  csr_declared_intent :: string
  csr_authorized_tools :: "string list"
  csr_authorized_credentials :: "string list"
  csr_time_limit :: span
  csr_call_budget :: u64
  csr_rate_limit_per_minute :: "u64 option"
  csr_rate_limit_window_secs :: u64
  csr_data_sensitivity_ceiling :: data_sensitivity

record session_store =
  ss_sessions :: "(uuid \<times> task_session) list"

definition store_new :: session_store where
  "store_new = \<lparr>ss_sessions = []\<rparr>"

abbreviation lookup_session :: "session_store \<Rightarrow> uuid \<Rightarrow> task_session option" where
  "lookup_session st sid \<equiv> map_of (ss_sessions st) sid"

definition put_session :: "uuid \<Rightarrow> task_session \<Rightarrow> session_store \<Rightarrow> session_store" where
  "put_session sid s st = st\<lparr>ss_sessions := AList.update sid s (ss_sessions st)\<rparr>"

definition fresh_session ::
  "uuid \<Rightarrow> instant \<Rightarrow> instant \<Rightarrow> span \<Rightarrow> create_session_request \<Rightarrow> task_session" where
  "fresh_session sid now1 now2 time_limit req =
     \<lparr>ts_session_id = sid,
      ts_agent_id = csr_agent_id req,
      ts_delegation_chain_snapshot = csr_delegation_chain_snapshot req,
      ts_declared_intent = csr_declared_intent req,
      ts_authorized_tools = csr_authorized_tools req,
      ts_authorized_credentials = csr_authorized_credentials req,
      ts_time_limit = time_limit,
      ts_call_budget = csr_call_budget req,
      ts_calls_made = 0,
      ts_rate_limit_per_minute = csr_rate_limit_per_minute req,
      ts_rate_window_start = now1,
      ts_rate_window_calls = 0,
      ts_rate_limit_window_secs = csr_rate_limit_window_secs req,
      ts_data_sensitivity_ceiling = csr_data_sensitivity_ceiling req,
      ts_created_at = now2,
      ts_status = StActive\<rparr>"

definition create ::
  "uuid \<Rightarrow> instant \<Rightarrow> instant \<Rightarrow> create_session_request \<Rightarrow> session_store \<Rightarrow>
   task_session \<times> session_store" where
  "create sid now1 now2 req st =
     (let time_limit = (if csr_time_limit req < 1000000000 then 1000000000
                        else csr_time_limit req);
          session = fresh_session sid now1 now2 time_limit req
      in (session, put_session sid session st))"

definition active_for :: "uuid \<Rightarrow> task_session \<Rightarrow> bool" where
  "active_for agent_id s \<longleftrightarrow> ts_agent_id s = agent_id \<and> ts_status s = StActive"

definition count_active_for_agent :: "uuid \<Rightarrow> session_store \<Rightarrow> u64" where
  "count_active_for_agent agent_id st =
     of_nat (length (filter (active_for agent_id) (map snd (ss_sessions st))))"

definition create_if_under_cap ::
  "(uuid \<Rightarrow> string) \<Rightarrow> uuid \<Rightarrow> instant \<Rightarrow> instant \<Rightarrow> create_session_request \<Rightarrow> u64 \<Rightarrow>
   session_store \<Rightarrow> (task_session, session_error) result \<times> session_store" where
  "create_if_under_cap uuid_to_string sid now1 now2 req max_sessions st =
     (let active_count = count_active_for_agent (csr_agent_id req) st
      in if active_count \<ge> max_sessions
         then (Err (TooManySessions (uuid_to_string (csr_agent_id req)) max_sessions active_count), st)
         else let session = fresh_session sid now1 now2 (csr_time_limit req) req
              in (Ok session, put_session sid session st))"

definition agent_mismatch :: "uuid option \<Rightarrow> task_session \<Rightarrow> uuid option" where
  "agent_mismatch requesting s =
     (case requesting of
        None \<Rightarrow> None
      | Some a \<Rightarrow> if a \<noteq> ts_agent_id s then Some a else None)"

definition use_session ::
  "uuid \<Rightarrow> string \<Rightarrow> uuid option \<Rightarrow> instant \<Rightarrow> instant \<Rightarrow> session_store \<Rightarrow>
   (task_session, session_error) result \<times> session_store" where
  "use_session sid tool_name requesting now1 now2 st =
     (case lookup_session st sid of
        None \<Rightarrow> (Err (SessNotFound sid), st)
      | Some s \<Rightarrow>
          (case agent_mismatch requesting s of
             Some a \<Rightarrow> (Err (AgentMismatch sid (ts_agent_id s) a), st)
           | None \<Rightarrow>
               if ts_status s = StClosed then (Err (AlreadyClosed sid), st)
               else if is_expired now1 s
               then (Err (SessExpired sid), put_session sid (s\<lparr>ts_status := StExpired\<rparr>) st)
               else if is_budget_exceeded s
               then (Err (BudgetExceeded sid (ts_call_budget s) (ts_calls_made s)), st)
               else if \<not> is_tool_authorized s tool_name
               then (Err (ToolNotAuthorized sid tool_name), st)
               else (case check_rate_limit now2 s of
                       None \<Rightarrow> (Panic, st)
                     | Some (s', True) \<Rightarrow>
                         (Err (RateLimited sid (case ts_rate_limit_per_minute s' of
                                                  None \<Rightarrow> 0 | Some l \<Rightarrow> l)),
                          put_session sid s' st)
                     | Some (s', False) \<Rightarrow>
                         (let s'' = s'\<lparr>ts_calls_made := ts_calls_made s' + 1\<rparr>
                          in (Ok s'', put_session sid s'' st)))))"

text \<open>
  The rate check of a batch reads the clock twice: once to decide (\<open>batch_rate_check\<close>,
  \<open>None\<close> for the panic of the duration, \<open>Some (Some limit)\<close> for a rejection) and once more to update the window
  (\<open>batch_rate_update\<close>).
\<close>

definition batch_rate_check :: "instant \<Rightarrow> u64 \<Rightarrow> task_session \<Rightarrow> u64 option option" where
  "batch_rate_check now batch_size s =
     (case ts_rate_limit_per_minute s of
        None \<Rightarrow> Some None
      | Some limit \<Rightarrow>
          (case rate_window_span s of
             None \<Rightarrow> None
           | Some w \<Rightarrow>
               if now - ts_rate_window_start s \<ge> w then Some None
               else if ts_rate_window_calls s + batch_size > limit then Some (Some limit)
               else Some None))"

definition batch_rate_update :: "instant \<Rightarrow> u64 \<Rightarrow> task_session \<Rightarrow> task_session option" where
  "batch_rate_update now batch_size s =
     (case ts_rate_limit_per_minute s of
        None \<Rightarrow> Some s
      | Some _ \<Rightarrow>
          (case rate_window_span s of
             None \<Rightarrow> None
           | Some w \<Rightarrow>
               if now - ts_rate_window_start s \<ge> w
               then Some (s\<lparr>ts_rate_window_start := now, ts_rate_window_calls := batch_size\<rparr>)
               else Some (s\<lparr>ts_rate_window_calls := ts_rate_window_calls s + batch_size\<rparr>)))"

definition use_session_batch ::
  "uuid \<Rightarrow> string list \<Rightarrow> uuid option \<Rightarrow> instant \<Rightarrow> instant \<Rightarrow> instant \<Rightarrow> session_store \<Rightarrow>
   (task_session, session_error) result \<times> session_store" where
  "use_session_batch sid tool_names requesting now1 now2 now3 st =
     (case lookup_session st sid of
        None \<Rightarrow> (Err (SessNotFound sid), st)
      | Some s \<Rightarrow>
          (case agent_mismatch requesting s of
             Some a \<Rightarrow> (Err (AgentMismatch sid (ts_agent_id s) a), st)
           | None \<Rightarrow>
               if ts_status s = StClosed then (Err (AlreadyClosed sid), st)
               else if is_expired now1 s
               then (Err (SessExpired sid), put_session sid (s\<lparr>ts_status := StExpired\<rparr>) st)
               else let batch_size = of_nat (length tool_names) in
               if ts_calls_made s + batch_size > ts_call_budget s
               then (Err (BudgetExceeded sid (ts_call_budget s) (ts_calls_made s)), st)
               else (case find (\<lambda>t. \<not> is_tool_authorized s t) tool_names of
                       Some t \<Rightarrow> (Err (ToolNotAuthorized sid t), st)
                     | None \<Rightarrow>
                         (case batch_rate_check now2 batch_size s of
                            None \<Rightarrow> (Panic, st)
                          | Some (Some limit) \<Rightarrow> (Err (RateLimited sid limit), st)
                          | Some None \<Rightarrow>
                              (case batch_rate_update now3 batch_size s of
                                 None \<Rightarrow> (Panic, st)
                               | Some s' \<Rightarrow>
                                   (let s'' = s'\<lparr>ts_calls_made := ts_calls_made s' + batch_size\<rparr>
                                    in (Ok s'', put_session sid s'' st)))))))"

definition close :: "uuid \<Rightarrow> session_store \<Rightarrow> (task_session, session_error) result \<times> session_store" where
  "close sid st =
     (case lookup_session st sid of
        None \<Rightarrow> (Err (SessNotFound sid), st)
      | Some s \<Rightarrow>
          if ts_status s = StClosed then (Err (AlreadyClosed sid), st)
          else let s' = s\<lparr>ts_status := StClosed\<rparr> in (Ok s', put_session sid s' st))"

definition get_session :: "uuid \<Rightarrow> session_store \<Rightarrow> (task_session, session_error) result" where
  "get_session sid st =
     (case lookup_session st sid of None \<Rightarrow> Err (SessNotFound sid) | Some s \<Rightarrow> Ok s)"

definition list_all_sessions :: "session_store \<Rightarrow> task_session list" where
  "list_all_sessions st = map snd (ss_sessions st)"

definition list_for_agent :: "uuid \<Rightarrow> session_store \<Rightarrow> task_session list" where
  "list_for_agent agent_id st =
     filter (\<lambda>s. ts_agent_id s = agent_id) (map snd (ss_sessions st))"

definition close_sessions_for_agent :: "uuid \<Rightarrow> session_store \<Rightarrow> nat \<times> session_store" where
  "close_sessions_for_agent agent_id st =
     (length (filter (active_for agent_id) (map snd (ss_sessions st))),
      st\<lparr>ss_sessions :=
           map (\<lambda>(k, s). (k, if active_for agent_id s then s\<lparr>ts_status := StClosed\<rparr> else s))
               (ss_sessions st)\<rparr>)"

text \<open>\<open>retain\<close> asks the clock anew for every entry; \<open>now\<close> gives the reading for each key.\<close>

definition cleanup_expired :: "(uuid \<Rightarrow> instant) \<Rightarrow> session_store \<Rightarrow> nat \<times> session_store" where
  "cleanup_expired now st =
     (let kept = filter (\<lambda>(k, s). \<not> is_expired (now k) s \<and> ts_status s \<noteq> StClosed) (ss_sessions st)
      in (length (ss_sessions st) - length kept, st\<lparr>ss_sessions := kept\<rparr>))"

section \<open>Basic facts\<close>

lemmas session_guard_defs = is_expired_def is_budget_exceeded_def is_tool_authorized_def is_active_def

lemma lookup_put_session [simp]:
  "lookup_session (put_session sid s st) k = (if k = sid then Some s else lookup_session st k)"
  by (simp add: put_session_def)

lemma ss_sessions_put: "ss_sessions (put_session sid s st) = AList.update sid s (ss_sessions st)"
  by (simp add: put_session_def)

lemma agent_mismatch_None:
  "agent_mismatch requesting s = None \<longleftrightarrow> requesting \<in> {None, Some (ts_agent_id s)}"
  by (auto simp: agent_mismatch_def split: option.splits)

text \<open>What a rate check leaves unchanged: everything but the rate window.\<close>

definition same_but_window :: "task_session \<Rightarrow> task_session \<Rightarrow> bool" where
  "same_but_window s s' \<longleftrightarrow>
     (\<exists>w c. s' = s\<lparr>ts_rate_window_start := w, ts_rate_window_calls := c\<rparr>)"

lemma same_but_window_refl [simp]: "same_but_window s s"
  unfolding same_but_window_def
  by (rule exI [of _ "ts_rate_window_start s"], rule exI [of _ "ts_rate_window_calls s"]) simp

lemma same_but_window_fields:
  assumes "same_but_window s s'"
  shows "ts_calls_made s' = ts_calls_made s" "ts_call_budget s' = ts_call_budget s"
    "ts_status s' = ts_status s" "ts_agent_id s' = ts_agent_id s"
    "ts_session_id s' = ts_session_id s" "ts_authorized_tools s' = ts_authorized_tools s"
    "ts_rate_limit_per_minute s' = ts_rate_limit_per_minute s"
    "ts_created_at s' = ts_created_at s" "ts_time_limit s' = ts_time_limit s"
    "ts_authorized_credentials s' = ts_authorized_credentials s"
    "ts_declared_intent s' = ts_declared_intent s"
  using assms by (auto simp: same_but_window_def)

lemma check_rate_limit_window: "check_rate_limit now s = Some (s', b) \<Longrightarrow> same_but_window s s'"
  unfolding check_rate_limit_def same_but_window_def
  by (cases s) (auto split: option.splits if_splits)

lemma batch_rate_update_window: "batch_rate_update now n s = Some s' \<Longrightarrow> same_but_window s s'"
  unfolding batch_rate_update_def same_but_window_def
  by (cases s) (auto split: option.splits if_splits)

section \<open>One session under one operation\<close>

text \<open>
  Every operation changes at most the entry it is called on, and changes it in one of four
  ways. The relation \<open>entry_step\<close> is the life cycle of a session.
\<close>

inductive entry_step :: "task_session \<Rightarrow> task_session \<Rightarrow> bool" where
  window: "same_but_window s s' \<Longrightarrow> entry_step s s'"
| expire: "ts_status s \<noteq> StClosed \<Longrightarrow> entry_step s (s\<lparr>ts_status := StExpired\<rparr>)"
| record_calls: "same_but_window s s' \<Longrightarrow> ts_status s = StActive \<Longrightarrow>
    ts_calls_made s + n \<le> ts_call_budget s \<Longrightarrow>
    entry_step s (s'\<lparr>ts_calls_made := ts_calls_made s + n\<rparr>)"
| close_it: "ts_status s \<noteq> StClosed \<Longrightarrow> entry_step s (s\<lparr>ts_status := StClosed\<rparr>)"

inductive_cases entry_stepE: "entry_step s s'"

lemma entry_step_refl [simp]: "entry_step s s"
  by (simp add: entry_step.window)

text \<open>The fields fixed when the session was created stay fixed.\<close>

lemma entry_step_frame:
  assumes "entry_step s s'"
  shows "ts_session_id s' = ts_session_id s" "ts_agent_id s' = ts_agent_id s"
    "ts_authorized_tools s' = ts_authorized_tools s" "ts_call_budget s' = ts_call_budget s"
    "ts_authorized_credentials s' = ts_authorized_credentials s"
    "ts_time_limit s' = ts_time_limit s" "ts_created_at s' = ts_created_at s"
  using assms by (auto elim!: entry_stepE simp: same_but_window_fields)

lemma entry_step_status:
  "entry_step s s' \<Longrightarrow>
   ts_status s' = ts_status s \<or> ts_status s \<noteq> StClosed \<and> ts_status s' \<in> {StExpired, StClosed}"
  by (auto elim!: entry_stepE simp: same_but_window_fields)

lemma entry_step_active: "entry_step s s' \<Longrightarrow> ts_status s' = StActive \<Longrightarrow> ts_status s = StActive"
  using entry_step_status by fastforce

lemma entry_step_budget:
  "entry_step s s' \<Longrightarrow> ts_calls_made s \<le> ts_call_budget s \<Longrightarrow> ts_calls_made s' \<le> ts_call_budget s'"
  by (auto elim!: entry_stepE simp: same_but_window_fields)

lemma not_expired_active:
  "\<not> is_expired now s \<Longrightarrow> ts_status s \<noteq> StClosed \<Longrightarrow> ts_status s = StActive"
  by (cases "ts_status s") (auto simp: is_expired_def)

lemma word_less_imp_Suc_le: "a < b \<Longrightarrow> a + 1 \<le> (b :: 'a::len word)"
  by (metis add.commute inc_le)

lemma use_session_entry:
  assumes "use_session sid tool req now1 now2 st = (r, st')"
  shows "st' = st \<or>
    (\<exists>s s'. lookup_session st sid = Some s \<and> entry_step s s' \<and> st' = put_session sid s' st)"
proof (cases "lookup_session st sid")
  case None
  with assms show ?thesis by (simp add: use_session_def)
next
  case (Some s)
  show ?thesis
  proof (cases "st' = st")
    case False
    from assms Some False have ns: "ts_status s \<noteq> StClosed"
      by (auto simp: use_session_def split: option.splits if_splits)
    show ?thesis
    proof (cases "is_expired now1 s")
      case True
      with assms Some False show ?thesis
        by (auto simp: use_session_def intro: entry_step.expire split: option.splits if_splits)
    next
      case act: False
      then have active: "ts_status s = StActive" using ns by (rule not_expired_active)
      from assms Some False act ns have room: "ts_calls_made s + 1 \<le> ts_call_budget s"
        by (auto simp: use_session_def is_budget_exceeded_def intro: word_less_imp_Suc_le
            split: option.splits if_splits)
      obtain s' b where crl: "check_rate_limit now2 s = Some (s', b)"
        using assms Some False act ns
        by (auto simp: use_session_def split: option.splits if_splits)
      note win = check_rate_limit_window [OF crl]
      show ?thesis
      proof (cases b)
        case True
        then show ?thesis using assms Some False act ns crl win
          by (auto simp: use_session_def intro: entry_step.window split: option.splits if_splits)
      next
        case False
        then show ?thesis using assms Some \<open>st' \<noteq> st\<close> act ns crl room
            entry_step.record_calls [OF win active room]
          by (auto simp: use_session_def Let_def same_but_window_fields [OF win]
              split: option.splits if_splits)
      qed
    qed
  qed simp
qed

lemma use_session_batch_entry:
  assumes "use_session_batch sid tools req now1 now2 now3 st = (r, st')"
  shows "st' = st \<or>
    (\<exists>s s'. lookup_session st sid = Some s \<and> entry_step s s' \<and> st' = put_session sid s' st)"
proof (cases "lookup_session st sid")
  case None
  with assms show ?thesis by (simp add: use_session_batch_def)
next
  case (Some s)
  show ?thesis
  proof (cases "st' = st")
    case False
    from assms Some False have ns: "ts_status s \<noteq> StClosed"
      by (auto simp: use_session_batch_def split: option.splits if_splits)
    show ?thesis
    proof (cases "is_expired now1 s")
      case True
      with assms Some False show ?thesis
        by (auto simp: use_session_batch_def intro: entry_step.expire split: option.splits if_splits)
    next
      case act: False
      then have active: "ts_status s = StActive" using ns by (rule not_expired_active)
      from assms Some False act ns
      obtain s' where upd: "batch_rate_update now3 (of_nat (length tools)) s = Some s'"
        and room: "ts_calls_made s + of_nat (length tools) \<le> ts_call_budget s"
        and st': "st' = put_session sid (s'\<lparr>ts_calls_made := ts_calls_made s' + of_nat (length tools)\<rparr>) st"
        by (auto simp: use_session_batch_def Let_def not_less split: option.splits if_splits)
      note win = batch_rate_update_window [OF upd]
      show ?thesis using Some st' entry_step.record_calls [OF win active room]
        by (auto simp: same_but_window_fields [OF win])
    qed
  qed simp
qed

lemma close_entry:
  assumes "close sid st = (r, st')"
  shows "st' = st \<or>
    (\<exists>s s'. lookup_session st sid = Some s \<and> entry_step s s' \<and> st' = put_session sid s' st)"
  using assms by (auto simp: close_def Let_def intro: entry_step.close_it split: option.splits if_splits)

text \<open>
  The same three facts as rules: what holds of the old store, and of the old store with the
  entry moved along its life cycle, holds of the store after the operation.
\<close>

lemma use_session_rule:
  assumes "Q st"
    and "\<And>s s'. lookup_session st sid = Some s \<Longrightarrow> entry_step s s' \<Longrightarrow> Q (put_session sid s' st)"
  shows "Q (snd (use_session sid tool req now1 now2 st))"
  using use_session_entry [of sid tool req now1 now2 st] assms by (metis surjective_pairing)

lemma use_session_batch_rule:
  assumes "Q st"
    and "\<And>s s'. lookup_session st sid = Some s \<Longrightarrow> entry_step s s' \<Longrightarrow> Q (put_session sid s' st)"
  shows "Q (snd (use_session_batch sid tools req now1 now2 now3 st))"
  using use_session_batch_entry [of sid tools req now1 now2 now3 st] assms
  by (metis surjective_pairing)

lemma close_rule:
  assumes "Q st"
    and "\<And>s s'. lookup_session st sid = Some s \<Longrightarrow> entry_step s s' \<Longrightarrow> Q (put_session sid s' st)"
  shows "Q (snd (close sid st))"
  using close_entry [of sid st] assms by (metis surjective_pairing)

text \<open>A session that is not active can not be used.\<close>

lemma inactive_not_ok:
  assumes "lookup_session st sid = Some s" and "ts_status s \<noteq> StActive"
  shows "\<not> is_ok (fst (use_session sid tool ra now1 now2 st))"
    and "\<not> is_ok (fst (use_session_batch sid tools ra now1 now2 now3 st))"
proof -
  have "ts_status s = StClosed \<or> is_expired now1 s"
    using assms(2) by (cases "ts_status s") (auto simp: is_expired_def)
  with assms(1) show "\<not> is_ok (fst (use_session sid tool ra now1 now2 st))"
    and "\<not> is_ok (fst (use_session_batch sid tools ra now1 now2 now3 st))"
    by (auto simp: use_session_def use_session_batch_def split: option.split)
qed

end
