(* ===== verification/Session_Iface.thy ===== *)
theory Session_Iface
  imports Session
begin

text \<open>
  The contract the request pipeline relies on when it charges a batch of tool calls to a session.
  \<open>AnySessionStore\<close> dispatches to an in-memory or to a storage-backed store; both are shown
  to meet the contract \<open>session_backend\<close> (in \<open>Session_Run\<close> and \<open>Session_Storage\<close>), and what
  follows from the contract alone is proved here once.
\<close>

text \<open>A sequence of batches against one session, and how many calls were accepted in all.\<close>

type_synonym 'st batch_op =
  "uuid \<Rightarrow> string list \<Rightarrow> uuid option \<Rightarrow> instant \<Rightarrow> instant \<Rightarrow> instant \<Rightarrow> 'st \<Rightarrow>
   (task_session, session_error) result \<times> 'st"

type_synonym batch_call = "string list \<times> uuid option \<times> instant \<times> instant \<times> instant"

fun accepted_calls :: "'st batch_op \<Rightarrow> uuid \<Rightarrow> batch_call list \<Rightarrow> 'st \<Rightarrow> nat" where
  "accepted_calls batch sid [] st = 0"
| "accepted_calls batch sid ((tools, ra, now1, now2, now3) # calls) st =
     (let (r, st') = batch sid tools ra now1 now2 now3 st
      in (if is_ok r then length tools else 0) + accepted_calls batch sid calls st')"

definition batch_granted ::
  "task_session \<Rightarrow> string list \<Rightarrow> uuid option \<Rightarrow> instant \<Rightarrow> task_session \<Rightarrow> bool" where
  "batch_granted s tools ra now1 s' \<longleftrightarrow>
     ra \<in> {None, Some (ts_agent_id s)} \<and> ts_status s = StActive \<and> \<not> is_expired now1 s \<and>
     list_all (is_tool_authorized s) tools \<and>
     ts_calls_made s + of_nat (length tools) \<le> ts_call_budget s \<and>
     same_but_window (s\<lparr>ts_calls_made := ts_calls_made s + of_nat (length tools)\<rparr>) s'"

lemma batch_granted_entry: "batch_granted s tools ra now1 s' \<Longrightarrow> entry_step s s'"
proof -
  assume g: "batch_granted s tools ra now1 s'"
  then obtain w c where
    s': "s' = s\<lparr>ts_calls_made := ts_calls_made s + of_nat (length tools),
               ts_rate_window_start := w, ts_rate_window_calls := c\<rparr>"
    by (auto simp: batch_granted_def same_but_window_def)
  have "same_but_window s (s\<lparr>ts_rate_window_start := w, ts_rate_window_calls := c\<rparr>)"
    by (auto simp: same_but_window_def)
  from entry_step.record_calls [OF this, of "of_nat (length tools)"] g
  have "entry_step s (s\<lparr>ts_rate_window_start := w, ts_rate_window_calls := c,
      ts_calls_made := ts_calls_made s + of_nat (length tools)\<rparr>)"
    by (simp add: batch_granted_def)
  also have "s\<lparr>ts_rate_window_start := w, ts_rate_window_calls := c,
      ts_calls_made := ts_calls_made s + of_nat (length tools)\<rparr> = s'"
    unfolding s' by simp
  finally show ?thesis .
qed

lemma unat_add_length:
  assumes "unat b + n < 2 ^ 64" and "a \<le> (b :: u64)"
  shows "unat (a + of_nat n) = unat a + n"
proof -
  have "unat a \<le> unat b" using assms(2) by (simp add: word_le_nat_alt)
  with assms(1) have "unat a + n < 2 ^ 64" "n < 2 ^ 64" by linarith+
  then show ?thesis by (simp add: unat_word_ariths unat_of_nat)
qed

locale session_backend =
  fixes look :: "'st \<Rightarrow> uuid \<Rightarrow> task_session option"
    and batch :: "'st batch_op"
  assumes batch_ok: "batch sid tools ra now1 now2 now3 st = (Ok s', st') \<Longrightarrow>
      \<exists>s. look st sid = Some s \<and> batch_granted s tools ra now1 s' \<and> look st' sid = Some s'"
    and batch_err: "batch sid tools ra now1 now2 now3 st = (r, st') \<Longrightarrow> \<not> is_ok r \<Longrightarrow>
      look st sid = Some s \<Longrightarrow>
      \<exists>s'. look st' sid = Some s' \<and>
        (s' \<in> {s, s\<lparr>ts_status := StExpired\<rparr>} \<or> batch_granted s tools ra now1 s')"
    and batch_other: "batch sid tools ra now1 now2 now3 st = (r, st') \<Longrightarrow> k \<noteq> sid \<Longrightarrow>
      look st' k = look st k"
begin

lemma inactive_not_ok_backend:
  "look st sid = Some s \<Longrightarrow> ts_status s \<noteq> StActive \<Longrightarrow>
   \<not> is_ok (fst (batch sid tools ra now1 now2 now3 st))"
  using batch_ok by (cases "batch sid tools ra now1 now2 now3 st")
    (fastforce simp: is_ok_iff batch_granted_def)

lemma unknown_not_ok: "look st sid = None \<Longrightarrow> \<not> is_ok (fst (batch sid tools ra now1 now2 now3 st))"
  using batch_ok by (cases "batch sid tools ra now1 now2 now3 st") (fastforce simp: is_ok_iff)

lemma batch_calls:
  assumes "batch sid tools ra now1 now2 now3 st = (r, st')" and "look st sid = Some s"
  obtains s' where "look st' sid = Some s'" "ts_call_budget s' = ts_call_budget s"
    "ts_calls_made s' = ts_calls_made s \<and> \<not> is_ok r \<or>
     ts_calls_made s' = ts_calls_made s + of_nat (length tools) \<and>
     ts_calls_made s + of_nat (length tools) \<le> ts_call_budget s"
proof (cases "is_ok r")
  case True
  then obtain x where "r = Ok x" by (auto simp: is_ok_iff)
  with batch_ok assms have "batch_granted s tools ra now1 x" "look st' sid = Some x" by fastforce+
  with that show ?thesis by (auto simp: batch_granted_def same_but_window_fields)
next
  case False
  with batch_err assms obtain s' where "look st' sid = Some s'"
    "s' \<in> {s, s\<lparr>ts_status := StExpired\<rparr>} \<or> batch_granted s tools ra now1 s'" by blast
  with that False show ?thesis by (auto simp: batch_granted_def same_but_window_fields)
qed

lemma accepted_calls_bound:
  assumes "look st sid = Some s" and "ts_calls_made s \<le> ts_call_budget s"
    and "ts_call_budget s = b" and "\<forall>c \<in> set calls. unat b + length (fst c) < 2 ^ 64"
  shows "unat (ts_calls_made s) + accepted_calls batch sid calls st \<le> unat b"
  using assms
proof (induction calls arbitrary: st s)
  case Nil
  then show ?case by (simp add: word_le_nat_alt)
next
  case (Cons c calls)
  obtain tools ra now1 now2 now3 where c: "c = (tools, ra, now1, now2, now3)" by (cases c)
  obtain r st' where u: "batch sid tools ra now1 now2 now3 st = (r, st')" by fastforce
  obtain s' where s': "look st' sid = Some s'" "ts_call_budget s' = ts_call_budget s"
    "ts_calls_made s' = ts_calls_made s \<and> \<not> is_ok r \<or>
     ts_calls_made s' = ts_calls_made s + of_nat (length tools) \<and>
     ts_calls_made s + of_nat (length tools) \<le> ts_call_budget s"
    using batch_calls [OF u Cons.prems(1)] by blast
  have IH: "unat (ts_calls_made s') + accepted_calls batch sid calls st' \<le> unat b"
    by (rule Cons.IH) (use s' Cons.prems in auto)
  have "unat (ts_calls_made s + of_nat (length tools)) = unat (ts_calls_made s) + length tools"
    by (rule unat_add_length [of b]) (use Cons.prems c in auto)
  with s'(3) IH u c show ?case by auto
qed

end

end
