(* ===== verification/Session_Run.thy ===== *)
theory Session_Run
  imports Session_Iface
begin

text \<open>
  Runs of the in-memory session store: any interleaving of its atomic operations, as a step
  relation, with the invariants of the reachable stores. Under a cap every session is created by
  \<open>create_if_under_cap\<close> with that cap; without one, by \<open>create\<close> or under any cap. The set beside
  the store records the UUIDs issued so far, since a fresh version 4 UUID is assumed not to repeat one.
\<close>

inductive store_step ::
  "u64 option \<Rightarrow> uuid set \<Rightarrow> session_store \<Rightarrow> uuid set \<Rightarrow> session_store \<Rightarrow> bool" for cap where
  step_create: "sid \<notin> I \<Longrightarrow> cap = None \<or> cap = Some m \<Longrightarrow>
    store_step cap I st (insert sid I) (snd (create_if_under_cap us sid now1 now2 req m st))"
| step_create_uncapped: "sid \<notin> I \<Longrightarrow> cap = None \<Longrightarrow>
    store_step cap I st (insert sid I) (snd (create sid now1 now2 req st))"
| step_use: "store_step cap I st I (snd (use_session sid tool req_agent now1 now2 st))"
| step_batch: "store_step cap I st I (snd (use_session_batch sid tools req_agent now1 now2 now3 st))"
| step_close: "store_step cap I st I (snd (close sid st))"
| step_close_agent: "store_step cap I st I (snd (close_sessions_for_agent a st))"
| step_cleanup: "store_step cap I st I (snd (cleanup_expired now st))"

inductive store_run ::
  "u64 option \<Rightarrow> uuid set \<Rightarrow> session_store \<Rightarrow> uuid set \<Rightarrow> session_store \<Rightarrow> bool" for cap where
  run_refl: "store_run cap I st I st"
| run_step: "store_run cap I st I' st' \<Longrightarrow> store_step cap I' st' I'' st'' \<Longrightarrow>
    store_run cap I st I'' st''"

definition store_reachable :: "u64 option \<Rightarrow> uuid set \<Rightarrow> session_store \<Rightarrow> bool" where
  "store_reachable cap I st \<longleftrightarrow> store_run cap {} store_new I st"

definition active_n :: "uuid \<Rightarrow> session_store \<Rightarrow> nat" where
  "active_n a st = length (filter (active_for a) (map snd (ss_sessions st)))"

definition session_ok :: "uuid \<Rightarrow> task_session \<Rightarrow> bool" where
  "session_ok k s \<longleftrightarrow> ts_session_id s = k \<and> ts_calls_made s \<le> ts_call_budget s"

definition issued_inv :: "uuid set \<Rightarrow> session_store \<Rightarrow> bool" where
  "issued_inv I st \<longleftrightarrow> (\<forall>k. lookup_session st k \<noteq> None \<longrightarrow> k \<in> I)"

definition store_inv :: "session_store \<Rightarrow> bool" where
  "store_inv st \<longleftrightarrow> keys_distinct (ss_sessions st) \<and>
     (\<forall>k s. lookup_session st k = Some s \<longrightarrow> session_ok k s)"

section \<open>The invariant and the active count\<close>

lemma count_active_active_n: "count_active_for_agent a st = of_nat (active_n a st)"
  by (simp add: count_active_for_agent_def active_n_def)

lemma active_n_put_new:
  "lookup_session st sid = None \<Longrightarrow>
   active_n a (put_session sid s st) =
     active_n a st + of_bool (active_for a s)"
  unfolding active_n_def put_session_def
  by (subst hm.count_put_new [symmetric, where v = s]) simp_all

lemma active_n_put_old:
  assumes "store_inv st" and "lookup_session st sid = Some s" and "entry_step s s'"
  shows "active_n a (put_session sid s' st) \<le> active_n a st"
proof -
  have "active_n a (put_session sid s' st) + of_bool (active_for a s) =
      active_n a st + of_bool (active_for a s')"
    using assms(1,2) hm.count_put_old [of "ss_sessions st" sid s "active_for a" s']
    by (simp only: active_n_def ss_sessions_put store_inv_def simp_thms)
  moreover have "of_bool (active_for a s') \<le>
      (of_bool (active_for a s) :: nat)"
    using entry_step_frame(2) [OF assms(3)] entry_step_active [OF assms(3)]
    by (auto simp: active_for_def)
  ultimately show ?thesis by linarith
qed

lemma session_ok_entry: "entry_step s s' \<Longrightarrow> session_ok k s \<Longrightarrow> session_ok k s'"
  using entry_step_frame(1) entry_step_budget by (auto simp: session_ok_def)

lemma store_inv_put:
  "store_inv st \<Longrightarrow> session_ok sid s \<Longrightarrow> store_inv (put_session sid s st)"
  by (auto simp: store_inv_def hm.ok_put put_session_def)

lemma store_inv_entry:
  "store_inv st \<Longrightarrow> lookup_session st sid = Some s \<Longrightarrow> entry_step s s' \<Longrightarrow>
   store_inv (put_session sid s' st)"
  by (rule store_inv_put) (auto simp: store_inv_def intro: session_ok_entry)

lemma fresh_session_ok: "session_ok sid (fresh_session sid now1 now2 lim req)"
  by (simp add: session_ok_def fresh_session_def)

lemma close_agent_lookup:
  "lookup_session (snd (close_sessions_for_agent a st)) k =
   map_option (\<lambda>s. if active_for a s then s\<lparr>ts_status := StClosed\<rparr> else s)
     (lookup_session st k)"
  by (simp add: close_sessions_for_agent_def)

lemma cleanup_lookup:
  assumes "keys_distinct (ss_sessions st)"
  shows "lookup_session (snd (cleanup_expired now st)) k =
    (case lookup_session st k of
       Some s \<Rightarrow> if \<not> is_expired (now k) s \<and> ts_status s \<noteq> StClosed then Some s else None
     | None \<Rightarrow> None)"
proof -
  have "keys_distinct m \<Longrightarrow> map_of (filter (\<lambda>(k, s). Q k s) m) k =
      (case map_of m k of Some s \<Rightarrow> if Q k s then Some s else None | None \<Rightarrow> None)"
    for m :: "(uuid \<times> task_session) list" and Q
    by (induction m) (auto split: option.splits dest: map_of_SomeD simp: image_iff)
  with assms show ?thesis by (simp add: cleanup_expired_def Let_def)
qed

lemma length_filter_map_filter_le:
  "length (filter A (map snd (filter P m))) \<le> length (filter A (map snd m))"
  by (induction m) auto

lemma length_filter_map_le:
  "(\<And>k s. A (g (k, s)) \<Longrightarrow> A s) \<Longrightarrow>
   length (filter A (map g m)) \<le> length (filter A (map snd m))"
  by (induction m) auto

lemma active_n_cleanup: "active_n a (snd (cleanup_expired now st)) \<le> active_n a st"
proof -
  obtain P where "ss_sessions (snd (cleanup_expired now st)) = filter P (ss_sessions st)"
    by (simp add: cleanup_expired_def Let_def)
  then show ?thesis by (simp only: active_n_def length_filter_map_filter_le)
qed

lemma active_for_closed [simp]:
  "active_for a (if active_for b s then s\<lparr>ts_status := StClosed\<rparr> else s) \<longleftrightarrow> a \<noteq> b \<and> active_for a s"
  by (auto simp: active_for_def)

lemma active_n_close_agent:
  "active_n a (snd (close_sessions_for_agent b st)) = (if a = b then 0 else active_n a st)"
  by (simp add: active_n_def close_sessions_for_agent_def case_prod_unfold filter_map comp_def)

lemma store_invI:
  "keys_distinct (ss_sessions st) \<Longrightarrow> (\<And>k s. lookup_session st k = Some s \<Longrightarrow> session_ok k s) \<Longrightarrow>
   store_inv st"
  by (simp add: store_inv_def)

lemma store_invD:
  assumes "store_inv st"
  shows "keys_distinct (ss_sessions st)" and "lookup_session st k = Some s \<Longrightarrow> session_ok k s"
  using assms by (auto simp only: store_inv_def)

lemma store_inv_create:
  "store_inv st \<Longrightarrow> store_inv (snd (create_if_under_cap us sid now1 now2 req m st))"
  "store_inv st \<Longrightarrow> store_inv (snd (create sid now1 now2 req st))"
  by (simp_all add: create_if_under_cap_def create_def Let_def store_inv_put fresh_session_ok)

lemma store_inv_close_agent: "store_inv st \<Longrightarrow> store_inv (snd (close_sessions_for_agent a st))"
proof (rule store_invI)
  assume inv: "store_inv st"
  from store_invD(1) [OF inv] show "keys_distinct (ss_sessions (snd (close_sessions_for_agent a st)))"
    by (simp add: close_sessions_for_agent_def case_prod_unfold comp_def)
  fix k s
  assume "lookup_session (snd (close_sessions_for_agent a st)) k = Some s"
  then obtain s0 where "lookup_session st k = Some s0"
    and "s = (if active_for a s0 then s0\<lparr>ts_status := StClosed\<rparr> else s0)"
    unfolding close_agent_lookup by blast
  with store_invD(2) [OF inv] show "session_ok k s" by (simp add: session_ok_def)
qed

lemma store_inv_cleanup: "store_inv st \<Longrightarrow> store_inv (snd (cleanup_expired now st))"
proof (rule store_invI)
  assume inv: "store_inv st"
  note dist = store_invD(1) [OF inv]
  then show "keys_distinct (ss_sessions (snd (cleanup_expired now st)))"
    by (simp add: cleanup_expired_def Let_def keys_distinct_filter)
  fix k s
  assume "lookup_session (snd (cleanup_expired now st)) k = Some s"
  then have "lookup_session st k = Some s"
    unfolding cleanup_lookup [OF dist] by (simp split: option.splits if_splits)
  with store_invD(2) [OF inv] show "session_ok k s" by blast
qed

lemma store_inv_step: "store_step cap I st I' st' \<Longrightarrow> store_inv st \<Longrightarrow> store_inv st'"
proof (induction rule: store_step.induct)
  case (step_use I st sid tool ra now1 now2)
  show ?case by (rule use_session_rule) (use step_use store_inv_entry in blast)+
next
  case (step_batch I st sid tools ra now1 now2 now3)
  show ?case by (rule use_session_batch_rule) (use step_batch store_inv_entry in blast)+
next
  case (step_close I st sid)
  show ?case by (rule close_rule) (use step_close store_inv_entry in blast)+
qed (simp_all only: store_inv_create store_inv_close_agent store_inv_cleanup)

text \<open>
  How a step relates the entries of one session: the entry moves along its life cycle or goes
  away, and once its UUID has been issued it does not come back.
\<close>

lemma put_session_lookup_rel:
  "lookup_session st sid = Some s \<Longrightarrow> entry_step s s' \<Longrightarrow>
   rel_option entry_step (lookup_session st k) (lookup_session (put_session sid s' st) k)"
  by (auto simp: option.rel_refl)

lemma store_step_entry:
  assumes "store_step cap I st I' st'" and "store_inv st" and "k \<in> I"
  shows "lookup_session st' k = None \<or>
    rel_option entry_step (lookup_session st k) (lookup_session st' k)"
  using assms
proof (induction rule: store_step.induct)
  case (step_create sid I m st us now1 now2 req)
  then show ?case by (auto simp: create_if_under_cap_def Let_def option.rel_refl)
next
  case (step_create_uncapped sid I st now1 now2 req)
  then show ?case by (auto simp: create_def Let_def option.rel_refl)
next
  case (step_use I st sid tool ra now1 now2)
  show ?case
    by (rule use_session_rule) (simp_all add: option.rel_refl put_session_lookup_rel del: lookup_put_session)
next
  case (step_batch I st sid tools ra now1 now2 now3)
  show ?case
    by (rule use_session_batch_rule)
      (simp_all add: option.rel_refl put_session_lookup_rel del: lookup_put_session)
next
  case (step_close I st sid)
  show ?case
    by (rule close_rule) (simp_all add: option.rel_refl put_session_lookup_rel del: lookup_put_session)
next
  case (step_close_agent I st a)
  have "entry_step s (if active_for a s then s\<lparr>ts_status := StClosed\<rparr> else s)" for s
    by (simp add: active_for_def entry_step.close_it)
  then show ?case
    by (cases "lookup_session st k") (auto simp: close_agent_lookup)
next
  case (step_cleanup I st now)
  then show ?case
    by (cases "lookup_session st k") (auto simp: cleanup_lookup store_inv_def)
qed

lemma store_step_issued: "store_step cap I st I' st' \<Longrightarrow> I \<subseteq> I'"
  by (induction rule: store_step.induct) auto

lemma issued_inv_step:
  assumes "store_step cap I st I' st'" and "store_inv st" and "issued_inv I st"
  shows "issued_inv I' st'"
  unfolding issued_inv_def
proof (intro allI impI)
  fix k
  assume k: "lookup_session st' k \<noteq> None"
  show "k \<in> I'"
  proof (rule ccontr)
    assume "k \<notin> I'"
    from assms(1) this k \<open>issued_inv I st\<close> assms(2) show False
    proof (induction rule: store_step.induct)
      case (step_create sid I m st us now1 now2 req)
      then show ?case
        by (auto simp: create_if_under_cap_def issued_inv_def Let_def split: if_splits)
    next
      case (step_create_uncapped sid I st now1 now2 req)
      then show ?case by (auto simp: create_def issued_inv_def Let_def)
    next
      case (step_use I st sid tool ra now1 now2)
      have "lookup_session (snd (use_session sid tool ra now1 now2 st)) k = None"
        by (rule use_session_rule) (use step_use in \<open>auto simp: issued_inv_def\<close>)
      with step_use show ?case by simp
    next
      case (step_batch I st sid tools ra now1 now2 now3)
      have "lookup_session (snd (use_session_batch sid tools ra now1 now2 now3 st)) k = None"
        by (rule use_session_batch_rule) (use step_batch in \<open>auto simp: issued_inv_def\<close>)
      with step_batch show ?case by simp
    next
      case (step_close I st sid)
      have "lookup_session (snd (close sid st)) k = None"
        by (rule close_rule) (use step_close in \<open>auto simp: issued_inv_def\<close>)
      with step_close show ?case by simp
    next
      case (step_close_agent I st a)
      then show ?case by (auto simp: issued_inv_def close_agent_lookup)
    next
      case (step_cleanup I st now)
      then have "lookup_session st k \<noteq> None"
        using cleanup_lookup [OF store_invD(1) [OF step_cleanup.prems(4)], of now k]
        by (auto split: option.splits)
      with step_cleanup show ?case by (simp add: issued_inv_def)
    qed
  qed
qed

lemma store_new_inv: "store_inv store_new" "issued_inv {} store_new" "active_n a store_new = 0"
  by (simp_all add: store_new_def store_inv_def issued_inv_def active_n_def)

lemma store_run_inv:
  "store_run cap I st I' st' \<Longrightarrow> store_inv st \<Longrightarrow> issued_inv I st \<Longrightarrow>
   store_inv st' \<and> issued_inv I' st' \<and> I \<subseteq> I'"
proof (induction rule: store_run.induct)
  case (run_step I st I' st' I'' st'')
  then show ?case
    using store_inv_step issued_inv_step store_step_issued by (meson subset_trans)
qed simp

lemma active_n_create:
  assumes "active_n a st \<le> unat cap" and "lookup_session st sid = None"
  shows "active_n a (snd (create_if_under_cap us sid now1 now2 req cap st)) \<le> unat cap"
proof (cases "count_active_for_agent (csr_agent_id req) st \<ge> cap")
  case True
  with assms show ?thesis by (simp add: create_if_under_cap_def)
next
  case False
  let ?n = "active_n a st"
  have "active_n a (snd (create_if_under_cap us sid now1 now2 req cap st)) =
      ?n + of_bool (csr_agent_id req = a)"
    using False assms(2)
    by (simp add: create_if_under_cap_def Let_def active_n_put_new)
      (simp add: active_for_def fresh_session_def)
  moreover have "?n < unat cap" if "csr_agent_id req = a"
  proof -
    have "?n < 2 ^ 64" using assms(1) unsigned_less [where 'a = nat, of cap] by simp
    then have "unat (of_nat ?n :: u64) = ?n" by (simp add: unat_of_nat)
    with False that show ?thesis by (simp add: count_active_active_n word_le_nat_alt)
  qed
  ultimately show ?thesis using assms(1) by (cases "csr_agent_id req = a") simp_all
qed

lemma active_n_step:
  "store_step c I st I' st' \<Longrightarrow> c = Some cap \<Longrightarrow> store_inv st \<Longrightarrow> issued_inv I st \<Longrightarrow>
   active_n a st \<le> unat cap \<Longrightarrow> active_n a st' \<le> unat cap"
proof (induction rule: store_step.induct)
  case (step_create sid I m st us now1 now2 req)
  then have "lookup_session st sid = None" "m = cap" by (auto simp: issued_inv_def)
  with step_create show ?case by (simp only: active_n_create)
next
  case (step_create_uncapped sid I st now1 now2 req)
  then show ?case by simp
next
  case (step_use I st sid tool ra now1 now2)
  show ?case by (rule use_session_rule) (use step_use active_n_put_old le_trans in blast)+
next
  case (step_batch I st sid tools ra now1 now2 now3)
  show ?case by (rule use_session_batch_rule) (use step_batch active_n_put_old le_trans in blast)+
next
  case (step_close I st sid)
  show ?case by (rule close_rule) (use step_close active_n_put_old le_trans in blast)+
next
  case (step_close_agent I st b)
  then show ?case by (simp add: active_n_close_agent)
next
  case (step_cleanup I st now)
  then show ?case using active_n_cleanup le_trans by blast
qed

lemma store_run_active_n:
  "store_run (Some cap) I st I' st' \<Longrightarrow> store_inv st \<Longrightarrow> issued_inv I st \<Longrightarrow> active_n a st \<le> unat cap \<Longrightarrow>
   active_n a st' \<le> unat cap"
proof (induction rule: store_run.induct)
  case (run_step I st I' st' I'' st'')
  then show ?case using store_run_inv active_n_step [OF _ refl] by blast
qed

text \<open>Along a run, a session that has left the active state never becomes active again.\<close>

lemma store_run_inactive:
  assumes "store_run cap I st I' st'" and "store_inv st" and "issued_inv I st" and "k \<in> I"
    and "\<forall>s. lookup_session st k = Some s \<longrightarrow> ts_status s \<noteq> StActive"
  shows "\<forall>s. lookup_session st' k = Some s \<longrightarrow> ts_status s \<noteq> StActive"
  using assms
proof (induction rule: store_run.induct)
  case (run_step I st I' st' I'' st'')
  have "store_inv st'" "k \<in> I'" using store_run_inv run_step by blast+
  from store_step_entry [OF run_step.hyps(2) this] run_step.IH run_step.prems
  show ?case using entry_step_active by (auto simp: option_rel_Some2)
qed simp

section \<open>Batches\<close>

lemma use_session_batch_cases:
  assumes "use_session_batch sid tools ra now1 now2 now3 st = (r, st')"
    and "lookup_session st sid = Some s"
  shows "(\<exists>s'. r = Ok s' \<and> st' = put_session sid s' st \<and> agent_mismatch ra s = None \<and>
            ts_status s = StActive \<and> \<not> is_expired now1 s \<and>
            (\<forall>t \<in> set tools. is_tool_authorized s t) \<and>
            ts_calls_made s + of_nat (length tools) \<le> ts_call_budget s \<and>
            same_but_window (s\<lparr>ts_calls_made := ts_calls_made s + of_nat (length tools)\<rparr>) s') \<or>
         (r = Err (SessExpired sid) \<and> is_expired now1 s \<and> ts_status s \<noteq> StClosed \<and>
            st' = put_session sid (s\<lparr>ts_status := StExpired\<rparr>) st) \<or>
         (\<not> is_ok r \<and> st' = st \<and> r \<noteq> Err (SessExpired sid))"
proof (cases "is_ok r")
  case False
  then show ?thesis using assms
    by (auto simp: use_session_batch_def Let_def split: option.splits if_splits)
next
  case True
  with assms obtain s' where am: "agent_mismatch ra s = None"
    and st: "ts_status s \<noteq> StClosed" "\<not> is_expired now1 s"
    and room: "ts_calls_made s + of_nat (length tools) \<le> ts_call_budget s"
    and tools: "find (\<lambda>t. \<not> is_tool_authorized s t) tools = None"
    and upd: "batch_rate_update now3 (of_nat (length tools)) s = Some s'"
    and r: "r = Ok (s'\<lparr>ts_calls_made := ts_calls_made s' + of_nat (length tools)\<rparr>)"
    and st': "st' = put_session sid (s'\<lparr>ts_calls_made := ts_calls_made s' + of_nat (length tools)\<rparr>) st"
    by (auto simp: use_session_batch_def Let_def not_less split: option.splits if_splits)
  have "same_but_window (s\<lparr>ts_calls_made := ts_calls_made s + of_nat (length tools)\<rparr>)
      (s'\<lparr>ts_calls_made := ts_calls_made s' + of_nat (length tools)\<rparr>)"
    using batch_rate_update_window [OF upd] by (cases s) (auto simp: same_but_window_def)
  with am st room tools r st' not_expired_active [OF st(2,1)] show ?thesis
    by (auto simp: find_None_iff)
qed

lemma mem_batch_ok:
  assumes u: "use_session_batch sid tools ra now1 now2 now3 st = (Ok s', st')"
  shows "\<exists>s. lookup_session st sid = Some s \<and> batch_granted s tools ra now1 s' \<and>
    lookup_session st' sid = Some s'"
proof (cases "lookup_session st sid")
  case None
  with u show ?thesis by (simp add: use_session_batch_def)
next
  case (Some s)
  from use_session_batch_cases [OF u Some] show ?thesis
    by (simp add: Some batch_granted_def agent_mismatch_None list_all_iff)
qed

lemma mem_batch_err:
  assumes "use_session_batch sid tools ra now1 now2 now3 st = (r, st')" "\<not> is_ok r"
    "lookup_session st sid = Some s"
  shows "\<exists>s'. lookup_session st' sid = Some s' \<and>
    (s' \<in> {s, s\<lparr>ts_status := StExpired\<rparr>} \<or> batch_granted s tools ra now1 s')"
  using use_session_batch_cases [OF assms(1,3)]
proof (elim disjE conjE exE)
  assume "st' = st"
  with assms(3) show ?thesis by blast
next
  assume "st' = put_session sid (s\<lparr>ts_status := StExpired\<rparr>) st"
  then have "lookup_session st' sid = Some (s\<lparr>ts_status := StExpired\<rparr>)"
    by (simp only: lookup_put_session simp_thms if_True)
  then show ?thesis by blast
next
  fix s'
  assume "r = Ok s'"
  with assms(2) show ?thesis by simp
qed

lemma mem_batch_other:
  assumes "use_session_batch sid tools ra now1 now2 now3 st = (r, st')" and "k \<noteq> sid"
  shows "lookup_session st' k = lookup_session st k"
  using use_session_batch_entry [OF assms(1)] assms(2) by (elim disjE exE conjE) simp_all

interpretation mem: session_backend lookup_session use_session_batch
  by unfold_locales (fact mem_batch_ok mem_batch_err mem_batch_other)+

end
