(* ===== verification/Session_Props.thy ===== *)
theory Session_Props
  imports Session_Run
begin

text \<open>
  The properties of the session store, each with a witness on a small concrete store.
\<close>

section \<open>A concrete store\<close>

definition demo_request :: create_session_request where
  "demo_request = \<lparr>csr_agent_id = 7, csr_delegation_chain_snapshot = [],
     csr_declared_intent = ''read files'', csr_authorized_tools = [''read_file''],
     csr_authorized_credentials = [], csr_time_limit = 3600000000000, csr_call_budget = 2,
     csr_rate_limit_per_minute = Some 2, csr_rate_limit_window_secs = 60,
     csr_data_sensitivity_ceiling = Internal\<rparr>"

definition demo_session :: task_session where
  "demo_session = fresh_session 1 0 0 3600000000000 demo_request"

definition demo_store :: session_store where
  "demo_store = \<lparr>ss_sessions = [(1, demo_session)]\<rparr>"

lemmas demo_defs = demo_store_def demo_session_def demo_request_def fresh_session_def

lemma demo_lookup: "lookup_session demo_store 1 = Some demo_session"
  by (simp add: demo_store_def)

lemma demo_create:
  "create_if_under_cap (\<lambda>_. ''agent'') 1 0 0 demo_request 1 store_new = (Ok demo_session, demo_store)"
  by (simp add: create_if_under_cap_def count_active_for_agent_def store_new_def put_session_def
      Let_def demo_defs)

lemma demo_run: "store_run (Some 1) {} store_new {1} demo_store"
  using run_step [OF run_refl step_create [of 1 "{}" "Some 1" 1 store_new "\<lambda>_. ''agent''" 0 0 demo_request]]
  by (simp add: demo_create)

lemma demo_inv: "store_inv demo_store" "issued_inv {1} demo_store"
  using store_run_inv [OF demo_run store_new_inv(1,2)] by simp_all

section \<open>Invariants of every run\<close>



text \<open>
  Every session of a reachable store is stored under its own identifier and has made at most
  as many calls as its budget allows.
\<close>

theorem session_store_invariant:
  assumes "store_reachable cap I st" and "lookup_session st sid = Some s"
  shows "ts_session_id s = sid \<and> ts_calls_made s \<le> ts_call_budget s"
  using store_run_inv [OF assms(1) [unfolded store_reachable_def] store_new_inv(1,2)] store_invD(2)
    assms(2) by (auto simp: session_ok_def)

theorem session_store_invariant_witness:
  "lookup_session demo_store 1 = Some demo_session \<and> ts_calls_made demo_session \<le> ts_call_budget demo_session"
proof -
  have "store_reachable (Some 1) {1} demo_store" by (simp add: store_reachable_def demo_run)
  from session_store_invariant [OF this demo_lookup] show ?thesis by (simp add: demo_lookup)
qed

text \<open>
  C29: once a session is closed or expired it stays unusable: after any further operations of the
  store, sessions being created with or without a cap, neither a single call nor a batch against it
  succeeds.
\<close>

theorem closed_session_stays_unusable:
  assumes "store_run cap I st I' st'" and "store_inv st" and "issued_inv I st"
    and "lookup_session st sid = Some s" and "ts_status s \<noteq> StActive"
  shows "\<not> is_ok (fst (use_session sid tool ra now1 now2 st')) \<and>
    \<not> is_ok (fst (use_session_batch sid tools ra now1 now2 now3 st'))"
proof (cases "lookup_session st' sid")
  case None
  then show ?thesis by (simp add: use_session_def use_session_batch_def)
next
  case (Some s')
  have "sid \<in> I" using assms(3,4) by (auto simp: issued_inv_def)
  then have "ts_status s' \<noteq> StActive"
    using store_run_inactive [OF assms(1-3)] assms(4,5) Some by (metis option.inject)
  then show ?thesis using inactive_not_ok [OF Some] by simp
qed

theorem closed_session_stays_unusable_witness:
  "\<not> is_ok (fst (use_session 1 ''read_file'' (Some 7) 5 5 (snd (close 1 demo_store))))"
proof -
  let ?st = "snd (close 1 demo_store)"
  have st: "?st = \<lparr>ss_sessions = [(1, demo_session\<lparr>ts_status := StClosed\<rparr>)]\<rparr>"
    by (simp add: close_def put_session_def Let_def demo_defs)
  have step: "store_step None {1} demo_store {1} ?st" by (rule step_close)
  show ?thesis
    using closed_session_stays_unusable [OF run_refl store_inv_step [OF step demo_inv(1)]
        issued_inv_step [OF step demo_inv], of 1 "demo_session\<lparr>ts_status := StClosed\<rparr>"]
    by (simp add: st)
qed

section \<open>Single calls and batches\<close>

text \<open>
  A tool call is recorded exactly when the session exists, belongs to the requesting agent (if
  one is given), is active, within its time limit and call budget, lists the tool (or lists none)
  and is not rate limited; the call then adds one to the counter.
\<close>

theorem use_session_ok_iff:
  "fst (use_session sid tool ra now1 now2 st) = Ok s'' \<longleftrightarrow>
   (\<exists>s s'. lookup_session st sid = Some s \<and> ra \<in> {None, Some (ts_agent_id s)} \<and>
      ts_status s = StActive \<and> now1 - ts_created_at s \<le> ts_time_limit s \<and>
      ts_calls_made s < ts_call_budget s \<and>
      (ts_authorized_tools s = [] \<or> tool \<in> set (ts_authorized_tools s)) \<and>
      check_rate_limit now2 s = Some (s', False) \<and>
      s'' = s'\<lparr>ts_calls_made := ts_calls_made s + 1\<rparr>)"
proof (cases "lookup_session st sid")
  case None
  then show ?thesis by (simp add: use_session_def)
next
  case (Some s)
  have ra: "agent_mismatch ra s = None \<longleftrightarrow> ra \<in> {None, Some (ts_agent_id s)}"
    by (rule agent_mismatch_None)
  have live: "ts_status s \<noteq> StClosed \<and> \<not> is_expired now1 s \<longleftrightarrow>
      ts_status s = StActive \<and> now1 - ts_created_at s \<le> ts_time_limit s"
    by (cases "ts_status s") (auto simp: is_expired_def)
  have calls: "check_rate_limit now2 s = Some (s', b) \<Longrightarrow> ts_calls_made s' = ts_calls_made s" for s' b
    by (simp add: check_rate_limit_window same_but_window_fields)
  then have incr: "(\<exists>s'. check_rate_limit now2 s = Some (s', False) \<and>
        s'' = s'\<lparr>ts_calls_made := ts_calls_made s' + 1\<rparr>) \<longleftrightarrow>
      (\<exists>s'. check_rate_limit now2 s = Some (s', False) \<and>
        s'' = s'\<lparr>ts_calls_made := ts_calls_made s + 1\<rparr>)"
    by metis
  have budget: "\<not> is_budget_exceeded s \<longleftrightarrow> ts_calls_made s < ts_call_budget s"
    by (simp add: is_budget_exceeded_def not_le)
  have tool: "is_tool_authorized s tool \<longleftrightarrow>
      ts_authorized_tools s = [] \<or> tool \<in> set (ts_authorized_tools s)"
    by (auto simp: is_tool_authorized_def list_ex_iff)
  have "fst (use_session sid tool ra now1 now2 st) = Ok s'' \<longleftrightarrow>
      agent_mismatch ra s = None \<and> (ts_status s \<noteq> StClosed \<and> \<not> is_expired now1 s) \<and>
      \<not> is_budget_exceeded s \<and> is_tool_authorized s tool \<and>
      (\<exists>s'. check_rate_limit now2 s = Some (s', False) \<and>
            s'' = s'\<lparr>ts_calls_made := ts_calls_made s' + 1\<rparr>)"
    using Some
    by (cases "agent_mismatch ra s"; cases "check_rate_limit now2 s")
      (auto simp: use_session_def Let_def split: bool.splits)
  also have "\<dots> \<longleftrightarrow> (\<exists>s'. ra \<in> {None, Some (ts_agent_id s)} \<and>
      ts_status s = StActive \<and> now1 - ts_created_at s \<le> ts_time_limit s \<and>
      ts_calls_made s < ts_call_budget s \<and>
      (ts_authorized_tools s = [] \<or> tool \<in> set (ts_authorized_tools s)) \<and>
      check_rate_limit now2 s = Some (s', False) \<and> s'' = s'\<lparr>ts_calls_made := ts_calls_made s + 1\<rparr>)"
    unfolding ra live tool budget incr by blast
  finally show ?thesis unfolding Some by blast
qed

text \<open>
  A batch is all or nothing. When it succeeds, every tool of it was authorized, the counter
  grew by the size of the batch and stays within the budget; when it fails the store is unchanged,
  except that a session found expired is marked so.
\<close>

theorem batch_all_or_nothing:
  assumes "use_session_batch sid tools ra now1 now2 now3 st = (r, st')"
  shows "case r of
      Ok s' \<Rightarrow> (\<exists>s. lookup_session st sid = Some s \<and> st' = put_session sid s' st \<and>
        ra \<in> {None, Some (ts_agent_id s)} \<and> ts_status s = StActive \<and> \<not> is_expired now1 s \<and>
        list_all (is_tool_authorized s) tools \<and>
        ts_calls_made s' = ts_calls_made s + of_nat (length tools) \<and>
        ts_calls_made s' \<le> ts_call_budget s)
    | Err e \<Rightarrow> st' = st \<and> e \<noteq> SessExpired sid \<or>
        (\<exists>s. e = SessExpired sid \<and> lookup_session st sid = Some s \<and>
             st' = put_session sid (s\<lparr>ts_status := StExpired\<rparr>) st)
    | Panic \<Rightarrow> st' = st"
proof (cases "lookup_session st sid")
  case None
  with assms show ?thesis by (auto simp: use_session_batch_def)
next
  case (Some s)
  from use_session_batch_cases [OF assms Some] show ?thesis
  proof (elim disjE exE conjE)
    fix s'
    assume ok: "r = Ok s'" "st' = put_session sid s' st" "agent_mismatch ra s = None"
      "ts_status s = StActive" "\<not> is_expired now1 s" "\<forall>t \<in> set tools. is_tool_authorized s t"
      "ts_calls_made s + of_nat (length tools) \<le> ts_call_budget s"
      "same_but_window (s\<lparr>ts_calls_made := ts_calls_made s + of_nat (length tools)\<rparr>) s'"
    then show ?thesis using Some
      by (auto simp: agent_mismatch_None list_all_iff same_but_window_fields)
  qed (use Some in \<open>auto split: result.splits\<close>)
qed

theorem batch_all_or_nothing_witness:
  "\<exists>s'. use_session_batch 1 [''read_file'', ''read_file''] (Some 7) 5 5 5 demo_store =
     (Ok s', put_session 1 s' demo_store) \<and> ts_calls_made s' \<le> 2"
proof -
  obtain r st' where u: "use_session_batch 1 [''read_file'', ''read_file''] (Some 7) 5 5 5 demo_store = (r, st')"
    by fastforce
  moreover from this have "is_ok r"
    by (auto simp: use_session_batch_def demo_defs agent_mismatch_def is_expired_def Let_def
        is_tool_authorized_def batch_rate_check_def batch_rate_update_def rate_window_span_def)
  ultimately show ?thesis
    using batch_all_or_nothing [OF u] by (auto simp: is_ok_iff demo_store_def demo_session_def
        fresh_session_def demo_request_def)
qed

text \<open>
  C4: whatever sequence of batches is sent against a session, the calls accepted in all never
  exceed its call budget (the budget being small enough that adding one more batch does not wrap
  around 64 bits).
\<close>

theorem budget_never_overrun:
  assumes "store_inv st" and "lookup_session st sid = Some s"
    and "\<forall>c \<in> set calls. unat (ts_call_budget s) + length (fst c) < 2 ^ 64"
  shows "unat (ts_calls_made s) + accepted_calls use_session_batch sid calls st \<le> unat (ts_call_budget s)"
  using mem.accepted_calls_bound [OF assms(2) _ refl assms(3)] store_invD(2) [OF assms(1,2)]
  by (simp add: session_ok_def)

theorem budget_never_overrun_witness:
  "accepted_calls use_session_batch 1 [([''read_file''], Some 7, 5, 5, 5), ([''read_file''], None, 6, 6, 6),
     ([''read_file''], None, 7, 7, 7)] demo_store \<le> 2"
  using budget_never_overrun [OF demo_inv(1) demo_lookup, of "[([''read_file''], Some 7, 5, 5, 5),
     ([''read_file''], None, 6, 6, 6), ([''read_file''], None, 7, 7, 7)]"]
  by (simp add: demo_defs)

text \<open>
  A batch of one call behaves exactly like a single call (same result, same store) as long as
  neither counter is at its 64 bit maximum and both read the clock alike.
\<close>

theorem singleton_batch_is_single_call:
  assumes "lookup_session st sid = Some s"
    and "ts_calls_made s \<noteq> - 1" and "ts_rate_window_calls s \<noteq> - 1"
  shows "use_session_batch sid [tool] ra now1 now2 now2 st = use_session sid tool ra now1 now2 st"
proof -
  have room: "b < c + 1 \<longleftrightarrow> b \<le> c" if "c \<noteq> - 1" for c b :: u64
    using that inc_less_eq_iff [of c b] by (auto simp: not_le)
  have put: "put_session sid s st = st"
    using assms(1) by (simp add: put_session_def update_triv)
  show ?thesis
    using assms put
    by (simp add: use_session_batch_def use_session_def room is_budget_exceeded_def Let_def
        batch_rate_check_def batch_rate_update_def check_rate_limit_def
        split: option.split)
qed

theorem singleton_batch_is_single_call_witness:
  "use_session_batch 1 [''read_file''] (Some 7) 5 6 6 demo_store =
   use_session 1 ''read_file'' (Some 7) 5 6 demo_store"
  by (rule singleton_batch_is_single_call [OF demo_lookup]) (simp_all add: demo_defs)

section \<open>Rate windows\<close>

text \<open>
  A single call that passes the rate check leaves at most the configured number of calls
  (or one, when the limit is zero) in the current window, without wrap-around.
\<close>

theorem rate_window_bounded:
  assumes "check_rate_limit now s = Some (s', False)" and "ts_rate_limit_per_minute s = Some limit"
  shows "ts_rate_window_calls s' \<le> max limit 1"
  using assms
  by (auto simp: check_rate_limit_def max_def not_le intro: word_less_imp_Suc_le
      split: option.splits if_splits)
    (meson inc_le less_imp_le order.strict_trans2)

theorem rate_window_bounded_witness:
  "check_rate_limit 5 demo_session = Some (demo_session\<lparr>ts_rate_window_calls := 1\<rparr>, False) \<and>
   ts_rate_window_calls (demo_session\<lparr>ts_rate_window_calls := 1\<rparr>) \<le> max 2 1"
proof -
  have "check_rate_limit 5 demo_session = Some (demo_session\<lparr>ts_rate_window_calls := 1\<rparr>, False)"
    by (simp add: check_rate_limit_def rate_window_span_def demo_defs)
  with rate_window_bounded [OF this, of 2] show ?thesis by (simp add: demo_defs)
qed

text \<open>
  When the rate window has elapsed, a batch is not compared with the rate limit at all: an
  otherwise admissible batch of any size is accepted and opens the new window with that many calls,
  also when it is larger than the limit.
\<close>

theorem batch_in_new_window_ignores_limit:
  assumes "lookup_session st sid = Some s" and "ra \<in> {None, Some (ts_agent_id s)}"
    and "ts_status s = StActive" and "\<not> is_expired now1 s"
    and "ts_calls_made s + of_nat (length tools) \<le> ts_call_budget s"
    and "list_all (is_tool_authorized s) tools"
    and "ts_rate_limit_per_minute s = Some limit" and "rate_window_span s = Some w"
    and "now2 - ts_rate_window_start s \<ge> w" and "now3 - ts_rate_window_start s \<ge> w"
  shows "\<exists>s'. fst (use_session_batch sid tools ra now1 now2 now3 st) = Ok s' \<and>
    ts_rate_window_calls s' = of_nat (length tools)"
proof -
  have "agent_mismatch ra s = None" using assms(2) by (simp only: agent_mismatch_None)
  moreover have "find (\<lambda>t. \<not> is_tool_authorized s t) tools = None"
    using assms(6) by (simp add: find_None_iff list_all_iff)
  moreover have "\<not> ts_call_budget s < ts_calls_made s + of_nat (length tools)"
    using assms(5) by (simp add: not_less)
  ultimately show ?thesis using assms
    by (simp add: use_session_batch_def Let_def batch_rate_check_def batch_rate_update_def)
qed

theorem batch_in_new_window_ignores_limit_witness:
  "\<exists>s'. fst (use_session_batch 1 [''read_file'', ''read_file''] None 60000000000 60000000000 60000000000
       (demo_store\<lparr>ss_sessions := [(1, demo_session\<lparr>ts_rate_limit_per_minute := Some 1\<rparr>)]\<rparr>)) = Ok s' \<and>
     ts_rate_window_calls s' = 2"
  using batch_in_new_window_ignores_limit [of
      "demo_store\<lparr>ss_sessions := [(1, demo_session\<lparr>ts_rate_limit_per_minute := Some 1\<rparr>)]\<rparr>" 1
      "demo_session\<lparr>ts_rate_limit_per_minute := Some 1\<rparr>" None 60000000000
      "[''read_file'', ''read_file'']" 1 60000000000 60000000000 60000000000]
  by (simp add: demo_defs is_expired_def is_tool_authorized_def rate_window_span_def)

section \<open>Administrative operations\<close>

text \<open>
  Closing the sessions of an agent closes exactly its active sessions: afterwards the agent has
  no active session, the returned number is how many there were, and the sessions of every other
  agent are untouched.
\<close>

theorem close_sessions_for_agent_correct:
  "active_n a (snd (close_sessions_for_agent a st)) = 0 \<and>
   fst (close_sessions_for_agent a st) = active_n a st \<and>
   list_for_agent b (snd (close_sessions_for_agent a st)) =
     map (\<lambda>s. if active_for a s then s\<lparr>ts_status := StClosed\<rparr> else s) (list_for_agent b st)"
proof -
  have "filter (\<lambda>s. ts_agent_id s = b) (map f xs) = map f (filter (\<lambda>s. ts_agent_id s = b) xs)"
    if "\<And>s. ts_agent_id (f s) = ts_agent_id s" for f xs
    using that by (induction xs) auto
  note filt = this [of "\<lambda>s. if active_for a s then s\<lparr>ts_status := StClosed\<rparr> else s"
      "map snd (ss_sessions st)"]
  have "map snd (ss_sessions (snd (close_sessions_for_agent a st))) =
      map (\<lambda>s. if active_for a s then s\<lparr>ts_status := StClosed\<rparr> else s) (map snd (ss_sessions st))"
    by (simp add: close_sessions_for_agent_def case_prod_unfold)
  with filt show ?thesis
    by (simp add: active_n_close_agent list_for_agent_def active_n_def close_sessions_for_agent_def
        del: map_map)
qed

end
