(* ===== verification/Identity.thy ===== *)
theory Identity
  imports Prelude
begin

text \<open>
  Agents and delegations of \<open>crates/arbiter-identity\<close>: the model (\<open>model.rs\<close>), the errors
  (\<open>error.rs\<close>) and the in-memory registry (\<open>registry.rs\<close>). The agents are a hash map, the
  delegation links a vector in creation order. The walks over the chain of delegations and the
  work list of the cascading deactivation are total functions with termination proofs.
\<close>

section \<open>Model\<close>

datatype trust_level = Untrusted | Basic | Verified | Trusted

record agent =
  ag_id :: uuid
  ag_owner :: string
  ag_model :: string
  ag_capabilities :: "string list"
  ag_trust_level :: trust_level
  ag_created_at :: instant
  ag_expires_at :: "instant option"
  ag_active :: bool

record delegation_link =
  dl_from :: uuid
  dl_to :: uuid
  dl_scope_narrowing :: "string list"
  dl_created_at :: instant
  dl_expires_at :: "instant option"

definition agent_is_expired :: "instant \<Rightarrow> agent \<Rightarrow> bool" where
  "agent_is_expired now a = (case ag_expires_at a of None \<Rightarrow> False | Some e \<Rightarrow> now > e)"

definition link_is_expired :: "instant \<Rightarrow> delegation_link \<Rightarrow> bool" where
  "link_is_expired now l = (case dl_expires_at l of None \<Rightarrow> False | Some e \<Rightarrow> now > e)"

datatype identity_error =
    AgentNotFound uuid
  | AgentDeactivated uuid
  | DelegationSourceNotFound uuid
  | DelegationTargetNotFound uuid
  | ScopeNarrowingViolation string
  | ChainExpired uuid uuid
  | ChainBroken uuid
  | AgentExpired uuid
  | DelegateFromDeactivated uuid
  | CircularDelegation uuid uuid
  | CrossOwnerDelegation uuid uuid string string
  | InternalError string

section \<open>The registry\<close>

record registry =
  rg_agents :: "(uuid \<times> agent) list"
  rg_delegations :: "delegation_link list"

definition registry_new :: registry where
  "registry_new = \<lparr>rg_agents = [], rg_delegations = []\<rparr>"

abbreviation lookup_agent :: "registry \<Rightarrow> uuid \<Rightarrow> agent option" where
  "lookup_agent rg k \<equiv> map_of (rg_agents rg) k"

definition list_delegations_from :: "uuid \<Rightarrow> registry \<Rightarrow> delegation_link list" where
  "list_delegations_from agent_id rg = filter (\<lambda>d. dl_from d = agent_id) (rg_delegations rg)"

definition list_delegations_to :: "uuid \<Rightarrow> registry \<Rightarrow> delegation_link list" where
  "list_delegations_to agent_id rg = filter (\<lambda>d. dl_to d = agent_id) (rg_delegations rg)"

definition register_agent ::
  "uuid \<Rightarrow> instant \<Rightarrow> string \<Rightarrow> string \<Rightarrow> string list \<Rightarrow> trust_level \<Rightarrow> instant option \<Rightarrow> registry \<Rightarrow>
   (agent, identity_error) result \<times> registry" where
  "register_agent new_id now owner model capabilities level expires_at rg =
     (let a = \<lparr>ag_id = new_id, ag_owner = owner, ag_model = model,
               ag_capabilities = capabilities, ag_trust_level = level, ag_created_at = now,
               ag_expires_at = expires_at, ag_active = True\<rparr>
      in (Ok a, rg\<lparr>rg_agents := AList.update new_id a (rg_agents rg)\<rparr>))"

definition get_agent :: "instant \<Rightarrow> uuid \<Rightarrow> registry \<Rightarrow> (agent, identity_error) result" where
  "get_agent now i rg =
     (case lookup_agent rg i of
        None \<Rightarrow> Err (AgentNotFound i)
      | Some a \<Rightarrow>
          (case ag_expires_at a of
             Some e \<Rightarrow> if now > e then Err (AgentDeactivated i) else Ok a
           | None \<Rightarrow> Ok a))"

definition update_trust_level ::
  "uuid \<Rightarrow> trust_level \<Rightarrow> registry \<Rightarrow> (agent, identity_error) result \<times> registry" where
  "update_trust_level i level rg =
     (case lookup_agent rg i of
        None \<Rightarrow> (Err (AgentNotFound i), rg)
      | Some a \<Rightarrow>
          if \<not> ag_active a then (Err (AgentDeactivated i), rg)
          else let a' = a\<lparr>ag_trust_level := level\<rparr>
               in (Ok a', rg\<lparr>rg_agents := AList.update i a' (rg_agents rg)\<rparr>))"

definition deactivate_agent :: "uuid \<Rightarrow> registry \<Rightarrow> (unit, identity_error) result \<times> registry" where
  "deactivate_agent i rg =
     (case lookup_agent rg i of
        None \<Rightarrow> (Err (AgentNotFound i), rg)
      | Some a \<Rightarrow>
          if \<not> ag_active a then (Err (AgentDeactivated i), rg)
          else (Ok (), rg\<lparr>rg_agents := AList.update i (a\<lparr>ag_active := False\<rparr>) (rg_agents rg)\<rparr>))"

definition list_agents :: "instant \<Rightarrow> registry \<Rightarrow> agent list" where
  "list_agents now rg =
     filter (\<lambda>a. ag_active a \<and> (case ag_expires_at a of None \<Rightarrow> True | Some e \<Rightarrow> now < e))
            (map snd (rg_agents rg))"

section \<open>Delegations\<close>

definition incoming :: "delegation_link list \<Rightarrow> uuid \<Rightarrow> delegation_link option" where
  "incoming ds current = find (\<lambda>d. dl_to d = current) ds"

lemma incoming_Some: "incoming ds c = Some l \<Longrightarrow> l \<in> set ds \<and> dl_to l = c"
  by (auto simp: incoming_def find_Some_iff)

lemma incoming_None: "incoming ds c = None \<longleftrightarrow> (\<forall>d \<in> set ds. dl_to d \<noteq> c)"
  by (auto simp: incoming_def find_None_iff)

definition MAX_CHAIN_DEPTH :: nat where
  "MAX_CHAIN_DEPTH = 10"

text \<open>The depth loop: true when the chain above \<open>current\<close> reaches the maximum.\<close>

function depth_exceeded :: "delegation_link list \<Rightarrow> nat \<Rightarrow> uuid \<Rightarrow> bool" where
  "depth_exceeded ds depth current =
     (case incoming ds current of
        None \<Rightarrow> False
      | Some l \<Rightarrow>
          if depth + 1 \<ge> MAX_CHAIN_DEPTH then True
          else depth_exceeded ds (depth + 1) (dl_from l))"
  by pat_completeness auto
termination
  by (relation "measure (\<lambda>(ds, depth, current). MAX_CHAIN_DEPTH - depth)") auto

declare depth_exceeded.simps [simp del]

text \<open>
  The two walks towards the root stop when they see an agent again: the agents not yet visited
  among the sources of the links get fewer with every round.
\<close>

lemma visited_decreases:
  assumes "incoming ds c = Some l" and "dl_from l \<notin> V"
  shows "card (dl_from ` set ds - insert (dl_from l) V) < card (dl_from ` set ds - V)"
proof (rule psubset_card_mono)
  have "dl_from l \<in> dl_from ` set ds - V" using incoming_Some [OF assms(1)] assms(2) by simp
  then show "dl_from ` set ds - insert (dl_from l) V \<subset> dl_from ` set ds - V" by blast
qed simp

function would_close_cycle :: "delegation_link list \<Rightarrow> uuid \<Rightarrow> uuid set \<Rightarrow> uuid \<Rightarrow> bool" where
  "would_close_cycle ds to_agent visited current =
     (case incoming ds current of
        None \<Rightarrow> False
      | Some l \<Rightarrow>
          if dl_from l = to_agent then True
          else if dl_from l \<in> visited then False
          else would_close_cycle ds to_agent (insert (dl_from l) visited) (dl_from l))"
  by pat_completeness auto
termination
  by (relation "measure (\<lambda>(ds, to_agent, visited, current). card (dl_from ` set ds - visited))")
    (auto intro: visited_decreases)

declare would_close_cycle.simps [simp del]

function chain_walk :: "delegation_link list \<Rightarrow> uuid set \<Rightarrow> uuid \<Rightarrow> delegation_link list" where
  "chain_walk ds visited current =
     (case incoming ds current of
        None \<Rightarrow> []
      | Some l \<Rightarrow>
          if dl_from l \<in> visited then [l]
          else l # chain_walk ds (insert (dl_from l) visited) (dl_from l))"
  by pat_completeness auto
termination
  by (relation "measure (\<lambda>(ds, visited, current). card (dl_from ` set ds - visited))")
    (auto intro: visited_decreases)

declare chain_walk.simps [simp del]

definition get_chain_for_agent ::
  "uuid \<Rightarrow> registry \<Rightarrow> (delegation_link list, identity_error) result" where
  "get_chain_for_agent agent_id rg =
     Ok (rev (chain_walk (rg_delegations rg) {agent_id} agent_id))"

definition create_delegation ::
  "instant \<Rightarrow> uuid \<Rightarrow> uuid \<Rightarrow> string list \<Rightarrow> instant option \<Rightarrow> registry \<Rightarrow>
   (delegation_link, identity_error) result \<times> registry" where
  "create_delegation now from_agent to_agent scope_narrowing expires_at rg =
     (if from_agent = to_agent then (Err (CircularDelegation from_agent to_agent), rg)
      else case lookup_agent rg from_agent of
        None \<Rightarrow> (Err (DelegationSourceNotFound from_agent), rg)
      | Some parent \<Rightarrow>
          if \<not> ag_active parent then (Err (DelegateFromDeactivated from_agent), rg)
          else (case lookup_agent rg to_agent of
            None \<Rightarrow> (Err (DelegationTargetNotFound to_agent), rg)
          | Some target \<Rightarrow>
              if ag_owner parent \<noteq> ag_owner target
              then (Err (CrossOwnerDelegation from_agent to_agent (ag_owner parent) (ag_owner target)), rg)
              else if depth_exceeded (rg_delegations rg) 0 from_agent
              then (Err (InternalError ''delegation chain depth would exceed maximum of 10''), rg)
              else if scope_narrowing = []
              then (Err (InternalError ''scope_narrowing must not be empty; specify at least one scope''), rg)
              else (case find (\<lambda>s. s \<notin> set (ag_capabilities parent)) scope_narrowing of
                Some s \<Rightarrow> (Err (ScopeNarrowingViolation s), rg)
              | None \<Rightarrow>
                  if would_close_cycle (rg_delegations rg) to_agent {from_agent} from_agent
                  then (Err (CircularDelegation from_agent to_agent), rg)
                  else let link = \<lparr>dl_from = from_agent, dl_to = to_agent,
                                   dl_scope_narrowing = scope_narrowing, dl_created_at = now,
                                   dl_expires_at = expires_at\<rparr>
                       in (Ok link, rg\<lparr>rg_delegations := rg_delegations rg @ [link]\<rparr>))))"

text \<open>\<open>verify_chain\<close> asks the clock anew for every link; \<open>now i\<close> is its i-th reading.\<close>

fun first_expired :: "(nat \<Rightarrow> instant) \<Rightarrow> nat \<Rightarrow> delegation_link list \<Rightarrow> delegation_link option" where
  "first_expired now i [] = None"
| "first_expired now i (l # ls) =
     (if link_is_expired (now i) l then Some l else first_expired now (Suc i) ls)"

definition verify_chain ::
  "(nat \<Rightarrow> instant) \<Rightarrow> uuid \<Rightarrow> registry \<Rightarrow> (delegation_link list, identity_error) result" where
  "verify_chain now agent_id rg =
     (case get_chain_for_agent agent_id rg of
        Err e \<Rightarrow> Err e
      | Panic \<Rightarrow> Panic
      | Ok chain \<Rightarrow>
          (case first_expired now 0 chain of
             Some l \<Rightarrow> Err (ChainExpired (dl_from l) (dl_to l))
           | None \<Rightarrow>
               (case find (\<lambda>l. case lookup_agent rg (dl_from l) of
                                 Some a \<Rightarrow> \<not> ag_active a | None \<Rightarrow> False) chain of
                  Some l \<Rightarrow> Err (AgentDeactivated (dl_from l))
                | None \<Rightarrow> Ok chain)))"

section \<open>Cascading deactivation\<close>

text \<open>One pass over the children of an agent: the new agents and the children deactivated by it.\<close>

fun deactivate_children ::
  "uuid list \<Rightarrow> (uuid \<times> agent) list \<Rightarrow> (uuid \<times> agent) list \<times> uuid list" where
  "deactivate_children [] ags = (ags, [])"
| "deactivate_children (c # cs) ags =
     (case map_of ags c of
        Some a \<Rightarrow>
          if ag_active a
          then let (ags', done) =
                 deactivate_children cs (AList.update c (a\<lparr>ag_active := False\<rparr>) ags)
               in (ags', c # done)
          else deactivate_children cs ags
      | None \<Rightarrow> deactivate_children cs ags)"

definition active_agents :: "(uuid \<times> agent) list \<Rightarrow> nat" where
  "active_agents ags = length (filter (\<lambda>p. ag_active (snd p)) ags)"

lemma active_agents_update:
  "map_of ags c = Some a \<Longrightarrow> ag_active a \<Longrightarrow>
   Suc (active_agents (AList.update c (a\<lparr>ag_active := False\<rparr>) ags)) = active_agents ags"
  by (induction ags) (auto simp: active_agents_def)

lemma deactivate_children_active:
  "deactivate_children cs ags = (ags', ds) \<Longrightarrow> active_agents ags' + length ds = active_agents ags"
  by (induction cs ags arbitrary: ags' ds rule: deactivate_children.induct)
    (auto split: option.splits if_splits prod.splits dest: active_agents_update)

text \<open>
  The work list: \<open>pop\<close> takes the last entry. The list of children comes from the delegations,
  which the cascade does not change.
\<close>

function cascade_loop ::
  "delegation_link list \<Rightarrow> (uuid \<times> agent) list \<Rightarrow> uuid list \<Rightarrow> uuid list \<Rightarrow>
   (uuid \<times> agent) list \<times> uuid list" where
  "cascade_loop ds ags deactivated to_process =
     (if to_process = [] then (ags, deactivated)
      else let current = last to_process;
               children = map dl_to (filter (\<lambda>d. dl_from d = current) ds);
               step = deactivate_children children ags
           in cascade_loop ds (fst step) (deactivated @ snd step) (butlast to_process @ snd step))"
  by pat_completeness auto
termination
proof (relation "measure (\<lambda>(ds, ags, deactivated, to_process). 2 * active_agents ags + length to_process)")
  fix ds ags deactivated and to_process :: "uuid list" and current children step
  assume ne: "to_process \<noteq> []" and step: "step = deactivate_children children ags"
  have "active_agents (fst step) + length (snd step) = active_agents ags"
    using deactivate_children_active [of children ags] step by simp
  moreover obtain n where "length to_process = Suc n" using ne by (cases to_process) auto
  ultimately show "((ds, fst step, deactivated @ snd step, butlast to_process @ snd step),
      ds, ags, deactivated, to_process)
    \<in> measure (\<lambda>(ds, ags, deactivated, to_process). 2 * active_agents ags + length to_process)"
    by simp
qed simp

declare cascade_loop.simps [simp del]

definition cascade_deactivate ::
  "uuid \<Rightarrow> registry \<Rightarrow> (uuid list, identity_error) result \<times> registry" where
  "cascade_deactivate i rg =
     (case deactivate_agent i rg of
        (Err e, rg') \<Rightarrow> (Err e, rg')
      | (Panic, rg') \<Rightarrow> (Panic, rg')
      | (Ok _, rg') \<Rightarrow>
          let (ags, deactivated) = cascade_loop (rg_delegations rg') (rg_agents rg') [i] [i]
          in (Ok deactivated, rg'\<lparr>rg_agents := ags\<rparr>))"

end
