(* ===== verification/Registry_Storage.thy ===== *)
theory Registry_Storage
  imports Identity
begin

text \<open>
  The storage-backed registry (\<open>crates/arbiter-identity/src/storage_registry.rs\<close>) over the
  storage traits \<open>AgentStore\<close> and \<open>DelegationStore\<close> (\<open>crates/arbiter-storage/src/traits.rs\<close>).
  The backend is an arbitrary record of operations on a state; every call may fail. The loops over
  delegations end only when the backend answers finitely often with new agents, so they are partial
  functions whose value \<open>None\<close> means that the call does not return. The contract of a backend is the
  locale \<open>agent_tables\<close>; under it the registry behaves like the one in memory.
\<close>

section \<open>Stored records\<close>

datatype stored_trust_level = StoredUntrusted | StoredBasic | StoredVerified | StoredTrusted

record stored_agent =
  sa_id :: uuid
  sa_owner :: string
  sa_model :: string
  sa_capabilities :: "string list"
  sa_trust_level :: stored_trust_level
  sa_created_at :: instant
  sa_expires_at :: "instant option"
  sa_active :: bool

record stored_delegation_link =
  sl_id :: int
  sl_from_agent :: uuid
  sl_to_agent :: uuid
  sl_scope_narrowing :: "string list"
  sl_created_at :: instant
  sl_expires_at :: "instant option"

datatype storage_error =
    StAgentNotFound uuid
  | StSessionNotFound uuid
  | StDelegationNotFound uuid uuid
  | StBackend string
  | StSerialization string
  | StMigration string
  | StConnection string
  | StEncryption string

fun storage_error_display :: "(uuid \<Rightarrow> string) \<Rightarrow> storage_error \<Rightarrow> string" where
  "storage_error_display us (StAgentNotFound i) = ''agent not found: '' @ us i"
| "storage_error_display us (StSessionNotFound i) = ''session not found: '' @ us i"
| "storage_error_display us (StDelegationNotFound f t) =
     ''delegation link not found: from='' @ us f @ '', to='' @ us t"
| "storage_error_display us (StBackend e) = ''backend error: '' @ e"
| "storage_error_display us (StSerialization e) = ''serialization error: '' @ e"
| "storage_error_display us (StMigration e) = ''migration error: '' @ e"
| "storage_error_display us (StConnection e) = ''connection error: '' @ e"
| "storage_error_display us (StEncryption e) = ''encryption error: '' @ e"

fun trust_level_to_stored :: "trust_level \<Rightarrow> stored_trust_level" where
  "trust_level_to_stored Untrusted = StoredUntrusted"
| "trust_level_to_stored Basic = StoredBasic"
| "trust_level_to_stored Verified = StoredVerified"
| "trust_level_to_stored Trusted = StoredTrusted"

fun stored_to_trust_level :: "stored_trust_level \<Rightarrow> trust_level" where
  "stored_to_trust_level StoredUntrusted = Untrusted"
| "stored_to_trust_level StoredBasic = Basic"
| "stored_to_trust_level StoredVerified = Verified"
| "stored_to_trust_level StoredTrusted = Trusted"

definition stored_agent_to_domain :: "stored_agent \<Rightarrow> agent" where
  "stored_agent_to_domain s =
     \<lparr>ag_id = sa_id s, ag_owner = sa_owner s, ag_model = sa_model s,
      ag_capabilities = sa_capabilities s, ag_trust_level = stored_to_trust_level (sa_trust_level s),
      ag_created_at = sa_created_at s, ag_expires_at = sa_expires_at s, ag_active = sa_active s\<rparr>"

definition domain_agent_to_stored :: "agent \<Rightarrow> stored_agent" where
  "domain_agent_to_stored a =
     \<lparr>sa_id = ag_id a, sa_owner = ag_owner a, sa_model = ag_model a,
      sa_capabilities = ag_capabilities a, sa_trust_level = trust_level_to_stored (ag_trust_level a),
      sa_created_at = ag_created_at a, sa_expires_at = ag_expires_at a, sa_active = ag_active a\<rparr>"

definition stored_delegation_to_domain :: "stored_delegation_link \<Rightarrow> delegation_link" where
  "stored_delegation_to_domain l =
     \<lparr>dl_from = sl_from_agent l, dl_to = sl_to_agent l, dl_scope_narrowing = sl_scope_narrowing l,
      dl_created_at = sl_created_at l, dl_expires_at = sl_expires_at l\<rparr>"

fun storage_err_to_identity :: "(uuid \<Rightarrow> string) \<Rightarrow> storage_error \<Rightarrow> identity_error" where
  "storage_err_to_identity us (StAgentNotFound i) = AgentNotFound i"
| "storage_err_to_identity us e = InternalError (storage_error_display us e)"

section \<open>The storage traits\<close>

record 'b agent_storage =
  ast_insert_agent :: "stored_agent \<Rightarrow> 'b \<Rightarrow> (unit, storage_error) result \<times> 'b"
  ast_get_agent :: "uuid \<Rightarrow> 'b \<Rightarrow> (stored_agent, storage_error) result \<times> 'b"
  ast_update_trust_level :: "uuid \<Rightarrow> stored_trust_level \<Rightarrow> 'b \<Rightarrow> (unit, storage_error) result \<times> 'b"
  ast_deactivate_agent :: "uuid \<Rightarrow> 'b \<Rightarrow> (unit, storage_error) result \<times> 'b"
  ast_list_agents :: "'b \<Rightarrow> (stored_agent list, storage_error) result \<times> 'b"
  ast_insert_delegation :: "stored_delegation_link \<Rightarrow> 'b \<Rightarrow> (int, storage_error) result \<times> 'b"
  ast_delegations_from :: "uuid \<Rightarrow> 'b \<Rightarrow> (stored_delegation_link list, storage_error) result \<times> 'b"
  ast_delegations_to :: "uuid \<Rightarrow> 'b \<Rightarrow> (stored_delegation_link list, storage_error) result \<times> 'b"

section \<open>The registry\<close>

text \<open>The listing operations swallow errors.\<close>

fun links_or_empty ::
  "(stored_delegation_link list, storage_error) result \<times> 'b \<Rightarrow> (delegation_link list, unit) result \<times> 'b" where
  "links_or_empty (Ok ls, b) = (Ok (map stored_delegation_to_domain ls), b)"
| "links_or_empty (Err e, b) = (Ok [], b)"
| "links_or_empty (Panic, b) = (Panic, b)"

definition sr_list_delegations_from ::
  "'b agent_storage \<Rightarrow> uuid \<Rightarrow> 'b \<Rightarrow> (delegation_link list, unit) result \<times> 'b" where
  "sr_list_delegations_from ops i b = links_or_empty (ast_delegations_from ops i b)"

definition sr_list_delegations_to ::
  "'b agent_storage \<Rightarrow> uuid \<Rightarrow> 'b \<Rightarrow> (delegation_link list, unit) result \<times> 'b" where
  "sr_list_delegations_to ops i b = links_or_empty (ast_delegations_to ops i b)"

definition sr_register_agent ::
  "'b agent_storage \<Rightarrow> (uuid \<Rightarrow> string) \<Rightarrow> uuid \<Rightarrow> instant \<Rightarrow> string \<Rightarrow> string \<Rightarrow> string list \<Rightarrow> trust_level \<Rightarrow>
   instant option \<Rightarrow> 'b \<Rightarrow> (agent, identity_error) result \<times> 'b" where
  "sr_register_agent ops us new_id now owner model capabilities level expires_at b =
     (let a = \<lparr>ag_id = new_id, ag_owner = owner, ag_model = model,
               ag_capabilities = capabilities, ag_trust_level = level, ag_created_at = now,
               ag_expires_at = expires_at, ag_active = True\<rparr>
      in and_then (map_err (storage_err_to_identity us) (ast_insert_agent ops (domain_agent_to_stored a) b))
           (\<lambda>_ b. (Ok a, b)))"

definition sr_get_agent ::
  "'b agent_storage \<Rightarrow> (uuid \<Rightarrow> string) \<Rightarrow> instant \<Rightarrow> uuid \<Rightarrow> 'b \<Rightarrow> (agent, identity_error) result \<times> 'b" where
  "sr_get_agent ops us now i b =
     and_then (map_err (storage_err_to_identity us) (ast_get_agent ops i b)) (\<lambda>stored b.
       let a = stored_agent_to_domain stored
       in if \<not> ag_active a then (Err (AgentDeactivated i), b)
          else case ag_expires_at a of
            Some e \<Rightarrow> if now > e then (Err (AgentDeactivated i), b) else (Ok a, b)
          | None \<Rightarrow> (Ok a, b))"

definition sr_update_trust_level ::
  "'b agent_storage \<Rightarrow> (uuid \<Rightarrow> string) \<Rightarrow> uuid \<Rightarrow> trust_level \<Rightarrow> 'b \<Rightarrow>
   (agent, identity_error) result \<times> 'b" where
  "sr_update_trust_level ops us i level b =
     and_then (map_err (storage_err_to_identity us) (ast_get_agent ops i b)) (\<lambda>stored b.
       if \<not> sa_active stored then (Err (AgentDeactivated i), b)
       else and_then (map_err (storage_err_to_identity us)
              (ast_update_trust_level ops i (trust_level_to_stored level) b)) (\<lambda>_ b.
         and_then (map_err (storage_err_to_identity us) (ast_get_agent ops i b)) (\<lambda>updated b.
           (Ok (stored_agent_to_domain updated), b))))"

definition sr_deactivate_agent ::
  "'b agent_storage \<Rightarrow> (uuid \<Rightarrow> string) \<Rightarrow> uuid \<Rightarrow> 'b \<Rightarrow> (unit, identity_error) result \<times> 'b" where
  "sr_deactivate_agent ops us i b =
     and_then (map_err (storage_err_to_identity us) (ast_get_agent ops i b)) (\<lambda>stored b.
       if \<not> sa_active stored then (Err (AgentDeactivated i), b)
       else map_err (storage_err_to_identity us) (ast_deactivate_agent ops i b))"

fun agents_or_empty ::
  "(stored_agent list, storage_error) result \<times> 'b \<Rightarrow> (agent list, unit) result \<times> 'b" where
  "agents_or_empty (Ok as, b) = (Ok (map stored_agent_to_domain as), b)"
| "agents_or_empty (Err e, b) = (Ok [], b)"
| "agents_or_empty (Panic, b) = (Panic, b)"

definition sr_list_agents :: "'b agent_storage \<Rightarrow> 'b \<Rightarrow> (agent list, unit) result \<times> 'b" where
  "sr_list_agents ops b = agents_or_empty (ast_list_agents ops b)"

section \<open>Delegations\<close>

partial_function (option) sr_would_close_cycle ::
  "'b agent_storage \<Rightarrow> (uuid \<Rightarrow> string) \<Rightarrow> uuid \<Rightarrow> uuid set \<Rightarrow> uuid \<Rightarrow> 'b \<Rightarrow>
   ((bool, identity_error) result \<times> 'b) option" where
  "sr_would_close_cycle ops us to_agent visited current b =
     (case ast_delegations_to ops current b of
        (Err e, b') \<Rightarrow> Some (Err (storage_err_to_identity us e), b')
      | (Panic, b') \<Rightarrow> Some (Panic, b')
      | (Ok [], b') \<Rightarrow> Some (Ok False, b')
      | (Ok (l # _), b') \<Rightarrow>
          if sl_from_agent l = to_agent then Some (Ok True, b')
          else if sl_from_agent l \<in> visited then Some (Ok False, b')
          else sr_would_close_cycle ops us to_agent (insert (sl_from_agent l) visited) (sl_from_agent l) b')"

declare sr_would_close_cycle.simps [code]

definition sr_insert_link ::
  "'b agent_storage \<Rightarrow> (uuid \<Rightarrow> string) \<Rightarrow> instant \<Rightarrow> uuid \<Rightarrow> uuid \<Rightarrow> string list \<Rightarrow> instant option \<Rightarrow> 'b \<Rightarrow>
   (delegation_link, identity_error) result \<times> 'b" where
  "sr_insert_link ops us now from_agent to_agent scope_narrowing expires_at b =
     (let link = \<lparr>dl_from = from_agent, dl_to = to_agent, dl_scope_narrowing = scope_narrowing,
                  dl_created_at = now, dl_expires_at = expires_at\<rparr>;
          stored = \<lparr>sl_id = 0, sl_from_agent = from_agent, sl_to_agent = to_agent,
                    sl_scope_narrowing = scope_narrowing, sl_created_at = now, sl_expires_at = expires_at\<rparr>
      in and_then (map_err (storage_err_to_identity us) (ast_insert_delegation ops stored b))
           (\<lambda>_ b. (Ok link, b)))"

definition sr_create_delegation ::
  "'b agent_storage \<Rightarrow> (uuid \<Rightarrow> string) \<Rightarrow> instant \<Rightarrow> uuid \<Rightarrow> uuid \<Rightarrow> string list \<Rightarrow> instant option \<Rightarrow> 'b \<Rightarrow>
   ((delegation_link, identity_error) result \<times> 'b) option" where
  "sr_create_delegation ops us now from_agent to_agent scope_narrowing expires_at b =
     (if from_agent = to_agent then Some (Err (CircularDelegation from_agent to_agent), b)
      else case map_err (\<lambda>_. DelegationSourceNotFound from_agent) (ast_get_agent ops from_agent b) of
        (Err e, b1) \<Rightarrow> Some (Err e, b1)
      | (Panic, b1) \<Rightarrow> Some (Panic, b1)
      | (Ok parent, b1) \<Rightarrow>
          if \<not> sa_active parent then Some (Err (DelegateFromDeactivated from_agent), b1)
          else (case map_err (\<lambda>_. DelegationTargetNotFound to_agent) (ast_get_agent ops to_agent b1) of
            (Err e, b2) \<Rightarrow> Some (Err e, b2)
          | (Panic, b2) \<Rightarrow> Some (Panic, b2)
          | (Ok target, b2) \<Rightarrow>
              if sa_owner parent \<noteq> sa_owner target
              then Some (Err (CrossOwnerDelegation from_agent to_agent (sa_owner parent) (sa_owner target)), b2)
              else (case find (\<lambda>s. s \<notin> set (sa_capabilities parent)) scope_narrowing of
                Some s \<Rightarrow> Some (Err (ScopeNarrowingViolation s), b2)
              | None \<Rightarrow>
                  (case sr_would_close_cycle ops us to_agent {from_agent} from_agent b2 of
                     None \<Rightarrow> None
                   | Some (Err e, b3) \<Rightarrow> Some (Err e, b3)
                   | Some (Panic, b3) \<Rightarrow> Some (Panic, b3)
                   | Some (Ok True, b3) \<Rightarrow> Some (Err (CircularDelegation from_agent to_agent), b3)
                   | Some (Ok False, b3) \<Rightarrow>
                       Some (sr_insert_link ops us now from_agent to_agent scope_narrowing expires_at b3)))))"

partial_function (option) sr_chain_walk ::
  "'b agent_storage \<Rightarrow> (uuid \<Rightarrow> string) \<Rightarrow> uuid set \<Rightarrow> uuid \<Rightarrow> delegation_link list \<Rightarrow> 'b \<Rightarrow>
   ((delegation_link list, identity_error) result \<times> 'b) option" where
  "sr_chain_walk ops us visited current chain b =
     (case ast_delegations_to ops current b of
        (Err e, b') \<Rightarrow> Some (Err (storage_err_to_identity us e), b')
      | (Panic, b') \<Rightarrow> Some (Panic, b')
      | (Ok [], b') \<Rightarrow> Some (Ok chain, b')
      | (Ok (l # _), b') \<Rightarrow>
          (let link = stored_delegation_to_domain l; chain = chain @ [link]
           in if dl_from link \<in> visited then Some (Ok chain, b')
              else sr_chain_walk ops us (insert (dl_from link) visited) (dl_from link) chain b'))"

declare sr_chain_walk.simps [code]

definition sr_get_chain_for_agent ::
  "'b agent_storage \<Rightarrow> (uuid \<Rightarrow> string) \<Rightarrow> uuid \<Rightarrow> 'b \<Rightarrow>
   ((delegation_link list, identity_error) result \<times> 'b) option" where
  "sr_get_chain_for_agent ops us i b =
     map_option (\<lambda>r. and_then r (\<lambda>chain b. (Ok (rev chain), b))) (sr_chain_walk ops us {i} i [] b)"

fun sr_all_active ::
  "'b agent_storage \<Rightarrow> (uuid \<Rightarrow> string) \<Rightarrow> delegation_link list \<Rightarrow> 'b \<Rightarrow> (unit, identity_error) result \<times> 'b" where
  "sr_all_active ops us [] b = (Ok (), b)"
| "sr_all_active ops us (l # ls) b =
     and_then (map_err (storage_err_to_identity us) (ast_get_agent ops (dl_from l) b)) (\<lambda>a b.
       if \<not> sa_active a then (Err (AgentDeactivated (dl_from l)), b) else sr_all_active ops us ls b)"

definition sr_verify_chain ::
  "'b agent_storage \<Rightarrow> (uuid \<Rightarrow> string) \<Rightarrow> (nat \<Rightarrow> instant) \<Rightarrow> uuid \<Rightarrow> 'b \<Rightarrow>
   ((delegation_link list, identity_error) result \<times> 'b) option" where
  "sr_verify_chain ops us now i b =
     map_option (\<lambda>r. and_then r (\<lambda>chain b.
       case first_expired now 0 chain of
         Some l \<Rightarrow> (Err (ChainExpired (dl_from l) (dl_to l)), b)
       | None \<Rightarrow> and_then (sr_all_active ops us chain b) (\<lambda>_ b. (Ok chain, b))))
     (sr_get_chain_for_agent ops us i b)"

section \<open>Cascading deactivation\<close>

text \<open>The children of one agent: failures to read or write one are passed over.\<close>

fun sr_deactivate_children ::
  "'b agent_storage \<Rightarrow> uuid list \<Rightarrow> 'b \<Rightarrow> (uuid list, identity_error) result \<times> 'b" where
  "sr_deactivate_children ops [] b = (Ok [], b)"
| "sr_deactivate_children ops (c # cs) b =
     (case ast_get_agent ops c b of
        (Panic, b1) \<Rightarrow> (Panic, b1)
      | (Err _, b1) \<Rightarrow> sr_deactivate_children ops cs b1
      | (Ok a, b1) \<Rightarrow>
          if \<not> sa_active a then sr_deactivate_children ops cs b1
          else (case ast_deactivate_agent ops c b1 of
            (Panic, b2) \<Rightarrow> (Panic, b2)
          | (Err _, b2) \<Rightarrow> sr_deactivate_children ops cs b2
          | (Ok _, b2) \<Rightarrow>
              and_then (sr_deactivate_children ops cs b2) (\<lambda>ds b. (Ok (c # ds), b))))"

partial_function (option) sr_cascade_loop ::
  "'b agent_storage \<Rightarrow> (uuid \<Rightarrow> string) \<Rightarrow> uuid list \<Rightarrow> uuid list \<Rightarrow> 'b \<Rightarrow>
   ((uuid list, identity_error) result \<times> 'b) option" where
  "sr_cascade_loop ops us deactivated to_process b =
     (if to_process = [] then Some (Ok deactivated, b)
      else case ast_delegations_from ops (last to_process) b of
        (Err e, b1) \<Rightarrow> Some (Err (storage_err_to_identity us e), b1)
      | (Panic, b1) \<Rightarrow> Some (Panic, b1)
      | (Ok ls, b1) \<Rightarrow>
          (case sr_deactivate_children ops (map sl_to_agent ls) b1 of
             (Ok ds, b2) \<Rightarrow> sr_cascade_loop ops us (deactivated @ ds) (butlast to_process @ ds) b2
           | (Err e, b2) \<Rightarrow> Some (Err e, b2)
           | (Panic, b2) \<Rightarrow> Some (Panic, b2)))"

declare sr_cascade_loop.simps [code]

definition sr_cascade_deactivate ::
  "'b agent_storage \<Rightarrow> (uuid \<Rightarrow> string) \<Rightarrow> uuid \<Rightarrow> 'b \<Rightarrow> ((uuid list, identity_error) result \<times> 'b) option" where
  "sr_cascade_deactivate ops us i b =
     (case sr_deactivate_agent ops us i b of
        (Err e, b1) \<Rightarrow> Some (Err e, b1)
      | (Panic, b1) \<Rightarrow> Some (Panic, b1)
      | (Ok _, b1) \<Rightarrow> sr_cascade_loop ops us [i] [i] b1)"

section \<open>The contract of a backend\<close>

text \<open>
  While the backend is healthy, its operations succeed and agree with the agents and links it
  holds.
\<close>

locale agent_tables =
  fixes ops :: "'b agent_storage"
    and healthy :: "'b \<Rightarrow> bool"
    and look :: "'b \<Rightarrow> uuid \<Rightarrow> agent option"
    and links :: "'b \<Rightarrow> delegation_link list"
  assumes get_agent: "healthy b \<Longrightarrow> \<exists>b'. healthy b' \<and> look b' = look b \<and> links b' = links b \<and>
      ast_get_agent ops i b =
        (case look b i of Some a \<Rightarrow> Ok (domain_agent_to_stored a) | None \<Rightarrow> Err (StAgentNotFound i), b')"
    and deactivate: "healthy b \<Longrightarrow> look b i = Some a \<Longrightarrow> \<exists>b'. healthy b' \<and>
      look b' = (look b)(i \<mapsto> a\<lparr>ag_active := False\<rparr>) \<and> links b' = links b \<and>
      ast_deactivate_agent ops i b = (Ok (), b')"
    and links_from: "healthy b \<Longrightarrow> \<exists>ls b'. healthy b' \<and> look b' = look b \<and> links b' = links b \<and>
      map stored_delegation_to_domain ls = filter (\<lambda>d. dl_from d = i) (links b) \<and>
      ast_delegations_from ops i b = (Ok ls, b')"
    and links_to: "healthy b \<Longrightarrow> \<exists>ls b'. healthy b' \<and> look b' = look b \<and> links b' = links b \<and>
      map stored_delegation_to_domain ls = filter (\<lambda>d. dl_to d = i) (links b) \<and>
      ast_delegations_to ops i b = (Ok ls, b')"
    and insert_link: "healthy b \<Longrightarrow> \<exists>k b'. healthy b' \<and> look b' = look b \<and>
      links b' = links b @ [stored_delegation_to_domain l] \<and> ast_insert_delegation ops l b = (Ok k, b')"
begin

definition holds :: "'b \<Rightarrow> registry \<Rightarrow> bool" where
  "holds b rg \<longleftrightarrow> healthy b \<and> look b = map_of (rg_agents rg) \<and> links b = rg_delegations rg"

lemma holds_intro: "healthy b' \<Longrightarrow> look b' = look b \<Longrightarrow> links b' = links b \<Longrightarrow> holds b rg \<Longrightarrow> holds b' rg"
  by (simp add: holds_def)

lemma get_agent_holds:
  assumes "holds b rg"
  obtains b' where "holds b' rg" "ast_get_agent ops i b =
    (case lookup_agent rg i of Some a \<Rightarrow> Ok (domain_agent_to_stored a) | None \<Rightarrow> Err (StAgentNotFound i), b')"
proof -
  have h: "healthy b" "look b = map_of (rg_agents rg)" using assms by (simp_all add: holds_def)
  from get_agent [OF h(1), of i] holds_intro [OF _ _ _ assms] h(2) that show thesis by auto
qed

lemma deactivate_holds:
  assumes "holds b rg" and "lookup_agent rg i = Some a"
  obtains b' where "holds b' (rg\<lparr>rg_agents := AList.update i (a\<lparr>ag_active := False\<rparr>) (rg_agents rg)\<rparr>)"
    "ast_deactivate_agent ops i b = (Ok (), b')"
  using deactivate [of b i a] assms that by (auto simp: holds_def update_conv')

lemma links_from_holds:
  assumes "holds b rg"
  obtains ls b' where "holds b' rg" "ast_delegations_from ops i b = (Ok ls, b')"
    "map stored_delegation_to_domain ls = filter (\<lambda>d. dl_from d = i) (rg_delegations rg)"
proof -
  have h: "healthy b" "links b = rg_delegations rg" using assms by (simp_all add: holds_def)
  from links_from [OF h(1), of i] holds_intro [OF _ _ _ assms] h(2) that show thesis by auto
qed

lemma links_to_holds:
  assumes "holds b rg"
  obtains ls b' where "holds b' rg" "ast_delegations_to ops i b = (Ok ls, b')"
    "map stored_delegation_to_domain ls = filter (\<lambda>d. dl_to d = i) (rg_delegations rg)"
proof -
  have h: "healthy b" "links b = rg_delegations rg" using assms by (simp_all add: holds_def)
  from links_to [OF h(1), of i] holds_intro [OF _ _ _ assms] h(2) that show thesis by auto
qed

lemma sl_to_agent_domain: "map sl_to_agent ls = map dl_to (map stored_delegation_to_domain ls)"
  by (simp add: stored_delegation_to_domain_def)

lemma children_refine:
  "holds b rg \<Longrightarrow> deactivate_children cs (rg_agents rg) = (ags', ds) \<Longrightarrow>
   \<exists>b'. holds b' (rg\<lparr>rg_agents := ags'\<rparr>) \<and> sr_deactivate_children ops cs b = (Ok ds, b')"
proof (induction cs arbitrary: b rg ags' ds)
  case (Cons c cs)
  obtain b1 where b1: "holds b1 rg" "ast_get_agent ops c b =
      (case lookup_agent rg c of Some a \<Rightarrow> Ok (domain_agent_to_stored a) | None \<Rightarrow> Err (StAgentNotFound c), b1)"
    using get_agent_holds [OF Cons.prems(1)] by blast
  show ?case
  proof (cases "\<exists>a. lookup_agent rg c = Some a \<and> ag_active a")
    case True
    then obtain a where a: "lookup_agent rg c = Some a" "ag_active a" by blast
    let ?rg = "rg\<lparr>rg_agents := AList.update c (a\<lparr>ag_active := False\<rparr>) (rg_agents rg)\<rparr>"
    obtain b2 where b2: "holds b2 ?rg" "ast_deactivate_agent ops c b1 = (Ok (), b2)"
      using deactivate_holds [OF b1(1) a(1)] by blast
    obtain ds' where ds': "deactivate_children cs (rg_agents ?rg) = (ags', ds')" "ds = c # ds'"
      using Cons.prems(2) a by (auto split: prod.splits)
    from Cons.IH [OF b2(1) ds'(1)] show ?thesis
      using b1 a b2 ds'(2) by (auto simp: domain_agent_to_stored_def)
  next
    case False
    then have "deactivate_children cs (rg_agents rg) = (ags', ds)"
      using Cons.prems(2) by (auto split: option.splits)
    from Cons.IH [OF b1(1) this] False b1(2) show ?thesis
      by (auto simp: domain_agent_to_stored_def split: option.splits)
  qed
qed auto

lemma cascade_loop_refines:
  "holds b rg \<Longrightarrow> cascade_loop (rg_delegations rg) (rg_agents rg) deactivated to_process = (ags', ds) \<Longrightarrow>
   \<exists>b'. holds b' (rg\<lparr>rg_agents := ags'\<rparr>) \<and>
     sr_cascade_loop ops us deactivated to_process b = Some (Ok ds, b')"
proof (induction "rg_delegations rg" "rg_agents rg" deactivated to_process
    arbitrary: b rg ags' ds rule: cascade_loop.induct)
  case (1 deactivated to_process)
  show ?case
  proof (cases "to_process = []")
    case True
    with 1(2,3) show ?thesis
      by (auto simp: sr_cascade_loop.simps [of ops] cascade_loop.simps [of "rg_delegations rg"])
  next
    case False
    obtain ls b1 where b1: "holds b1 rg" "ast_delegations_from ops (last to_process) b = (Ok ls, b1)"
      "map stored_delegation_to_domain ls = filter (\<lambda>d. dl_from d = last to_process) (rg_delegations rg)"
      using links_from_holds [OF 1(2)] by blast
    let ?cs = "map dl_to (filter (\<lambda>d. dl_from d = last to_process) (rg_delegations rg))"
    obtain ags1 ds1 where step: "deactivate_children ?cs (rg_agents rg) = (ags1, ds1)" by fastforce
    obtain b2 where b2: "holds b2 (rg\<lparr>rg_agents := ags1\<rparr>)"
      "sr_deactivate_children ops ?cs b1 = (Ok ds1, b2)"
      using children_refine [OF b1(1) step] by blast
    have "cascade_loop (rg_delegations rg) ags1 (deactivated @ ds1) (butlast to_process @ ds1) = (ags', ds)"
      using 1(3) False step by (simp add: cascade_loop.simps [of "rg_delegations rg" "rg_agents rg"] Let_def)
    with 1(1) [OF False refl refl refl, of "rg\<lparr>rg_agents := ags1\<rparr>" b2 ags' ds] b2(1) step
    obtain b3 where "holds b3 (rg\<lparr>rg_agents := ags'\<rparr>)"
      "sr_cascade_loop ops us (deactivated @ ds1) (butlast to_process @ ds1) b2 = Some (Ok ds, b3)"
      by auto
    with False b1(2) b2(2) show ?thesis
      by (auto simp: sr_cascade_loop.simps [of ops us deactivated] sl_to_agent_domain b1(3))
  qed
qed

lemma cascade_refines:
  assumes "holds b rg"
  shows "\<exists>b'. sr_cascade_deactivate ops us i b = Some (fst (cascade_deactivate i rg), b') \<and>
    holds b' (snd (cascade_deactivate i rg))"
proof -
  obtain b1 where b1: "holds b1 rg" "ast_get_agent ops i b =
      (case lookup_agent rg i of Some a \<Rightarrow> Ok (domain_agent_to_stored a) | None \<Rightarrow> Err (StAgentNotFound i), b1)"
    using get_agent_holds [OF assms] by blast
  show ?thesis
  proof (cases "\<exists>a. lookup_agent rg i = Some a \<and> ag_active a")
    case True
    then obtain a where a: "lookup_agent rg i = Some a" "ag_active a" by blast
    let ?rg = "rg\<lparr>rg_agents := AList.update i (a\<lparr>ag_active := False\<rparr>) (rg_agents rg)\<rparr>"
    obtain b2 where b2: "holds b2 ?rg" "ast_deactivate_agent ops i b1 = (Ok (), b2)"
      using deactivate_holds [OF b1(1) a(1)] by blast
    obtain ags ds where run: "cascade_loop (rg_delegations ?rg) (rg_agents ?rg) [i] [i] = (ags, ds)"
      by fastforce
    from cascade_loop_refines [OF b2(1) run, of us] b1(2) b2(2) a run show ?thesis
      by (auto simp: sr_cascade_deactivate_def sr_deactivate_agent_def cascade_deactivate_def
          deactivate_agent_def domain_agent_to_stored_def)
  next
    case False
    show ?thesis
    proof (cases "lookup_agent rg i")
      case None
      with b1 show ?thesis
        by (simp add: sr_cascade_deactivate_def sr_deactivate_agent_def cascade_deactivate_def deactivate_agent_def)
    next
      case (Some a)
      with False have "\<not> ag_active a" by simp
      with Some b1 show ?thesis
        by (simp add: sr_cascade_deactivate_def sr_deactivate_agent_def cascade_deactivate_def
            deactivate_agent_def domain_agent_to_stored_def)
    qed
  qed
qed

text \<open>The first link that the backend returns is the first link into the agent.\<close>

lemma find_hd_filter: "find P xs = (case filter P xs of [] \<Rightarrow> None | x # _ \<Rightarrow> Some x)"
  by (induction xs) auto

lemma incoming_holds:
  assumes "holds b rg"
  obtains b' where "holds b' rg"
    "incoming (rg_delegations rg) i = None \<Longrightarrow> ast_delegations_to ops i b = (Ok [], b')"
    "\<And>l. incoming (rg_delegations rg) i = Some l \<Longrightarrow>
       \<exists>s ss. ast_delegations_to ops i b = (Ok (s # ss), b') \<and> stored_delegation_to_domain s = l"
proof -
  obtain ls b' where b': "holds b' rg" "ast_delegations_to ops i b = (Ok ls, b')"
    "map stored_delegation_to_domain ls = filter (\<lambda>d. dl_to d = i) (rg_delegations rg)"
    using links_to_holds [OF assms] by blast
  show thesis
  proof (cases ls)
    case Nil
    then have "incoming (rg_delegations rg) i = None" using b'(3) by (simp add: incoming_def find_hd_filter)
    with that [OF b'(1)] b'(2) Nil show thesis by simp
  next
    case (Cons s ss)
    then have "incoming (rg_delegations rg) i = Some (stored_delegation_to_domain s)"
      using b'(3) [symmetric] by (simp add: incoming_def find_hd_filter)
    with that [OF b'(1)] b'(2) Cons show thesis by simp
  qed
qed

lemma sl_from_domain: "stored_delegation_to_domain s = l \<Longrightarrow> sl_from_agent s = dl_from l"
  by (auto simp: stored_delegation_to_domain_def)

lemma would_close_cycle_refines:
  "holds b rg \<Longrightarrow>
   \<exists>b'. holds b' rg \<and> sr_would_close_cycle ops us t V c b =
     Some (Ok (would_close_cycle (rg_delegations rg) t V c), b')"
proof (induction "rg_delegations rg" t V c arbitrary: b rule: would_close_cycle.induct)
  case (1 t V c)
  obtain b1 where b1: "holds b1 rg"
    "incoming (rg_delegations rg) c = None \<Longrightarrow> ast_delegations_to ops c b = (Ok [], b1)"
    "\<And>l. incoming (rg_delegations rg) c = Some l \<Longrightarrow>
       \<exists>s ss. ast_delegations_to ops c b = (Ok (s # ss), b1) \<and> stored_delegation_to_domain s = l"
    using incoming_holds [OF 1(2), of c] by blast
  show ?case
  proof (cases "incoming (rg_delegations rg) c")
    case None
    with b1(1,2) show ?thesis
      by (auto simp: sr_would_close_cycle.simps [of ops us t V c] would_close_cycle.simps [of _ t V c])
  next
    case (Some l)
    with b1(3) obtain s ss where s: "ast_delegations_to ops c b = (Ok (s # ss), b1)" "sl_from_agent s = dl_from l"
      using sl_from_domain by blast
    then show ?thesis
      using Some b1(1) 1(1) [OF Some _ _ b1(1)]
      by (auto simp: sr_would_close_cycle.simps [of ops us t V c] would_close_cycle.simps [of _ t V c])
  qed
qed

lemma chain_walk_refines:
  "holds b rg \<Longrightarrow>
   \<exists>b'. holds b' rg \<and> sr_chain_walk ops us V c acc b =
     Some (Ok (acc @ chain_walk (rg_delegations rg) V c), b')"
proof (induction "rg_delegations rg" V c arbitrary: b acc rule: chain_walk.induct)
  case (1 V c)
  obtain b1 where b1: "holds b1 rg"
    "incoming (rg_delegations rg) c = None \<Longrightarrow> ast_delegations_to ops c b = (Ok [], b1)"
    "\<And>l. incoming (rg_delegations rg) c = Some l \<Longrightarrow>
       \<exists>s ss. ast_delegations_to ops c b = (Ok (s # ss), b1) \<and> stored_delegation_to_domain s = l"
    using incoming_holds [OF 1(2), of c] by blast
  show ?case
  proof (cases "incoming (rg_delegations rg) c")
    case None
    with b1(1,2) show ?thesis
      by (auto simp: sr_chain_walk.simps [of ops us V c] chain_walk.simps [of _ V c])
  next
    case (Some l)
    with b1(3) obtain s ss where s: "ast_delegations_to ops c b = (Ok (s # ss), b1)"
      "stored_delegation_to_domain s = l" by blast
    then show ?thesis
      using Some b1(1) 1(1) [OF Some _ b1(1), of "acc @ [l]"]
      by (auto simp: sr_chain_walk.simps [of ops us V c] chain_walk.simps [of _ V c] Let_def)
  qed
qed

lemma get_chain_refines:
  assumes "holds b rg"
  shows "\<exists>b'. holds b' rg \<and> sr_get_chain_for_agent ops us i b = Some (get_chain_for_agent i rg, b')"
  using chain_walk_refines [OF assms, of us "{i}" i "[]"]
  by (auto simp: sr_get_chain_for_agent_def get_chain_for_agent_def)

lemma create_delegation_stores:
  assumes "holds b rg" and g: "f \<noteq> t" "lookup_agent rg f = Some parent" "ag_active parent"
    "lookup_agent rg t = Some target" "ag_owner parent = ag_owner target"
    "find (\<lambda>s. s \<notin> set (ag_capabilities parent)) scopes = None"
    "\<not> would_close_cycle (rg_delegations rg) t {f} f"
    and link: "link = \<lparr>dl_from = f, dl_to = t, dl_scope_narrowing = scopes, dl_created_at = now,
      dl_expires_at = expires\<rparr>"
  shows "\<exists>b'. sr_create_delegation ops us now f t scopes expires b = Some (Ok link, b') \<and>
    holds b' (rg\<lparr>rg_delegations := rg_delegations rg @ [link]\<rparr>)"
proof -
  obtain b1 where b1: "holds b1 rg" "ast_get_agent ops f b = (Ok (domain_agent_to_stored parent), b1)"
    using get_agent_holds [OF assms(1), of f] g(2) by auto
  obtain b2 where b2: "holds b2 rg" "ast_get_agent ops t b1 = (Ok (domain_agent_to_stored target), b2)"
    using get_agent_holds [OF b1(1), of t] g(4) by auto
  obtain b3 where b3: "holds b3 rg" "sr_would_close_cycle ops us t {f} f b2 = Some (Ok False, b3)"
    using would_close_cycle_refines [OF b2(1), of us t "{f}" f] g(7) by auto
  let ?s = "\<lparr>sl_id = 0, sl_from_agent = f, sl_to_agent = t, sl_scope_narrowing = scopes,
    sl_created_at = now, sl_expires_at = expires\<rparr>"
  obtain k b4 where b4: "holds b4 (rg\<lparr>rg_delegations := rg_delegations rg @ [link]\<rparr>)"
    "ast_insert_delegation ops ?s b3 = (Ok k, b4)"
    using insert_link [of b3 ?s] b3(1) link by (auto simp: holds_def stored_delegation_to_domain_def)
  show ?thesis
    using g b1(2) b2(2) b3(2) b4 link
    by (auto simp: sr_create_delegation_def sr_insert_link_def domain_agent_to_stored_def Let_def)
qed

lemma create_delegation_refines:
  assumes "holds b rg" and "create_delegation now f t scopes expires rg = (Ok link, rg')"
  shows "\<exists>b'. sr_create_delegation ops us now f t scopes expires b = Some (Ok link, b') \<and> holds b' rg'"
proof -
  from assms(2) have link: "link = \<lparr>dl_from = f, dl_to = t, dl_scope_narrowing = scopes, dl_created_at = now,
      dl_expires_at = expires\<rparr>" and rg': "rg' = rg\<lparr>rg_delegations := rg_delegations rg @ [link]\<rparr>"
    by (auto simp: create_delegation_def Let_def split: if_splits option.splits)
  obtain parent target where "f \<noteq> t" "lookup_agent rg f = Some parent" "ag_active parent"
    "lookup_agent rg t = Some target" "ag_owner parent = ag_owner target"
    "find (\<lambda>s. s \<notin> set (ag_capabilities parent)) scopes = None"
    "\<not> would_close_cycle (rg_delegations rg) t {f} f"
    using assms(2) by (auto simp: create_delegation_def Let_def split: if_splits option.splits)
  from create_delegation_stores [OF assms(1) this link] show ?thesis unfolding rg' .
qed

lemma get_agent_refines:
  assumes "holds b rg"
  shows "\<exists>b'. holds b' rg \<and> sr_get_agent ops us now i b =
    (case get_agent now i rg of
       Ok a \<Rightarrow> if ag_active a then Ok a else Err (AgentDeactivated i) | r \<Rightarrow> r, b')"
proof -
  have id: "stored_agent_to_domain (domain_agent_to_stored a) = a" for a
    by (cases "ag_trust_level a") (simp_all add: stored_agent_to_domain_def domain_agent_to_stored_def)
  obtain b1 where "holds b1 rg" "ast_get_agent ops i b =
      (case lookup_agent rg i of Some a \<Rightarrow> Ok (domain_agent_to_stored a) | None \<Rightarrow> Err (StAgentNotFound i), b1)"
    using get_agent_holds [OF assms] by blast
  then show ?thesis
    by (auto simp: sr_get_agent_def get_agent_def id Let_def split: option.splits)
qed

end

end
