(* ===== verification/Session_Storage.thy ===== *)
theory Session_Storage
  imports Session_Run
begin

text \<open>
  The storage-backed session store (\<open>storage_store.rs\<close>): an in-memory cache with write-through
  to a persistent backend. The backend is the trait \<open>SessionStore\<close> of \<open>arbiter-storage\<close>
  (\<open>traits.rs\<close>), here a record of functions over an abstract backend state. The store refines the
  in-memory store as far as the cache is concerned; what survives a restart is what
  \<open>domain_to_stored\<close> keeps.
\<close>

section \<open>Stored sessions\<close>

datatype stored_session_status = StoredActive | StoredClosed | StoredExpired

datatype stored_data_sensitivity =
  StoredPublic | StoredInternal | StoredConfidential | StoredRestricted

record stored_session =
  sd_session_id :: uuid
  sd_agent_id :: uuid
  sd_delegation_chain_snapshot :: "string list"
  sd_declared_intent :: string
  sd_authorized_tools :: "string list"
  sd_time_limit_secs :: int
  sd_call_budget :: u64
  sd_calls_made :: u64
  sd_rate_limit_per_minute :: "u64 option"
  sd_rate_window_start :: instant
  sd_rate_window_calls :: u64
  sd_rate_limit_window_secs :: u64
  sd_data_sensitivity_ceiling :: stored_data_sensitivity
  sd_created_at :: instant
  sd_status :: stored_session_status

fun status_to_stored :: "session_status \<Rightarrow> stored_session_status" where
  "status_to_stored StActive = StoredActive"
| "status_to_stored StClosed = StoredClosed"
| "status_to_stored StExpired = StoredExpired"

fun stored_to_status :: "stored_session_status \<Rightarrow> session_status" where
  "stored_to_status StoredActive = StActive"
| "stored_to_status StoredClosed = StClosed"
| "stored_to_status StoredExpired = StExpired"

fun sensitivity_to_stored :: "data_sensitivity \<Rightarrow> stored_data_sensitivity" where
  "sensitivity_to_stored Public = StoredPublic"
| "sensitivity_to_stored Internal = StoredInternal"
| "sensitivity_to_stored Confidential = StoredConfidential"
| "sensitivity_to_stored Restricted = StoredRestricted"

fun stored_to_sensitivity :: "stored_data_sensitivity \<Rightarrow> data_sensitivity" where
  "stored_to_sensitivity StoredPublic = Public"
| "stored_to_sensitivity StoredInternal = Internal"
| "stored_to_sensitivity StoredConfidential = Confidential"
| "stored_to_sensitivity StoredRestricted = Restricted"

text \<open>\<open>num_seconds\<close> drops the fraction of a second, towards zero.\<close>

definition num_seconds :: "span \<Rightarrow> int" where
  "num_seconds d = (if d \<ge> 0 then d div 1000000000 else - ((- d) div 1000000000))"

definition domain_to_stored :: "task_session \<Rightarrow> stored_session" where
  "domain_to_stored s =
     \<lparr>sd_session_id = ts_session_id s,
      sd_agent_id = ts_agent_id s,
      sd_delegation_chain_snapshot = ts_delegation_chain_snapshot s,
      sd_declared_intent = ts_declared_intent s,
      sd_authorized_tools = ts_authorized_tools s,
      sd_time_limit_secs = num_seconds (ts_time_limit s),
      sd_call_budget = ts_call_budget s,
      sd_calls_made = ts_calls_made s,
      sd_rate_limit_per_minute = ts_rate_limit_per_minute s,
      sd_rate_window_start = ts_rate_window_start s,
      sd_rate_window_calls = ts_rate_window_calls s,
      sd_rate_limit_window_secs = ts_rate_limit_window_secs s,
      sd_data_sensitivity_ceiling = sensitivity_to_stored (ts_data_sensitivity_ceiling s),
      sd_created_at = ts_created_at s,
      sd_status = status_to_stored (ts_status s)\<rparr>"

definition MAX_SESSION_TIME_LIMIT_SECS :: int where
  "MAX_SESSION_TIME_LIMIT_SECS = 86400"

text \<open>\<open>None\<close> is the panic of the duration constructor on a far out of range stored limit.\<close>

definition stored_to_domain :: "stored_session \<Rightarrow> task_session option" where
  "stored_to_domain d =
     (case duration_seconds (min (sd_time_limit_secs d) MAX_SESSION_TIME_LIMIT_SECS) of
        None \<Rightarrow> None
      | Some limit \<Rightarrow>
          Some \<lparr>ts_session_id = sd_session_id d,
            ts_agent_id = sd_agent_id d,
            ts_delegation_chain_snapshot = sd_delegation_chain_snapshot d,
            ts_declared_intent = sd_declared_intent d,
            ts_authorized_tools = sd_authorized_tools d,
            ts_authorized_credentials = [],
            ts_time_limit = limit,
            ts_call_budget = sd_call_budget d,
            ts_calls_made = sd_calls_made d,
            ts_rate_limit_per_minute = sd_rate_limit_per_minute d,
            ts_rate_window_start = sd_rate_window_start d,
            ts_rate_window_calls = sd_rate_window_calls d,
            ts_rate_limit_window_secs = sd_rate_limit_window_secs d,
            ts_data_sensitivity_ceiling = stored_to_sensitivity (sd_data_sensitivity_ceiling d),
            ts_created_at = sd_created_at d,
            ts_status = stored_to_status (sd_status d)\<rparr>)"

section \<open>The store\<close>

record 'b session_storage =
  sto_insert :: "stored_session \<Rightarrow> 'b \<Rightarrow> (unit, string) result \<times> 'b"
  sto_update :: "stored_session \<Rightarrow> 'b \<Rightarrow> (unit, string) result \<times> 'b"
  sto_list :: "'b \<Rightarrow> (stored_session list, string) result"
  sto_delete_expired :: "'b \<Rightarrow> (nat, string) result \<times> 'b"

record 'b storage_backed =
  sb_cache :: session_store
  sb_storage :: 'b

text \<open>
  Warming the cache: list everything, clear, insert each session. A storage error is returned and
  leaves the cache as it was.
\<close>

fun warm_cache :: "stored_session list \<Rightarrow> session_store \<Rightarrow> session_store option" where
  "warm_cache [] c = Some c"
| "warm_cache (d # ds) c =
     (case stored_to_domain d of
        None \<Rightarrow> None
      | Some s \<Rightarrow> warm_cache ds (put_session (ts_session_id s) s c))"

definition reload_from_storage ::
  "'b session_storage \<Rightarrow> 'b storage_backed \<Rightarrow> (unit, string) result \<times> 'b storage_backed" where
  "reload_from_storage ops sb =
     (case sto_list ops (sb_storage sb) of
        Err e \<Rightarrow> (Err e, sb)
      | Panic \<Rightarrow> (Panic, sb)
      | Ok ds \<Rightarrow>
          (case warm_cache ds store_new of
             None \<Rightarrow> (Panic, sb)
           | Some c \<Rightarrow> (Ok (), sb\<lparr>sb_cache := c\<rparr>)))"

definition sb_new :: "'b session_storage \<Rightarrow> 'b \<Rightarrow> ('b storage_backed, string) result" where
  "sb_new ops b =
     (case reload_from_storage ops \<lparr>sb_cache = store_new, sb_storage = b\<rparr> of
        (Ok _, sb) \<Rightarrow> Ok sb
      | (Err e, _) \<Rightarrow> Err e
      | (Panic, _) \<Rightarrow> Panic)"

definition sb_create ::
  "'b session_storage \<Rightarrow> uuid \<Rightarrow> instant \<Rightarrow> instant \<Rightarrow> create_session_request \<Rightarrow> 'b storage_backed \<Rightarrow>
   task_session \<times> 'b storage_backed" where
  "sb_create ops sid now1 now2 req sb =
     (let session = fresh_session sid now1 now2 (csr_time_limit req) req;
          b' = snd (sto_insert ops (domain_to_stored session) (sb_storage sb))
      in (session, \<lparr>sb_cache = put_session sid session (sb_cache sb), sb_storage = b'\<rparr>))"

definition sb_create_if_under_cap ::
  "'b session_storage \<Rightarrow> (uuid \<Rightarrow> string) \<Rightarrow> uuid \<Rightarrow> instant \<Rightarrow> instant \<Rightarrow> create_session_request \<Rightarrow>
   u64 \<Rightarrow> 'b storage_backed \<Rightarrow> (task_session, session_error) result \<times> 'b storage_backed" where
  "sb_create_if_under_cap ops uuid_to_string sid now1 now2 req max_sessions sb =
     (let active_count = count_active_for_agent (csr_agent_id req) (sb_cache sb)
      in if active_count \<ge> max_sessions
         then (Err (TooManySessions (uuid_to_string (csr_agent_id req)) max_sessions active_count), sb)
         else let session = fresh_session sid now1 now2 (csr_time_limit req) req;
                  b' = snd (sto_insert ops (domain_to_stored session) (sb_storage sb))
              in (Ok session,
                  \<lparr>sb_cache = put_session sid session (sb_cache sb), sb_storage = b'\<rparr>))"

text \<open>
  Marking a session expired ignores a failing write; recording calls reports it. In both cases
  the cache has been changed before the write.
\<close>

definition sb_mark_expired ::
  "'b session_storage \<Rightarrow> uuid \<Rightarrow> task_session \<Rightarrow> 'b storage_backed \<Rightarrow> 'b storage_backed" where
  "sb_mark_expired ops sid s sb =
     (let s' = s\<lparr>ts_status := StExpired\<rparr>
      in \<lparr>sb_cache = put_session sid s' (sb_cache sb),
          sb_storage = snd (sto_update ops (domain_to_stored s') (sb_storage sb))\<rparr>)"

definition sb_commit ::
  "'b session_storage \<Rightarrow> uuid \<Rightarrow> task_session \<Rightarrow> 'b storage_backed \<Rightarrow>
   (task_session, session_error) result \<times> 'b storage_backed" where
  "sb_commit ops sid s sb =
     (case sto_update ops (domain_to_stored s) (sb_storage sb) of
        (Err e, b') \<Rightarrow> (Err (StorageWriteThrough sid e),
                       \<lparr>sb_cache = put_session sid s (sb_cache sb), sb_storage = b'\<rparr>)
      | (Panic, b') \<Rightarrow> (Panic, \<lparr>sb_cache = put_session sid s (sb_cache sb), sb_storage = b'\<rparr>)
      | (Ok _, b') \<Rightarrow> (Ok s, \<lparr>sb_cache = put_session sid s (sb_cache sb), sb_storage = b'\<rparr>))"

definition sb_use_session ::
  "'b session_storage \<Rightarrow> uuid \<Rightarrow> string \<Rightarrow> uuid option \<Rightarrow> instant \<Rightarrow> instant \<Rightarrow> 'b storage_backed \<Rightarrow>
   (task_session, session_error) result \<times> 'b storage_backed" where
  "sb_use_session ops sid tool_name requesting now1 now2 sb =
     (case lookup_session (sb_cache sb) sid of
        None \<Rightarrow> (Err (SessNotFound sid), sb)
      | Some s \<Rightarrow>
          (case agent_mismatch requesting s of
             Some a \<Rightarrow> (Err (AgentMismatch sid (ts_agent_id s) a), sb)
           | None \<Rightarrow>
               if ts_status s = StClosed then (Err (AlreadyClosed sid), sb)
               else if is_expired now1 s
               then (Err (SessExpired sid), sb_mark_expired ops sid s sb)
               else if is_budget_exceeded s
               then (Err (BudgetExceeded sid (ts_call_budget s) (ts_calls_made s)), sb)
               else if \<not> is_tool_authorized s tool_name
               then (Err (ToolNotAuthorized sid tool_name), sb)
               else (case check_rate_limit now2 s of
                       None \<Rightarrow> (Panic, sb)
                     | Some (s', True) \<Rightarrow>
                         (Err (RateLimited sid (case ts_rate_limit_per_minute s' of
                                                  None \<Rightarrow> 0 | Some l \<Rightarrow> l)),
                          sb\<lparr>sb_cache := put_session sid s' (sb_cache sb)\<rparr>)
                     | Some (s', False) \<Rightarrow>
                         sb_commit ops sid (s'\<lparr>ts_calls_made := ts_calls_made s' + 1\<rparr>) sb)))"

definition sb_use_session_batch ::
  "'b session_storage \<Rightarrow> 'b storage_backed batch_op" where
  "sb_use_session_batch ops sid tool_names requesting now1 now2 now3 sb =
     (case lookup_session (sb_cache sb) sid of
        None \<Rightarrow> (Err (SessNotFound sid), sb)
      | Some s \<Rightarrow>
          (case agent_mismatch requesting s of
             Some a \<Rightarrow> (Err (AgentMismatch sid (ts_agent_id s) a), sb)
           | None \<Rightarrow>
               if ts_status s = StClosed then (Err (AlreadyClosed sid), sb)
               else if is_expired now1 s
               then (Err (SessExpired sid), sb_mark_expired ops sid s sb)
               else let batch_size = of_nat (length tool_names) in
               if ts_calls_made s + batch_size > ts_call_budget s
               then (Err (BudgetExceeded sid (ts_call_budget s) (ts_calls_made s)), sb)
               else (case find (\<lambda>t. \<not> is_tool_authorized s t) tool_names of
                       Some t \<Rightarrow> (Err (ToolNotAuthorized sid t), sb)
                     | None \<Rightarrow>
                         (case batch_rate_check now2 batch_size s of
                            None \<Rightarrow> (Panic, sb)
                          | Some (Some limit) \<Rightarrow> (Err (RateLimited sid limit), sb)
                          | Some None \<Rightarrow>
                              (case batch_rate_update now3 batch_size s of
                                 None \<Rightarrow> (Panic, sb)
                               | Some s' \<Rightarrow>
                                   sb_commit ops sid
                                     (s'\<lparr>ts_calls_made := ts_calls_made s' + batch_size\<rparr>) sb)))))"

definition sb_close ::
  "'b session_storage \<Rightarrow> uuid \<Rightarrow> 'b storage_backed \<Rightarrow>
   (task_session, session_error) result \<times> 'b storage_backed" where
  "sb_close ops sid sb =
     (case lookup_session (sb_cache sb) sid of
        None \<Rightarrow> (Err (SessNotFound sid), sb)
      | Some s \<Rightarrow>
          if ts_status s = StClosed then (Err (AlreadyClosed sid), sb)
          else let s' = s\<lparr>ts_status := StClosed\<rparr>
               in (Ok s', \<lparr>sb_cache = put_session sid s' (sb_cache sb),
                           sb_storage = snd (sto_update ops (domain_to_stored s') (sb_storage sb))\<rparr>))"

definition sb_close_sessions_for_agent ::
  "'b session_storage \<Rightarrow> uuid \<Rightarrow> 'b storage_backed \<Rightarrow> nat \<times> 'b storage_backed" where
  "sb_close_sessions_for_agent ops agent_id sb =
     (let hit = filter (active_for agent_id) (map snd (ss_sessions (sb_cache sb)));
          to_persist = map (\<lambda>s. domain_to_stored (s\<lparr>ts_status := StClosed\<rparr>)) hit;
          cache' = (sb_cache sb)\<lparr>ss_sessions :=
            map (\<lambda>(k, s). (k, if active_for agent_id s then s\<lparr>ts_status := StClosed\<rparr> else s))
                (ss_sessions (sb_cache sb))\<rparr>
      in (length hit,
          \<lparr>sb_cache = cache',
           sb_storage = fold (\<lambda>d b. snd (sto_update ops d b)) to_persist (sb_storage sb)\<rparr>))"

definition sb_cleanup_expired ::
  "'b session_storage \<Rightarrow> (uuid \<Rightarrow> instant) \<Rightarrow> 'b storage_backed \<Rightarrow> nat \<times> 'b storage_backed" where
  "sb_cleanup_expired ops now sb =
     (let kept = filter (\<lambda>(k, s). \<not> is_expired (now k) s) (ss_sessions (sb_cache sb))
      in (length (ss_sessions (sb_cache sb)) - length kept,
          \<lparr>sb_cache = (sb_cache sb)\<lparr>ss_sessions := kept\<rparr>,
           sb_storage = snd (sto_delete_expired ops (sb_storage sb))\<rparr>))"

section \<open>Refinement of the in-memory store\<close>

lemma sb_commit_cache [simp]: "sb_cache (snd (sb_commit ops sid s sb)) = put_session sid s (sb_cache sb)"
  by (simp add: sb_commit_def split: prod.split result.split)

lemma sb_mark_expired_cache [simp]:
  "sb_cache (sb_mark_expired ops sid s sb) = put_session sid (s\<lparr>ts_status := StExpired\<rparr>) (sb_cache sb)"
  by (simp add: sb_mark_expired_def Let_def)

text \<open>
  What the caller sees: the in-memory result, unless the in-memory store succeeded and the write
  through to storage did not.
\<close>

definition durable_result ::
  "uuid \<Rightarrow> (task_session, session_error) result \<Rightarrow> (task_session, session_error) result \<Rightarrow> bool" where
  "durable_result sid mem r \<longleftrightarrow>
     r = mem \<or> is_ok mem \<and> (r = Panic \<or> (\<exists>e. r = Err (StorageWriteThrough sid e)))"

lemma sb_commit_result: "durable_result sid (Ok s) (fst (sb_commit ops sid s sb))"
  by (auto simp: sb_commit_def durable_result_def split: prod.split result.split)

lemma sb_use_session_batch_refines_mem:
  "sb_cache (snd (sb_use_session_batch ops sid tools ra now1 now2 now3 sb)) =
     snd (use_session_batch sid tools ra now1 now2 now3 (sb_cache sb)) \<and>
   durable_result sid (fst (use_session_batch sid tools ra now1 now2 now3 (sb_cache sb)))
     (fst (sb_use_session_batch ops sid tools ra now1 now2 now3 sb))"
  by (simp add: sb_use_session_batch_def use_session_batch_def Let_def sb_commit_result
      split: option.split) (simp add: durable_result_def)

lemma sb_use_session_refines_mem:
  "sb_cache (snd (sb_use_session ops sid tool ra now1 now2 sb)) =
     snd (use_session sid tool ra now1 now2 (sb_cache sb)) \<and>
   durable_result sid (fst (use_session sid tool ra now1 now2 (sb_cache sb)))
     (fst (sb_use_session ops sid tool ra now1 now2 sb))"
  by (simp add: sb_use_session_def use_session_def Let_def sb_commit_result
      split: option.split bool.split) (simp add: durable_result_def)

interpretation sb: session_backend "\<lambda>sb. lookup_session (sb_cache sb)" "sb_use_session_batch ops"
proof unfold_locales
  fix sid tools ra now1 now2 now3 and sb sb' :: "'a storage_backed" and r s s' k
  let ?mem = "use_session_batch sid tools ra now1 now2 now3 (sb_cache sb)"
  let ?sb = "sb_use_session_batch ops sid tools ra now1 now2 now3 sb"
  note ref = sb_use_session_batch_refines_mem [of ops sid tools ra now1 now2 now3 sb]
  show "\<exists>s. lookup_session (sb_cache sb) sid = Some s \<and> batch_granted s tools ra now1 s' \<and>
      lookup_session (sb_cache sb') sid = Some s'" if "?sb = (Ok s', sb')"
  proof -
    have "?mem = (Ok s', sb_cache sb')"
      using ref that by (cases ?mem) (simp add: durable_result_def)
    then show ?thesis by (rule mem_batch_ok)
  qed
  show "\<exists>s'. lookup_session (sb_cache sb') sid = Some s' \<and>
      (s' \<in> {s, s\<lparr>ts_status := StExpired\<rparr>} \<or> batch_granted s tools ra now1 s')"
    if "?sb = (r, sb')" "\<not> is_ok r" "lookup_session (sb_cache sb) sid = Some s"
  proof (cases "is_ok (fst ?mem)")
    case True
    then obtain x where "fst ?mem = Ok x" by (auto simp: is_ok_iff)
    then have "?mem = (Ok x, sb_cache sb')" using ref that(1) by (cases ?mem) simp
    from mem_batch_ok [OF this] that(3) show ?thesis by auto
  next
    case False
    have "?mem = (fst ?mem, sb_cache sb')" using ref that(1) by (cases ?mem) simp
    from mem_batch_err [OF this False that(3)] show ?thesis .
  qed
  show "lookup_session (sb_cache sb') k = lookup_session (sb_cache sb) k"
    if "?sb = (r, sb')" "k \<noteq> sid"
  proof -
    have "?mem = (fst ?mem, sb_cache sb')" using ref that(1) by (cases ?mem) simp
    from mem_batch_other [OF this that(2)] show ?thesis .
  qed
qed

section \<open>Properties\<close>

text \<open>A backend that keeps the stored sessions in a list, for the witnesses.\<close>

definition list_storage :: "stored_session list session_storage" where
  "list_storage =
     \<lparr>sto_insert = (\<lambda>d b. (Ok (), b @ [d])),
      sto_update = (\<lambda>d b. (Ok (), map (\<lambda>x. if sd_session_id x = sd_session_id d then d else x) b)),
      sto_list = (\<lambda>b. Ok b),
      sto_delete_expired = (\<lambda>b. (Ok 0, b))\<rparr>"

definition stored_demo :: task_session where
  "stored_demo = fresh_session 3 0 0 60000000000
     \<lparr>csr_agent_id = 7, csr_delegation_chain_snapshot = [], csr_declared_intent = ''read'',
      csr_authorized_tools = [''read_file''], csr_authorized_credentials = [''db_ro''],
      csr_time_limit = 60000000000, csr_call_budget = 2, csr_rate_limit_per_minute = None,
      csr_rate_limit_window_secs = 60, csr_data_sensitivity_ceiling = Internal\<rparr>"


text \<open>
  With the storage-backed store too, the calls accepted over any sequence of batches stay within
  the call budget of the session, whatever the backend does.
\<close>

theorem storage_backed_budget_never_overrun:
  assumes "store_inv (sb_cache sb)" and "lookup_session (sb_cache sb) sid = Some s"
    and "\<forall>c \<in> set calls. unat (ts_call_budget s) + length (fst c) < 2 ^ 64"
  shows "unat (ts_calls_made s) + accepted_calls (sb_use_session_batch ops) sid calls sb
    \<le> unat (ts_call_budget s)"
  using sb.accepted_calls_bound [OF assms(2) _ refl assms(3)] store_invD(2) [OF assms(1,2)]
  by (simp add: session_ok_def)

theorem storage_backed_budget_never_overrun_witness:
  "accepted_calls (sb_use_session_batch list_storage) 3
     [([''read_file''], None, 1, 1, 1), ([''read_file'', ''read_file''], None, 2, 2, 2)]
     \<lparr>sb_cache = put_session 3 stored_demo store_new, sb_storage = []\<rparr> \<le> 2"
proof -
  let ?sb = "\<lparr>sb_cache = put_session 3 stored_demo store_new, sb_storage = []\<rparr>"
  have inv: "store_inv (sb_cache ?sb)"
    by (simp add: store_inv_put store_new_inv session_ok_def stored_demo_def fresh_session_def)
  have look: "lookup_session (sb_cache ?sb) 3 = Some stored_demo" by simp
  show ?thesis
    using storage_backed_budget_never_overrun [OF inv look, of
        "[([''read_file''], None, 1, 1, 1), ([''read_file'', ''read_file''], None, 2, 2, 2)]" list_storage]
    by (simp add: stored_demo_def fresh_session_def)
qed

lemma stored_roundtrip:
  assumes "0 \<le> ts_time_limit s"
  shows "stored_to_domain (domain_to_stored s) =
    Some (s\<lparr>ts_authorized_credentials := [],
            ts_time_limit := min (ts_time_limit s div 1000000000) 86400 * 1000000000\<rparr>)"
proof -
  let ?n = "min (ts_time_limit s div 1000000000) 86400"
  have "0 \<le> ts_time_limit s div 1000000000" using assms by (simp add: pos_imp_zdiv_nonneg_iff)
  then have "\<bar>?n\<bar> \<le> 9223372036854775" by linarith
  then have "duration_seconds ?n = Some (?n * 1000000000)" by (rule duration_seconds_Some)
  moreover have "stored_to_status (status_to_stored x) = x" for x by (cases x) simp_all
  moreover have "stored_to_sensitivity (sensitivity_to_stored x) = x" for x by (cases x) simp_all
  ultimately show ?thesis using assms
    by (simp add: stored_to_domain_def domain_to_stored_def num_seconds_def
        MAX_SESSION_TIME_LIMIT_SECS_def)
qed

lemma stored_demo_roundtrip:
  "stored_to_domain (domain_to_stored stored_demo) =
   Some (stored_demo\<lparr>ts_authorized_credentials := []\<rparr>)" "ts_session_id stored_demo = 3"
  using stored_roundtrip [of stored_demo] by (simp_all add: stored_demo_def fresh_session_def)

text \<open>
  What a restart keeps of a session: everything, except that the time limit loses its fraction
  of a second and is clamped to 24 hours and that the credential whitelist is emptied.
\<close>

theorem stored_session_roundtrip:
  assumes "0 \<le> ts_time_limit s"
  shows "stored_to_domain (domain_to_stored s) =
    Some (s\<lparr>ts_authorized_credentials := [],
            ts_time_limit := min (ts_time_limit s div 1000000000) 86400 * 1000000000\<rparr>)"
  by (rule stored_roundtrip [OF assms])

theorem stored_session_roundtrip_witness:
  "stored_to_domain (domain_to_stored stored_demo) =
   Some (stored_demo\<lparr>ts_authorized_credentials := []\<rparr>)"
  using stored_session_roundtrip [of stored_demo] by (simp add: stored_demo_def fresh_session_def)

lemma warm_cache_creds:
  "warm_cache ds c = Some c' \<Longrightarrow>
   (\<And>k s. lookup_session c k = Some s \<Longrightarrow> ts_authorized_credentials s = []) \<Longrightarrow>
   lookup_session c' k = Some s \<Longrightarrow> ts_authorized_credentials s = []"
proof (induction ds arbitrary: c)
  case (Cons d ds)
  then obtain s0 where s0: "stored_to_domain d = Some s0"
    and rest: "warm_cache ds (put_session (ts_session_id s0) s0 c) = Some c'"
    by (auto split: option.splits)
  have creds: "ts_authorized_credentials s0 = []"
    using s0 by (auto simp: stored_to_domain_def split: option.splits)
  show ?case
  proof (rule Cons.IH [OF rest _ Cons.prems(3)])
    fix k' s'
    assume "lookup_session (put_session (ts_session_id s0) s0 c) k' = Some s'"
    with creds Cons.prems(2) show "ts_authorized_credentials s' = []"
      by (auto simp del: map_of_eq_Some_iff split: if_splits)
  qed
qed simp

text \<open>
  After the cache has been warmed from storage, as on every restart, each session authorizes
  every credential reference, whatever its whitelist was before: the whitelist is not persisted and
  an empty whitelist lets every reference pass.
\<close>

theorem restart_authorizes_every_credential:
  assumes "sb_new ops b = Ok sb" and "lookup_session (sb_cache sb) sid = Some s"
  shows "is_credential_authorized s reference"
proof -
  obtain ds where "warm_cache ds store_new = Some (sb_cache sb)"
    using assms(1)
    by (auto simp: sb_new_def reload_from_storage_def split: result.splits option.splits)
  from warm_cache_creds [OF this _ assms(2)] show ?thesis
    by (simp add: store_new_def is_credential_authorized_def)
qed

theorem restart_authorizes_every_credential_witness:
  "\<not> is_credential_authorized stored_demo ''admin_password'' \<and>
   (\<exists>sb s. sb_new list_storage [domain_to_stored stored_demo] = Ok sb \<and>
      lookup_session (sb_cache sb) 3 = Some s \<and> is_credential_authorized s ''admin_password'')"
proof -
  have "\<not> is_credential_authorized stored_demo ''admin_password''"
    by (simp add: is_credential_authorized_def stored_demo_def fresh_session_def)
  moreover have new: "sb_new list_storage [domain_to_stored stored_demo] =
      Ok \<lparr>sb_cache = put_session 3 (stored_demo\<lparr>ts_authorized_credentials := []\<rparr>) store_new,
          sb_storage = [domain_to_stored stored_demo]\<rparr>"
    by (simp add: sb_new_def reload_from_storage_def list_storage_def stored_demo_roundtrip)
  moreover have "lookup_session (put_session 3 (stored_demo\<lparr>ts_authorized_credentials := []\<rparr>) store_new) 3 =
      Some (stored_demo\<lparr>ts_authorized_credentials := []\<rparr>)" by simp
  ultimately show ?thesis
    using restart_authorizes_every_credential [OF new, of 3] by auto
qed

end
