(* ===== verification/Json.thy ===== *)
theory Json
  imports Prelude Complex_Main "HOL-Library.Char_ord" "HOL-Library.List_Lexorder"
begin

text \<open>
  What the sources use of Rust strings, floating point numbers and \<open>serde_json\<close> values. A string
  is its UTF-8 bytes, ordered lexicographically; an object is the list of its entries in key order,
  as the default (tree) map of \<open>serde_json\<close> iterates them.
\<close>

section \<open>Strings\<close>

definition starts_with :: "string \<Rightarrow> string \<Rightarrow> bool" where
  "starts_with pre s \<longleftrightarrow> take (length pre) s = pre"

fun contains_str :: "string \<Rightarrow> string \<Rightarrow> bool" where
  "contains_str needle [] = (needle = [])"
| "contains_str needle (c # s) = (starts_with needle (c # s) \<or> contains_str needle s)"

lemma starts_with_iff: "starts_with pre s \<longleftrightarrow> (\<exists>rest. s = pre @ rest)"
  by (metis append_eq_conv_conj append_take_drop_id starts_with_def)

lemma contains_str_iff: "contains_str needle s \<longleftrightarrow> (\<exists>u v. s = u @ needle @ v)"
proof (induction s)
  case (Cons c s)
  have "(\<exists>u v. c # s = u @ needle @ v) \<longleftrightarrow>
      (\<exists>v. c # s = needle @ v) \<or> (\<exists>u v. s = u @ needle @ v)"
    by (metis append_Cons append_Nil list.exhaust list.inject)
  then show ?case using Cons by (simp add: starts_with_iff)
qed simp

text \<open>\<open>str::split\<close> on a character: always at least one piece.\<close>

fun split_on :: "(char \<Rightarrow> bool) \<Rightarrow> string \<Rightarrow> string list" where
  "split_on P [] = [[]]"
| "split_on P (c # s) =
     (if P c then [] # split_on P s
      else (case split_on P s of [] \<Rightarrow> [[c]] | w # ws \<Rightarrow> (c # w) # ws))"

lemma split_on_nonempty [simp]: "split_on P s \<noteq> []"
  by (cases s) (auto split: list.splits)

lemma split_on_no_sep: "w \<in> set (split_on P s) \<Longrightarrow> c \<in> set w \<Longrightarrow> \<not> P c"
proof (induction s arbitrary: w)
  case (Cons d s)
  then show ?case by (cases "split_on P s") (fastforce split: if_splits)+
qed simp

lemma split_on_none: "(\<And>c. c \<in> set s \<Longrightarrow> \<not> P c) \<Longrightarrow> split_on P s = [s]"
  by (induction s) auto

text \<open>\<open>str::replace\<close> with a non-empty pattern: from the left, without overlaps.\<close>

function str_replace :: "string \<Rightarrow> string \<Rightarrow> string \<Rightarrow> string" where
  "str_replace pat rep [] = []"
| "str_replace pat rep (c # s) =
     (if pat \<noteq> [] \<and> starts_with pat (c # s)
      then rep @ str_replace pat rep (drop (length pat - 1) s)
      else c # str_replace pat rep s)"
  by pat_completeness auto
termination by (relation "measure (\<lambda>(pat, rep, s). length s)") auto

text \<open>Well-formed UTF-8: no overlong forms, no surrogates, nothing beyond the last code point.\<close>

definition utf8_continuation :: "nat \<Rightarrow> bool" where
  "utf8_continuation b \<longleftrightarrow> 128 \<le> b \<and> b \<le> 191"

fun utf8_bytes_ok :: "nat list \<Rightarrow> bool" where
  "utf8_bytes_ok [] = True"
| "utf8_bytes_ok (a # s) =
     (if a < 128 then utf8_bytes_ok s
      else case s of
        [] \<Rightarrow> False
      | b # s1 \<Rightarrow>
          if 194 \<le> a \<and> a \<le> 223 \<and> utf8_continuation b then utf8_bytes_ok s1
          else (case s1 of
            [] \<Rightarrow> False
          | c # s2 \<Rightarrow>
              if (a = 224 \<and> 160 \<le> b \<and> b \<le> 191 \<or> 225 \<le> a \<and> a \<le> 236 \<and> utf8_continuation b \<or>
                  a = 237 \<and> 128 \<le> b \<and> b \<le> 159 \<or> 238 \<le> a \<and> a \<le> 239 \<and> utf8_continuation b) \<and>
                 utf8_continuation c then utf8_bytes_ok s2
              else (case s2 of
                [] \<Rightarrow> False
              | d # s3 \<Rightarrow>
                  (a = 240 \<and> 144 \<le> b \<and> b \<le> 191 \<or> 241 \<le> a \<and> a \<le> 243 \<and> utf8_continuation b \<or>
                   a = 244 \<and> 128 \<le> b \<and> b \<le> 143) \<and>
                  utf8_continuation c \<and> utf8_continuation d \<and> utf8_bytes_ok s3)))"

definition from_utf8 :: "string \<Rightarrow> string option" where
  "from_utf8 bytes = (if utf8_bytes_ok (map of_char bytes) then Some bytes else None)"

text \<open>
  \<open>String::from_utf8_lossy\<close>: valid text stays; what replaces ill-formed parts is the argument.
\<close>

definition from_utf8_lossy :: "(string \<Rightarrow> string) \<Rightarrow> string \<Rightarrow> string" where
  "from_utf8_lossy lossy bytes = (case from_utf8 bytes of Some s \<Rightarrow> s | None \<Rightarrow> lossy bytes)"

fun join_str :: "string \<Rightarrow> string list \<Rightarrow> string" where
  "join_str sep [] = []"
| "join_str sep [s] = s"
| "join_str sep (s # t # ss) = s @ sep @ join_str sep (t # ss)"

text \<open>
  \<open>str::to_lowercase\<close>: bytewise on ASCII text; the Unicode case tables, needed for any other
  text, are the argument \<open>unicode_lower\<close>.
\<close>

definition ascii_lower :: "char \<Rightarrow> char" where
  "ascii_lower c =
     (let n = of_char c :: nat in if 65 \<le> n \<and> n \<le> 90 then char_of (n + 32) else c)"

definition is_ascii :: "string \<Rightarrow> bool" where
  "is_ascii s \<longleftrightarrow> list_all (\<lambda>c. (of_char c :: nat) < 128) s"

definition to_lowercase :: "(string \<Rightarrow> string) \<Rightarrow> string \<Rightarrow> string" where
  "to_lowercase unicode_lower s = (if is_ascii s then map ascii_lower s else unicode_lower s)"

definition quoted :: "string \<Rightarrow> string" where
  "quoted s = [CHR 39] @ s @ [CHR 39]"

text \<open>Decimal printing of integers.\<close>

fun show_nat :: "nat \<Rightarrow> string" where
  "show_nat n = (if n < 10 then [char_of (48 + n)] else show_nat (n div 10) @ [char_of (48 + n mod 10)])"

declare show_nat.simps [simp del]

definition show_int :: "int \<Rightarrow> string" where
  "show_int i = (if i < 0 then ''-'' @ show_nat (nat (- i)) else show_nat (nat i))"

section \<open>Numbers\<close>

text \<open>
  A double is a rational, an infinity or not a number; comparisons with the latter are false.
  Integers are converted by rounding to 53 significant bits, ties to even.
\<close>

datatype f64 = Fin rat | PosInf | NegInf | NaN

fun f64_less :: "f64 \<Rightarrow> f64 \<Rightarrow> bool" where
  "f64_less (Fin a) (Fin b) \<longleftrightarrow> a < b"
| "f64_less NegInf (Fin _) \<longleftrightarrow> True"
| "f64_less NegInf PosInf \<longleftrightarrow> True"
| "f64_less (Fin _) PosInf \<longleftrightarrow> True"
| "f64_less _ _ \<longleftrightarrow> False"

fun f64_less_eq :: "f64 \<Rightarrow> f64 \<Rightarrow> bool" where
  "f64_less_eq NaN _ \<longleftrightarrow> False"
| "f64_less_eq _ NaN \<longleftrightarrow> False"
| "f64_less_eq x y \<longleftrightarrow> x = y \<or> f64_less x y"

text \<open>The number of low bits to drop so that 53 remain; 64 bit integers lose at most 11.\<close>

definition excess_bits :: "nat \<Rightarrow> nat" where
  "excess_bits n = (if n < 2 ^ 53 then 0
     else case find (\<lambda>k. n < 2 ^ (53 + k)) [1..<12] of Some k \<Rightarrow> k | None \<Rightarrow> 11)"

definition round_to_even :: "nat \<Rightarrow> nat \<Rightarrow> nat" where
  "round_to_even n k =
     (let s = 2 ^ k; q = n div s; r = n mod s
      in if 2 * r > s \<or> 2 * r = s \<and> odd q then (q + 1) * s else q * s)"

definition int_as_f64 :: "int \<Rightarrow> f64" where
  "int_as_f64 i =
     (let n = nat \<bar>i\<bar>; m = (if excess_bits n = 0 then n else round_to_even n (excess_bits n))
      in Fin (if i < 0 then - of_nat m else of_nat m))"

datatype jnum = NumInt int | NumFloat f64

fun num_as_f64 :: "jnum \<Rightarrow> f64" where
  "num_as_f64 (NumInt i) = int_as_f64 i"
| "num_as_f64 (NumFloat x) = x"

section \<open>Values\<close>

datatype json =
    JNull
  | JBool bool
  | JNum jnum
  | JStr string
  | JArr "json list"
  | JObj "(string \<times> json) list"

fun jget :: "string \<Rightarrow> json \<Rightarrow> json option" where
  "jget k (JObj m) = map_of m k"
| "jget k _ = None"

fun as_str :: "json \<Rightarrow> string option" where
  "as_str (JStr s) = Some s"
| "as_str _ = None"

fun as_f64 :: "json \<Rightarrow> f64 option" where
  "as_f64 (JNum n) = Some (num_as_f64 n)"
| "as_f64 _ = None"

fun is_object :: "json \<Rightarrow> bool" where
  "is_object (JObj _) = True"
| "is_object _ = False"

fun is_array :: "json \<Rightarrow> bool" where
  "is_array (JArr _) = True"
| "is_array _ = False"

fun obj_insert :: "string \<Rightarrow> json \<Rightarrow> (string \<times> json) list \<Rightarrow> (string \<times> json) list" where
  "obj_insert k v [] = [(k, v)]"
| "obj_insert k v ((k', v') # m) =
     (if k = k' then (k, v) # m
      else if k < k' then (k, v) # (k', v') # m
      else (k', v') # obj_insert k v m)"

lemma map_of_obj_insert [simp]:
  "map_of (obj_insert k v m) k' = (if k' = k then Some v else map_of m k')"
  by (induction m) auto

lemma obj_insert_not_Nil [simp]: "obj_insert k v m \<noteq> []"
  by (cases "(k, v, m)" rule: obj_insert.cases) auto

lemma int_as_f64_exact: "\<bar>i\<bar> < 2 ^ 53 \<Longrightarrow> int_as_f64 i = Fin (of_int i)"
  by (auto simp: int_as_f64_def excess_bits_def Let_def nat_less_iff)

end
