(* ===== verification/Encryption.thy ===== *)
theory Encryption
  imports Json
begin

text \<open>
  Field-level encryption at rest (\<open>crates/arbiter-storage/src/encryption.rs\<close>): keys in hexadecimal,
  the versioned blob format with its legacy form, key rotation. The cipher, the base64 codec and
  the JSON codec for lists of strings are libraries and stay parameters; a nonce is an argument of
  the call that draws it.
\<close>

section \<open>Results without a state\<close>

fun rbind :: "('a, 'e) result \<Rightarrow> ('a \<Rightarrow> ('b, 'e) result) \<Rightarrow> ('b, 'e) result" where
  "rbind (Ok x) f = f x"
| "rbind (Err e) f = Err e"
| "rbind Panic f = Panic"

fun rmap_err :: "('e \<Rightarrow> 'f) \<Rightarrow> ('a, 'e) result \<Rightarrow> ('a, 'f) result" where
  "rmap_err f (Ok x) = Ok x"
| "rmap_err f (Err e) = Err (f e)"
| "rmap_err f Panic = Panic"

section \<open>White space\<close>

text \<open>The characters \<open>str::trim\<close> removes, as UTF-8.\<close>

definition WHITE_SPACE :: "string list" where
  "WHITE_SPACE = map (map (char_of :: nat \<Rightarrow> char))
     ([[9], [10], [11], [12], [13], [32], [194, 133], [194, 160], [225, 154, 128],
       [226, 128, 168], [226, 128, 169], [226, 128, 175], [226, 129, 159], [227, 128, 128]] @
      map (\<lambda>k. [226, 128, k]) [128..<139])"

function trim_front :: "string list \<Rightarrow> string \<Rightarrow> string" where
  "trim_front ws s =
     (case find (\<lambda>w. w \<noteq> [] \<and> starts_with w s) ws of
        None \<Rightarrow> s
      | Some w \<Rightarrow> trim_front ws (drop (length w) s))"
  by pat_completeness auto
termination
proof (relation "measure (\<lambda>(ws, s). length s)")
  fix ws s w
  assume "find (\<lambda>w. w \<noteq> [] \<and> starts_with w s) ws = Some w"
  then have "w \<noteq> []" "starts_with w s" by (auto simp: find_Some_iff)
  then show "((ws, drop (length w) s), ws, s) \<in> measure (\<lambda>(ws, s). length s)"
    by (cases s) (auto simp: starts_with_def)
qed simp

declare trim_front.simps [simp del]

definition str_trim :: "string \<Rightarrow> string" where
  "str_trim s = rev (trim_front (map rev WHITE_SPACE) (rev (trim_front WHITE_SPACE s)))"

section \<open>Keys\<close>

datatype encryption_error =
    InvalidKeyLength nat
  | InvalidHex string
  | EncryptionFailed string
  | DecryptionFailed string
  | InvalidCiphertext string

definition hex_digit_val :: "char \<Rightarrow> nat option" where
  "hex_digit_val c =
     (let n = of_char c :: nat
      in if 48 \<le> n \<and> n \<le> 57 then Some (n - 48)
         else if 97 \<le> n \<and> n \<le> 102 then Some (n - 87)
         else if 65 \<le> n \<and> n \<le> 70 then Some (n - 55)
         else None)"

text \<open>
  \<open>u8::from_str_radix\<close> on two bytes: two digits, or a plus sign and a digit. The text of its error
  is the argument.
\<close>

definition byte_from_hex :: "(char \<Rightarrow> char \<Rightarrow> string) \<Rightarrow> char \<Rightarrow> char \<Rightarrow> (char, encryption_error) result" where
  "byte_from_hex err a b =
     (case (hex_digit_val a, hex_digit_val b) of
        (Some h, Some l) \<Rightarrow> Ok (char_of (16 * h + l))
      | (None, Some l) \<Rightarrow> if a = CHR ''+'' then Ok (char_of l) else Err (InvalidHex (err a b))
      | _ \<Rightarrow> Err (InvalidHex (err a b)))"

definition not_boundary :: "char \<Rightarrow> bool" where
  "not_boundary c \<longleftrightarrow> utf8_continuation (of_char c)"

text \<open>The slices of two bytes panic when they cut a character.\<close>

fun hex_pairs :: "(char \<Rightarrow> char \<Rightarrow> string) \<Rightarrow> string \<Rightarrow> (string, encryption_error) result" where
  "hex_pairs err (a # b # s) =
     (if not_boundary a \<or> (s \<noteq> [] \<and> not_boundary (hd s)) then Panic
      else rbind (byte_from_hex err a b) (\<lambda>c. rbind (hex_pairs err s) (\<lambda>cs. Ok (c # cs))))"
| "hex_pairs err _ = Ok []"

definition hex_decode :: "(char \<Rightarrow> char \<Rightarrow> string) \<Rightarrow> string \<Rightarrow> (string, encryption_error) result" where
  "hex_decode err hex =
     (if odd (length hex) then Err (InvalidHex ''odd number of hex characters'') else hex_pairs err hex)"

record 'k crypto_env =
  cr_key :: "string \<Rightarrow> 'k"
  cr_seal :: "'k \<Rightarrow> string \<Rightarrow> string \<Rightarrow> (string, string) result"
  cr_open :: "'k \<Rightarrow> string \<Rightarrow> string \<Rightarrow> (string, string) result"
  cr_b64_encode :: "string \<Rightarrow> string"
  cr_b64_decode :: "string \<Rightarrow> (string, string) result"
  cr_vec_text :: "string list \<Rightarrow> string"
  cr_vec_from_text :: "string \<Rightarrow> (string list, string) result"
  cr_utf8_error :: "string \<Rightarrow> string"
  cr_hex_error :: "char \<Rightarrow> char \<Rightarrow> string"

record 'k field_encryptor =
  fe_cipher :: 'k
  fe_previous_cipher :: "'k option"

definition encryptor_new :: "'k crypto_env \<Rightarrow> string \<Rightarrow> 'k field_encryptor" where
  "encryptor_new cr key = \<lparr>fe_cipher = cr_key cr key, fe_previous_cipher = None\<rparr>"

definition with_previous_key :: "'k crypto_env \<Rightarrow> string \<Rightarrow> 'k field_encryptor \<Rightarrow> 'k field_encryptor" where
  "with_previous_key cr key fe = fe\<lparr>fe_previous_cipher := Some (cr_key cr key)\<rparr>"

definition parse_hex_key :: "'k crypto_env \<Rightarrow> string \<Rightarrow> (string, encryption_error) result" where
  "parse_hex_key cr hex_key =
     (let hex_key = str_trim hex_key
      in if length hex_key \<noteq> 64 then Err (InvalidKeyLength (length hex_key))
         else rbind (hex_decode (cr_hex_error cr) hex_key) (\<lambda>bytes.
           if length bytes \<noteq> 32 then Err (InvalidKeyLength 0) else Ok bytes))"

definition from_hex_key :: "'k crypto_env \<Rightarrow> string \<Rightarrow> ('k field_encryptor, encryption_error) result" where
  "from_hex_key cr hex_key = rbind (parse_hex_key cr hex_key) (\<lambda>key. Ok (encryptor_new cr key))"

definition with_previous_hex_key ::
  "'k crypto_env \<Rightarrow> string \<Rightarrow> 'k field_encryptor \<Rightarrow> ('k field_encryptor, encryption_error) result" where
  "with_previous_hex_key cr hex_key fe =
     rbind (parse_hex_key cr hex_key) (\<lambda>key. Ok (with_previous_key cr key fe))"

text \<open>The argument is the value of the environment variable, when it is set and valid text.\<close>

definition from_env ::
  "'k crypto_env \<Rightarrow> string option \<Rightarrow> ('k field_encryptor option, encryption_error) result" where
  "from_env cr var =
     (case var of
        Some v \<Rightarrow> if str_trim v \<noteq> [] then rbind (from_hex_key cr v) (\<lambda>fe. Ok (Some fe)) else Ok None
      | None \<Rightarrow> Ok None)"

section \<open>Fields\<close>

definition CURRENT_KEY_VERSION :: char where
  "CURRENT_KEY_VERSION = char_of (1 :: nat)"

definition encrypt_field ::
  "'k crypto_env \<Rightarrow> 'k field_encryptor \<Rightarrow> string \<Rightarrow> string \<Rightarrow> (string, encryption_error) result" where
  "encrypt_field cr fe nonce plaintext =
     rbind (rmap_err EncryptionFailed (cr_seal cr (fe_cipher fe) nonce plaintext)) (\<lambda>ciphertext.
       Ok (cr_b64_encode cr (CURRENT_KEY_VERSION # nonce @ ciphertext)))"

definition utf8_or_fail :: "'k crypto_env \<Rightarrow> string \<Rightarrow> (string, encryption_error) result" where
  "utf8_or_fail cr bytes =
     (case from_utf8 bytes of Some s \<Rightarrow> Ok s | None \<Rightarrow> Err (DecryptionFailed (cr_utf8_error cr bytes)))"

definition split_blob :: "string \<Rightarrow> (string \<times> string, encryption_error) result" where
  "split_blob combined =
     (if combined \<noteq> [] \<and> hd combined = CURRENT_KEY_VERSION \<and> length combined \<ge> 14
      then Ok (take 12 (drop 1 combined), drop 13 combined)
      else if length combined \<ge> 13 then Ok (take 12 combined, drop 12 combined)
      else Err (InvalidCiphertext ''ciphertext too short''))"

definition decrypt_field ::
  "'k crypto_env \<Rightarrow> 'k field_encryptor \<Rightarrow> string \<Rightarrow> (string, encryption_error) result" where
  "decrypt_field cr fe encoded =
     rbind (rmap_err InvalidCiphertext (cr_b64_decode cr encoded)) (\<lambda>combined.
       rbind (split_blob combined) (\<lambda>(nonce, ciphertext).
         case cr_open cr (fe_cipher fe) nonce ciphertext of
           Ok plaintext \<Rightarrow> utf8_or_fail cr plaintext
         | Panic \<Rightarrow> Panic
         | Err current_err \<Rightarrow>
             (case fe_previous_cipher fe of
                Some prev \<Rightarrow>
                  (case cr_open cr prev nonce ciphertext of
                     Ok plaintext \<Rightarrow> utf8_or_fail cr plaintext
                   | Err _ \<Rightarrow> Err (DecryptionFailed current_err)
                   | Panic \<Rightarrow> Panic)
              | None \<Rightarrow> Err (DecryptionFailed current_err))))"

definition encrypt_string_vec ::
  "'k crypto_env \<Rightarrow> 'k field_encryptor \<Rightarrow> string \<Rightarrow> string list \<Rightarrow> (string, encryption_error) result" where
  "encrypt_string_vec cr fe nonce values = encrypt_field cr fe nonce (cr_vec_text cr values)"

definition decrypt_string_vec ::
  "'k crypto_env \<Rightarrow> 'k field_encryptor \<Rightarrow> string \<Rightarrow> (string list, encryption_error) result" where
  "decrypt_string_vec cr fe ciphertext =
     rbind (decrypt_field cr fe ciphertext) (\<lambda>text. rmap_err DecryptionFailed (cr_vec_from_text cr text))"

section \<open>What the libraries promise\<close>

text \<open>
  Authenticated encryption opens what it sealed under the same key and nonce, adds a tag of sixteen
  bytes, and refuses a text sealed under another key or nonce; nonces have twelve bytes. The base64
  and JSON codecs invert.
\<close>

definition crypto_laws :: "'k crypto_env \<Rightarrow> bool" where
  "crypto_laws cr \<longleftrightarrow>
     (\<forall>k n p c. length n = 12 \<longrightarrow> cr_seal cr k n p = Ok c \<longrightarrow>
        cr_open cr k n c = Ok p \<and> length c = length p + 16 \<and>
        (\<forall>k' n'. (k', n') \<noteq> (k, n) \<longrightarrow> length n' = 12 \<longrightarrow> (\<exists>e. cr_open cr k' n' c = Err e))) \<and>
     (\<forall>b. cr_b64_decode cr (cr_b64_encode cr b) = Ok b)"

definition vec_codec :: "'k crypto_env \<Rightarrow> bool" where
  "vec_codec cr \<longleftrightarrow> (\<forall>xs. cr_vec_from_text cr (cr_vec_text cr xs) = Ok xs \<and>
     from_utf8 (cr_vec_text cr xs) = Some (cr_vec_text cr xs))"

lemma split_blob_versioned:
  "length nonce = 12 \<Longrightarrow> ciphertext \<noteq> [] \<Longrightarrow>
   split_blob (CURRENT_KEY_VERSION # nonce @ ciphertext) = Ok (nonce, ciphertext)"
  by (cases ciphertext) (simp_all add: split_blob_def)

lemma rmap_err_Ok [simp]: "rmap_err f r = Ok x \<longleftrightarrow> r = Ok x"
  by (cases r) auto

lemma rbind_Ok: "rbind r f = Ok y \<longleftrightarrow> (\<exists>x. r = Ok x \<and> f x = Ok y)"
  by (cases r) auto

lemma encrypt_field_Ok:
  assumes "encrypt_field cr fe nonce p = Ok blob"
  obtains c where "cr_seal cr (fe_cipher fe) nonce p = Ok c"
    "blob = cr_b64_encode cr (CURRENT_KEY_VERSION # nonce @ c)"
  using assms by (auto simp: encrypt_field_def rbind_Ok)

lemma decrypt_sealed:
  assumes laws: "crypto_laws cr" and "encrypt_field cr fe nonce p = Ok blob" and "length nonce = 12"
    and "from_utf8 p = Some p"
    and key: "fe_cipher fe' = fe_cipher fe \<or> fe_previous_cipher fe' = Some (fe_cipher fe)"
  shows "decrypt_field cr fe' blob = Ok p"
proof -
  obtain c where c: "cr_seal cr (fe_cipher fe) nonce p = Ok c"
    "blob = cr_b64_encode cr (CURRENT_KEY_VERSION # nonce @ c)"
    using assms(2) by (rule encrypt_field_Ok)
  have opened: "cr_open cr (fe_cipher fe) nonce c = Ok p" and "length c = length p + 16"
    and dec: "cr_b64_decode cr blob = Ok (CURRENT_KEY_VERSION # nonce @ c)"
    using laws c assms(3) by (auto simp: crypto_laws_def)
  then have split: "split_blob (CURRENT_KEY_VERSION # nonce @ c) = Ok (nonce, c)"
    using split_blob_versioned [OF assms(3), of c] by (cases c) auto
  have utf8: "utf8_or_fail cr p = Ok p" using assms(4) by (simp add: utf8_or_fail_def)
  show ?thesis
  proof (cases "fe_cipher fe' = fe_cipher fe")
    case True
    then show ?thesis using dec split opened utf8 by (simp add: decrypt_field_def)
  next
    case False
    then obtain e where "cr_open cr (fe_cipher fe') nonce c = Err e"
      using laws c(1) assms(3) unfolding crypto_laws_def by blast
    then show ?thesis using False key dec split opened utf8 by (simp add: decrypt_field_def)
  qed
qed

section \<open>Properties\<close>

text \<open>
  Encrypted fields survive key rotation. A text that was encrypted, under whatever twelve byte
  nonce, decrypts to itself with the same key, and also with a new key as long as the old one is
  configured as the previous key.
\<close>

theorem encrypted_field_roundtrip:
  assumes "crypto_laws cr" and "encrypt_field cr fe nonce p = Ok blob" and "length nonce = 12"
    and "from_utf8 p = Some p"
  shows "decrypt_field cr fe blob = Ok p \<and>
    decrypt_field cr \<lparr>fe_cipher = new_key, fe_previous_cipher = Some (fe_cipher fe)\<rparr> blob = Ok p"
  using decrypt_sealed [OF assms] by simp

definition demo_tag :: "bool \<Rightarrow> string \<Rightarrow> string" where
  "demo_tag k n = (if k then CHR ''a'' else CHR ''b'') # ''tag'' @ n"

definition demo_crypto :: "bool crypto_env" where
  "demo_crypto = \<lparr>cr_key = (\<lambda>b. b = []),
     cr_seal = (\<lambda>k n p. Ok (p @ demo_tag k n)),
     cr_open = (\<lambda>k n c. if 16 \<le> length c \<and> drop (length c - 16) c = demo_tag k n
                        then Ok (take (length c - 16) c) else Err ''aead::Error''),
     cr_b64_encode = id, cr_b64_decode = Ok, cr_vec_text = concat, cr_vec_from_text = (\<lambda>t. Ok [t]),
     cr_utf8_error = id, cr_hex_error = (\<lambda>_ _. ''invalid digit'')\<rparr>"

lemma demo_crypto_laws: "crypto_laws demo_crypto"
  by (auto simp: crypto_laws_def demo_crypto_def demo_tag_def split: if_splits)

theorem encrypted_field_roundtrip_witness:
  "decrypt_field demo_crypto \<lparr>fe_cipher = False, fe_previous_cipher = Some True\<rparr>
     (CURRENT_KEY_VERSION # ''twelve bytes'' @ ''secret'' @ demo_tag True ''twelve bytes'') = Ok ''secret''"
proof -
  have "encrypt_field demo_crypto \<lparr>fe_cipher = True, fe_previous_cipher = None\<rparr> ''twelve bytes'' ''secret'' =
      Ok (CURRENT_KEY_VERSION # ''twelve bytes'' @ ''secret'' @ demo_tag True ''twelve bytes'')"
    by (simp add: encrypt_field_def demo_crypto_def)
  moreover have "from_utf8 ''secret'' = Some ''secret''" by code_simp
  ultimately show ?thesis
    using encrypted_field_roundtrip [OF demo_crypto_laws, of "\<lparr>fe_cipher = True, fe_previous_cipher = None\<rparr>"
        "''twelve bytes''" "''secret''" _ False] by simp
qed

text \<open>
  Some legacy blobs cannot be read. A blob of the format without a version byte is read as a
  versioned one when its random nonce happens to start with the version byte: a text that was
  sealed under the configured key is refused, while the same text under another nonce is returned.
\<close>

theorem legacy_blob_misread:
  "\<exists>cr :: bool crypto_env. crypto_laws cr \<and>
     (\<exists>c. cr_seal cr True (CURRENT_KEY_VERSION # ''elevenbytes'') ''secret'' = Ok c \<and>
        decrypt_field cr \<lparr>fe_cipher = True, fe_previous_cipher = None\<rparr>
          (cr_b64_encode cr ((CURRENT_KEY_VERSION # ''elevenbytes'') @ c)) = Err (DecryptionFailed ''aead::Error'')) \<and>
     (\<exists>c. cr_seal cr True ''twelve bytes'' ''secret'' = Ok c \<and>
        decrypt_field cr \<lparr>fe_cipher = True, fe_previous_cipher = None\<rparr>
          (cr_b64_encode cr (''twelve bytes'' @ c)) = Ok ''secret'')"
proof -
  let ?fe = "\<lparr>fe_cipher = True, fe_previous_cipher = None\<rparr>"
  have "decrypt_field demo_crypto ?fe ((CURRENT_KEY_VERSION # ''elevenbytes'') @ ''secret'' @
      demo_tag True (CURRENT_KEY_VERSION # ''elevenbytes'')) = Err (DecryptionFailed ''aead::Error'')"
    by code_simp
  moreover have "decrypt_field demo_crypto ?fe (''twelve bytes'' @ ''secret'' @ demo_tag True ''twelve bytes'') =
      Ok ''secret''"
    by code_simp
  ultimately show ?thesis
    using demo_crypto_laws by (intro exI [of _ demo_crypto]) (simp add: demo_crypto_def)
qed

end
