(* ===== verification/Sqlite.thy ===== *)
theory Sqlite
  imports Registry_Storage Session_Storage Encryption
begin

text \<open>
  The SQLite backend (\<open>crates/arbiter-storage/src/sqlite.rs\<close>): its three tables as lists of rows in
  row order, the statements of the source over them, and the conversions between rows and stored
  records. A statement may fail for reasons the source does not decide (a lock, a constraint of the
  schema, the disk): \<open>db_faults\<close> lists what happens to the statements to come, and all succeed once
  it is exhausted. The text forms of identifiers, times and JSON lists are the record \<open>text_codec\<close>.
\<close>

section \<open>Tables\<close>

record agent_row =
  ar_id :: string
  ar_owner :: string
  ar_model :: string
  ar_capabilities :: string
  ar_trust_level :: string
  ar_created_at :: string
  ar_expires_at :: "string option"
  ar_active :: int

record session_row =
  er_session_id :: string
  er_agent_id :: string
  er_delegation_chain_snapshot :: string
  er_declared_intent :: string
  er_authorized_tools :: string
  er_time_limit_secs :: int
  er_call_budget :: int
  er_calls_made :: int
  er_rate_limit_per_minute :: "int option"
  er_rate_window_start :: string
  er_rate_window_calls :: int
  er_rate_limit_window_secs :: int
  er_data_sensitivity_ceiling :: string
  er_created_at :: string
  er_status :: string

record delegation_row =
  dr_id :: int
  dr_from_agent :: string
  dr_to_agent :: string
  dr_scope_narrowing :: string
  dr_created_at :: string
  dr_expires_at :: "string option"

record sqlite_db =
  db_agents :: "agent_row list"
  db_sessions :: "session_row list"
  db_delegations :: "delegation_row list"
  db_faults :: "string option list"
  db_drawn :: nat

record 'k text_codec =
  tc_uuid :: "uuid \<Rightarrow> string"
  tc_parse_uuid :: "string \<Rightarrow> (uuid, string) result"
  tc_rfc3339 :: "instant \<Rightarrow> string"
  tc_parse_rfc3339 :: "string \<Rightarrow> (instant, string) result"
  tc_unicode_lower :: "string \<Rightarrow> string"
  tc_rowid :: "delegation_row list \<Rightarrow> int"
  tc_past_deadline :: "instant \<Rightarrow> string \<Rightarrow> int \<Rightarrow> bool"
  tc_nonce :: "nat \<Rightarrow> string"
  tc_crypto :: "'k crypto_env"
  tc_encryptor :: "'k field_encryptor option"

definition statement :: "sqlite_db \<Rightarrow> (unit, storage_error) result \<times> sqlite_db" where
  "statement db =
     (case db_faults db of
        [] \<Rightarrow> (Ok (), db)
      | None # fs \<Rightarrow> (Ok (), db\<lparr>db_faults := fs\<rparr>)
      | Some e # fs \<Rightarrow> (Err (StBackend e), db\<lparr>db_faults := fs\<rparr>))"

fun collect :: "('a \<Rightarrow> ('b, 'e) result) \<Rightarrow> 'a list \<Rightarrow> ('b list, 'e) result" where
  "collect f [] = Ok []"
| "collect f (x # xs) = rbind (f x) (\<lambda>y. rbind (collect f xs) (\<lambda>ys. Ok (y # ys)))"

section \<open>Names of enumerations\<close>

fun stored_trust_level_display :: "stored_trust_level \<Rightarrow> string" where
  "stored_trust_level_display StoredUntrusted = ''untrusted''"
| "stored_trust_level_display StoredBasic = ''basic''"
| "stored_trust_level_display StoredVerified = ''verified''"
| "stored_trust_level_display StoredTrusted = ''trusted''"

definition stored_trust_level_from_str ::
  "(string \<Rightarrow> string) \<Rightarrow> string \<Rightarrow> (stored_trust_level, storage_error) result" where
  "stored_trust_level_from_str ul s =
     (let l = to_lowercase ul s
      in if l = ''untrusted'' then Ok StoredUntrusted else if l = ''basic'' then Ok StoredBasic
         else if l = ''verified'' then Ok StoredVerified else if l = ''trusted'' then Ok StoredTrusted
         else Err (StSerialization (''unknown trust level: '' @ s)))"

fun stored_session_status_display :: "stored_session_status \<Rightarrow> string" where
  "stored_session_status_display StoredActive = ''active''"
| "stored_session_status_display StoredClosed = ''closed''"
| "stored_session_status_display StoredExpired = ''expired''"

definition stored_session_status_from_str ::
  "(string \<Rightarrow> string) \<Rightarrow> string \<Rightarrow> (stored_session_status, storage_error) result" where
  "stored_session_status_from_str ul s =
     (let l = to_lowercase ul s
      in if l = ''active'' then Ok StoredActive else if l = ''closed'' then Ok StoredClosed
         else if l = ''expired'' then Ok StoredExpired
         else Err (StSerialization (''unknown session status: '' @ s)))"

fun stored_data_sensitivity_display :: "stored_data_sensitivity \<Rightarrow> string" where
  "stored_data_sensitivity_display StoredPublic = ''public''"
| "stored_data_sensitivity_display StoredInternal = ''internal''"
| "stored_data_sensitivity_display StoredConfidential = ''confidential''"
| "stored_data_sensitivity_display StoredRestricted = ''restricted''"

definition stored_data_sensitivity_from_str ::
  "(string \<Rightarrow> string) \<Rightarrow> string \<Rightarrow> (stored_data_sensitivity, storage_error) result" where
  "stored_data_sensitivity_from_str ul s =
     (let l = to_lowercase ul s
      in if l = ''public'' then Ok StoredPublic else if l = ''internal'' then Ok StoredInternal
         else if l = ''confidential'' then Ok StoredConfidential
         else if l = ''restricted'' then Ok StoredRestricted
         else Err (StSerialization (''unknown data sensitivity: '' @ s)))"

section \<open>Rows to records\<close>

definition parse_uuid_column ::
  "'k text_codec \<Rightarrow> string \<Rightarrow> string \<Rightarrow> (uuid, storage_error) result" where
  "parse_uuid_column tc what s =
     rmap_err (\<lambda>e. StSerialization (''invalid '' @ what @ '' UUID: '' @ e)) (tc_parse_uuid tc s)"

definition parse_time_column ::
  "'k text_codec \<Rightarrow> string \<Rightarrow> string \<Rightarrow> (instant, storage_error) result" where
  "parse_time_column tc what s =
     rmap_err (\<lambda>e. StSerialization (''invalid '' @ what @ '': '' @ e)) (tc_parse_rfc3339 tc s)"

definition parse_expiry_column ::
  "'k text_codec \<Rightarrow> string option \<Rightarrow> (instant option, storage_error) result" where
  "parse_expiry_column tc val =
     (case val of None \<Rightarrow> Ok None | Some s \<Rightarrow> rbind (parse_time_column tc ''expires_at'' s) (\<lambda>t. Ok (Some t)))"

definition parse_vec_column :: "'k text_codec \<Rightarrow> string \<Rightarrow> (string list, storage_error) result" where
  "parse_vec_column tc s = rmap_err StSerialization (cr_vec_from_text (tc_crypto tc) s)"

definition row_to_agent :: "'k text_codec \<Rightarrow> agent_row \<Rightarrow> (stored_agent, storage_error) result" where
  "row_to_agent tc row =
     rbind (parse_uuid_column tc ''agent'' (ar_id row)) (\<lambda>i.
     rbind (parse_vec_column tc (ar_capabilities row)) (\<lambda>capabilities.
     rbind (stored_trust_level_from_str (tc_unicode_lower tc) (ar_trust_level row)) (\<lambda>trust_level.
     rbind (parse_time_column tc ''created_at'' (ar_created_at row)) (\<lambda>created_at.
     rbind (parse_expiry_column tc (ar_expires_at row)) (\<lambda>expires_at.
       Ok \<lparr>sa_id = i, sa_owner = ar_owner row, sa_model = ar_model row,
           sa_capabilities = capabilities, sa_trust_level = trust_level, sa_created_at = created_at,
           sa_expires_at = expires_at, sa_active = (ar_active row \<noteq> 0)\<rparr>)))))"

definition row_to_delegation ::
  "'k text_codec \<Rightarrow> delegation_row \<Rightarrow> (stored_delegation_link, storage_error) result" where
  "row_to_delegation tc row =
     rbind (parse_uuid_column tc ''from_agent'' (dr_from_agent row)) (\<lambda>from_agent.
     rbind (parse_uuid_column tc ''to_agent'' (dr_to_agent row)) (\<lambda>to_agent.
     rbind (parse_vec_column tc (dr_scope_narrowing row)) (\<lambda>scope_narrowing.
     rbind (parse_time_column tc ''created_at'' (dr_created_at row)) (\<lambda>created_at.
     rbind (parse_expiry_column tc (dr_expires_at row)) (\<lambda>expires_at.
       Ok \<lparr>sl_id = dr_id row, sl_from_agent = from_agent, sl_to_agent = to_agent,
           sl_scope_narrowing = scope_narrowing, sl_created_at = created_at,
           sl_expires_at = expires_at\<rparr>)))))"

section \<open>Sensitive columns\<close>

text \<open>The text of an encryption error is its display form; only the wording of the errors that can
  reach a column is written out.\<close>

fun encryption_error_display :: "encryption_error \<Rightarrow> string" where
  "encryption_error_display (InvalidKeyLength n) =
     ''invalid key length: expected 32 bytes (64 hex chars), got '' @ show_nat n"
| "encryption_error_display (InvalidHex e) = ''invalid hex in encryption key: '' @ e"
| "encryption_error_display (EncryptionFailed e) = ''encryption failed: '' @ e"
| "encryption_error_display (DecryptionFailed e) = ''decryption failed: '' @ e"
| "encryption_error_display (InvalidCiphertext e) = ''invalid ciphertext: '' @ e"

abbreviation storage_encryption :: "('a, encryption_error) result \<Rightarrow> ('a, storage_error) result" where
  "storage_encryption r \<equiv> rmap_err (\<lambda>e. StEncryption (encryption_error_display e)) r"

definition write_field :: "'k text_codec \<Rightarrow> string \<Rightarrow> string \<Rightarrow> (string, storage_error) result" where
  "write_field tc nonce plaintext =
     (case tc_encryptor tc of
        Some fe \<Rightarrow> storage_encryption (encrypt_field (tc_crypto tc) fe nonce plaintext)
      | None \<Rightarrow> Ok plaintext)"

definition write_string_vec :: "'k text_codec \<Rightarrow> string \<Rightarrow> string list \<Rightarrow> (string, storage_error) result" where
  "write_string_vec tc nonce values =
     (case tc_encryptor tc of
        Some fe \<Rightarrow> storage_encryption (encrypt_string_vec (tc_crypto tc) fe nonce values)
      | None \<Rightarrow> Ok (cr_vec_text (tc_crypto tc) values))"

definition read_field :: "'k text_codec \<Rightarrow> string \<Rightarrow> (string, storage_error) result" where
  "read_field tc raw =
     (case tc_encryptor tc of
        Some fe \<Rightarrow> storage_encryption (decrypt_field (tc_crypto tc) fe raw)
      | None \<Rightarrow> Ok raw)"

definition read_string_vec :: "'k text_codec \<Rightarrow> string \<Rightarrow> (string list, storage_error) result" where
  "read_string_vec tc raw =
     (case tc_encryptor tc of
        Some fe \<Rightarrow> storage_encryption (decrypt_string_vec (tc_crypto tc) fe raw)
      | None \<Rightarrow> parse_vec_column tc raw)"

text \<open>Counters are unsigned in the record and signed in the column.\<close>

definition row_to_session :: "'k text_codec \<Rightarrow> session_row \<Rightarrow> (stored_session, storage_error) result" where
  "row_to_session tc row =
     rbind (parse_uuid_column tc ''session'' (er_session_id row)) (\<lambda>session_id.
     rbind (parse_uuid_column tc ''agent'' (er_agent_id row)) (\<lambda>agent_id.
     rbind (read_string_vec tc (er_delegation_chain_snapshot row)) (\<lambda>delegation_chain_snapshot.
     rbind (read_field tc (er_declared_intent row)) (\<lambda>declared_intent.
     rbind (read_string_vec tc (er_authorized_tools row)) (\<lambda>authorized_tools.
     rbind (parse_time_column tc ''rate_window_start'' (er_rate_window_start row)) (\<lambda>rate_window_start.
     rbind (stored_data_sensitivity_from_str (tc_unicode_lower tc) (er_data_sensitivity_ceiling row)) (\<lambda>ceiling.
     rbind (parse_time_column tc ''created_at'' (er_created_at row)) (\<lambda>created_at.
     rbind (stored_session_status_from_str (tc_unicode_lower tc) (er_status row)) (\<lambda>status.
       Ok \<lparr>sd_session_id = session_id, sd_agent_id = agent_id,
           sd_delegation_chain_snapshot = delegation_chain_snapshot, sd_declared_intent = declared_intent,
           sd_authorized_tools = authorized_tools, sd_time_limit_secs = er_time_limit_secs row,
           sd_call_budget = of_int (er_call_budget row), sd_calls_made = of_int (er_calls_made row),
           sd_rate_limit_per_minute = map_option of_int (er_rate_limit_per_minute row),
           sd_rate_window_start = rate_window_start, sd_rate_window_calls = of_int (er_rate_window_calls row),
           sd_rate_limit_window_secs = of_int (er_rate_limit_window_secs row),
           sd_data_sensitivity_ceiling = ceiling, sd_created_at = created_at, sd_status = status\<rparr>)))))))))"

definition session_to_row ::
  "'k text_codec \<Rightarrow> nat \<Rightarrow> stored_session \<Rightarrow> (session_row, storage_error) result" where
  "session_to_row tc drawn s =
     rbind (write_string_vec tc (tc_nonce tc drawn) (sd_delegation_chain_snapshot s)) (\<lambda>delegation_chain.
     rbind (write_field tc (tc_nonce tc (drawn + 1)) (sd_declared_intent s)) (\<lambda>declared_intent.
     rbind (write_string_vec tc (tc_nonce tc (drawn + 2)) (sd_authorized_tools s)) (\<lambda>authorized_tools.
       Ok \<lparr>er_session_id = tc_uuid tc (sd_session_id s), er_agent_id = tc_uuid tc (sd_agent_id s),
           er_delegation_chain_snapshot = delegation_chain, er_declared_intent = declared_intent,
           er_authorized_tools = authorized_tools, er_time_limit_secs = sd_time_limit_secs s,
           er_call_budget = sint (sd_call_budget s), er_calls_made = sint (sd_calls_made s),
           er_rate_limit_per_minute = map_option sint (sd_rate_limit_per_minute s),
           er_rate_window_start = tc_rfc3339 tc (sd_rate_window_start s),
           er_rate_window_calls = sint (sd_rate_window_calls s),
           er_rate_limit_window_secs = sint (sd_rate_limit_window_secs s),
           er_data_sensitivity_ceiling = stored_data_sensitivity_display (sd_data_sensitivity_ceiling s),
           er_created_at = tc_rfc3339 tc (sd_created_at s),
           er_status = stored_session_status_display (sd_status s)\<rparr>)))"

section \<open>Statements on agents\<close>

definition agent_to_row :: "'k text_codec \<Rightarrow> stored_agent \<Rightarrow> agent_row" where
  "agent_to_row tc a =
     \<lparr>ar_id = tc_uuid tc (sa_id a), ar_owner = sa_owner a, ar_model = sa_model a,
      ar_capabilities = cr_vec_text (tc_crypto tc) (sa_capabilities a),
      ar_trust_level = stored_trust_level_display (sa_trust_level a),
      ar_created_at = tc_rfc3339 tc (sa_created_at a),
      ar_expires_at = map_option (tc_rfc3339 tc) (sa_expires_at a),
      ar_active = of_bool (sa_active a)\<rparr>"

definition sqlite_insert_agent ::
  "'k text_codec \<Rightarrow> stored_agent \<Rightarrow> sqlite_db \<Rightarrow> (unit, storage_error) result \<times> sqlite_db" where
  "sqlite_insert_agent tc a db =
     and_then (statement db) (\<lambda>_ db. (Ok (), db\<lparr>db_agents := db_agents db @ [agent_to_row tc a]\<rparr>))"

definition agent_row_of :: "'k text_codec \<Rightarrow> uuid \<Rightarrow> sqlite_db \<Rightarrow> agent_row option" where
  "agent_row_of tc i db = find (\<lambda>r. ar_id r = tc_uuid tc i) (db_agents db)"

definition sqlite_get_agent ::
  "'k text_codec \<Rightarrow> uuid \<Rightarrow> sqlite_db \<Rightarrow> (stored_agent, storage_error) result \<times> sqlite_db" where
  "sqlite_get_agent tc i db =
     and_then (statement db) (\<lambda>_ db.
       case agent_row_of tc i db of
         None \<Rightarrow> (Err (StAgentNotFound i), db)
       | Some row \<Rightarrow> (row_to_agent tc row, db))"

definition update_agents ::
  "'k text_codec \<Rightarrow> uuid \<Rightarrow> (agent_row \<Rightarrow> agent_row) \<Rightarrow> sqlite_db \<Rightarrow>
   (unit, storage_error) result \<times> sqlite_db" where
  "update_agents tc i f db =
     and_then (statement db) (\<lambda>_ db.
       let rows = map (\<lambda>r. if ar_id r = tc_uuid tc i then f r else r) (db_agents db)
       in (if agent_row_of tc i db = None then Err (StAgentNotFound i) else Ok (), db\<lparr>db_agents := rows\<rparr>))"

definition sqlite_update_trust_level ::
  "'k text_codec \<Rightarrow> uuid \<Rightarrow> stored_trust_level \<Rightarrow> sqlite_db \<Rightarrow> (unit, storage_error) result \<times> sqlite_db" where
  "sqlite_update_trust_level tc i level db =
     update_agents tc i (\<lambda>r. r\<lparr>ar_trust_level := stored_trust_level_display level\<rparr>) db"

definition sqlite_deactivate_agent ::
  "'k text_codec \<Rightarrow> uuid \<Rightarrow> sqlite_db \<Rightarrow> (unit, storage_error) result \<times> sqlite_db" where
  "sqlite_deactivate_agent tc i db = update_agents tc i (\<lambda>r. r\<lparr>ar_active := 0\<rparr>) db"

definition sqlite_list_agents ::
  "'k text_codec \<Rightarrow> sqlite_db \<Rightarrow> (stored_agent list, storage_error) result \<times> sqlite_db" where
  "sqlite_list_agents tc db =
     and_then (statement db) (\<lambda>_ db. (collect (row_to_agent tc) (db_agents db), db))"

section \<open>Statements on delegations\<close>

definition link_to_row :: "'k text_codec \<Rightarrow> int \<Rightarrow> stored_delegation_link \<Rightarrow> delegation_row" where
  "link_to_row tc row_id l =
     \<lparr>dr_id = row_id, dr_from_agent = tc_uuid tc (sl_from_agent l), dr_to_agent = tc_uuid tc (sl_to_agent l),
      dr_scope_narrowing = cr_vec_text (tc_crypto tc) (sl_scope_narrowing l),
      dr_created_at = tc_rfc3339 tc (sl_created_at l),
      dr_expires_at = map_option (tc_rfc3339 tc) (sl_expires_at l)\<rparr>"

definition sqlite_insert_delegation ::
  "'k text_codec \<Rightarrow> stored_delegation_link \<Rightarrow> sqlite_db \<Rightarrow> (int, storage_error) result \<times> sqlite_db" where
  "sqlite_insert_delegation tc l db =
     and_then (statement db) (\<lambda>_ db.
       let row_id = tc_rowid tc (db_delegations db)
       in (Ok row_id, db\<lparr>db_delegations := db_delegations db @ [link_to_row tc row_id l]\<rparr>))"

definition select_delegations ::
  "'k text_codec \<Rightarrow> (delegation_row \<Rightarrow> bool) \<Rightarrow> sqlite_db \<Rightarrow>
   (stored_delegation_link list, storage_error) result \<times> sqlite_db" where
  "select_delegations tc P db =
     and_then (statement db) (\<lambda>_ db. (collect (row_to_delegation tc) (filter P (db_delegations db)), db))"

definition sqlite_get_delegations_from ::
  "'k text_codec \<Rightarrow> uuid \<Rightarrow> sqlite_db \<Rightarrow> (stored_delegation_link list, storage_error) result \<times> sqlite_db" where
  "sqlite_get_delegations_from tc i db = select_delegations tc (\<lambda>r. dr_from_agent r = tc_uuid tc i) db"

definition sqlite_get_delegations_to ::
  "'k text_codec \<Rightarrow> uuid \<Rightarrow> sqlite_db \<Rightarrow> (stored_delegation_link list, storage_error) result \<times> sqlite_db" where
  "sqlite_get_delegations_to tc i db = select_delegations tc (\<lambda>r. dr_to_agent r = tc_uuid tc i) db"

definition sqlite_list_delegations ::
  "'k text_codec \<Rightarrow> sqlite_db \<Rightarrow> (stored_delegation_link list, storage_error) result \<times> sqlite_db" where
  "sqlite_list_delegations tc db = select_delegations tc (\<lambda>_. True) db"

definition sqlite_ops :: "'k text_codec \<Rightarrow> sqlite_db agent_storage" where
  "sqlite_ops tc =
     \<lparr>ast_insert_agent = sqlite_insert_agent tc, ast_get_agent = sqlite_get_agent tc,
      ast_update_trust_level = sqlite_update_trust_level tc,
      ast_deactivate_agent = sqlite_deactivate_agent tc, ast_list_agents = sqlite_list_agents tc,
      ast_insert_delegation = sqlite_insert_delegation tc,
      ast_delegations_from = sqlite_get_delegations_from tc,
      ast_delegations_to = sqlite_get_delegations_to tc\<rparr>"

section \<open>Statements on sessions\<close>

definition draw :: "sqlite_db \<Rightarrow> sqlite_db" where
  "draw db = db\<lparr>db_drawn := db_drawn db + 3\<rparr>"

definition sqlite_insert_session ::
  "'k text_codec \<Rightarrow> stored_session \<Rightarrow> sqlite_db \<Rightarrow> (unit, storage_error) result \<times> sqlite_db" where
  "sqlite_insert_session tc s db =
     and_then (session_to_row tc (db_drawn db) s, draw db) (\<lambda>row db.
       and_then (statement db) (\<lambda>_ db. (Ok (), db\<lparr>db_sessions := db_sessions db @ [row]\<rparr>)))"

definition session_row_of :: "'k text_codec \<Rightarrow> uuid \<Rightarrow> sqlite_db \<Rightarrow> session_row option" where
  "session_row_of tc i db = find (\<lambda>r. er_session_id r = tc_uuid tc i) (db_sessions db)"

definition sqlite_get_session ::
  "'k text_codec \<Rightarrow> uuid \<Rightarrow> sqlite_db \<Rightarrow> (stored_session, storage_error) result \<times> sqlite_db" where
  "sqlite_get_session tc i db =
     and_then (statement db) (\<lambda>_ db.
       case session_row_of tc i db of
         None \<Rightarrow> (Err (StSessionNotFound i), db)
       | Some row \<Rightarrow> (row_to_session tc row, db))"

definition sqlite_update_session ::
  "'k text_codec \<Rightarrow> stored_session \<Rightarrow> sqlite_db \<Rightarrow> (unit, storage_error) result \<times> sqlite_db" where
  "sqlite_update_session tc s db =
     and_then (session_to_row tc (db_drawn db) s, draw db) (\<lambda>row db.
       and_then (statement db) (\<lambda>_ db.
         let rows = map (\<lambda>r. if er_session_id r = tc_uuid tc (sd_session_id s) then row else r) (db_sessions db)
         in (if session_row_of tc (sd_session_id s) db = None then Err (StSessionNotFound (sd_session_id s))
             else Ok (), db\<lparr>db_sessions := rows\<rparr>)))"

definition row_expired :: "'k text_codec \<Rightarrow> instant \<Rightarrow> session_row \<Rightarrow> bool" where
  "row_expired tc now r \<longleftrightarrow>
     er_status r = ''expired'' \<or>
     er_status r = ''active'' \<and> tc_past_deadline tc now (er_created_at r) (er_time_limit_secs r)"

definition sqlite_delete_expired_sessions ::
  "'k text_codec \<Rightarrow> instant \<Rightarrow> sqlite_db \<Rightarrow> (nat, storage_error) result \<times> sqlite_db" where
  "sqlite_delete_expired_sessions tc now db =
     and_then (statement db) (\<lambda>_ db.
       (Ok (length (filter (row_expired tc now) (db_sessions db))),
        db\<lparr>db_sessions := filter (\<lambda>r. \<not> row_expired tc now r) (db_sessions db)\<rparr>))"

definition sqlite_list_sessions ::
  "'k text_codec \<Rightarrow> sqlite_db \<Rightarrow> (stored_session list, storage_error) result \<times> sqlite_db" where
  "sqlite_list_sessions tc db =
     and_then (statement db) (\<lambda>_ db. (collect (row_to_session tc) (db_sessions db), db))"

text \<open>The backend as the session store sees it; errors reach it as text.\<close>

definition sqlite_session_ops :: "'k text_codec \<Rightarrow> instant \<Rightarrow> sqlite_db session_storage" where
  "sqlite_session_ops tc now =
     \<lparr>sto_insert = (\<lambda>s db. map_err (storage_error_display (tc_uuid tc)) (sqlite_insert_session tc s db)),
      sto_update = (\<lambda>s db. map_err (storage_error_display (tc_uuid tc)) (sqlite_update_session tc s db)),
      sto_list = (\<lambda>db. fst (map_err (storage_error_display (tc_uuid tc)) (sqlite_list_sessions tc db))),
      sto_delete_expired = (\<lambda>db. map_err (storage_error_display (tc_uuid tc))
         (sqlite_delete_expired_sessions tc now db))\<rparr>"

section \<open>Round trips\<close>

text \<open>What the text codecs promise.\<close>

definition codec_laws :: "'k text_codec \<Rightarrow> bool" where
  "codec_laws tc \<longleftrightarrow>
     (\<forall>i. tc_parse_uuid tc (tc_uuid tc i) = Ok i) \<and>
     (\<forall>t. tc_parse_rfc3339 tc (tc_rfc3339 tc t) = Ok t) \<and>
     vec_codec (tc_crypto tc)"

lemma codec_lawsD [simp]:
  assumes "codec_laws tc"
  shows "parse_uuid_column tc w (tc_uuid tc i) = Ok i"
    and "parse_time_column tc w (tc_rfc3339 tc t) = Ok t"
    and "parse_vec_column tc (cr_vec_text (tc_crypto tc) xs) = Ok xs"
    and "tc_uuid tc i = tc_uuid tc j \<longleftrightarrow> i = j"
proof -
  show "tc_uuid tc i = tc_uuid tc j \<longleftrightarrow> i = j"
    using assms unfolding codec_laws_def by (metis result.inject(1))
qed (use assms in \<open>simp_all add: codec_laws_def vec_codec_def parse_uuid_column_def
    parse_time_column_def parse_vec_column_def\<close>)

lemma parse_expiry_column_rfc3339 [simp]:
  "codec_laws tc \<Longrightarrow> parse_expiry_column tc (map_option (tc_rfc3339 tc) e) = Ok e"
  by (cases e) (simp_all add: parse_expiry_column_def)

lemmas lower_defs = to_lowercase_def is_ascii_def ascii_lower_def Let_def

lemma trust_level_name_roundtrip [simp]:
  "stored_trust_level_from_str ul (stored_trust_level_display l) = Ok l"
  by (cases l) (simp_all add: stored_trust_level_from_str_def lower_defs)

lemma session_status_name_roundtrip [simp]:
  "stored_session_status_from_str ul (stored_session_status_display st) = Ok st"
  by (cases st) (simp_all add: stored_session_status_from_str_def lower_defs)

lemma data_sensitivity_name_roundtrip [simp]:
  "stored_data_sensitivity_from_str ul (stored_data_sensitivity_display d) = Ok d"
  by (cases d) (simp_all add: stored_data_sensitivity_from_str_def lower_defs)

lemma row_to_agent_to_row [simp]: "codec_laws tc \<Longrightarrow> row_to_agent tc (agent_to_row tc a) = Ok a"
  by (cases a) (simp add: row_to_agent_def agent_to_row_def)

lemma row_to_link_to_row [simp]:
  "codec_laws tc \<Longrightarrow> row_to_delegation tc (link_to_row tc k l) = Ok (l\<lparr>sl_id := k\<rparr>)"
  by (cases l) (simp add: row_to_delegation_def link_to_row_def)

lemma write_field_read [simp]:
  assumes "crypto_laws (tc_crypto tc)" and "length nonce = 12" and "from_utf8 p = Some p"
    and "write_field tc nonce p = Ok t"
  shows "read_field tc t = Ok p"
  using assms decrypt_sealed [OF assms(1) _ assms(2,3)]
  by (auto simp: write_field_def read_field_def split: option.splits)

lemma write_string_vec_read [simp]:
  assumes "codec_laws tc" and "crypto_laws (tc_crypto tc)" and "length nonce = 12"
    and "write_string_vec tc nonce xs = Ok t"
  shows "read_string_vec tc t = Ok xs"
proof (cases "tc_encryptor tc")
  case None
  then show ?thesis using assms by (auto simp: write_string_vec_def read_string_vec_def)
next
  case (Some fe)
  let ?text = "cr_vec_text (tc_crypto tc) xs"
  have vec: "cr_vec_from_text (tc_crypto tc) ?text = Ok xs" "from_utf8 ?text = Some ?text"
    using assms(1) by (simp_all add: codec_laws_def vec_codec_def)
  have "encrypt_field (tc_crypto tc) fe nonce ?text = Ok t"
    using assms(4) Some by (simp add: write_string_vec_def encrypt_string_vec_def)
  then have "decrypt_field (tc_crypto tc) fe t = Ok ?text"
    using decrypt_sealed [OF assms(2) _ assms(3) vec(2)] by simp
  with vec Some show ?thesis by (simp add: read_string_vec_def decrypt_string_vec_def)
qed

lemma session_row_roundtrip:
  assumes "codec_laws tc" and "crypto_laws (tc_crypto tc)" and nonces: "\<forall>n. length (tc_nonce tc n) = 12"
    and "from_utf8 (sd_declared_intent s) = Some (sd_declared_intent s)"
    and "session_to_row tc drawn s = Ok row"
  shows "row_to_session tc row = Ok s"
proof -
  obtain chain intent tools where
    w: "write_string_vec tc (tc_nonce tc drawn) (sd_delegation_chain_snapshot s) = Ok chain"
    "write_field tc (tc_nonce tc (drawn + 1)) (sd_declared_intent s) = Ok intent"
    "write_string_vec tc (tc_nonce tc (drawn + 2)) (sd_authorized_tools s) = Ok tools"
    and row: "er_session_id row = tc_uuid tc (sd_session_id s)" "er_agent_id row = tc_uuid tc (sd_agent_id s)"
    "er_delegation_chain_snapshot row = chain" "er_declared_intent row = intent" "er_authorized_tools row = tools"
    "er_time_limit_secs row = sd_time_limit_secs s" "er_call_budget row = sint (sd_call_budget s)"
    "er_calls_made row = sint (sd_calls_made s)"
    "er_rate_limit_per_minute row = map_option sint (sd_rate_limit_per_minute s)"
    "er_rate_window_start row = tc_rfc3339 tc (sd_rate_window_start s)"
    "er_rate_window_calls row = sint (sd_rate_window_calls s)"
    "er_rate_limit_window_secs row = sint (sd_rate_limit_window_secs s)"
    "er_data_sensitivity_ceiling row = stored_data_sensitivity_display (sd_data_sensitivity_ceiling s)"
    "er_created_at row = tc_rfc3339 tc (sd_created_at s)"
    "er_status row = stored_session_status_display (sd_status s)"
    using assms(5) by (auto simp: session_to_row_def rbind_Ok)
  have r: "read_string_vec tc chain = Ok (sd_delegation_chain_snapshot s)"
    "read_field tc intent = Ok (sd_declared_intent s)" "read_string_vec tc tools = Ok (sd_authorized_tools s)"
    using write_string_vec_read [OF assms(1,2)] write_field_read [OF assms(2) _ assms(4)] nonces w by blast+
  show ?thesis
    by (simp add: row_to_session_def row r assms(1) option.map_comp comp_def option.map_ident)
qed

section \<open>The contract of the registry\<close>

text \<open>
  A database is healthy when its statements succeed and its agent and delegation rows were written
  by this code.
\<close>

definition sqlite_healthy :: "'k text_codec \<Rightarrow> sqlite_db \<Rightarrow> bool" where
  "sqlite_healthy tc db \<longleftrightarrow>
     codec_laws tc \<and> db_faults db = [] \<and>
     db_agents db \<in> lists (range (agent_to_row tc)) \<and>
     db_delegations db \<in> lists (\<Union>k. range (link_to_row tc k))"

definition sqlite_look :: "'k text_codec \<Rightarrow> sqlite_db \<Rightarrow> uuid \<Rightarrow> agent option" where
  "sqlite_look tc db i =
     (case agent_row_of tc i db of
        Some r \<Rightarrow> (case row_to_agent tc r of Ok s \<Rightarrow> Some (stored_agent_to_domain s) | _ \<Rightarrow> None)
      | None \<Rightarrow> None)"

definition sqlite_links :: "'k text_codec \<Rightarrow> sqlite_db \<Rightarrow> delegation_link list" where
  "sqlite_links tc db =
     (case collect (row_to_delegation tc) (db_delegations db) of
        Ok ls \<Rightarrow> map stored_delegation_to_domain ls | _ \<Rightarrow> [])"

lemma stored_domain_inverse [simp]:
  "stored_agent_to_domain (domain_agent_to_stored a) = a"
  "domain_agent_to_stored (stored_agent_to_domain s) = s"
proof -
  have t: "stored_to_trust_level (trust_level_to_stored l) = l"
    "trust_level_to_stored (stored_to_trust_level m) = m" for l m
    by (cases l; simp) (cases m; simp)
  show "stored_agent_to_domain (domain_agent_to_stored a) = a"
    "domain_agent_to_stored (stored_agent_to_domain s) = s"
    by (simp_all add: stored_agent_to_domain_def domain_agent_to_stored_def t)
qed

lemma statement_ok [simp]: "db_faults db = [] \<Longrightarrow> statement db = (Ok (), db)"
  by (simp add: statement_def)

lemma agent_row_of_healthy:
  assumes "sqlite_healthy tc db" and "agent_row_of tc i db = Some r"
  obtains s where "r = agent_to_row tc s" "sa_id s = i"
proof -
  have r: "r \<in> set (db_agents db)" "ar_id r = tc_uuid tc i"
    using assms(2) by (auto simp: agent_row_of_def find_Some_iff)
  moreover obtain s where "r = agent_to_row tc s"
    using assms(1) r(1) unfolding sqlite_healthy_def by auto
  ultimately show thesis
    using that assms(1) by (simp add: agent_to_row_def sqlite_healthy_def)
qed

lemma find_map_update:
  "(\<And>r. key (f r) = key r) \<Longrightarrow>
   find (\<lambda>r. key r = k) (map (\<lambda>r. if key r = j then f r else r) rs) =
     map_option (\<lambda>r. if key r = j then f r else r) (find (\<lambda>r. key r = k) rs)"
  by (induction rs) auto

lemma link_row_columns:
  "dr_from_agent (link_to_row tc k l) = tc_uuid tc (sl_from_agent l)"
  "dr_to_agent (link_to_row tc k l) = tc_uuid tc (sl_to_agent l)"
  by (simp_all add: link_to_row_def)

lemma collect_links:
  assumes "codec_laws tc" and "rows \<in> lists (\<Union>k. range (link_to_row tc k))"
    and "\<And>k l. P (link_to_row tc k l) \<longleftrightarrow> Q (stored_delegation_to_domain l)"
  shows "\<exists>ls all. collect (row_to_delegation tc) (filter P rows) = Ok ls \<and>
    collect (row_to_delegation tc) rows = Ok all \<and>
    map stored_delegation_to_domain ls = filter Q (map stored_delegation_to_domain all)"
  using assms(2)
proof (induction rows)
  case (Cons r rows)
  then obtain k l where r: "r = link_to_row tc k l" by auto
  have d: "stored_delegation_to_domain (l\<lparr>sl_id := k\<rparr>) = stored_delegation_to_domain l"
    by (simp add: stored_delegation_to_domain_def)
  from Cons obtain ls all where "collect (row_to_delegation tc) (filter P rows) = Ok ls"
    "collect (row_to_delegation tc) rows = Ok all"
    "map stored_delegation_to_domain ls = filter Q (map stored_delegation_to_domain all)"
    by auto
  then show ?case using r d assms(1,3) by simp
qed simp

lemma select_healthy:
  assumes "sqlite_healthy tc db"
    and "\<And>k l. P (link_to_row tc k l) \<longleftrightarrow> Q (stored_delegation_to_domain l)"
  shows "\<exists>ls. select_delegations tc P db = (Ok ls, db) \<and>
    map stored_delegation_to_domain ls = filter Q (sqlite_links tc db)"
  using collect_links [of tc "db_delegations db" P Q] assms
  by (auto simp: sqlite_healthy_def select_delegations_def sqlite_links_def)

lemma sqlite_deactivate_law:
  assumes h: "sqlite_healthy tc db" and look: "sqlite_look tc db i = Some a"
  shows "\<exists>db'. sqlite_healthy tc db' \<and>
    sqlite_look tc db' = (sqlite_look tc db)(i \<mapsto> a\<lparr>ag_active := False\<rparr>) \<and>
    sqlite_links tc db' = sqlite_links tc db \<and> ast_deactivate_agent (sqlite_ops tc) i db = (Ok (), db')"
proof -
  let ?f = "\<lambda>r. r\<lparr>ar_active := 0\<rparr>"
  let ?db = "db\<lparr>db_agents := map (\<lambda>r. if ar_id r = tc_uuid tc i then ?f r else r) (db_agents db)\<rparr>"
  have f: "db_faults db = []" and c: "codec_laws tc" using h by (simp_all add: sqlite_healthy_def)
  obtain r where row: "agent_row_of tc i db = Some r" using look by (auto simp: sqlite_look_def split: option.splits)
  with h obtain s where s: "r = agent_to_row tc s" "sa_id s = i" by (rule agent_row_of_healthy)
  have a: "a = stored_agent_to_domain s" using look row s(1) c by (simp add: sqlite_look_def)
  have upd: "?f (agent_to_row tc s) = agent_to_row tc (s\<lparr>sa_active := False\<rparr>)" for s
    by (simp add: agent_to_row_def)
  have rows: "agent_row_of tc j ?db = map_option (\<lambda>r. if ar_id r = tc_uuid tc i then ?f r else r) (agent_row_of tc j db)" for j
    unfolding agent_row_of_def by (simp add: find_map_update [of ar_id ?f])
  have "sqlite_look tc ?db j = ((sqlite_look tc db)(i \<mapsto> a\<lparr>ag_active := False\<rparr>)) j" for j
  proof (cases "j = i")
    case True
    have "ar_id (agent_to_row tc s) = tc_uuid tc i" using s(2) by (simp add: agent_to_row_def)
    then have "agent_row_of tc i ?db = Some (agent_to_row tc (s\<lparr>sa_active := False\<rparr>))"
      using rows [of i] row s(1) upd [of s] by simp
    then show ?thesis using True a c by (simp add: sqlite_look_def stored_agent_to_domain_def)
  next
    case False
    have "ar_id r \<noteq> tc_uuid tc i" if "agent_row_of tc j db = Some r" for r
      using that False c by (auto simp: agent_row_of_def find_Some_iff)
    then show ?thesis using False rows [of j]
      by (cases "agent_row_of tc j db") (simp_all add: sqlite_look_def)
  qed
  moreover have "sqlite_healthy tc ?db" using h upd by (auto simp: sqlite_healthy_def in_lists_conv_set image_iff) metis
  moreover have "ast_deactivate_agent (sqlite_ops tc) i db = (Ok (), ?db)"
    using f row by (simp add: sqlite_ops_def sqlite_deactivate_agent_def update_agents_def Let_def)
  moreover have "sqlite_links tc ?db = sqlite_links tc db" by (simp add: sqlite_links_def)
  ultimately show ?thesis by blast
qed

lemma collect_append_Ok:
  "collect f xs = Ok ys \<Longrightarrow> f x = Ok y \<Longrightarrow> collect f (xs @ [x]) = Ok (ys @ [y])"
  by (induction xs arbitrary: ys) (auto simp: rbind_Ok)

lemma sqlite_insert_link_law:
  assumes h: "sqlite_healthy tc db"
  shows "\<exists>k db'. sqlite_healthy tc db' \<and> sqlite_look tc db' = sqlite_look tc db \<and>
    sqlite_links tc db' = sqlite_links tc db @ [stored_delegation_to_domain l] \<and>
    ast_insert_delegation (sqlite_ops tc) l db = (Ok k, db')"
proof -
  let ?k = "tc_rowid tc (db_delegations db)"
  let ?db = "db\<lparr>db_delegations := db_delegations db @ [link_to_row tc ?k l]\<rparr>"
  have f: "db_faults db = []" and c: "codec_laws tc" using h by (simp_all add: sqlite_healthy_def)
  obtain all where all: "collect (row_to_delegation tc) (db_delegations db) = Ok all"
    using collect_links [OF c, of "db_delegations db" "\<lambda>_. True" "\<lambda>_. True"] h by (auto simp: sqlite_healthy_def)
  have "collect (row_to_delegation tc) (db_delegations ?db) = Ok (all @ [l\<lparr>sl_id := ?k\<rparr>])"
    using collect_append_Ok [OF all row_to_link_to_row [OF c, of ?k l]] by simp
  then have "sqlite_links tc ?db = sqlite_links tc db @ [stored_delegation_to_domain l]"
    using all by (simp add: sqlite_links_def stored_delegation_to_domain_def)
  moreover have "sqlite_healthy tc ?db" using h by (auto simp: sqlite_healthy_def)
  moreover have "sqlite_look tc ?db = sqlite_look tc db" by (simp add: sqlite_look_def agent_row_of_def fun_eq_iff)
  moreover have "ast_insert_delegation (sqlite_ops tc) l db = (Ok ?k, ?db)"
    using f by (simp add: sqlite_ops_def sqlite_insert_delegation_def Let_def)
  ultimately show ?thesis by blast
qed

interpretation sq: agent_tables "sqlite_ops tc" "sqlite_healthy tc" "sqlite_look tc" "sqlite_links tc"
proof unfold_locales
  fix db :: sqlite_db and i a l
  assume h: "sqlite_healthy tc db"
  have f: "db_faults db = []" and c: "codec_laws tc" using h by (simp_all add: sqlite_healthy_def)
  show "\<exists>db'. sqlite_healthy tc db' \<and> sqlite_look tc db' = sqlite_look tc db \<and>
      sqlite_links tc db' = sqlite_links tc db \<and> ast_get_agent (sqlite_ops tc) i db =
      (case sqlite_look tc db i of Some a \<Rightarrow> Ok (domain_agent_to_stored a) | None \<Rightarrow> Err (StAgentNotFound i), db')"
  proof (intro exI [of _ db] conjI refl h, cases "agent_row_of tc i db")
    case None
    then show "ast_get_agent (sqlite_ops tc) i db = (case sqlite_look tc db i of
        Some a \<Rightarrow> Ok (domain_agent_to_stored a) | None \<Rightarrow> Err (StAgentNotFound i), db)"
      using f by (simp add: sqlite_ops_def sqlite_get_agent_def sqlite_look_def)
  next
    case (Some r)
    with h obtain s where "r = agent_to_row tc s" by (rule agent_row_of_healthy)
    then show "ast_get_agent (sqlite_ops tc) i db = (case sqlite_look tc db i of
        Some a \<Rightarrow> Ok (domain_agent_to_stored a) | None \<Rightarrow> Err (StAgentNotFound i), db)"
      using f c Some by (simp add: sqlite_ops_def sqlite_get_agent_def sqlite_look_def)
  qed
  show "\<exists>ls db'. sqlite_healthy tc db' \<and> sqlite_look tc db' = sqlite_look tc db \<and>
      sqlite_links tc db' = sqlite_links tc db \<and>
      map stored_delegation_to_domain ls = filter (\<lambda>d. dl_from d = i) (sqlite_links tc db) \<and>
      ast_delegations_from (sqlite_ops tc) i db = (Ok ls, db')"
    using select_healthy [OF h, of "\<lambda>r. dr_from_agent r = tc_uuid tc i" "\<lambda>d. dl_from d = i"] h c
    by (auto simp: sqlite_ops_def sqlite_get_delegations_from_def link_row_columns stored_delegation_to_domain_def)
  show "\<exists>ls db'. sqlite_healthy tc db' \<and> sqlite_look tc db' = sqlite_look tc db \<and>
      sqlite_links tc db' = sqlite_links tc db \<and>
      map stored_delegation_to_domain ls = filter (\<lambda>d. dl_to d = i) (sqlite_links tc db) \<and>
      ast_delegations_to (sqlite_ops tc) i db = (Ok ls, db')"
    using select_healthy [OF h, of "\<lambda>r. dr_to_agent r = tc_uuid tc i" "\<lambda>d. dl_to d = i"] h c
    by (auto simp: sqlite_ops_def sqlite_get_delegations_to_def link_row_columns stored_delegation_to_domain_def)
qed (rule sqlite_deactivate_law sqlite_insert_link_law; assumption)+

end
