(* ===== verification/Sqlite_Props.thy ===== *)
theory Sqlite_Props
  imports Sqlite
begin

text \<open>
  What the registry and the session store promise when they run on SQLite. The contract
  \<open>agent_tables\<close> of the storage-backed registry is interpreted on the SQLite statements, so that its
  refinement lemmas speak about the database; the round trip of a session row carries the insertion
  and the lookup of a session.
\<close>

section \<open>Databases that hold a registry\<close>

definition sqlite_holds :: "'k text_codec \<Rightarrow> sqlite_db \<Rightarrow> registry \<Rightarrow> bool" where
  "sqlite_holds tc db rg \<longleftrightarrow>
     sqlite_healthy tc db \<and> sqlite_look tc db = map_of (rg_agents rg) \<and> sqlite_links tc db = rg_delegations rg"

lemmas sqlite_refinement =
  sq.cascade_refines [unfolded sq.holds_def, folded sqlite_holds_def]
  sq.create_delegation_stores [unfolded sq.holds_def, folded sqlite_holds_def]
  sq.get_agent_refines [unfolded sq.holds_def, folded sqlite_holds_def]

text \<open>The database that the registry's own insertions leave behind.\<close>

definition stored_link :: "delegation_link \<Rightarrow> stored_delegation_link" where
  "stored_link d = \<lparr>sl_id = 0, sl_from_agent = dl_from d, sl_to_agent = dl_to d,
     sl_scope_narrowing = dl_scope_narrowing d, sl_created_at = dl_created_at d, sl_expires_at = dl_expires_at d\<rparr>"

definition stored_registry :: "'k text_codec \<Rightarrow> registry \<Rightarrow> sqlite_db" where
  "stored_registry tc rg =
     \<lparr>db_agents = map (agent_to_row tc o domain_agent_to_stored o snd) (rg_agents rg), db_sessions = [],
      db_delegations = map (link_to_row tc 0 o stored_link) (rg_delegations rg), db_faults = [], db_drawn = 0\<rparr>"

lemma look_stored:
  "codec_laws tc \<Longrightarrow> list_all (\<lambda>(k, a). ag_id a = k) ags \<Longrightarrow>
   find (\<lambda>r. ar_id r = tc_uuid tc i) (map (agent_to_row tc o domain_agent_to_stored o snd) ags) =
     map_option (agent_to_row tc o domain_agent_to_stored) (map_of ags i)"
  by (induction ags) (auto simp: agent_to_row_def domain_agent_to_stored_def)

lemma links_stored:
  "codec_laws tc \<Longrightarrow>
   collect (row_to_delegation tc) (map (link_to_row tc 0 o stored_link) ds) = Ok (map stored_link ds)"
  by (induction ds) (simp_all add: stored_link_def)

lemma stored_link_inverse: "stored_delegation_to_domain (stored_link d) = d"
  by (simp add: stored_delegation_to_domain_def stored_link_def)

lemma sqlite_holds_stored:
  assumes "codec_laws tc" and "list_all (\<lambda>(k, a). ag_id a = k) (rg_agents rg)"
  shows "sqlite_holds tc (stored_registry tc rg) rg"
proof -
  have "sqlite_look tc (stored_registry tc rg) i = map_of (rg_agents rg) i" for i
    using look_stored [OF assms, of i] assms(1)
    by (cases "map_of (rg_agents rg) i") (simp_all add: sqlite_look_def agent_row_of_def stored_registry_def)
  moreover have "sqlite_links tc (stored_registry tc rg) = rg_delegations rg"
    using links_stored [OF assms(1), of "rg_delegations rg"]
    by (simp add: sqlite_links_def stored_registry_def stored_link_inverse comp_def)
  moreover have "sqlite_healthy tc (stored_registry tc rg)"
    using assms(1) by (auto simp: sqlite_healthy_def stored_registry_def in_lists_conv_set)
  ultimately show ?thesis by (auto simp: sqlite_holds_def)
qed

section \<open>A codec\<close>

text \<open>
  Text forms that satisfy the laws: a word in unary over its binary digits, an instant in unary
  with a sign, a list of strings as the binary digits of its bytes with commas between.
\<close>

definition bit_char :: "bool \<Rightarrow> char" where
  "bit_char b = (if b then CHR ''1'' else CHR ''0'')"

fun byte_text :: "char \<Rightarrow> string" where
  "byte_text (Char b0 b1 b2 b3 b4 b5 b6 b7) = map bit_char [b0, b1, b2, b3, b4, b5, b6, b7]"

definition string_text :: "string \<Rightarrow> string" where
  "string_text s = concat (map byte_text s) @ '',''"

definition list_text :: "string list \<Rightarrow> string" where
  "list_text xs = concat (map string_text xs)"

definition push_byte :: "char \<Rightarrow> string list \<Rightarrow> string list" where
  "push_byte c xs = (case xs of [] \<Rightarrow> [] | s # ss \<Rightarrow> (c # s) # ss)"

fun text_list :: "string \<Rightarrow> string list" where
  "text_list [] = []"
| "text_list (a0 # r) =
     (if a0 = CHR '','' then [] # text_list r
      else case r of
        a1 # a2 # a3 # a4 # a5 # a6 # a7 # r' \<Rightarrow>
          push_byte (Char (a0 = CHR ''1'') (a1 = CHR ''1'') (a2 = CHR ''1'') (a3 = CHR ''1'')
            (a4 = CHR ''1'') (a5 = CHR ''1'') (a6 = CHR ''1'') (a7 = CHR ''1'')) (text_list r')
      | _ \<Rightarrow> [])"

lemma bit_char_eqs [simp]:
  "bit_char b \<noteq> CHR '',''" "bit_char b = CHR ''1'' \<longleftrightarrow> b"
  by (simp_all add: bit_char_def)

lemma text_list_string: "text_list (string_text s @ r) = s # text_list r"
proof (induction s)
  case (Cons c s)
  then show ?case by (cases c) (simp add: string_text_def push_byte_def)
qed (simp add: string_text_def)

lemma text_list_list_text: "text_list (list_text xs) = xs"
  by (induction xs) (simp_all add: list_text_def text_list_string)

definition int_text :: "int \<Rightarrow> string" where
  "int_text i = (if i < 0 then CHR ''-'' # replicate (nat (- i)) (CHR ''1'') else replicate (nat i) (CHR ''1''))"

definition text_int :: "string \<Rightarrow> int" where
  "text_int s = (case s of c # r \<Rightarrow> if c = CHR ''-'' then - int (length r) else int (length s) | [] \<Rightarrow> 0)"

lemma text_int_int_text: "text_int (int_text i) = i"
proof (cases "i < 0")
  case False
  then show ?thesis by (cases "nat i") (auto simp: int_text_def text_int_def)
qed (simp add: int_text_def text_int_def)

definition sql_codec :: "bool field_encryptor option \<Rightarrow> bool text_codec" where
  "sql_codec fe =
     \<lparr>tc_uuid = int_text o uint, tc_parse_uuid = (\<lambda>s. Ok (word_of_int (text_int s))),
      tc_rfc3339 = int_text, tc_parse_rfc3339 = (\<lambda>s. Ok (text_int s)), tc_unicode_lower = id,
      tc_rowid = (\<lambda>rows. int (length rows) + 1),
      tc_past_deadline = (\<lambda>now created limit. now \<ge> text_int created + limit * 1000000000),
      tc_nonce = (\<lambda>n. ''twelve bytes''),
      tc_crypto = demo_crypto\<lparr>cr_vec_text := list_text, cr_vec_from_text := (\<lambda>s. Ok (text_list s))\<rparr>,
      tc_encryptor = fe\<rparr>"

lemma ascii_list_text: "c \<in> set (list_text xs) \<Longrightarrow> c = CHR ''0'' \<or> c = CHR ''1'' \<or> c = CHR '',''"
proof -
  have "c \<in> set (byte_text b) \<Longrightarrow> c = CHR ''0'' \<or> c = CHR ''1''" for b
    by (cases b) (auto simp: bit_char_def)
  then show "c \<in> set (list_text xs) \<Longrightarrow> c = CHR ''0'' \<or> c = CHR ''1'' \<or> c = CHR '',''"
    by (auto simp: list_text_def string_text_def split: if_splits)
qed

lemma utf8_ascii: "list_all (\<lambda>a. a < 128) bs \<Longrightarrow> utf8_bytes_ok bs"
  by (induction bs) auto

lemma sql_codec_laws: "codec_laws (sql_codec fe)" "crypto_laws (tc_crypto (sql_codec fe))"
proof -
  have "utf8_bytes_ok (map of_char (list_text xs))" for xs
  proof (rule utf8_ascii, unfold list_all_iff, rule ballI)
    fix a assume "a \<in> set (map of_char (list_text xs) :: nat list)"
    then show "a < 128" using ascii_list_text [of _ xs] by fastforce
  qed
  then show "codec_laws (sql_codec fe)"
    by (simp add: codec_laws_def vec_codec_def sql_codec_def text_int_int_text text_list_list_text from_utf8_def)
  have "crypto_laws (demo_crypto\<lparr>cr_vec_text := f, cr_vec_from_text := g\<rparr>)" for f g
    using demo_crypto_laws by (simp add: crypto_laws_def)
  then show "crypto_laws (tc_crypto (sql_codec fe))"
    by (simp add: sql_codec_def)
qed

lemma find_append: "find P (xs @ ys) = (case find P xs of None \<Rightarrow> find P ys | r \<Rightarrow> r)"
  by (induction xs) simp_all

section \<open>Properties\<close>

text \<open>
  C20: deactivating an agent on SQLite ends, and does what the registry in memory does. On a healthy
  database that holds a registry, the cascade returns the same answer and the same list of
  deactivated agents, and the database then holds the registry after the in-memory cascade.
\<close>

theorem sqlite_cascade_terminates_and_refines:
  assumes "sqlite_holds tc db rg"
  shows "\<exists>db'. sr_cascade_deactivate (sqlite_ops tc) us i db = Some (fst (cascade_deactivate i rg), db') \<and>
    sqlite_holds tc db' (snd (cascade_deactivate i rg))"
  using sqlite_refinement(1) [OF assms] .

definition sql_agent :: "uuid \<Rightarrow> agent" where
  "sql_agent i = \<lparr>ag_id = i, ag_owner = ''alice'', ag_model = ''m'', ag_capabilities = [''read''],
     ag_trust_level = Basic, ag_created_at = 0, ag_expires_at = None, ag_active = True\<rparr>"

definition sql_link :: "uuid \<Rightarrow> uuid \<Rightarrow> delegation_link" where
  "sql_link f t = \<lparr>dl_from = f, dl_to = t, dl_scope_narrowing = [''read''], dl_created_at = 0, dl_expires_at = None\<rparr>"

definition sql_registry :: registry where
  "sql_registry = \<lparr>rg_agents = [(1, sql_agent 1), (2, sql_agent 2), (3, sql_agent 3)],
     rg_delegations = [sql_link 1 2, sql_link 2 3]\<rparr>"

lemma sql_registry_ids: "list_all (\<lambda>(k, a). ag_id a = k) (rg_agents sql_registry)"
  by (simp add: sql_registry_def sql_agent_def)

lemmas sql_holds = sqlite_holds_stored [OF sql_codec_laws(1) sql_registry_ids]

theorem sqlite_cascade_terminates_and_refines_witness:
  "\<exists>db'. sr_cascade_deactivate (sqlite_ops (sql_codec None)) (\<lambda>_. []) 1
     (stored_registry (sql_codec None) sql_registry) = Some (Ok [1, 2, 3], db')"
proof -
  have "fst (cascade_deactivate 1 sql_registry) = Ok [1, 2, 3]" by code_simp
  with sqlite_cascade_terminates_and_refines [OF sql_holds, of None "\<lambda>_. []" 1] show ?thesis by auto
qed

text \<open>
  C31: sessions survive the database. With column encryption on or off, a session that was inserted
  without error, under an identifier the table did not have, is what the lookup of its identifier
  returns, as long as its intent is UTF-8 text, nonces have twelve bytes and the statement itself
  does not fail.
\<close>

theorem sqlite_session_roundtrip:
  assumes "codec_laws tc" and "crypto_laws (tc_crypto tc)" and "\<forall>n. length (tc_nonce tc n) = 12"
    and "from_utf8 (sd_declared_intent s) = Some (sd_declared_intent s)"
    and fresh: "session_row_of tc (sd_session_id s) db = None"
    and ins: "sqlite_insert_session tc s db = (Ok (), db')" and faults: "db_faults db' = []"
  shows "sqlite_get_session tc (sd_session_id s) db' = (Ok s, db')"
proof -
  obtain row where row: "session_to_row tc (db_drawn db) s = Ok row"
    "db_sessions db' = db_sessions db @ [row]"
    using ins by (auto simp: sqlite_insert_session_def and_then_Ok draw_def statement_def
        split: list.splits option.splits)
  have "er_session_id row = tc_uuid tc (sd_session_id s)"
    using row(1) by (auto simp: session_to_row_def rbind_Ok)
  then have "session_row_of tc (sd_session_id s) db' = Some row"
    using fresh row(2) by (simp add: session_row_of_def find_append)
  then show ?thesis
    using faults session_row_roundtrip [OF assms(1-4) row(1)] by (simp add: sqlite_get_session_def)
qed

definition sql_session :: stored_session where
  "sql_session = \<lparr>sd_session_id = 9, sd_agent_id = 1, sd_delegation_chain_snapshot = [''alice''],
     sd_declared_intent = ''read files'', sd_authorized_tools = [''read'', ''list''], sd_time_limit_secs = 60,
     sd_call_budget = 5, sd_calls_made = 2, sd_rate_limit_per_minute = Some 3, sd_rate_window_start = 0,
     sd_rate_window_calls = 0, sd_rate_limit_window_secs = 60, sd_data_sensitivity_ceiling = StoredInternal,
     sd_created_at = 7, sd_status = StoredActive\<rparr>"

theorem sqlite_session_roundtrip_witness:
  "let tc = sql_codec (Some \<lparr>fe_cipher = True, fe_previous_cipher = None\<rparr>);
       db = stored_registry tc sql_registry
   in \<exists>db'. sqlite_insert_session tc sql_session db = (Ok (), db') \<and>
        sqlite_get_session tc 9 db' = (Ok sql_session, db')"
proof -
  let ?tc = "sql_codec (Some \<lparr>fe_cipher = True, fe_previous_cipher = None\<rparr>)"
  let ?db = "stored_registry ?tc sql_registry"
  have row: "\<exists>row. session_to_row ?tc 0 sql_session = Ok row"
    by (simp add: session_to_row_def write_string_vec_def write_field_def encrypt_string_vec_def encrypt_field_def
        sql_codec_def demo_crypto_def)
  then obtain db' where ins: "sqlite_insert_session ?tc sql_session ?db = (Ok (), db')" "db_faults db' = []"
    by (auto simp: sqlite_insert_session_def draw_def stored_registry_def)
  have "\<forall>n. length (tc_nonce ?tc n) = 12" by (simp add: sql_codec_def)
  moreover have "from_utf8 (sd_declared_intent sql_session) = Some (sd_declared_intent sql_session)"
    by code_simp
  moreover have "session_row_of ?tc (sd_session_id sql_session) ?db = None"
    by (simp add: session_row_of_def stored_registry_def)
  ultimately have "sqlite_get_session ?tc (sd_session_id sql_session) db' = (Ok sql_session, db')"
    using sqlite_session_roundtrip [OF sql_codec_laws _ _ _ ins] by blast
  with ins(1) show ?thesis by (auto simp: sql_session_def)
qed

text \<open>
  The storage-backed registry accepts delegations without any scope, which the registry in
  memory always refuses. The link is stored whenever the two agents exist and have one owner, the
  delegating one is active and no cycle arises, however long the chain above it already is.
\<close>

theorem storage_accepts_empty_scope:
  assumes "sqlite_holds tc db rg" and "f \<noteq> t"
    and "lookup_agent rg f = Some parent" and "ag_active parent" and "lookup_agent rg t = Some target"
    and "ag_owner parent = ag_owner target" and "\<not> would_close_cycle (rg_delegations rg) t {f} f"
  shows "(\<exists>link db'. sr_create_delegation (sqlite_ops tc) us now f t [] expires db = Some (Ok link, db') \<and>
      dl_scope_narrowing link = [] \<and> link \<in> set (sqlite_links tc db')) \<and>
    \<not> is_ok (fst (create_delegation now f t [] expires rg))"
proof -
  let ?link = "\<lparr>dl_from = f, dl_to = t, dl_scope_narrowing = [], dl_created_at = now, dl_expires_at = expires\<rparr>"
  from sqlite_refinement(2) [OF assms(1-6) _ assms(7), of "[]" ?link now expires us]
  obtain db' where db': "sr_create_delegation (sqlite_ops tc) us now f t [] expires db = Some (Ok ?link, db')"
    "sqlite_holds tc db' (rg\<lparr>rg_delegations := rg_delegations rg @ [?link]\<rparr>)" by auto
  then have "?link \<in> set (sqlite_links tc db')" by (simp add: sqlite_holds_def)
  moreover have "\<not> is_ok (fst (create_delegation now f t [] expires rg))"
    using assms(2-6) by (simp add: create_delegation_def)
  ultimately show ?thesis using db'(1) by (intro conjI exI [of _ ?link] exI [of _ db']) simp_all
qed

theorem storage_accepts_empty_scope_witness:
  "\<exists>link db'. sr_create_delegation (sqlite_ops (sql_codec None)) (\<lambda>_. []) 5 1 3 [] None
     (stored_registry (sql_codec None) sql_registry) = Some (Ok link, db') \<and> dl_scope_narrowing link = []"
proof -
  have "\<not> would_close_cycle (rg_delegations sql_registry) 3 {1} 1" by code_simp
  moreover have "lookup_agent sql_registry 1 = Some (sql_agent 1)" "lookup_agent sql_registry 3 = Some (sql_agent 3)"
    by (simp_all add: sql_registry_def)
  ultimately show ?thesis
    using storage_accepts_empty_scope [OF sql_holds, of 1 3 "sql_agent 1" "sql_agent 3" None "\<lambda>_. []" 5 None]
    by (auto simp: sql_agent_def)
qed

end
