(* ===== verification/Proxy.thy ===== *)
theory Proxy
  imports Json
begin

text \<open>
  The basic middleware of \<open>crates/arbiter-proxy\<close> (\<open>middleware.rs\<close>): method allowlist, path
  blocker with its path normalization, required headers, and the chain built from the
  configuration. Header names are stored in lower case, as the HTTP library does.
\<close>

section \<open>Requests and responses\<close>

record http_request =
  hq_method :: string
  hq_path :: string
  hq_path_and_query :: string
  hq_headers :: "(string \<times> string) list"
  hq_body :: string

record http_response =
  hs_status :: nat
  hs_headers :: "(string \<times> string) list"
  hs_body :: string

definition header_get :: "string \<Rightarrow> (string \<times> string) list \<Rightarrow> string option" where
  "header_get name hs = map_of hs name"

definition header_contains_key :: "string \<Rightarrow> (string \<times> string) list \<Rightarrow> bool" where
  "header_contains_key name hs \<longleftrightarrow> header_get (map ascii_lower name) hs \<noteq> None"

definition header_remove :: "string \<Rightarrow> (string \<times> string) list \<Rightarrow> (string \<times> string) list" where
  "header_remove name hs = filter (\<lambda>h. fst h \<noteq> name) hs"

text \<open>\<open>HeaderMap::insert\<close> replaces every value of the name; \<open>append\<close> adds one.\<close>

definition header_insert :: "string \<Rightarrow> string \<Rightarrow> (string \<times> string) list \<Rightarrow> (string \<times> string) list" where
  "header_insert name v hs = header_remove name hs @ [(name, v)]"

definition header_append :: "string \<Rightarrow> string \<Rightarrow> (string \<times> string) list \<Rightarrow> (string \<times> string) list" where
  "header_append name v hs = hs @ [(name, v)]"

section \<open>Paths\<close>

definition hex_val :: "char \<Rightarrow> nat option" where
  "hex_val c =
     (let b = of_char c :: nat
      in if 48 \<le> b \<and> b \<le> 57 then Some (b - 48)
         else if 97 \<le> b \<and> b \<le> 102 then Some (b - 97 + 10)
         else if 65 \<le> b \<and> b \<le> 70 then Some (b - 65 + 10)
         else None)"

fun percent_decode_bytes :: "string \<Rightarrow> string" where
  "percent_decode_bytes [] = []"
| "percent_decode_bytes (c # s) =
     (case s of
        h # l # s' \<Rightarrow>
          (if c = CHR ''%'' then
             (case (hex_val h, hex_val l) of
                (Some hi, Some lo) \<Rightarrow> char_of (hi * 16 + lo) # percent_decode_bytes s'
              | _ \<Rightarrow> c # percent_decode_bytes s)
           else c # percent_decode_bytes s)
      | _ \<Rightarrow> c # percent_decode_bytes s)"

definition percent_decode :: "(string \<Rightarrow> string) \<Rightarrow> string \<Rightarrow> string" where
  "percent_decode lossy s = from_utf8_lossy lossy (percent_decode_bytes s)"

text \<open>The loop that collapses dot segments, on a stack of segments.\<close>

fun collapse_segments :: "string list \<Rightarrow> string list \<Rightarrow> string list" where
  "collapse_segments segments [] = segments"
| "collapse_segments segments (s # ss) =
     (if s = ''.'' then collapse_segments segments ss
      else if s = ''..'' then collapse_segments (butlast segments) ss
      else collapse_segments (segments @ [s]) ss)"

definition has_null :: "string \<Rightarrow> bool" where
  "has_null s \<longleftrightarrow> list_ex (\<lambda>c. (of_char c :: nat) = 0) s"

definition normalize_path :: "(string \<Rightarrow> string) \<Rightarrow> string \<Rightarrow> string option" where
  "normalize_path lossy path =
     (if has_null path then None
      else let decoded = percent_decode lossy path
           in if has_null decoded then None
              else let segments = collapse_segments [] (split_on (\<lambda>c. c = CHR ''/'') decoded);
                       normalized = ''/'' @ join_str ''/'' segments
                   in Some (str_replace ''//'' ''/'' normalized))"

section \<open>The chain\<close>

datatype middleware =
    MethodAllowlist "string list"
  | PathBlocker "string list"
  | RequiredHeaders "string list"

definition plain_response :: "nat \<Rightarrow> string \<Rightarrow> http_response" where
  "plain_response status body = \<lparr>hs_status = status, hs_headers = [], hs_body = body\<rparr>"

fun middleware_process ::
  "(string \<Rightarrow> string) \<Rightarrow> middleware \<Rightarrow> http_request \<Rightarrow> (http_request, http_response) result" where
  "middleware_process lossy (MethodAllowlist allowed) req =
     (if hq_method req \<notin> set allowed then Err (plain_response 405 ''Method Not Allowed'') else Ok req)"
| "middleware_process lossy (PathBlocker blocked) req =
     (case normalize_path lossy (hq_path req) of
        None \<Rightarrow> Err (plain_response 400 ''Bad Request'')
      | Some path \<Rightarrow>
          if list_ex (\<lambda>b. path = b \<or> hq_path req = b) blocked
          then Err (plain_response 403 ''Forbidden'') else Ok req)"
| "middleware_process lossy (RequiredHeaders required) req =
     (if list_ex (\<lambda>h. \<not> header_contains_key h (hq_headers req)) required
      then Err (plain_response 400 ''Bad Request'') else Ok req)"

definition default_safe :: middleware where
  "default_safe = MethodAllowlist [''GET'', ''POST'', ''PUT'', ''DELETE'', ''PATCH'', ''HEAD'', ''OPTIONS'']"

record middleware_config =
  mwc_blocked_paths :: "string list"
  mwc_required_headers :: "string list"

definition chain_from_config :: "middleware_config \<Rightarrow> middleware list" where
  "chain_from_config c =
     [default_safe] @
     (if mwc_blocked_paths c \<noteq> [] then [PathBlocker (mwc_blocked_paths c)] else []) @
     (if mwc_required_headers c \<noteq> [] then [RequiredHeaders (mwc_required_headers c)] else [])"

fun chain_execute ::
  "(string \<Rightarrow> string) \<Rightarrow> middleware list \<Rightarrow> http_request \<Rightarrow> (http_request, http_response) result" where
  "chain_execute lossy [] req = Ok req"
| "chain_execute lossy (mw # mws) req =
     (case middleware_process lossy mw req of
        Ok req' \<Rightarrow> chain_execute lossy mws req'
      | Err resp \<Rightarrow> Err resp
      | Panic \<Rightarrow> Panic)"

section \<open>What the chain admits\<close>

lemma middleware_process_cases:
  "middleware_process lossy mw req = Ok req \<or> (\<exists>resp. middleware_process lossy mw req = Err resp)"
  by (cases mw) (auto split: option.splits)

lemma chain_execute_Ok:
  "chain_execute lossy mws req = Ok req' \<Longrightarrow>
   req' = req \<and> (\<forall>mw \<in> set mws. middleware_process lossy mw req = Ok req)"
proof (induction mws)
  case (Cons mw mws)
  then show ?case using middleware_process_cases [of lossy mw req] by auto
qed simp

text \<open>
  What the middleware lets through. The chain built from a configuration either refuses a
  request or hands it on unchanged, and then its method is one of the seven safe ones, neither its
  path nor its normalized path is blocked, the path hides no null byte, and every required header
  is present.
\<close>

theorem middleware_admits_only_safe:
  assumes "chain_execute lossy (chain_from_config c) req = Ok req'"
  shows "req' = req \<and>
    hq_method req \<in> {''GET'', ''POST'', ''PUT'', ''DELETE'', ''PATCH'', ''HEAD'', ''OPTIONS''} \<and>
    (mwc_blocked_paths c = [] \<or>
      hq_path req \<notin> set (mwc_blocked_paths c) \<and>
      (\<exists>p. normalize_path lossy (hq_path req) = Some p \<and> p \<notin> set (mwc_blocked_paths c))) \<and>
    (\<forall>h \<in> set (mwc_required_headers c). header_contains_key h (hq_headers req))"
proof -
  note pass = chain_execute_Ok [OF assms]
  have "middleware_process lossy default_safe req = Ok req"
    using pass by (simp add: chain_from_config_def)
  then have "hq_method req \<in> {''GET'', ''POST'', ''PUT'', ''DELETE'', ''PATCH'', ''HEAD'', ''OPTIONS''}"
    by (simp add: default_safe_def split: if_splits)
  moreover have "hq_path req \<notin> set (mwc_blocked_paths c) \<and>
      (\<exists>p. normalize_path lossy (hq_path req) = Some p \<and> p \<notin> set (mwc_blocked_paths c))"
    if "mwc_blocked_paths c \<noteq> []"
  proof -
    have "middleware_process lossy (PathBlocker (mwc_blocked_paths c)) req = Ok req"
      using pass that by (simp add: chain_from_config_def)
    then show ?thesis by (auto simp: list_ex_iff split: option.splits if_splits)
  qed
  moreover have "header_contains_key h (hq_headers req)" if "h \<in> set (mwc_required_headers c)" for h
  proof -
    have "RequiredHeaders (mwc_required_headers c) \<in> set (chain_from_config c)"
      using that by (auto simp: chain_from_config_def)
    with pass have "middleware_process lossy (RequiredHeaders (mwc_required_headers c)) req = Ok req"
      by blast
    then show ?thesis using that by (auto simp: list_ex_iff split: if_splits)
  qed
  ultimately show ?thesis using pass by blast
qed

definition demo_http_request :: http_request where
  "demo_http_request = \<lparr>hq_method = ''POST'', hq_path = ''/mcp'', hq_path_and_query = ''/mcp'',
     hq_headers = [(''x-agent-id'', ''a'')], hq_body = []\<rparr>"

theorem middleware_admits_only_safe_witness:
  "normalize_path id ''/mcp'' \<noteq> Some ''/admin'' \<and>
   header_contains_key ''X-Agent-Id'' (hq_headers demo_http_request)"
proof -
  have "chain_execute id (chain_from_config \<lparr>mwc_blocked_paths = [''/admin''],
      mwc_required_headers = [''X-Agent-Id'']\<rparr>) demo_http_request = Ok demo_http_request"
    by code_simp
  from middleware_admits_only_safe [OF this] show ?thesis by (auto simp: demo_http_request_def)
qed

text \<open>
  A doubled slash passes the path blocker. The path \<open>//admin\<close> is normalized to itself, not
  to \<open>/admin\<close>, because the replacement of doubled slashes does not look at its own result; a
  request for it passes a blocker for \<open>/admin\<close>.
\<close>

theorem double_slash_passes_path_blocker:
  "normalize_path lossy ''//admin'' = Some ''//admin'' \<and>
   normalize_path lossy ''/admin'' = Some ''/admin'' \<and>
   middleware_process lossy (PathBlocker [''/admin'']) (demo_http_request\<lparr>hq_path := ''//admin''\<rparr>) =
     Ok (demo_http_request\<lparr>hq_path := ''//admin''\<rparr>) \<and>
   middleware_process lossy (PathBlocker [''/admin'']) (demo_http_request\<lparr>hq_path := ''/admin''\<rparr>) =
     Err (plain_response 403 ''Forbidden'')"
  by (simp add: normalize_path_def percent_decode_def from_utf8_lossy_def from_utf8_def has_null_def
      starts_with_def demo_http_request_def)

end
