(* ===== verification/Oauth.thy ===== *)
theory Oauth
  imports Encryption Proxy
begin

text \<open>
  OAuth bearer tokens (\<open>crates/arbiter-oauth\<close>): the claims and how they are read from a payload
  (\<open>claims.rs\<close>), the configuration and its check (\<open>config.rs\<close>), the errors (\<open>error.rs\<close>), the key cache
  (\<open>jwks.rs\<close>), the validator with its refresh on an unknown key (\<open>validator.rs\<close>), introspection
  (\<open>introspection.rs\<close>) and the middleware (\<open>middleware.rs\<close>). The JWT library, the parser of key sets and
  the answers of the network are arguments; keys have the type \<open>'k\<close>.
\<close>

section \<open>Claims\<close>

datatype audience = AudSingle string | AudMultiple "string list"

fun audience_contains :: "audience \<Rightarrow> string \<Rightarrow> bool" where
  "audience_contains (AudSingle s) target = (s = target)"
| "audience_contains (AudMultiple v) target = list_ex (\<lambda>s. s = target) v"

record oauth_claims =
  oc_sub :: "string option"
  oc_iss :: "string option"
  oc_aud :: "audience option"
  oc_exp :: "u64 option"
  oc_iat :: "u64 option"
  oc_scope :: "string list"
  oc_custom :: "(string \<times> json) list"

definition has_scope :: "oauth_claims \<Rightarrow> string \<Rightarrow> bool" where
  "has_scope c required = list_ex (\<lambda>s. s = required) (oc_scope c)"

text \<open>\<open>str::split_whitespace\<close>: the word being read, then the rest.\<close>

function split_words :: "string \<Rightarrow> string \<Rightarrow> string list" where
  "split_words word s =
     (case find (\<lambda>w. w \<noteq> [] \<and> starts_with w s) WHITE_SPACE of
        Some w \<Rightarrow> (if word = [] then [] else [word]) @ split_words [] (drop (length w) s)
      | None \<Rightarrow>
          (case s of
             [] \<Rightarrow> if word = [] then [] else [word]
           | c # s' \<Rightarrow> split_words (word @ [c]) s'))"
  by pat_completeness auto
termination
proof (relation "measure (\<lambda>(word, s). length s)")
  fix s w :: string and word
  assume "find (\<lambda>w. w \<noteq> [] \<and> starts_with w s) WHITE_SPACE = Some w"
  then have "w \<noteq> []" "starts_with w s" by (auto simp: find_Some_iff)
  then show "(([], drop (length w) s), word, s) \<in> measure (\<lambda>(word, s). length s)"
    by (cases s) (auto simp: starts_with_def)
qed auto

declare split_words.simps [simp del]

definition split_whitespace :: "string \<Rightarrow> string list" where
  "split_whitespace s = split_words [] s"

text \<open>How \<open>serde\<close> reads the fields; \<open>None\<close> is an error of the reader.\<close>

fun json_string :: "json \<Rightarrow> string option" where
  "json_string (JStr s) = Some s"
| "json_string _ = None"

fun deserialize_scope :: "json \<Rightarrow> string list option" where
  "deserialize_scope (JStr v) = Some (split_whitespace v)"
| "deserialize_scope (JArr xs) = those (map json_string xs)"
| "deserialize_scope JNull = Some []"
| "deserialize_scope _ = None"

fun audience_from_value :: "json \<Rightarrow> audience option" where
  "audience_from_value (JStr s) = Some (AudSingle s)"
| "audience_from_value (JArr xs) = map_option AudMultiple (those (map json_string xs))"
| "audience_from_value _ = None"

fun u64_from_value :: "json \<Rightarrow> u64 option" where
  "u64_from_value (JNum (NumInt i)) = (if 0 \<le> i \<and> i < 2 ^ 64 then Some (of_int i) else None)"
| "u64_from_value _ = None"

definition optional_field :: "(json \<Rightarrow> 'a option) \<Rightarrow> json option \<Rightarrow> 'a option option" where
  "optional_field read v =
     (case v of None \<Rightarrow> Some None | Some JNull \<Rightarrow> Some None | Some v \<Rightarrow> map_option Some (read v))"

definition CLAIM_FIELDS :: "string list" where
  "CLAIM_FIELDS = [''sub'', ''iss'', ''aud'', ''exp'', ''iat'', ''scope'']"

fun claims_from_value :: "json \<Rightarrow> oauth_claims option" where
  "claims_from_value (JObj m) =
     (case (optional_field json_string (map_of m ''sub''), optional_field json_string (map_of m ''iss''),
            optional_field audience_from_value (map_of m ''aud''), optional_field u64_from_value (map_of m ''exp''),
            optional_field u64_from_value (map_of m ''iat''),
            (case map_of m ''scope'' of None \<Rightarrow> Some [] | Some v \<Rightarrow> deserialize_scope v)) of
        (Some sub, Some iss, Some aud, Some e, Some iat, Some scope) \<Rightarrow>
          Some \<lparr>oc_sub = sub, oc_iss = iss, oc_aud = aud, oc_exp = e, oc_iat = iat, oc_scope = scope,
                oc_custom = filter (\<lambda>(k, v). k \<notin> set CLAIM_FIELDS) m\<rparr>
      | _ \<Rightarrow> None)"
| "claims_from_value _ = None"

section \<open>Errors and configuration\<close>

datatype jwt_algorithm =
    HS256 | HS384 | HS512 | RS256 | RS384 | RS512 | ES256 | ES384 | PS256 | PS384 | PS512 | EdDSA

datatype oauth_error =
    MissingAuthHeader
  | InvalidAuthHeader
  | JwtValidation string
  | KeyNotFound string
  | JwksFetchFailed string
  | IntrospectionFailed string
  | TokenNotActive
  | MissingKid
  | DisallowedAlgorithm jwt_algorithm
  | TokenTooLarge nat
  | InsecureUrl string

record issuer_config =
  is_name :: string
  is_issuer_url :: string
  is_jwks_uri :: string
  is_audiences :: "string list"
  is_introspection_url :: "string option"
  is_client_id :: "string option"
  is_client_secret :: "string option"
  is_allowed_redirect_uris :: "string list"

record oauth_config =
  ox_issuers :: "issuer_config list"
  ox_jwks_cache_ttl_secs :: u64

definition default_jwks_cache_ttl :: u64 where
  "default_jwks_cache_ttl = 3600"

definition validate_url_scheme :: "string \<Rightarrow> string \<Rightarrow> string \<Rightarrow> (unit, oauth_error) result" where
  "validate_url_scheme url field issuer_name =
     (let is_https = starts_with ''https://'' url;
          is_localhost = starts_with ''http://localhost'' url \<or> starts_with ''http://127.0.0.1'' url \<or>
                         starts_with ''http://[::1]'' url
      in if \<not> is_https \<and> \<not> is_localhost
         then Err (InsecureUrl (''issuer '' @ quoted issuer_name @ '' '' @ field @ '' must use HTTPS (got: '' @ url @
                ''). HTTP is only allowed for localhost.''))
         else Ok ())"

fun validate_issuers :: "issuer_config list \<Rightarrow> (unit, oauth_error) result" where
  "validate_issuers [] = Ok ()"
| "validate_issuers (i # is) =
     (case validate_url_scheme (is_jwks_uri i) ''jwks_uri'' (is_name i) of
        Ok _ \<Rightarrow>
          (case (case is_introspection_url i of
                   Some url \<Rightarrow> validate_url_scheme url ''introspection_url'' (is_name i) | None \<Rightarrow> Ok ()) of
             Ok _ \<Rightarrow> validate_issuers is
           | e \<Rightarrow> e)
      | e \<Rightarrow> e)"

definition oauth_config_validate :: "oauth_config \<Rightarrow> (unit, oauth_error) result" where
  "oauth_config_validate c = validate_issuers (ox_issuers c)"

section \<open>The key cache\<close>

text \<open>
  What the library and the network give: the header of a token, the payload of a token that passes the
  given checks at the given time, the keys of a key set in order with their identifiers (no key when
  one is unusable).
\<close>

record validation =
  vl_alg :: jwt_algorithm
  vl_required :: "string list"
  vl_leeway :: u64
  vl_iss :: "string list"
  vl_aud :: "string list"
  vl_validate_aud :: bool

record 'k oauth_env =
  oe_decode_header :: "string \<Rightarrow> (string option \<times> jwt_algorithm, string) result"
  oe_decode :: "instant \<Rightarrow> string \<Rightarrow> 'k \<Rightarrow> validation \<Rightarrow> (json, string) result"
  oe_claims_error :: "json \<Rightarrow> string"
  oe_parse_jwks :: "string \<Rightarrow> ((string option \<times> 'k option) list, string) result"

datatype fetch = FetchFailed string | Fetched string

record 'k jwks_cache =
  jw_keys :: "(string \<times> 'k) list"
  jw_last_refresh :: "instant option"
  jw_ttl :: span

definition jwks_cache_new :: "span \<Rightarrow> 'k jwks_cache" where
  "jwks_cache_new ttl = \<lparr>jw_keys = [], jw_last_refresh = None, jw_ttl = ttl\<rparr>"

definition get_key :: "string \<Rightarrow> 'k jwks_cache \<Rightarrow> 'k option" where
  "get_key kid c = map_of (jw_keys c) kid"

definition has_key :: "string \<Rightarrow> 'k jwks_cache \<Rightarrow> bool" where
  "has_key kid c \<longleftrightarrow> map_of (jw_keys c) kid \<noteq> None"

definition insert_key :: "string \<Rightarrow> 'k \<Rightarrow> 'k jwks_cache \<Rightarrow> 'k jwks_cache" where
  "insert_key kid key c = c\<lparr>jw_keys := AList.update kid key (jw_keys c)\<rparr>"

definition needs_refresh :: "instant \<Rightarrow> 'k jwks_cache \<Rightarrow> bool" where
  "needs_refresh now c = (case jw_last_refresh c of None \<Rightarrow> True | Some t \<Rightarrow> max 0 (now - t) > jw_ttl c)"

definition MAX_JWKS_RESPONSE_BYTES :: nat where
  "MAX_JWKS_RESPONSE_BYTES = 1048576"

fun usable_keys :: "(string option \<times> 'k option) list \<Rightarrow> (string \<times> 'k) list \<Rightarrow> (string \<times> 'k) list" where
  "usable_keys [] new_keys = new_keys"
| "usable_keys ((Some kid, Some dk) # jwks) new_keys = usable_keys jwks (AList.update kid dk new_keys)"
| "usable_keys (_ # jwks) new_keys = usable_keys jwks new_keys"

definition refresh_from_uri ::
  "'k oauth_env \<Rightarrow> instant \<Rightarrow> fetch \<Rightarrow> 'k jwks_cache \<Rightarrow> (unit, oauth_error) result \<times> 'k jwks_cache" where
  "refresh_from_uri env now answer c =
     (case answer of
        FetchFailed e \<Rightarrow> (Err (JwksFetchFailed e), c)
      | Fetched bytes \<Rightarrow>
          if length bytes > MAX_JWKS_RESPONSE_BYTES
          then (Err (JwksFetchFailed (''JWKS response too large: '' @ show_nat (length bytes) @ '' bytes (limit: '' @
                  show_nat MAX_JWKS_RESPONSE_BYTES @ '')'')), c)
          else (case oe_parse_jwks env bytes of
            Err e \<Rightarrow> (Err (JwksFetchFailed e), c)
          | Panic \<Rightarrow> (Panic, c)
          | Ok jwks \<Rightarrow>
              (let new_keys = usable_keys jwks [];
                   c = (if new_keys = [] \<and> jw_keys c \<noteq> [] then c else c\<lparr>jw_keys := new_keys\<rparr>)
               in (Ok (), c\<lparr>jw_last_refresh := Some now\<rparr>))))"

section \<open>The validator\<close>

record 'k issuer_state =
  iss_config :: issuer_config
  iss_jwks :: "'k jwks_cache"

record 'k oauth_validator =
  ov_issuers :: "'k issuer_state list"
  ov_last_refresh_on_miss :: "instant option"

definition oauth_validator_new :: "oauth_config \<Rightarrow> 'k oauth_validator" where
  "oauth_validator_new c =
     (let ttl = int (unat (ox_jwks_cache_ttl_secs c)) * 1000000000
      in \<lparr>ov_issuers = map (\<lambda>ic. \<lparr>iss_config = ic, iss_jwks = jwks_cache_new ttl\<rparr>) (ox_issuers c),
         ov_last_refresh_on_miss = None\<rparr>)"

text \<open>
  The clock readings and the answers of the issuers, one pair per issuer: when the age of the cache is
  read, when the refresh is stored, what the endpoint answered.
\<close>

type_synonym refresh_reading = "instant \<times> instant \<times> fetch"

fun refresh_stale ::
  "'k oauth_env \<Rightarrow> (nat \<Rightarrow> refresh_reading) \<Rightarrow> nat \<Rightarrow> 'k issuer_state list \<Rightarrow>
   (unit, oauth_error) result \<times> 'k issuer_state list" where
  "refresh_stale env rd n [] = (Ok (), [])"
| "refresh_stale env rd n (i # is) =
     (let (age, now, answer) = rd n
      in if needs_refresh age (iss_jwks i)
         then (case refresh_from_uri env now answer (iss_jwks i) of
                 (Ok _, c) \<Rightarrow>
                   (let (r, is') = refresh_stale env rd (Suc n) is in (r, i\<lparr>iss_jwks := c\<rparr> # is'))
               | (e, c) \<Rightarrow> (e, i\<lparr>iss_jwks := c\<rparr> # is))
         else (let (r, is') = refresh_stale env rd (Suc n) is in (r, i # is')))"

definition refresh_jwks ::
  "'k oauth_env \<Rightarrow> (nat \<Rightarrow> refresh_reading) \<Rightarrow> 'k oauth_validator \<Rightarrow>
   (unit, oauth_error) result \<times> 'k oauth_validator" where
  "refresh_jwks env rd v =
     (let (r, is') = refresh_stale env rd 0 (ov_issuers v) in (r, v\<lparr>ov_issuers := is'\<rparr>))"

definition validator_insert_key ::
  "nat \<Rightarrow> string \<Rightarrow> 'k \<Rightarrow> 'k oauth_validator \<Rightarrow> (unit, unit) result \<times> 'k oauth_validator" where
  "validator_insert_key n kid key v =
     (if n < length (ov_issuers v)
      then let i = ov_issuers v ! n
           in (Ok (), v\<lparr>ov_issuers := (ov_issuers v)[n := i\<lparr>iss_jwks := insert_key kid key (iss_jwks i)\<rparr>]\<rparr>)
      else (Panic, v))"

definition MAX_TOKEN_BYTES :: nat where
  "MAX_TOKEN_BYTES = 16384"

definition allowed_algorithms :: "jwt_algorithm list" where
  "allowed_algorithms = [RS256, RS384, RS512, ES256, ES384, PS256, PS384, PS512, EdDSA]"

definition issuer_validation :: "jwt_algorithm \<Rightarrow> issuer_config \<Rightarrow> validation" where
  "issuer_validation alg i =
     \<lparr>vl_alg = alg, vl_required = [''exp'', ''iss''], vl_leeway = 60, vl_iss = [is_issuer_url i],
      vl_aud = is_audiences i, vl_validate_aud = (is_audiences i \<noteq> [])\<rparr>"

fun try_issuers ::
  "'k oauth_env \<Rightarrow> (nat \<Rightarrow> instant) \<Rightarrow> string \<Rightarrow> string \<Rightarrow> jwt_algorithm \<Rightarrow> oauth_error \<Rightarrow> nat \<Rightarrow> 'k issuer_state list \<Rightarrow>
   (oauth_claims, oauth_error) result" where
  "try_issuers env now token kid alg last_error n [] = Err last_error"
| "try_issuers env now token kid alg last_error n (i # is) =
     (case get_key kid (iss_jwks i) of
        None \<Rightarrow> try_issuers env now token kid alg last_error (Suc n) is
      | Some key \<Rightarrow>
          (case oe_decode env (now n) token key (issuer_validation alg (iss_config i)) of
             Ok payload \<Rightarrow>
               (case claims_from_value payload of
                  Some claims \<Rightarrow> Ok claims
                | None \<Rightarrow> try_issuers env now token kid alg (JwtValidation (oe_claims_error env payload)) (Suc n) is)
           | Err e \<Rightarrow> try_issuers env now token kid alg (JwtValidation e) (Suc n) is
           | Panic \<Rightarrow> Panic))"

definition validate_token ::
  "'k oauth_env \<Rightarrow> (nat \<Rightarrow> instant) \<Rightarrow> string \<Rightarrow> 'k oauth_validator \<Rightarrow> (oauth_claims, oauth_error) result" where
  "validate_token env now token v =
     (if length token > MAX_TOKEN_BYTES then Err (TokenTooLarge (length token))
      else case oe_decode_header env token of
        Err e \<Rightarrow> Err (JwtValidation e)
      | Panic \<Rightarrow> Panic
      | Ok (None, alg) \<Rightarrow> Err MissingKid
      | Ok (Some kid, alg) \<Rightarrow>
          if alg \<notin> set allowed_algorithms then Err (DisallowedAlgorithm alg)
          else try_issuers env now token kid alg (KeyNotFound kid) 0 (ov_issuers v))"

definition REFRESH_ON_MISS_COOLDOWN :: span where
  "REFRESH_ON_MISS_COOLDOWN = 30000000000"

fun refresh_all ::
  "'k oauth_env \<Rightarrow> (nat \<Rightarrow> refresh_reading) \<Rightarrow> nat \<Rightarrow> 'k issuer_state list \<Rightarrow> 'k issuer_state list option" where
  "refresh_all env rd n [] = Some []"
| "refresh_all env rd n (i # is) =
     (case refresh_from_uri env (fst (snd (rd n))) (snd (snd (rd n))) (iss_jwks i) of
        (Panic, c) \<Rightarrow> None
      | (r, c) \<Rightarrow> map_option ((#) (i\<lparr>iss_jwks := c\<rparr>)) (refresh_all env rd (Suc n) is))"

record miss_reading =
  ms_validate :: "nat \<Rightarrow> instant"
  ms_check :: instant
  ms_mark :: instant
  ms_refresh :: "nat \<Rightarrow> refresh_reading"
  ms_retry :: "nat \<Rightarrow> instant"

definition may_refresh :: "instant \<Rightarrow> 'k oauth_validator \<Rightarrow> bool" where
  "may_refresh now v =
     (case ov_last_refresh_on_miss v of Some t \<Rightarrow> max 0 (now - t) \<ge> REFRESH_ON_MISS_COOLDOWN | None \<Rightarrow> True)"

definition validate_token_with_refresh ::
  "'k oauth_env \<Rightarrow> miss_reading \<Rightarrow> string \<Rightarrow> 'k oauth_validator \<Rightarrow>
   (oauth_claims, oauth_error) result \<times> 'k oauth_validator" where
  "validate_token_with_refresh env rd token v =
     (case validate_token env (ms_validate rd) token v of
        Err (KeyNotFound kid) \<Rightarrow>
          if \<not> may_refresh (ms_check rd) v then (Err (KeyNotFound kid), v)
          else (let v = v\<lparr>ov_last_refresh_on_miss := Some (ms_mark rd)\<rparr>
                in case refresh_all env (ms_refresh rd) 0 (ov_issuers v) of
                     None \<Rightarrow> (Panic, v)
                   | Some issuers \<Rightarrow>
                       (let v = v\<lparr>ov_issuers := issuers\<rparr> in (validate_token env (ms_retry rd) token v, v)))
      | r \<Rightarrow> (r, v))"

section \<open>Introspection\<close>

record introspection_response =
  ir_active :: bool
  ir_sub :: "string option"
  ir_iss :: "string option"
  ir_aud :: "string option"
  ir_exp :: "u64 option"
  ir_iat :: "u64 option"

text \<open>The request is sent, or not; \<open>answer\<close> is what came back, \<open>now\<close> the seconds since the epoch.\<close>

definition introspect_token ::
  "(introspection_response, string) result \<Rightarrow> u64 \<Rightarrow> issuer_config \<Rightarrow> (oauth_claims, oauth_error) result" where
  "introspect_token answer now i =
     (if is_introspection_url i = None then Err (IntrospectionFailed ''no introspection URL configured'')
      else case answer of
        Err e \<Rightarrow> Err (IntrospectionFailed e)
      | Panic \<Rightarrow> Panic
      | Ok body \<Rightarrow>
          if \<not> ir_active body then Err TokenNotActive
          else if (case ir_iss body of Some returned_iss \<Rightarrow> returned_iss \<noteq> is_issuer_url i | None \<Rightarrow> False)
          then Err (IntrospectionFailed ''issuer mismatch in introspection response'')
          else if is_audiences i \<noteq> [] \<and>
                  (case ir_aud body of Some returned_aud \<Rightarrow> returned_aud \<notin> set (is_audiences i) | None \<Rightarrow> False)
          then Err (IntrospectionFailed ''audience mismatch in introspection response'')
          else if (case ir_exp body of Some e \<Rightarrow> e < now | None \<Rightarrow> False)
          then Err (IntrospectionFailed ''token expired per introspection response exp claim'')
          else Ok \<lparr>oc_sub = ir_sub body, oc_iss = ir_iss body, oc_aud = map_option AudSingle (ir_aud body),
                   oc_exp = ir_exp body, oc_iat = ir_iat body, oc_scope = [], oc_custom = []\<rparr>)"

section \<open>The middleware\<close>

definition unauthorized_response :: http_response where
  "unauthorized_response =
     \<lparr>hs_status = 401, hs_headers = [(''www-authenticate'', ''Bearer'')], hs_body = ''Unauthorized''\<rparr>"

text \<open>The request is handed on with the claims among its extensions.\<close>

definition oauth_process ::
  "'k oauth_env \<Rightarrow> (string \<Rightarrow> string option) \<Rightarrow> (nat \<Rightarrow> instant) \<Rightarrow> 'k oauth_validator \<Rightarrow> http_request \<Rightarrow>
   (http_request \<times> oauth_claims, http_response) result" where
  "oauth_process env to_str now v req =
     (case Option.bind (header_get ''authorization'' (hq_headers req)) to_str of
        None \<Rightarrow> Err unauthorized_response
      | Some auth \<Rightarrow>
          if \<not> starts_with ''Bearer '' auth then Err unauthorized_response
          else (case validate_token env now (drop 7 auth) v of
                  Ok claims \<Rightarrow> Ok (req, claims)
                | Err e \<Rightarrow> Err unauthorized_response
                | Panic \<Rightarrow> Panic))"

end
