(* ===== verification/Oauth_Props.thy ===== *)
theory Oauth_Props
  imports Oauth
begin

text \<open>
  What a validated bearer token guarantees, how often an unknown key can make the validator ask the
  issuers, and what the checks of the configuration and of introspection leave out.
\<close>

section \<open>The JWT library\<close>

text \<open>
  What \<open>decode\<close> of the JWT library documents: the signature verifies under the key with the algorithm
  asked for; the required claims are present; \<open>exp\<close> is not past by more than the leeway; \<open>iss\<close> is one
  of the issuers and, when asked for, \<open>aud\<close> one of the audiences, each a text or a list of texts.
\<close>

definition claim_member :: "string list \<Rightarrow> json option \<Rightarrow> bool" where
  "claim_member accepted v \<longleftrightarrow>
     (\<exists>s \<in> set accepted. v = Some (JStr s) \<or> (\<exists>xs. v = Some (JArr xs) \<and> JStr s \<in> set xs))"

definition jwt_laws :: "'k oauth_env \<Rightarrow> (jwt_algorithm \<Rightarrow> 'k \<Rightarrow> string \<Rightarrow> bool) \<Rightarrow> bool" where
  "jwt_laws env verifies \<longleftrightarrow>
     (\<forall>now token key v payload. oe_decode env now token key v = Ok payload \<longrightarrow>
        verifies (vl_alg v) key token \<and>
        (\<forall>c \<in> set (vl_required v). jget c payload \<notin> {None, Some JNull}) \<and>
        (\<forall>e. jget ''exp'' payload = Some (JNum (NumInt e)) \<longrightarrow> now div 1000000000 \<le> e + uint (vl_leeway v)) \<and>
        claim_member (vl_iss v) (jget ''iss'' payload) \<and>
        (vl_validate_aud v \<longrightarrow> claim_member (vl_aud v) (jget ''aud'' payload)))"

section \<open>Claims of an accepted token\<close>

lemma those_map_string: "those (map json_string xs) = Some ss \<Longrightarrow> xs = map JStr ss"
proof (induction xs arbitrary: ss)
  case (Cons x xs)
  then show ?case by (cases x) (auto split: option.splits)
qed simp

lemma those_strings_member: "those (map json_string xs) = Some ss \<Longrightarrow> JStr a \<in> set xs \<Longrightarrow> a \<in> set ss"
  by (auto dest!: those_map_string)

lemma optional_field_Some:
  "optional_field read v = Some (Some x) \<longleftrightarrow> (\<exists>j. v = Some j \<and> j \<noteq> JNull \<and> read j = Some x)"
  by (auto simp: optional_field_def split: option.splits json.splits)

lemma optional_field_None: "optional_field read v = Some None \<Longrightarrow> v \<in> {None, Some JNull}"
  by (auto simp: optional_field_def split: option.splits json.splits)

lemma claims_from_value_fields:
  assumes "claims_from_value payload = Some c"
  shows "optional_field json_string (jget ''iss'' payload) = Some (oc_iss c)"
    and "optional_field audience_from_value (jget ''aud'' payload) = Some (oc_aud c)"
    and "optional_field u64_from_value (jget ''exp'' payload) = Some (oc_exp c)"
  using assms by (cases payload; auto split: option.splits)+

lemma claims_iss:
  assumes "claims_from_value payload = Some c" and "claim_member [u] (jget ''iss'' payload)"
  shows "oc_iss c = Some u"
  using claims_from_value_fields(1) [OF assms(1)] assms(2)
  by (auto simp: claim_member_def optional_field_def)

lemma claims_aud:
  assumes "claims_from_value payload = Some c" and "claim_member as (jget ''aud'' payload)"
  shows "\<exists>a \<in> set as. \<exists>aud. oc_aud c = Some aud \<and> audience_contains aud a"
proof -
  obtain a where a: "a \<in> set as"
    "jget ''aud'' payload = Some (JStr a) \<or> (\<exists>xs. jget ''aud'' payload = Some (JArr xs) \<and> JStr a \<in> set xs)"
    using assms(2) by (auto simp: claim_member_def)
  have "\<exists>aud. oc_aud c = Some aud \<and> audience_contains aud a"
    using a(2)
  proof
    assume "jget ''aud'' payload = Some (JStr a)"
    with claims_from_value_fields(2) [OF assms(1), symmetric] show ?thesis by (simp add: optional_field_def)
  next
    assume "\<exists>xs. jget ''aud'' payload = Some (JArr xs) \<and> JStr a \<in> set xs"
    then obtain xs where xs: "jget ''aud'' payload = Some (JArr xs)" "JStr a \<in> set xs" by blast
    then obtain ss where "those (map json_string xs) = Some ss" "oc_aud c = Some (AudMultiple ss)"
      using claims_from_value_fields(2) [OF assms(1)]
      by (cases "those (map json_string xs)") (simp_all add: optional_field_def)
    with those_strings_member xs(2) show ?thesis by (auto simp: list_ex_iff)
  qed
  with a(1) show ?thesis by blast
qed

lemma claims_exp:
  assumes "claims_from_value payload = Some c" and "jget ''exp'' payload \<notin> {None, Some JNull}"
  shows "\<exists>e. oc_exp c = Some e \<and> jget ''exp'' payload = Some (JNum (NumInt (uint e)))"
proof (cases "oc_exp c")
  case None
  then show ?thesis using claims_from_value_fields(3) [OF assms(1)] optional_field_None assms(2) by metis
next
  case (Some e)
  then obtain j where j: "jget ''exp'' payload = Some j" "u64_from_value j = Some e"
    using claims_from_value_fields(3) [OF assms(1)] by (auto simp: optional_field_Some)
  have "j = JNum (NumInt (uint e))"
    using j(2) by (cases j rule: u64_from_value.cases) (auto split: if_splits simp: uint_word_of_int)
  with Some j(1) show ?thesis by simp
qed

definition issued_by ::
  "(jwt_algorithm \<Rightarrow> 'k \<Rightarrow> string \<Rightarrow> bool) \<Rightarrow> instant \<Rightarrow> string \<Rightarrow> string \<Rightarrow> jwt_algorithm \<Rightarrow> oauth_claims \<Rightarrow>
   'k issuer_state \<Rightarrow> bool" where
  "issued_by verifies now token kid alg claims i \<longleftrightarrow>
     (\<exists>key. get_key kid (iss_jwks i) = Some key \<and> verifies alg key token) \<and>
     oc_iss claims = Some (is_issuer_url (iss_config i)) \<and>
     (is_audiences (iss_config i) = [] \<or>
       (\<exists>a \<in> set (is_audiences (iss_config i)). \<exists>aud. oc_aud claims = Some aud \<and> audience_contains aud a)) \<and>
     (\<exists>e. oc_exp claims = Some e \<and> now div 1000000000 \<le> uint e + 60)"

lemma decode_issued_by:
  assumes laws: "jwt_laws env verifies"
    and dec: "oe_decode env now token key (issuer_validation alg (iss_config i)) = Ok payload"
    and key: "get_key kid (iss_jwks i) = Some key" and claims: "claims_from_value payload = Some c"
  shows "issued_by verifies now token kid alg c i"
proof -
  note law = laws [unfolded jwt_laws_def, rule_format, OF dec, unfolded issuer_validation_def]
  have "oc_iss c = Some (is_issuer_url (iss_config i))" using claims_iss [OF claims] law by simp
  moreover obtain e where "oc_exp c = Some e" "jget ''exp'' payload = Some (JNum (NumInt (uint e)))"
    using claims_exp [OF claims] law by fastforce
  moreover have "is_audiences (iss_config i) \<noteq> [] \<Longrightarrow>
      \<exists>a \<in> set (is_audiences (iss_config i)). \<exists>aud. oc_aud c = Some aud \<and> audience_contains aud a"
    using claims_aud [OF claims] law by simp
  ultimately show ?thesis using law key unfolding issued_by_def by auto
qed

lemma try_issuers_Ok:
  assumes laws: "jwt_laws env verifies"
  shows "try_issuers env now token kid alg le n is = Ok c \<Longrightarrow>
    \<exists>m < length is. issued_by verifies (now (n + m)) token kid alg c (is ! m)"
proof (induction "is" arbitrary: le n)
  case (Cons i "is")
  have later: "\<exists>m < length (i # is). issued_by verifies (now (n + m)) token kid alg c ((i # is) ! m)"
    if "try_issuers env now token kid alg le' (Suc n) is = Ok c" for le'
    using Cons.IH [OF that] by (metis add_Suc_right add_Suc_shift length_Cons not_less_eq nth_Cons_Suc)
  show ?case
  proof (cases "get_key kid (iss_jwks i)")
    case None
    with Cons.prems later show ?thesis by simp
  next
    case (Some key)
    show ?thesis
    proof (cases "oe_decode env (now n) token key (issuer_validation alg (iss_config i))")
      case (Ok payload)
      then show ?thesis
        using Cons.prems Some later decode_issued_by [OF laws Ok Some]
        by (cases "claims_from_value payload") (auto intro: exI [of _ 0])
    qed (use Cons.prems Some later in auto)
  qed
qed simp

section \<open>Refreshing on an unknown key\<close>

text \<open>Calls in sequence; the times at which they went to the issuers.\<close>

definition refreshes :: "'k oauth_env \<Rightarrow> miss_reading \<Rightarrow> string \<Rightarrow> 'k oauth_validator \<Rightarrow> bool" where
  "refreshes env rd token v \<longleftrightarrow>
     (case validate_token env (ms_validate rd) token v of Err (KeyNotFound kid) \<Rightarrow> may_refresh (ms_check rd) v | _ \<Rightarrow> False)"

fun refresh_times :: "'k oauth_env \<Rightarrow> (miss_reading \<times> string) list \<Rightarrow> 'k oauth_validator \<Rightarrow> instant list" where
  "refresh_times env [] v = []"
| "refresh_times env ((rd, token) # calls) v =
     (if refreshes env rd token v then [ms_mark rd] else []) @
     refresh_times env calls (snd (validate_token_with_refresh env rd token v))"

text \<open>A clock that does not go back: over a call and from one call to the next.\<close>

fun clock_ok :: "instant \<Rightarrow> (miss_reading \<times> string) list \<Rightarrow> bool" where
  "clock_ok t [] = True"
| "clock_ok t ((rd, token) # calls) = (t \<le> ms_check rd \<and> ms_check rd \<le> ms_mark rd \<and> clock_ok (ms_mark rd) calls)"

fun spaced :: "span \<Rightarrow> instant list \<Rightarrow> bool" where
  "spaced d (a # b # ts) = (a + d \<le> b \<and> spaced d (b # ts))"
| "spaced d _ = True"

lemma spaced_nth: "spaced d ts \<Longrightarrow> i + k < length ts \<Longrightarrow> ts ! i + int k * d \<le> ts ! (i + k)"
proof (induction k)
  case (Suc k)
  have "spaced d ts \<Longrightarrow> Suc j < length ts \<Longrightarrow> ts ! j + d \<le> ts ! Suc j" for j
  proof (induction d ts arbitrary: j rule: spaced.induct)
    case (1 d a b ts)
    then show ?case by (cases j) auto
  qed auto
  with Suc have "ts ! (i + k) + d \<le> ts ! (i + Suc k)" by simp
  with Suc show ?case by (simp add: algebra_simps)
qed simp

lemma validate_with_refresh_mark:
  "ov_last_refresh_on_miss (snd (validate_token_with_refresh env rd token v)) =
     (if refreshes env rd token v then Some (ms_mark rd) else ov_last_refresh_on_miss v)"
  by (auto simp: validate_token_with_refresh_def refreshes_def Let_def
      split: result.split oauth_error.split option.split)

lemma refreshes_after:
  assumes "refreshes env rd token v" and "ov_last_refresh_on_miss v = Some t"
  shows "t + REFRESH_ON_MISS_COOLDOWN \<le> ms_check rd"
  using assms
  by (auto simp: refreshes_def may_refresh_def REFRESH_ON_MISS_COOLDOWN_def split: result.splits oauth_error.splits)

lemma refresh_times_spaced:
  "clock_ok t0 calls \<Longrightarrow>
   spaced REFRESH_ON_MISS_COOLDOWN (case_option [] (\<lambda>t. [t]) (ov_last_refresh_on_miss v) @ refresh_times env calls v)"
proof (induction calls arbitrary: v t0)
  case Nil
  then show ?case by (simp split: option.split)
next
  case (Cons call calls)
  obtain rd token where call: "call = (rd, token)" by fastforce
  let ?v = "snd (validate_token_with_refresh env rd token v)"
  have mark: "ms_check rd \<le> ms_mark rd" "clock_ok (ms_mark rd) calls" using Cons.prems call by auto
  note IH = Cons.IH [OF mark(2), of ?v, unfolded validate_with_refresh_mark]
  show ?case
  proof (cases "refreshes env rd token v")
    case True
    then show ?thesis
      using IH refreshes_after [OF True] mark(1) call
      by (cases "ov_last_refresh_on_miss v") fastforce+
  next
    case False
    then show ?thesis using IH call by simp
  qed
qed

section \<open>The key cache\<close>

lemma refresh_keeps_keys:
  "jw_keys c \<noteq> [] \<Longrightarrow> jw_keys (snd (refresh_from_uri env now answer c)) \<noteq> []"
  by (simp add: refresh_from_uri_def Let_def split: fetch.split result.split)

lemma refresh_failure_keeps_cache:
  "\<not> is_ok (fst (refresh_from_uri env now answer c)) \<Longrightarrow> snd (refresh_from_uri env now answer c) = c"
  by (auto simp: refresh_from_uri_def Let_def split: fetch.splits result.splits if_splits)

section \<open>Demonstration issuer\<close>

definition oauth_issuer :: issuer_config where
  "oauth_issuer = \<lparr>is_name = ''idp'', is_issuer_url = ''https://idp'', is_jwks_uri = ''https://idp/jwks'',
     is_audiences = [''api''], is_introspection_url = Some ''https://idp/introspect'', is_client_id = None,
     is_client_secret = None, is_allowed_redirect_uris = []\<rparr>"

definition oauth_payload :: json where
  "oauth_payload = JObj [(''aud'', JStr ''api''), (''exp'', JNum (NumInt 100)), (''iss'', JStr ''https://idp''),
     (''scope'', JArr [JStr ''read'', JStr ''write''])]"

definition oauth_demo_env :: "nat oauth_env" where
  "oauth_demo_env = \<lparr>oe_decode_header = (\<lambda>_. Ok (Some ''k1'', RS256)),
     oe_decode = (\<lambda>now token key v.
       if key = 7 \<and> set (vl_required v) \<subseteq> {''exp'', ''iss''} \<and> now div 1000000000 \<le> 100 + uint (vl_leeway v) \<and>
          ''https://idp'' \<in> set (vl_iss v) \<and> (vl_validate_aud v \<longrightarrow> ''api'' \<in> set (vl_aud v))
       then Ok oauth_payload else Err ''InvalidToken''),
     oe_claims_error = (\<lambda>_. ''Json''), oe_parse_jwks = (\<lambda>_. Ok [(Some ''k2'', Some 7), (None, Some 8)])\<rparr>"

definition oauth_demo_validator :: "nat oauth_validator" where
  "oauth_demo_validator = \<lparr>ov_issuers = [\<lparr>iss_config = oauth_issuer,
     iss_jwks = \<lparr>jw_keys = [(''k1'', 7)], jw_last_refresh = None, jw_ttl = 3600000000000\<rparr>\<rparr>],
     ov_last_refresh_on_miss = None\<rparr>"

definition oauth_demo_request :: http_request where
  "oauth_demo_request = \<lparr>hq_method = ''POST'', hq_path = ''/'', hq_path_and_query = ''/'',
     hq_headers = [(''authorization'', ''Bearer abc'')], hq_body = []\<rparr>"

definition oauth_demo_claims :: oauth_claims where
  "oauth_demo_claims = \<lparr>oc_sub = None, oc_iss = Some ''https://idp'', oc_aud = Some (AudSingle ''api''),
     oc_exp = Some 100, oc_iat = None, oc_scope = [''read'', ''write''], oc_custom = []\<rparr>"

lemma oauth_demo_laws: "jwt_laws oauth_demo_env (\<lambda>alg key token. key = 7)"
  by (auto simp: jwt_laws_def oauth_demo_env_def oauth_payload_def claim_member_def split: if_splits)

lemma oauth_demo_accepts:
  "oauth_process oauth_demo_env Some (\<lambda>_. 5000000000) oauth_demo_validator oauth_demo_request =
     Ok (oauth_demo_request, oauth_demo_claims)"
  by (simp add: oauth_process_def validate_token_def oauth_demo_env_def oauth_demo_validator_def oauth_demo_request_def
      oauth_demo_claims_def oauth_payload_def oauth_issuer_def issuer_validation_def get_key_def header_get_def
      starts_with_def MAX_TOKEN_BYTES_def allowed_algorithms_def optional_field_def CLAIM_FIELDS_def)

section \<open>Properties\<close>

text \<open>
  C15: what a request behind the middleware carries. When the middleware hands a request on, it is
  unchanged and presents a bearer token of at most 16 KiB; the token is signed with an asymmetric
  algorithm by the key that the cache of one configured issuer holds for its key identifier; the claims
  name that issuer and, if audiences are configured, one of them, and the token has not expired for more
  than a minute.
\<close>

theorem accepted_token_is_issued:
  assumes "jwt_laws env verifies" and "oauth_process env to_str now v req = Ok (req', claims)"
  shows "req' = req \<and> (\<exists>token kid alg m.
    Option.bind (header_get ''authorization'' (hq_headers req)) to_str = Some (''Bearer '' @ token) \<and>
    length token \<le> 16384 \<and> oe_decode_header env token = Ok (Some kid, alg) \<and>
    alg \<notin> {HS256, HS384, HS512} \<and> m < length (ov_issuers v) \<and>
    issued_by verifies (now m) token kid alg claims (ov_issuers v ! m))"
proof -
  obtain token where token: "req' = req"
    "Option.bind (header_get ''authorization'' (hq_headers req)) to_str = Some (''Bearer '' @ token)"
    "validate_token env now token v = Ok claims"
    using assms(2)
    by (auto simp: oauth_process_def starts_with_iff split: option.splits if_splits result.splits)
  then obtain kid alg where h: "length token \<le> 16384" "oe_decode_header env token = Ok (Some kid, alg)"
    "alg \<in> set allowed_algorithms" "try_issuers env now token kid alg (KeyNotFound kid) 0 (ov_issuers v) = Ok claims"
    by (auto simp: validate_token_def MAX_TOKEN_BYTES_def split: if_splits result.splits option.splits prod.splits)
  moreover have "alg \<notin> {HS256, HS384, HS512}" using h(3) by (auto simp: allowed_algorithms_def)
  moreover obtain m where "m < length (ov_issuers v)" "issued_by verifies (now m) token kid alg claims (ov_issuers v ! m)"
    using try_issuers_Ok [OF assms(1) h(4)] by auto
  ultimately show ?thesis using token by blast
qed

theorem accepted_token_is_issued_witness:
  "\<exists>token kid alg m. m < length (ov_issuers oauth_demo_validator) \<and>
     issued_by (\<lambda>alg key token. key = 7) 5000000000 token kid alg oauth_demo_claims (ov_issuers oauth_demo_validator ! m)"
  using accepted_token_is_issued [OF oauth_demo_laws oauth_demo_accepts] by blast


definition miss_demo :: "instant \<Rightarrow> miss_reading \<times> string" where
  "miss_demo t = (\<lparr>ms_validate = (\<lambda>_. t), ms_check = t, ms_mark = t, ms_refresh = (\<lambda>_. (t, t, FetchFailed ''down'')),
     ms_retry = (\<lambda>_. t)\<rparr>, ''abc'')"


text \<open>
  The check for local addresses looks at a prefix of the text only: a key set served in clear by a
  remote host whose name begins with \<open>localhost\<close> passes the validation of the configuration.
\<close>

theorem remote_http_keys_accepted:
  "oauth_config_validate \<lparr>ox_issuers = [oauth_issuer\<lparr>is_jwks_uri := ''http://localhost.attacker.example/jwks''\<rparr>],
     ox_jwks_cache_ttl_secs = default_jwks_cache_ttl\<rparr> = Ok ()"
  by code_simp

text \<open>
  Introspection compares only what the endpoint returned: an answer with nothing but \<open>active\<close> is accepted
  although the issuer has audiences configured, and the claims name neither issuer nor audience nor expiry.
\<close>

theorem bare_introspection_accepted:
  "introspect_token (Ok \<lparr>ir_active = True, ir_sub = None, ir_iss = None, ir_aud = None, ir_exp = None, ir_iat = None\<rparr>)
     now oauth_issuer =
   Ok \<lparr>oc_sub = None, oc_iss = None, oc_aud = None, oc_exp = None, oc_iat = None, oc_scope = [], oc_custom = []\<rparr>"
  by (simp add: introspect_token_def oauth_issuer_def)

end
