(* ===== verification/Credential.thy ===== *)
theory Credential
  imports Json
begin

text \<open>
  Credential handling (\<open>crates/arbiter-credential\<close>): references in requests and their
  injection, the scrubbing of responses (\<open>inject.rs\<close>), errors (\<open>error.rs\<close>) and the
  classification of response data (\<open>response_classifier.rs\<close>). The provider is an operation on a
  state of its own, so that a credential may change between two calls; the JSON writer and the
  matcher of the eight fixed patterns are arguments.
\<close>

section \<open>References\<close>

definition REDACTED :: string where
  "REDACTED = ''[CREDENTIAL]''"

datatype credential_error =
    CredNotFound string
  | ProviderError string
  | DecryptionFailed string
  | InvalidReference string

definition is_ref_char :: "char \<Rightarrow> bool" where
  "is_ref_char c \<longleftrightarrow>
     (let n = of_char c :: nat
      in 48 \<le> n \<and> n \<le> 57 \<or> 65 \<le> n \<and> n \<le> 90 \<or> 97 \<le> n \<and> n \<le> 122 \<or> c \<in> set ''_.-'')"

text \<open>
  A match of the reference pattern at the front: the name and what follows. The name characters
  exclude the closing brace, so the longest run of them is the only candidate.
\<close>

definition match_ref :: "string \<Rightarrow> (string \<times> string) option" where
  "match_ref s =
     (if \<not> starts_with ''${CRED:'' s then None
      else let t = drop 7 s; name = takeWhile is_ref_char t; rest = dropWhile is_ref_char t
           in case rest of
                [] \<Rightarrow> None
              | c # rest' \<Rightarrow> if name \<noteq> [] \<and> c = CHR ''}'' then Some (name, rest') else None)"

lemma match_ref_shorter: "match_ref s = Some (name, rest) \<Longrightarrow> length rest < length s"
proof -
  assume a: "match_ref s = Some (name, rest)"
  then have "length rest < length (dropWhile is_ref_char (drop 7 s))"
    by (auto simp: match_ref_def Let_def split: if_splits list.splits)
  also have "\<dots> \<le> length s"
    using length_dropWhile_le [of is_ref_char "drop 7 s"] by simp
  finally show ?thesis .
qed

function find_refs :: "string \<Rightarrow> string list" where
  "find_refs s =
     (case s of
        [] \<Rightarrow> []
      | c # s' \<Rightarrow>
          (case match_ref s of
             Some (name, rest) \<Rightarrow> name # find_refs rest
           | None \<Rightarrow> find_refs s'))"
  by pat_completeness auto
termination
  by (relation "measure length") (auto dest: match_ref_shorter)

declare find_refs.simps [simp del]

definition placeholder :: "string \<Rightarrow> string" where
  "placeholder reference = ''${CRED:'' @ reference @ ''}''"

section \<open>Injection\<close>

type_synonym 'p provider = "string \<Rightarrow> 'p \<Rightarrow> (string, credential_error) result \<times> 'p"

fun resolve_all ::
  "'p provider \<Rightarrow> string list \<Rightarrow> 'p \<Rightarrow> ((string \<times> string) list, credential_error) result \<times> 'p" where
  "resolve_all resolve [] p = (Ok [], p)"
| "resolve_all resolve (r # rs) p =
     (case resolve r p of
        (Ok v, p') \<Rightarrow>
          (case resolve_all resolve rs p' of
             (Ok pairs, p'') \<Rightarrow> (Ok ((r, v) # pairs), p'')
           | (Err e, p'') \<Rightarrow> (Err e, p'')
           | (Panic, p'') \<Rightarrow> (Panic, p''))
      | (Err e, p') \<Rightarrow> (Err e, p')
      | (Panic, p') \<Rightarrow> (Panic, p'))"

record injection_log =
  il_resolved :: "string list"
  il_secret_values :: "string list"

fun apply_refs ::
  "(string \<times> string) list \<Rightarrow> string \<Rightarrow> injection_log \<Rightarrow> string \<times> injection_log" where
  "apply_refs [] output lg = (output, lg)"
| "apply_refs ((reference, secret) # pairs) output lg =
     apply_refs pairs (str_replace (placeholder reference) secret output)
       (if reference \<in> set (il_resolved lg) then lg
        else lg\<lparr>il_resolved := il_resolved lg @ [reference],
                il_secret_values := il_secret_values lg @ [secret]\<rparr>)"

definition replace_refs ::
  "'p provider \<Rightarrow> string \<Rightarrow> injection_log \<Rightarrow> 'p \<Rightarrow>
   (string \<times> injection_log, credential_error) result \<times> 'p" where
  "replace_refs resolve input lg p =
     (let refs = find_refs input
      in if refs = [] then (Ok (input, lg), p)
         else case resolve_all resolve refs p of
           (Ok pairs, p') \<Rightarrow> (Ok (apply_refs pairs input lg), p')
         | (Err e, p') \<Rightarrow> (Err e, p')
         | (Panic, p') \<Rightarrow> (Panic, p'))"

record injected_request =
  ir_body :: string
  ir_headers :: "(string \<times> string) list"
  ir_resolved_refs :: "string list"
  ir_resolved_values :: "string list"

fun inject_headers ::
  "'p provider \<Rightarrow> (string \<times> string) list \<Rightarrow> injection_log \<Rightarrow> 'p \<Rightarrow>
   ((string \<times> string) list \<times> injection_log, credential_error) result \<times> 'p" where
  "inject_headers resolve [] lg p = (Ok ([], lg), p)"
| "inject_headers resolve ((name, value) # hs) lg p =
     (case replace_refs resolve value lg p of
        (Ok (new_value, lg'), p') \<Rightarrow>
          (case inject_headers resolve hs lg' p' of
             (Ok (hs', lg''), p'') \<Rightarrow> (Ok ((name, new_value) # hs', lg''), p'')
           | (Err e, p'') \<Rightarrow> (Err e, p'')
           | (Panic, p'') \<Rightarrow> (Panic, p''))
      | (Err e, p') \<Rightarrow> (Err e, p')
      | (Panic, p') \<Rightarrow> (Panic, p'))"

definition inject_credentials ::
  "'p provider \<Rightarrow> string \<Rightarrow> (string \<times> string) list \<Rightarrow> 'p \<Rightarrow>
   (injected_request, credential_error) result \<times> 'p" where
  "inject_credentials resolve body headers p =
     (case replace_refs resolve body \<lparr>il_resolved = [], il_secret_values = []\<rparr> p of
        (Ok (new_body, lg), p') \<Rightarrow>
          (case inject_headers resolve headers lg p' of
             (Ok (new_headers, lg'), p'') \<Rightarrow>
               (Ok \<lparr>ir_body = new_body, ir_headers = new_headers, ir_resolved_refs = il_resolved lg',
                    ir_resolved_values = il_secret_values lg'\<rparr>, p'')
           | (Err e, p'') \<Rightarrow> (Err e, p'')
           | (Panic, p'') \<Rightarrow> (Panic, p''))
      | (Err e, p') \<Rightarrow> (Err e, p')
      | (Panic, p') \<Rightarrow> (Panic, p'))"

section \<open>Encodings\<close>

definition hex_digit :: "bool \<Rightarrow> nat \<Rightarrow> char" where
  "hex_digit upper n = (if n < 10 then char_of (48 + n) else char_of ((if upper then 55 else 87) + n))"

definition hex_byte :: "bool \<Rightarrow> char \<Rightarrow> string" where
  "hex_byte upper c = (let n = of_char c :: nat in [hex_digit upper (n div 16), hex_digit upper (n mod 16)])"

definition url_unreserved :: "char \<Rightarrow> bool" where
  "url_unreserved c \<longleftrightarrow>
     (let n = of_char c :: nat
      in 65 \<le> n \<and> n \<le> 90 \<or> 97 \<le> n \<and> n \<le> 122 \<or> 48 \<le> n \<and> n \<le> 57 \<or> c \<in> set ''-_.~'')"

definition urlencoding_encode :: "string \<Rightarrow> string" where
  "urlencoding_encode input = concat (map (\<lambda>c. if url_unreserved c then [c] else ''%'' @ hex_byte True c) input)"

definition urlencoding_encode_lower :: "string \<Rightarrow> string" where
  "urlencoding_encode_lower input =
     concat (map (\<lambda>c. if url_unreserved c then [c] else ''%'' @ hex_byte False c) input)"

definition unicode_json_escape :: "string \<Rightarrow> string" where
  "unicode_json_escape input = concat (map (\<lambda>c. [CHR 92] @ ''u00'' @ hex_byte False c) input)"

definition html_entity_encode_decimal :: "string \<Rightarrow> string" where
  "html_entity_encode_decimal input = concat (map (\<lambda>c. ''&#'' @ show_nat (of_char c) @ '';'') input)"

definition html_entity_encode_hex :: "string \<Rightarrow> string" where
  "html_entity_encode_hex input = concat (map (\<lambda>c. ''&#x'' @ hex_byte True c @ '';'') input)"

definition hex_encode :: "bool \<Rightarrow> string \<Rightarrow> string" where
  "hex_encode upper input = concat (map (hex_byte upper) input)"

definition BASE64_ALPHABET :: string where
  "BASE64_ALPHABET = ''ABCDEFGHIJKLMNOPQRSTUVWXYZabcdefghijklmnopqrstuvwxyz0123456789+/''"

text \<open>Six bits of the 24 bit group formed by up to three bytes.\<close>

definition sextet :: "nat \<Rightarrow> nat \<Rightarrow> nat \<Rightarrow> nat \<Rightarrow> char" where
  "sextet b0 b1 b2 shift = BASE64_ALPHABET ! ((b0 * 65536 + b1 * 256 + b2) div 2 ^ shift mod 64)"

fun base64_encode_value :: "string \<Rightarrow> string" where
  "base64_encode_value [] = []"
| "base64_encode_value [a] =
     (let b0 = of_char a in [sextet b0 0 0 18, sextet b0 0 0 12, CHR ''='', CHR ''=''])"
| "base64_encode_value [a, b] =
     (let b0 = of_char a; b1 = of_char b
      in [sextet b0 b1 0 18, sextet b0 b1 0 12, sextet b0 b1 0 6, CHR ''=''])"
| "base64_encode_value (a # b # c # s) =
     (let b0 = of_char a; b1 = of_char b; b2 = of_char c
      in [sextet b0 b1 b2 18, sextet b0 b1 b2 12, sextet b0 b1 b2 6, sextet b0 b1 b2 0] @
         base64_encode_value s)"

definition trim_end_matches :: "char \<Rightarrow> string \<Rightarrow> string" where
  "trim_end_matches c s = rev (dropWhile (\<lambda>x. x = c) (rev s))"

definition base64url_encode_value :: "string \<Rightarrow> string" where
  "base64url_encode_value input =
     trim_end_matches (CHR ''='') (map (\<lambda>c. if c = CHR ''+'' then CHR ''-''
       else if c = CHR ''/'' then CHR ''_'' else c) (base64_encode_value input))"

section \<open>Scrubbing\<close>

definition scrub_variant :: "bool \<Rightarrow> string \<Rightarrow> string \<Rightarrow> string" where
  "scrub_variant applies variant s =
     (if applies \<and> contains_str variant s then str_replace variant REDACTED s else s)"

definition json_escaped :: "(json \<Rightarrow> string) \<Rightarrow> string \<Rightarrow> string" where
  "json_escaped to_text value = (let t = to_text (JStr value) in take (length t - 2) (drop 1 t))"

definition scrub_single_value :: "(json \<Rightarrow> string) \<Rightarrow> string \<Rightarrow> string \<Rightarrow> string" where
  "scrub_single_value to_text value s =
     (let s = scrub_variant True value s;
          url_encoded = urlencoding_encode value;
          s = scrub_variant (url_encoded \<noteq> value) url_encoded s;
          url_lower = urlencoding_encode_lower value;
          s = scrub_variant (url_lower \<noteq> url_encoded \<and> url_lower \<noteq> value) url_lower s;
          escaped = json_escaped to_text value;
          s = scrub_variant (escaped \<noteq> value) escaped s;
          hex_encoded = hex_encode False value;
          s = scrub_variant True hex_encoded s;
          hex_upper = hex_encode True value;
          s = scrub_variant (hex_upper \<noteq> hex_encoded) hex_upper s;
          b64_encoded = base64_encode_value value;
          s = scrub_variant (b64_encoded \<noteq> value) b64_encoded s;
          b64url_encoded = base64url_encode_value value;
          s = scrub_variant (b64url_encoded \<noteq> value \<and> b64url_encoded \<noteq> b64_encoded) b64url_encoded s;
          unicode_escaped = unicode_json_escape value;
          s = scrub_variant (unicode_escaped \<noteq> value) unicode_escaped s;
          double_url_encoded = urlencoding_encode url_encoded;
          s = scrub_variant (double_url_encoded \<noteq> url_encoded) double_url_encoded s;
          html_decimal = html_entity_encode_decimal value;
          s = scrub_variant True html_decimal s;
          html_hex = html_entity_encode_hex value
      in scrub_variant (html_hex \<noteq> html_decimal) html_hex s)"

definition scrub_response :: "(json \<Rightarrow> string) \<Rightarrow> string \<Rightarrow> string list \<Rightarrow> string" where
  "scrub_response to_text body known_values =
     fold (\<lambda>value s. if value = [] then s else scrub_single_value to_text value s)
       (sort_key (\<lambda>v. - int (length v)) known_values) body"

text \<open>The older entry point for values that are not wrapped as secrets.\<close>

definition scrub_response_plain :: "(json \<Rightarrow> string) \<Rightarrow> string \<Rightarrow> string list \<Rightarrow> string" where
  "scrub_response_plain to_text body known_values =
     fold (\<lambda>value s. if value = [] then s else scrub_single_value to_text value s)
       (sort_key (\<lambda>v. - int (length v)) known_values) body"

section \<open>Classification of response data\<close>

datatype detected_sensitivity = DetInternal | DetConfidential | DetRestricted

fun detected_rank :: "detected_sensitivity \<Rightarrow> nat" where
  "detected_rank DetInternal = 0"
| "detected_rank DetConfidential = 1"
| "detected_rank DetRestricted = 2"

instantiation detected_sensitivity :: linorder
begin

definition less_eq_detected_sensitivity :: "detected_sensitivity \<Rightarrow> detected_sensitivity \<Rightarrow> bool" where
  "less_eq_detected_sensitivity a b \<longleftrightarrow> detected_rank a \<le> detected_rank b"

definition less_detected_sensitivity :: "detected_sensitivity \<Rightarrow> detected_sensitivity \<Rightarrow> bool" where
  "less_detected_sensitivity a b \<longleftrightarrow> detected_rank a < detected_rank b"

instance
proof
  fix a b :: detected_sensitivity
  show "a \<le> b \<Longrightarrow> b \<le> a \<Longrightarrow> a = b"
    by (cases a; cases b) (simp_all add: less_eq_detected_sensitivity_def)
qed (auto simp: less_eq_detected_sensitivity_def less_detected_sensitivity_def)

end

record data_finding =
  df_sensitivity :: detected_sensitivity
  df_pattern_name :: string

datatype response_pattern =
    AWS_ACCESS_KEY | PRIVATE_KEY | BEARER_TOKEN_JSON | GENERIC_API_KEY
  | SSN | CREDIT_CARD | EMAIL_ADDRESS | INTERNAL_IP

definition PATTERNS :: "(detected_sensitivity \<times> string \<times> response_pattern) list" where
  "PATTERNS =
     [(DetRestricted, ''AWS access key'', AWS_ACCESS_KEY),
      (DetRestricted, ''private key'', PRIVATE_KEY),
      (DetRestricted, ''bearer token'', BEARER_TOKEN_JSON),
      (DetRestricted, ''generic API key (sk-)'', GENERIC_API_KEY),
      (DetConfidential, ''SSN'', SSN),
      (DetConfidential, ''credit card number'', CREDIT_CARD),
      (DetConfidential, ''email address'', EMAIL_ADDRESS),
      (DetInternal, ''internal IP address'', INTERNAL_IP)]"

definition scan_response :: "(response_pattern \<Rightarrow> string \<Rightarrow> bool) \<Rightarrow> string \<Rightarrow> data_finding list" where
  "scan_response is_match body =
     map (\<lambda>(sens, name, _). \<lparr>df_sensitivity = sens, df_pattern_name = name\<rparr>)
       (filter (\<lambda>(_, _, pattern). is_match pattern body) PATTERNS)"

fun max_sensitivity :: "data_finding list \<Rightarrow> detected_sensitivity option" where
  "max_sensitivity [] = None"
| "max_sensitivity (f # fs) = Some (fold max (map df_sensitivity fs) (df_sensitivity f))"

section \<open>A scrubbed text has no secret\<close>

text \<open>
  A text that cannot overlap the mask: without brackets and not a part of its inner word.
\<close>

definition clear_of_mask :: "string \<Rightarrow> bool" where
  "clear_of_mask v \<longleftrightarrow>
     v \<noteq> [] \<and> CHR ''['' \<notin> set v \<and> CHR '']'' \<notin> set v \<and> \<not> contains_str v ''CREDENTIAL''"

text \<open>The pieces of a text between the replaced occurrences.\<close>

function pieces :: "string \<Rightarrow> string \<Rightarrow> string list" where
  "pieces pat [] = [[]]"
| "pieces pat (c # s) =
     (if pat \<noteq> [] \<and> starts_with pat (c # s) then [] # pieces pat (drop (length pat - 1) s)
      else (case pieces pat s of [] \<Rightarrow> [[c]] | p # ps \<Rightarrow> (c # p) # ps))"
  by pat_completeness auto
termination by (relation "measure (\<lambda>(pat, s). length s)") auto

lemma pieces_not_Nil [simp]: "pieces pat s \<noteq> []"
  by (induction pat s rule: pieces.induct) (auto split: list.splits)

lemma join_str_Cons: "ps \<noteq> [] \<Longrightarrow> join_str rep (p # ps) = p @ rep @ join_str rep ps"
  by (cases ps) auto

lemma str_replace_pieces: "str_replace pat rep s = join_str rep (pieces pat s)"
proof (induction pat rep s rule: str_replace.induct)
  case (2 pat rep c s)
  show ?case
  proof (cases "pat \<noteq> [] \<and> starts_with pat (c # s)")
    case True
    with 2 show ?thesis by (simp add: join_str_Cons)
  next
    case False
    obtain p ps where "pieces pat s = p # ps" by (cases "pieces pat s") auto
    with 2(2) [OF False] False show ?thesis by (cases ps) auto
  qed
qed simp

lemma contains_str_trans: "contains_str a b \<Longrightarrow> contains_str b c \<Longrightarrow> contains_str a c"
  unfolding contains_str_iff by (metis append.assoc)

lemma contains_str_drop: "contains_str a (drop n s) \<Longrightarrow> contains_str a s"
  unfolding contains_str_iff by (metis append.assoc append_take_drop_id)

lemma contains_str_refl [simp]: "contains_str a a"
  unfolding contains_str_iff by (metis append_Nil append_Nil2)

lemma contains_str_Cons: "contains_str a s \<Longrightarrow> contains_str a (c # s)"
  by simp

lemma pieces_hd_prefix: "pieces pat s = p # ps \<Longrightarrow> starts_with p s"
proof (induction pat s arbitrary: p ps rule: pieces.induct)
  case (2 pat c s)
  show ?case
  proof (cases "pat \<noteq> [] \<and> starts_with pat (c # s)")
    case True
    with 2(3) show ?thesis by (simp add: starts_with_def)
  next
    case False
    obtain q qs where q: "pieces pat s = q # qs" by (cases "pieces pat s") auto
    with False 2(3) have "p = c # q" by auto
    then show ?thesis using 2(2) [OF False q] by (simp add: starts_with_def)
  qed
qed (simp add: starts_with_def)

lemma pieces_inside: "q \<in> set (pieces pat s) \<Longrightarrow> contains_str q s"
proof (induction pat s arbitrary: q rule: pieces.induct)
  case (2 pat c s)
  show ?case
  proof (cases "pat \<noteq> [] \<and> starts_with pat (c # s)")
    case True
    have "contains_str [] (c # s)" by (simp add: starts_with_def)
    moreover have "contains_str q (c # s)" if "q \<in> set (pieces pat (drop (length pat - 1) s))"
      using 2(1) [OF True that] contains_str_drop contains_str_Cons by blast
    ultimately show ?thesis using 2(3) True by auto
  next
    case False
    obtain p ps where p: "pieces pat s = p # ps" by (cases "pieces pat s") auto
    have "contains_str (c # p) (c # s)" using pieces_hd_prefix [OF p] by (simp add: starts_with_def)
    moreover have "contains_str q (c # s)" if "q \<in> set ps"
      using 2(2) [OF False, of q] that p contains_str_Cons by simp
    ultimately show ?thesis using 2(3) False p by auto
  qed
qed simp

lemma starts_with_append: "starts_with a b \<Longrightarrow> starts_with b c \<Longrightarrow> starts_with a c"
  unfolding starts_with_iff by auto

lemma pieces_free: "pat \<noteq> [] \<Longrightarrow> q \<in> set (pieces pat s) \<Longrightarrow> \<not> contains_str pat q"
proof (induction pat s arbitrary: q rule: pieces.induct)
  case (2 pat c s)
  show ?case
  proof (cases "pat \<noteq> [] \<and> starts_with pat (c # s)")
    case True
    with 2 show ?thesis by auto
  next
    case False
    obtain p ps where p: "pieces pat s = p # ps" by (cases "pieces pat s") auto
    have "starts_with (c # p) (c # s)" using pieces_hd_prefix [OF p] by (simp add: starts_with_def)
    then have "\<not> starts_with pat (c # p)" using False 2(3) starts_with_append by blast
    moreover have "\<not> contains_str pat p" using 2(2) [OF False 2(3), of p] p by simp
    ultimately have "\<not> contains_str pat (c # p)" by simp
    then show ?thesis using 2(2) [OF False 2(3), of q] 2(4) False p by auto
  qed
qed simp

lemma contains_str_sep:
  "c \<notin> set v \<Longrightarrow> contains_str v (a @ c # b) \<Longrightarrow> contains_str v a \<or> contains_str v b"
proof (induction a)
  case Nil
  then show ?case by (cases v) (auto simp: starts_with_def split: if_splits)
next
  case (Cons x a)
  have "starts_with v (x # a)" if "starts_with v (x # a @ c # b)"
  proof (cases "length v \<le> length (x # a)")
    case True
    then show ?thesis using that by (cases v) (auto simp: starts_with_def)
  next
    case False
    then obtain n where n: "length v = length (x # a) + Suc n"
      by (metis less_iff_Suc_add not_le add_Suc_right)
    have "take (length v) ((x # a) @ c # b) = (x # a) @ c # take n b" unfolding n by simp
    then have "c \<in> set (take (length v) (x # a @ c # b))" by simp
    then show ?thesis using that Cons.prems(1) by (simp add: starts_with_def)
  qed
  then show ?case using Cons by auto
qed

lemma contains_join:
  "clear_of_mask v \<Longrightarrow> contains_str v (join_str REDACTED ps) \<Longrightarrow> \<exists>p \<in> set ps. contains_str v p"
proof (induction ps rule: induct_list012)
  case (3 p q ps)
  have mask: "p @ REDACTED @ r = p @ CHR ''['' # (''CREDENTIAL'' @ CHR '']'' # r)" for r
    by (simp add: REDACTED_def)
  have "contains_str v p \<or> contains_str v (''CREDENTIAL'' @ CHR '']'' # join_str REDACTED (q # ps))"
    using 3(3,4) contains_str_sep [of "CHR ''[''" v p] unfolding join_str.simps mask clear_of_mask_def
    by blast
  then have "contains_str v p \<or> contains_str v (join_str REDACTED (q # ps))"
    using 3(3) contains_str_sep [of "CHR '']''" v "''CREDENTIAL''"] unfolding clear_of_mask_def by blast
  then show ?case using 3(2,3) by auto
qed (auto simp: clear_of_mask_def)

lemma replace_keeps_absent:
  "clear_of_mask v \<Longrightarrow> \<not> contains_str v s \<Longrightarrow> \<not> contains_str v (str_replace pat REDACTED s)"
  unfolding str_replace_pieces using contains_join pieces_inside contains_str_trans by blast

lemma replace_removes: "clear_of_mask v \<Longrightarrow> \<not> contains_str v (str_replace v REDACTED s)"
  unfolding str_replace_pieces using contains_join pieces_free clear_of_mask_def by blast

section \<open>What scrubbing covers\<close>

definition variants :: "(json \<Rightarrow> string) \<Rightarrow> string \<Rightarrow> string list" where
  "variants to_text v =
     [v, urlencoding_encode v, urlencoding_encode_lower v, json_escaped to_text v, hex_encode False v,
      hex_encode True v, base64_encode_value v, base64url_encode_value v, unicode_json_escape v,
      urlencoding_encode (urlencoding_encode v), html_entity_encode_decimal v, html_entity_encode_hex v]"

lemma scrub_variant_keeps:
  "clear_of_mask v \<Longrightarrow> \<not> contains_str v s \<Longrightarrow> \<not> contains_str v (scrub_variant b w s)"
  by (simp add: scrub_variant_def replace_keeps_absent)

lemma scrub_variant_removes: "clear_of_mask v \<Longrightarrow> b \<Longrightarrow> \<not> contains_str v (scrub_variant b v s)"
  by (simp add: scrub_variant_def replace_removes)

definition scrub_plan :: "(json \<Rightarrow> string) \<Rightarrow> string \<Rightarrow> (bool \<times> string) list" where
  "scrub_plan to_text v =
     (let url = urlencoding_encode v; low = urlencoding_encode_lower v; esc = json_escaped to_text v;
          hex = hex_encode False v; b64 = base64_encode_value v; b64url = base64url_encode_value v
      in [(True, v), (url \<noteq> v, url), (low \<noteq> url \<and> low \<noteq> v, low), (esc \<noteq> v, esc), (True, hex),
          (hex_encode True v \<noteq> hex, hex_encode True v), (b64 \<noteq> v, b64),
          (b64url \<noteq> v \<and> b64url \<noteq> b64, b64url), (unicode_json_escape v \<noteq> v, unicode_json_escape v),
          (urlencoding_encode url \<noteq> url, urlencoding_encode url), (True, html_entity_encode_decimal v),
          (html_entity_encode_hex v \<noteq> html_entity_encode_decimal v, html_entity_encode_hex v)])"

lemma scrub_single_value_plan:
  "scrub_single_value to_text v s = fold (\<lambda>(b, w). scrub_variant b w) (scrub_plan to_text v) s"
  by (simp add: scrub_single_value_def scrub_plan_def Let_def)

lemma scrub_plan_keeps:
  assumes "clear_of_mask v" and "\<not> contains_str v s"
  shows "\<not> contains_str v (fold (\<lambda>(b, w). scrub_variant b w) plan s)"
  using assms(2)
proof (induction plan arbitrary: s)
  case (Cons e plan)
  obtain b w where e: "e = (b, w)" by (cases e)
  have "\<not> contains_str v (scrub_variant b w s)" using scrub_variant_keeps [OF assms(1)] Cons.prems by blast
  from Cons.IH [OF this] show ?case unfolding e by simp
qed simp

lemma scrub_plan_removes:
  assumes "clear_of_mask v" and "(True, v) \<in> set plan"
  shows "\<not> contains_str v (fold (\<lambda>(b, w). scrub_variant b w) plan s)"
proof -
  obtain p q where "plan = p @ (True, v) # q" using assms(2) by (meson split_list)
  moreover have "\<not> contains_str v (scrub_variant True v t)" for t
    by (rule scrub_variant_removes [OF assms(1) TrueI])
  ultimately show ?thesis using scrub_plan_keeps [OF assms(1)] by simp
qed

lemma variants_in_plan: "w \<in> set (variants to_text v) \<Longrightarrow> (True, w) \<in> set (scrub_plan to_text v)"
  unfolding variants_def scrub_plan_def Let_def
  by (simp only: list.set insert_iff prod.inject empty_iff simp_thms) argo

lemma scrub_single_removes:
  "clear_of_mask w \<Longrightarrow> w \<in> set (variants to_text v) \<Longrightarrow>
   \<not> contains_str w (scrub_single_value to_text v s)"
  unfolding scrub_single_value_plan by (intro scrub_plan_removes variants_in_plan)

lemma scrub_single_keeps:
  "clear_of_mask w \<Longrightarrow> \<not> contains_str w s \<Longrightarrow> \<not> contains_str w (scrub_single_value to_text v s)"
  unfolding scrub_single_value_plan by (intro scrub_plan_keeps)

lemma scrub_response_removes:
  assumes "v \<in> set known" and "v \<noteq> []" and "w \<in> set (variants to_text v)" and "clear_of_mask w"
  shows "\<not> contains_str w (scrub_response to_text body known)"
proof -
  let ?f = "\<lambda>value s. if value = [] then s else scrub_single_value to_text value s"
  have keeps: "\<not> contains_str w (fold ?f vs s)" if "\<not> contains_str w s" for vs s
    using that by (induction vs arbitrary: s) (auto simp: scrub_single_keeps [OF assms(4)])
  obtain p q where pq: "sort_key (\<lambda>v. - int (length v)) known = p @ v # q"
    using assms(1) by (metis set_sort split_list)
  have "fold ?f (p @ v # q) body = fold ?f q (scrub_single_value to_text v (fold ?f p body))"
    using assms(2) by simp
  then show ?thesis
    unfolding scrub_response_def pq using keeps [OF scrub_single_removes [OF assms(4,3)]] by simp
qed

section \<open>Injected values are known to the scrubber\<close>

text \<open>A provider that answers a reference always alike.\<close>

definition stable_provider :: "'p provider \<Rightarrow> (string \<Rightarrow> (string, credential_error) result) \<Rightarrow> bool" where
  "stable_provider resolve val \<longleftrightarrow> (\<forall>r p. fst (resolve r p) = val r)"

definition log_ok :: "(string \<Rightarrow> (string, credential_error) result) \<Rightarrow> injection_log \<Rightarrow> bool" where
  "log_ok val lg \<longleftrightarrow> map val (il_resolved lg) = map Ok (il_secret_values lg)"

lemma resolve_all_stable:
  assumes "stable_provider resolve val" and "resolve_all resolve rs p = (Ok pairs, p')"
  shows "map fst pairs = rs \<and> (\<forall>(r, v) \<in> set pairs. val r = Ok v)"
  using assms(2)
proof (induction rs arbitrary: p pairs p')
  case (Cons r rs)
  obtain v q where v: "resolve r p = (Ok v, q)" using Cons.prems by (auto split: result.splits prod.splits)
  obtain ps q' where ps: "resolve_all resolve rs q = (Ok ps, q')" and pairs: "pairs = (r, v) # ps"
    using Cons.prems v by (auto split: result.splits prod.splits)
  have "val r = Ok v" using assms(1) v unfolding stable_provider_def by (metis fst_conv)
  with Cons.IH [OF ps] pairs show ?case by auto
qed simp

lemma apply_refs_log:
  assumes "\<forall>(r, v) \<in> set pairs. val r = Ok v" and "log_ok val lg"
    and "apply_refs pairs input lg = (output, lg')"
  shows "log_ok val lg' \<and> set (il_resolved lg') = set (il_resolved lg) \<union> fst ` set pairs"
  using assms
proof (induction pairs arbitrary: input lg)
  case (Cons pair pairs)
  obtain r v where [simp]: "pair = (r, v)" by (cases pair)
  show ?case
  proof (cases "r \<in> set (il_resolved lg)")
    case True
    with Cons.IH [of lg "str_replace (placeholder r) v input"] Cons.prems show ?thesis by auto
  next
    case False
    let ?lg = "lg\<lparr>il_resolved := il_resolved lg @ [r], il_secret_values := il_secret_values lg @ [v]\<rparr>"
    have "log_ok val ?lg" using Cons.prems by (simp add: log_ok_def)
    with Cons.IH [of ?lg] Cons.prems False show ?thesis by simp
  qed
qed simp

lemma replace_refs_log:
  assumes "stable_provider resolve val" and "log_ok val lg"
    and "replace_refs resolve input lg p = (Ok (output, lg'), p')"
  shows "log_ok val lg' \<and> set (il_resolved lg') = set (il_resolved lg) \<union> set (find_refs input)"
proof (cases "find_refs input = []")
  case True
  with assms show ?thesis by (simp add: replace_refs_def)
next
  case False
  then obtain pairs where pairs: "resolve_all resolve (find_refs input) p = (Ok pairs, p')"
    and out: "apply_refs pairs input lg = (output, lg')"
    using assms(3) by (auto simp: replace_refs_def Let_def split: result.splits prod.splits)
  note st = resolve_all_stable [OF assms(1) pairs]
  have "fst ` set pairs = set (find_refs input)" using st by (metis list.set_map)
  with apply_refs_log [OF _ assms(2) out] st show ?thesis by simp
qed

lemma inject_headers_log:
  assumes "stable_provider resolve val" and "log_ok val lg"
    and "inject_headers resolve hs lg p = (Ok (hs', lg'), p')"
  shows "log_ok val lg' \<and>
    set (il_resolved lg') = set (il_resolved lg) \<union> (\<Union>h \<in> set hs. set (find_refs (snd h)))"
  using assms(2,3)
proof (induction hs arbitrary: lg p hs')
  case (Cons h hs)
  obtain n v where [simp]: "h = (n, v)" by (cases h)
  obtain nv lg1 p1 where r: "replace_refs resolve v lg p = (Ok (nv, lg1), p1)"
    using Cons.prems by (auto split: result.splits prod.splits)
  obtain hs1 where i: "inject_headers resolve hs lg1 p1 = (Ok (hs1, lg'), p')"
    using Cons.prems r by (auto split: result.splits prod.splits)
  from replace_refs_log [OF assms(1) Cons.prems(1) r] Cons.IH [OF _ i] show ?case by auto
qed simp

lemma inject_credentials_log:
  assumes "stable_provider resolve val"
    and "inject_credentials resolve body headers p = (Ok injd, p')"
  shows "map val (ir_resolved_refs injd) = map Ok (ir_resolved_values injd)"
    and "set (ir_resolved_refs injd) =
      set (find_refs body) \<union> (\<Union>h \<in> set headers. set (find_refs (snd h)))"
proof -
  let ?lg = "\<lparr>il_resolved = [], il_secret_values = []\<rparr>"
  obtain nb lg1 p1 where r: "replace_refs resolve body ?lg p = (Ok (nb, lg1), p1)"
    using assms(2) by (auto simp: inject_credentials_def split: result.splits prod.splits)
  obtain nh lg2 where i: "inject_headers resolve headers lg1 p1 = (Ok (nh, lg2), p')"
    and injd: "ir_resolved_refs injd = il_resolved lg2" "ir_resolved_values injd = il_secret_values lg2"
    using assms(2) r by (auto simp: inject_credentials_def split: result.splits prod.splits)
  have l1: "log_ok val lg1 \<and> set (il_resolved lg1) = set (find_refs body)"
    using replace_refs_log [OF assms(1) _ r] by (simp add: log_ok_def)
  with inject_headers_log [OF assms(1) _ i] injd
  show "map val (ir_resolved_refs injd) = map Ok (ir_resolved_values injd)"
    and "set (ir_resolved_refs injd) =
      set (find_refs body) \<union> (\<Union>h \<in> set headers. set (find_refs (snd h)))"
    by (auto simp: log_ok_def)
qed

section \<open>Properties\<close>

text \<open>
  C10: an injected secret does not come back. With a provider that answers alike throughout the
  request, every reference found in the body or in a header value was resolved, and the scrubbed
  response contains the secret in none of its twelve covered encodings, as long as that encoding
  cannot be confused with the mask itself.
\<close>

theorem injected_secret_is_scrubbed:
  assumes "stable_provider resolve val"
    and "inject_credentials resolve body headers p = (Ok injd, p')"
    and "r \<in> set (find_refs body) \<union> (\<Union>h \<in> set headers. set (find_refs (snd h)))"
  shows "\<exists>v. val r = Ok v \<and> v \<in> set (ir_resolved_values injd) \<and>
    (v = [] \<or> (\<forall>w \<in> set (variants to_text v). clear_of_mask w \<longrightarrow>
       \<not> contains_str w (scrub_response to_text response (ir_resolved_values injd))))"
proof -
  note inj_log = inject_credentials_log [OF assms(1,2)]
  have "val r \<in> set (map Ok (ir_resolved_values injd))"
    using assms(3) inj_log(2) unfolding inj_log(1) [symmetric] by simp
  then obtain v where v: "val r = Ok v" "v \<in> set (ir_resolved_values injd)" by auto
  then show ?thesis using scrub_response_removes by blast
qed

definition demo_provider :: "unit provider" where
  "demo_provider r p = (if r = ''api_key'' then (Ok ''s3cr3t'', p) else (Err (CredNotFound r), p))"

lemma demo_find_refs: "find_refs ''k=${CRED:api_key}'' = [''api_key'']"
  by code_simp

lemma demo_injects:
  "inject_credentials demo_provider ''k=${CRED:api_key}'' [] () =
   (Ok \<lparr>ir_body = ''k=s3cr3t'', ir_headers = [], ir_resolved_refs = [''api_key''],
        ir_resolved_values = [''s3cr3t'']\<rparr>, ())"
  by code_simp

theorem injected_secret_is_scrubbed_witness:
  "\<not> contains_str ''s3cr3t'' (scrub_response (\<lambda>_. ''x'') ''echo s3cr3t'' [''s3cr3t''])"
proof -
  have "stable_provider demo_provider (\<lambda>r. if r = ''api_key'' then Ok ''s3cr3t'' else Err (CredNotFound r))"
    by (simp add: stable_provider_def demo_provider_def)
  from injected_secret_is_scrubbed [OF this demo_injects, of "''api_key''" "\<lambda>_. ''x''" "''echo s3cr3t''"]
  show ?thesis by (simp add: demo_find_refs variants_def) (simp add: clear_of_mask_def starts_with_def)
qed

lemmas encoding_defs = hex_encode_def hex_byte_def hex_digit_def urlencoding_encode_def
  urlencoding_encode_lower_def url_unreserved_def json_escaped_def unicode_json_escape_def
  html_entity_encode_decimal_def html_entity_encode_hex_def show_nat.simps sextet_def
  BASE64_ALPHABET_def base64url_encode_value_def trim_end_matches_def

text \<open>
  A credential rotated during the request escapes the scrubber. When the same reference occurs
  in the body and in a header and the provider answers anew for the header, the header carries the
  new value while only the old one is remembered, and the new value passes the scrubber.
\<close>

theorem rotated_secret_escapes_scrubbing:
  "\<exists>resolve :: nat provider. \<exists>injd.
     inject_credentials resolve ''${CRED:k}'' [(''x-key'', ''${CRED:k}'')] 0 = (Ok injd, 2) \<and>
     ir_headers injd = [(''x-key'', ''new'')] \<and>
     scrub_response (\<lambda>_. ''?old?'') ''new'' (ir_resolved_values injd) = ''new''"
proof (intro exI conjI)
  let ?resolve = "\<lambda>r n. (Ok (if n = 0 then ''old'' else ''new''), Suc n)"
  let ?injd = "\<lparr>ir_body = ''old'', ir_headers = [(''x-key'', ''new'')],
    ir_resolved_refs = [''k''], ir_resolved_values = [''old'']\<rparr>"
  show "inject_credentials ?resolve ''${CRED:k}'' [(''x-key'', ''${CRED:k}'')] 0 = (Ok ?injd, 2)"
    by code_simp
  show "ir_headers ?injd = [(''x-key'', ''new'')]" by simp
  show "scrub_response (\<lambda>_. ''?old?'') ''new'' (ir_resolved_values ?injd) = ''new''"
    by (simp add: scrub_response_def scrub_single_value_def scrub_variant_def Let_def starts_with_def
        encoding_defs)
qed

end
