(* ===== verification/Providers.thy ===== *)
theory Providers
  imports Credential
begin

text \<open>
  The two credential providers (\<open>crates/arbiter-credential/src/file_provider.rs\<close> and \<open>env_provider.rs\<close>)
  and what injection gets from a provider that only reads: the locale \<open>read_only_provider\<close>, interpreted
  on both. The file system and the TOML reader are arguments, and so is the environment of the process.
\<close>

section \<open>Environment variables\<close>

record credential_ref =
  cr_name :: string
  cr_provider :: string

record env_provider =
  ep_prefix :: string

definition env_provider_new :: env_provider where
  "env_provider_new = \<lparr>ep_prefix = ''ARBITER_CRED_''\<rparr>"

definition env_with_prefix :: "string \<Rightarrow> env_provider" where
  "env_with_prefix prefix = \<lparr>ep_prefix = prefix\<rparr>"

text \<open>
  The environment holds bytes. \<open>env::var\<close> reports a variable that is absent or is not UTF-8, the
  latter with a rendering of its bytes; \<open>env::vars\<close> unwinds on the first pair that is not UTF-8.
\<close>

type_synonym environment = "(string \<times> string) list"

definition env_var :: "(string \<Rightarrow> string) \<Rightarrow> environment \<Rightarrow> string \<Rightarrow> (string, string) result" where
  "env_var debug vars name =
     (case map_of vars name of
        None \<Rightarrow> Err ''environment variable not found''
      | Some bytes \<Rightarrow>
          (case from_utf8 bytes of
             Some v \<Rightarrow> Ok v
           | None \<Rightarrow> Err (''environment variable was not valid unicode: '' @ debug bytes)))"

definition env_resolve ::
  "(string \<Rightarrow> string) \<Rightarrow> environment \<Rightarrow> env_provider \<Rightarrow> string \<Rightarrow> (string, credential_error) result" where
  "env_resolve debug vars p reference =
     (if \<not> starts_with (ep_prefix p) reference
      then Err (CredNotFound (''credential reference '' @ quoted reference @ '' does not match required prefix '' @
             quoted (ep_prefix p)))
      else case env_var debug vars reference of
        Ok v \<Rightarrow> Ok v
      | Err e \<Rightarrow> Err (CredNotFound (''env var '' @ reference @ '': '' @ e))
      | Panic \<Rightarrow> Panic)"

definition env_list_refs :: "environment \<Rightarrow> env_provider \<Rightarrow> (credential_ref list, credential_error) result" where
  "env_list_refs vars p =
     (if list_ex (\<lambda>(k, v). from_utf8 k = None \<or> from_utf8 v = None) vars then Panic
      else Ok (map (\<lambda>(k, v). \<lparr>cr_name = k, cr_provider = ''env''\<rparr>)
                 (filter (\<lambda>(k, v). starts_with (ep_prefix p) k) vars)))"

section \<open>Credential files\<close>

record file_provider =
  fp_credentials :: "(string \<times> string) list"
  fp_source_path :: string

text \<open>\<open>Path::extension\<close>: of the last component, what follows its last dot, unless the dot leads it.\<close>

definition file_name :: "string \<Rightarrow> string option" where
  "file_name path =
     (case filter (\<lambda>c. c \<noteq> [] \<and> c \<noteq> ''.'') (split_on (\<lambda>c. c = CHR ''/'') path) of
        [] \<Rightarrow> None
      | cs \<Rightarrow> if last cs = ''..'' then None else Some (last cs))"

definition path_extension :: "string \<Rightarrow> string option" where
  "path_extension path =
     Option.bind (file_name path) (\<lambda>name.
       let ext = rev (takeWhile (\<lambda>c. c \<noteq> CHR ''.'') (rev name));
           stem = rev (dropWhile (\<lambda>c. c \<noteq> CHR ''.'') (rev name))
       in if length stem \<le> 1 then None else Some ext)"

text \<open>One reading of the file and what the TOML reader makes of it: the table of credentials.\<close>

definition read_credentials ::
  "(string \<Rightarrow> ((string \<times> string) list, string) result) \<Rightarrow> (string, string) result \<Rightarrow> string \<Rightarrow>
   ((string \<times> string) list, credential_error) result" where
  "read_credentials parse contents path =
     (case contents of
        Err e \<Rightarrow> Err (ProviderError (''reading '' @ path @ '': '' @ e))
      | Panic \<Rightarrow> Panic
      | Ok text \<Rightarrow>
          (case parse text of
             Err e \<Rightarrow> Err (ProviderError (''parsing '' @ path @ '': '' @ e))
           | Panic \<Rightarrow> Panic
           | Ok credentials \<Rightarrow> Ok credentials))"

definition file_from_path ::
  "(string \<Rightarrow> ((string \<times> string) list, string) result) \<Rightarrow> (string, string) result \<Rightarrow> string \<Rightarrow>
   (file_provider, credential_error) result" where
  "file_from_path parse contents path =
     (if path_extension path = Some ''age''
      then Err (ProviderError
             ''encrypted .age files are not yet supported; age decryption support is planned (GAP-CRED-1)'')
      else case read_credentials parse contents path of
        Ok credentials \<Rightarrow> Ok \<lparr>fp_credentials = credentials, fp_source_path = path\<rparr>
      | Err e \<Rightarrow> Err e
      | Panic \<Rightarrow> Panic)"

definition file_reload ::
  "(string \<Rightarrow> ((string \<times> string) list, string) result) \<Rightarrow> (string, string) result \<Rightarrow> file_provider \<Rightarrow>
   (nat, credential_error) result \<times> file_provider" where
  "file_reload parse contents p =
     (case read_credentials parse contents (fp_source_path p) of
        Ok new_creds \<Rightarrow> (Ok (length new_creds), p\<lparr>fp_credentials := new_creds\<rparr>)
      | Err e \<Rightarrow> (Err e, p)
      | Panic \<Rightarrow> (Panic, p))"

definition file_resolve :: "file_provider \<Rightarrow> string \<Rightarrow> (string, credential_error) result" where
  "file_resolve p reference =
     (case map_of (fp_credentials p) reference of
        Some v \<Rightarrow> Ok v
      | None \<Rightarrow> Err (CredNotFound reference))"

definition file_list_refs :: "file_provider \<Rightarrow> (credential_ref list, credential_error) result" where
  "file_list_refs p = Ok (map (\<lambda>(k, v). \<lparr>cr_name = k, cr_provider = ''file''\<rparr>) (fp_credentials p))"

section \<open>Providers that only read\<close>

text \<open>
  A client sees a provider through \<open>resolve\<close> and \<open>list_refs\<close>. While no reload comes in between, both
  only read, and what is listed resolves.
\<close>

locale read_only_provider =
  fixes resolve :: "'p provider"
    and list_refs :: "'p \<Rightarrow> (credential_ref list, credential_error) result"
    and val :: "'p \<Rightarrow> string \<Rightarrow> (string, credential_error) result"
  assumes resolve_val: "resolve name p = (val p name, p)"
    and listed_resolves: "list_refs p = Ok refs \<Longrightarrow> r \<in> set refs \<Longrightarrow> \<exists>v. val p (cr_name r) = Ok v"
begin

text \<open>Injection from one state is injection from a provider without state.\<close>

lemma resolve_all_frozen:
  "resolve_all resolve rs p = (fst (resolve_all (\<lambda>r u. (val p r, u)) rs ()), p)"
  by (induction rs) (auto simp: resolve_val split: result.split prod.split)

lemma replace_refs_frozen:
  "replace_refs resolve input lg p = (fst (replace_refs (\<lambda>r u. (val p r, u)) input lg ()), p)"
  by (auto simp: replace_refs_def resolve_all_frozen [of _ p] Let_def split: result.split prod.split)

lemma inject_headers_frozen:
  "inject_headers resolve hs lg p = (fst (inject_headers (\<lambda>r u. (val p r, u)) hs lg ()), p)"
proof (induction hs arbitrary: lg)
  case (Cons h hs)
  then show ?case
    by (cases h) (auto simp: replace_refs_frozen [of _ _ p] split: result.split prod.split)
qed simp

lemma inject_frozen:
  "inject_credentials resolve body hs p = (fst (inject_credentials (\<lambda>r u. (val p r, u)) body hs ()), p)"
  by (auto simp: inject_credentials_def replace_refs_frozen [of _ _ p] inject_headers_frozen [of _ _ p]
      split: result.split prod.split)

lemma inject_keeps: "snd (inject_credentials resolve body hs p) = p"
  by (simp add: inject_frozen)

text \<open>What was injected is known, and none of it survives the scrubbing of the answer.\<close>

lemma injected_is_scrubbed:
  assumes "inject_credentials resolve body hs p = (Ok injd, p')"
    and "r \<in> set (find_refs body) \<union> (\<Union>h \<in> set hs. set (find_refs (snd h)))"
  shows "\<exists>v. val p r = Ok v \<and> v \<in> set (ir_resolved_values injd) \<and>
    (v = [] \<or> (\<forall>w \<in> set (variants to_text v). clear_of_mask w \<longrightarrow>
       \<not> contains_str w (scrub_response to_text response (ir_resolved_values injd))))"
proof -
  have stable: "stable_provider (\<lambda>r u. (val p r, u :: unit)) (val p)" by (simp add: stable_provider_def)
  have run: "inject_credentials (\<lambda>r u. (val p r, u)) body hs () = (Ok injd, ())"
    using assms(1) unfolding inject_frozen by (metis fst_conv old.unit.exhaust prod.collapse)
  have "val p r \<in> set (map Ok (ir_resolved_values injd))"
    using assms(2) unfolding inject_credentials_log(1) [OF stable run, symmetric]
    by (simp add: inject_credentials_log(2) [OF stable run])
  then obtain v where "val p r = Ok v" "v \<in> set (ir_resolved_values injd)" by auto
  then show ?thesis using scrub_response_removes by blast
qed

text \<open>References that are all listed never make injection fail.\<close>

lemma resolve_all_listed:
  assumes "\<And>r. r \<in> set rs \<Longrightarrow> \<exists>v. val p r = Ok v"
  shows "is_ok (fst (resolve_all resolve rs p))"
  using assms
proof (induction rs)
  case (Cons r rs)
  then obtain v where "val p r = Ok v" by auto
  moreover obtain pairs p' where "resolve_all resolve rs p = (Ok pairs, p')"
    using Cons by (metis is_ok_iff list.set_intros(2) prod.collapse)
  ultimately show ?case by (simp add: resolve_val [abs_def])
qed simp

lemma replace_refs_listed:
  assumes "\<And>r. r \<in> set (find_refs input) \<Longrightarrow> \<exists>v. val p r = Ok v"
  shows "\<exists>out. replace_refs resolve input lg p = (Ok out, p)"
proof -
  obtain pairs where "fst (resolve_all resolve (find_refs input) p) = Ok pairs"
    using resolve_all_listed [OF assms] by (auto simp: is_ok_iff)
  then show ?thesis
    by (auto simp: replace_refs_def resolve_all_frozen [of _ p] Let_def)
qed

lemma inject_headers_listed:
  assumes "\<And>h r. h \<in> set hs \<Longrightarrow> r \<in> set (find_refs (snd h)) \<Longrightarrow> \<exists>v. val p r = Ok v"
  shows "\<exists>out. inject_headers resolve hs lg p = (Ok out, p)"
  using assms
proof (induction hs arbitrary: lg)
  case (Cons h hs)
  obtain n x where h: "h = (n, x)" by fastforce
  obtain y lg' where y: "replace_refs resolve x lg p = (Ok (y, lg'), p)"
    using replace_refs_listed [of x p lg] Cons.prems [of h] h by auto
  obtain hs' lg'' where "inject_headers resolve hs lg' p = (Ok (hs', lg''), p)"
    using Cons.IH [of lg'] Cons.prems by (metis list.set_intros(2) surj_pair)
  with h y show ?case by simp
qed simp

lemma inject_listed:
  assumes "list_refs p = Ok refs"
    and "set (find_refs body) \<union> (\<Union>h \<in> set hs. set (find_refs (snd h))) \<subseteq> cr_name ` set refs"
  shows "\<exists>injd. inject_credentials resolve body hs p = (Ok injd, p)"
proof -
  have ok: "\<exists>v. val p r = Ok v" if "r \<in> set (find_refs body) \<union> (\<Union>h \<in> set hs. set (find_refs (snd h)))" for r
  proof -
    from that assms(2) have "r \<in> cr_name ` set refs" by (rule rev_subsetD)
    then show ?thesis using listed_resolves [OF assms(1)] by (elim imageE) simp
  qed
  obtain b lg where b: "replace_refs resolve body \<lparr>il_resolved = [], il_secret_values = []\<rparr> p = (Ok (b, lg), p)"
    using replace_refs_listed [of body p "\<lparr>il_resolved = [], il_secret_values = []\<rparr>", OF ok [OF UnI1]] by auto
  have "\<exists>v. val p r = Ok v" if "h \<in> set hs" "r \<in> set (find_refs (snd h))" for h r
    by (rule ok) (use that in blast)
  then obtain hs' lg' where "inject_headers resolve hs lg p = (Ok (hs', lg'), p)"
    using inject_headers_listed [of hs p lg] by (metis surj_pair)
  with b show ?thesis by (simp add: inject_credentials_def)
qed

end

lemma from_utf8_None: "from_utf8 b \<noteq> None \<Longrightarrow> from_utf8 b = Some b"
  by (simp add: from_utf8_def split: if_splits)

interpretation filep: read_only_provider "\<lambda>r p. (file_resolve p r, p)" file_list_refs file_resolve
proof unfold_locales
  fix p refs and r :: credential_ref
  assume "file_list_refs p = Ok refs" "r \<in> set refs"
  then have "cr_name r \<in> fst ` set (fp_credentials p)" by (force simp: file_list_refs_def)
  then show "\<exists>v. file_resolve p (cr_name r) = Ok v"
    by (cases "map_of (fp_credentials p) (cr_name r)") (auto simp: file_resolve_def map_of_eq_None_iff)
qed simp

interpretation envp: read_only_provider "\<lambda>r p. (env_resolve debug vars p r, p)" "env_list_refs vars" "env_resolve debug vars"
  for debug vars
proof unfold_locales
  fix p refs and r :: credential_ref
  assume a: "env_list_refs vars p = Ok refs" "r \<in> set refs"
  then have n: "cr_name r \<in> fst ` set vars" "starts_with (ep_prefix p) (cr_name r)"
    by (force simp: env_list_refs_def split: if_splits)+
  then obtain b where b: "map_of vars (cr_name r) = Some b"
    by (cases "map_of vars (cr_name r)") (auto simp: map_of_eq_None_iff)
  then have "from_utf8 b \<noteq> None"
    using a(1) map_of_SomeD [OF b] by (fastforce simp: env_list_refs_def list_ex_iff split: if_splits)
  then have "from_utf8 b = Some b" by (rule from_utf8_None)
  with b n(2) show "\<exists>v. env_resolve debug vars p (cr_name r) = Ok v"
    by (auto simp: env_resolve_def env_var_def)
qed simp

section \<open>Properties\<close>

lemma env_resolve_confined:
  "env_resolve debug vars p r = Ok v \<Longrightarrow> starts_with (ep_prefix p) r \<and> map_of vars r = Some v"
  by (auto simp: env_resolve_def env_var_def from_utf8_def split: if_splits option.splits)

lemma file_reload_error_keeps: "\<not> is_ok (fst (file_reload parse contents p)) \<Longrightarrow> snd (file_reload parse contents p) = p"
  by (auto simp: file_reload_def split: result.splits)

lemma file_reload_ok:
  "file_reload parse contents p = (Ok n, p') \<Longrightarrow>
   \<exists>text. contents = Ok text \<and> parse text = Ok (fp_credentials p') \<and> n = length (fp_credentials p')"
  by (auto simp: file_reload_def read_credentials_def split: result.splits)

text \<open>
  What the file provider injects and what comes back. When every reference of a request is listed
  by the file provider, injection succeeds and leaves the provider as it was; each reference got the
  value of the file, and no covered form of a value survives in the scrubbed answer, unless the form
  could be part of the mask itself.
\<close>

theorem file_credentials_injected_and_scrubbed:
  assumes "file_list_refs p = Ok refs"
    and "set (find_refs body) \<union> (\<Union>h \<in> set hs. set (find_refs (snd h))) \<subseteq> cr_name ` set refs"
  shows "\<exists>injd. inject_credentials (\<lambda>r p. (file_resolve p r, p)) body hs p = (Ok injd, p) \<and>
    (\<forall>r \<in> set (find_refs body) \<union> (\<Union>h \<in> set hs. set (find_refs (snd h))).
       \<exists>v. map_of (fp_credentials p) r = Some v \<and>
         (v = [] \<or> (\<forall>w \<in> set (variants to_text v). clear_of_mask w \<longrightarrow>
            \<not> contains_str w (scrub_response to_text response (ir_resolved_values injd)))))"
proof -
  obtain injd where run: "inject_credentials (\<lambda>r p. (file_resolve p r, p)) body hs p = (Ok injd, p)"
    using filep.inject_listed [OF assms] by blast
  have "\<exists>v. map_of (fp_credentials p) r = Some v \<and>
         (v = [] \<or> (\<forall>w \<in> set (variants to_text v). clear_of_mask w \<longrightarrow>
            \<not> contains_str w (scrub_response to_text response (ir_resolved_values injd))))"
    if "r \<in> set (find_refs body) \<union> (\<Union>h \<in> set hs. set (find_refs (snd h)))" for r
    using filep.injected_is_scrubbed [OF run that, of to_text response]
    by (auto simp: file_resolve_def split: option.splits)
  with run show ?thesis by blast
qed

definition file_demo :: file_provider where
  "file_demo = \<lparr>fp_credentials = [(''key'', ''s3cret'')], fp_source_path = ''/etc/credentials.toml''\<rparr>"

lemma file_demo_refs: "find_refs ''x=${CRED:key}'' = [''key'']"
  by code_simp

theorem file_credentials_injected_and_scrubbed_witness:
  "\<exists>injd. inject_credentials (\<lambda>r p. (file_resolve p r, p)) ''x=${CRED:key}'' [] file_demo = (Ok injd, file_demo) \<and>
     \<not> contains_str ''s3cret'' (scrub_response (\<lambda>_. ''----------'') ''the key is s3cret'' (ir_resolved_values injd))"
proof -
  have "file_list_refs file_demo = Ok [\<lparr>cr_name = ''key'', cr_provider = ''file''\<rparr>]"
    by (simp add: file_list_refs_def file_demo_def)
  from file_credentials_injected_and_scrubbed [OF this, of "''x=${CRED:key}''" "[]" "\<lambda>_. ''----------''" "''the key is s3cret''"]
  obtain injd where i: "inject_credentials (\<lambda>r p. (file_resolve p r, p)) ''x=${CRED:key}'' [] file_demo = (Ok injd, file_demo)"
    "\<forall>w \<in> set (variants (\<lambda>_. ''----------'') ''s3cret''). clear_of_mask w \<longrightarrow>
       \<not> contains_str w (scrub_response (\<lambda>_. ''----------'') ''the key is s3cret'' (ir_resolved_values injd))"
    by (auto simp: file_demo_refs file_demo_def)
  moreover have "clear_of_mask ''s3cret''" by code_simp
  moreover have "''s3cret'' \<in> set (variants (\<lambda>_. ''----------'') ''s3cret'')" by (simp add: variants_def)
  ultimately show ?thesis by blast
qed

end
