(* ===== verification/Mcp.thy ===== *)
theory Mcp
  imports Json
begin

text \<open>
  The MCP request parser of \<open>crates/arbiter-mcp\<close>: JSON-RPC envelopes (\<open>jsonrpc.rs\<close>), the
  extracted requests and their canonical reconstruction (\<open>context.rs\<close>) and the body parser
  (\<open>parser.rs\<close>). Reading JSON text and writing it are the two operations of \<open>serde_json\<close> the
  model takes as arguments.
\<close>

section \<open>Envelopes and requests\<close>

record json_rpc_request =
  rpc_jsonrpc :: string
  rpc_id :: "json option"
  rpc_method :: string
  rpc_params :: "json option"

definition is_valid_version :: "json_rpc_request \<Rightarrow> bool" where
  "is_valid_version r \<longleftrightarrow> rpc_jsonrpc r = ''2.0''"

text \<open>
  The derived deserializer: the two strings are required, the other two fields default to
  \<open>None\<close>, which is also what \<open>null\<close> gives; a sequence is read in field order.
\<close>

fun opt_value :: "json option \<Rightarrow> json option" where
  "opt_value (Some JNull) = None"
| "opt_value v = v"

definition rpc_of_fields ::
  "json option \<Rightarrow> json option \<Rightarrow> json option \<Rightarrow> json option \<Rightarrow> json_rpc_request option" where
  "rpc_of_fields version id_value meth params =
     (case (version, meth) of
        (Some (JStr v), Some (JStr m)) \<Rightarrow>
          Some \<lparr>rpc_jsonrpc = v, rpc_id = opt_value id_value, rpc_method = m,
                rpc_params = opt_value params\<rparr>
      | _ \<Rightarrow> None)"

fun rpc_from_value :: "json \<Rightarrow> json_rpc_request option" where
  "rpc_from_value (JObj m) =
     rpc_of_fields (map_of m ''jsonrpc'') (map_of m ''id'') (map_of m ''method'') (map_of m ''params'')"
| "rpc_from_value (JArr [v, i, m]) = rpc_of_fields (Some v) (Some i) (Some m) None"
| "rpc_from_value (JArr [v, i, m, p]) = rpc_of_fields (Some v) (Some i) (Some m) (Some p)"
| "rpc_from_value _ = None"

record mcp_request =
  mr_id :: "json option"
  mr_method :: string
  mr_tool_name :: "string option"
  mr_arguments :: "json option"
  mr_resource_uri :: "string option"

record mcp_context =
  mc_requests :: "mcp_request list"

definition to_jsonrpc :: "mcp_request \<Rightarrow> json" where
  "to_jsonrpc r =
     (let obj = obj_insert ''jsonrpc'' (JStr ''2.0'') [];
          obj = (case mr_id r of Some i \<Rightarrow> obj_insert ''id'' i obj | None \<Rightarrow> obj);
          obj = obj_insert ''method'' (JStr (mr_method r)) obj;
          params = [];
          params = (case mr_tool_name r of
                      Some n \<Rightarrow> obj_insert ''name'' (JStr n) params | None \<Rightarrow> params);
          params = (case mr_arguments r of
                      Some a \<Rightarrow> obj_insert ''arguments'' a params | None \<Rightarrow> params);
          params = (case mr_resource_uri r of
                      Some u \<Rightarrow> obj_insert ''uri'' (JStr u) params | None \<Rightarrow> params);
          obj = (if params \<noteq> [] then obj_insert ''params'' (JObj params) obj else obj)
      in JObj obj)"

definition to_canonical_body :: "(json \<Rightarrow> string) \<Rightarrow> mcp_context \<Rightarrow> string" where
  "to_canonical_body to_text c =
     (case mc_requests c of
        [r] \<Rightarrow> to_text (to_jsonrpc r)
      | rs \<Rightarrow> to_text (JArr (map to_jsonrpc rs)))"

definition has_tool_calls :: "mcp_context \<Rightarrow> bool" where
  "has_tool_calls c \<longleftrightarrow> list_ex (\<lambda>r. mr_tool_name r \<noteq> None) (mc_requests c)"

definition tool_names :: "mcp_context \<Rightarrow> string list" where
  "tool_names c = List.map_filter mr_tool_name (mc_requests c)"

definition resource_uris :: "mcp_context \<Rightarrow> string list" where
  "resource_uris c = List.map_filter mr_resource_uri (mc_requests c)"

section \<open>The parser\<close>

datatype parse_result = Mcp mcp_context | NonMcp

definition is_ascii_alphanumeric :: "char \<Rightarrow> bool" where
  "is_ascii_alphanumeric c \<longleftrightarrow>
     (let n = of_char c :: nat in 48 \<le> n \<and> n \<le> 57 \<or> 65 \<le> n \<and> n \<le> 90 \<or> 97 \<le> n \<and> n \<le> 122)"

definition is_valid_tool_name :: "string \<Rightarrow> bool" where
  "is_valid_tool_name name \<longleftrightarrow>
     name \<noteq> [] \<and> length name \<le> 256 \<and>
     list_all (\<lambda>c. is_ascii_alphanumeric c \<or> c \<in> set ''_-./:'') name"

definition ALLOWED_MCP_METHODS :: "string list" where
  "ALLOWED_MCP_METHODS =
     [''tools/call'', ''tools/list'', ''resources/read'', ''resources/list'',
      ''resources/subscribe'', ''resources/unsubscribe'', ''prompts/get'', ''prompts/list'',
      ''completion/complete'', ''logging/setLevel'', ''initialize'', ''ping'',
      ''notifications/initialized'', ''notifications/cancelled'', ''notifications/progress'',
      ''notifications/roots/list_changed'', ''notifications/resources/updated'',
      ''notifications/resources/list_changed'', ''notifications/tools/list_changed'',
      ''notifications/prompts/list_changed'']"

definition MAX_ARGUMENTS_SIZE :: nat where
  "MAX_ARGUMENTS_SIZE = 64 * 1024"

definition MAX_BATCH_SIZE :: nat where
  "MAX_BATCH_SIZE = 100"

fun id_acceptable :: "json option \<Rightarrow> bool" where
  "id_acceptable None = True"
| "id_acceptable (Some (JStr s)) = (length s \<le> 256)"
| "id_acceptable (Some (JNum _)) = True"
| "id_acceptable (Some JNull) = True"
| "id_acceptable (Some _) = False"

definition uri_rejected :: "string \<Rightarrow> bool" where
  "uri_rejected uri \<longleftrightarrow>
     (let is_safe = starts_with ''https://'' uri \<or> starts_with ''http://'' uri \<or>
                    \<not> contains_str ''://'' uri \<or> starts_with ''urn:'' uri;
          is_dangerous = starts_with ''file://'' uri \<or> starts_with ''data:'' uri \<or>
                         starts_with ''javascript:'' uri
      in is_dangerous \<or> \<not> is_safe \<and> length uri > 2048)"

definition extract_tool_name :: "json \<Rightarrow> string option" where
  "extract_tool_name params =
     (case Option.bind (jget ''name'' params) as_str of
        Some n \<Rightarrow> if is_valid_tool_name n then Some n else None
      | None \<Rightarrow> None)"

definition extract_arguments :: "(json \<Rightarrow> string) \<Rightarrow> json \<Rightarrow> json option" where
  "extract_arguments to_text params =
     (case jget ''arguments'' params of
        Some args \<Rightarrow> if length (to_text args) > MAX_ARGUMENTS_SIZE then None else Some args
      | None \<Rightarrow> None)"

definition extract_uri :: "json \<Rightarrow> string option" where
  "extract_uri params =
     (case Option.bind (jget ''uri'' params) as_str of
        Some u \<Rightarrow> if uri_rejected u then None else Some u
      | None \<Rightarrow> None)"

definition try_parse_single :: "(json \<Rightarrow> string) \<Rightarrow> json \<Rightarrow> mcp_request option" where
  "try_parse_single to_text value =
     (case rpc_from_value value of
        None \<Rightarrow> None
      | Some rpc \<Rightarrow>
          if \<not> is_valid_version rpc then None
          else if \<not> id_acceptable (rpc_id rpc) then None
          else if \<not> list_ex (\<lambda>m. m = rpc_method rpc) ALLOWED_MCP_METHODS then None
          else Some
            \<lparr>mr_id = rpc_id rpc,
             mr_method = rpc_method rpc,
             mr_tool_name = (case rpc_params rpc of
                None \<Rightarrow> None
              | Some params \<Rightarrow>
                  if rpc_method rpc = ''tools/call'' then extract_tool_name params else None),
             mr_arguments = (case rpc_params rpc of
                None \<Rightarrow> None
              | Some params \<Rightarrow>
                  if rpc_method rpc = ''tools/call'' then extract_arguments to_text params else None),
             mr_resource_uri = (case rpc_params rpc of
                None \<Rightarrow> None
              | Some params \<Rightarrow>
                  if rpc_method rpc = ''resources/read'' \<or> rpc_method rpc = ''resources/subscribe''
                  then extract_uri params else None)\<rparr>)"

definition looks_like_jsonrpc :: "json \<Rightarrow> bool" where
  "looks_like_jsonrpc item \<longleftrightarrow> jget ''jsonrpc'' item \<noteq> None \<or> jget ''method'' item \<noteq> None"

fun parse_items :: "(json \<Rightarrow> string) \<Rightarrow> json list \<Rightarrow> mcp_request list option" where
  "parse_items to_text [] = Some []"
| "parse_items to_text (item # items) =
     (case try_parse_single to_text item of
        Some r \<Rightarrow> map_option ((#) r) (parse_items to_text items)
      | None \<Rightarrow> if looks_like_jsonrpc item then None else parse_items to_text items)"

definition parse_mcp_body ::
  "(string \<Rightarrow> json option) \<Rightarrow> (json \<Rightarrow> string) \<Rightarrow> string \<Rightarrow> parse_result" where
  "parse_mcp_body from_text to_text body =
     (if body = [] then NonMcp
      else case from_text body of
        None \<Rightarrow> NonMcp
      | Some (JArr arr) \<Rightarrow>
          if length arr > MAX_BATCH_SIZE then NonMcp
          else (case parse_items to_text arr of
                  None \<Rightarrow> NonMcp
                | Some [] \<Rightarrow> NonMcp
                | Some requests \<Rightarrow> Mcp \<lparr>mc_requests = requests\<rparr>)
      | Some (JObj m) \<Rightarrow>
          (case try_parse_single to_text (JObj m) of
             Some r \<Rightarrow> Mcp \<lparr>mc_requests = [r]\<rparr>
           | None \<Rightarrow> NonMcp)
      | Some _ \<Rightarrow> NonMcp)"

section \<open>Well-formed requests\<close>

definition request_ok :: "(json \<Rightarrow> string) \<Rightarrow> mcp_request \<Rightarrow> bool" where
  "request_ok to_text r \<longleftrightarrow>
     mr_method r \<in> set ALLOWED_MCP_METHODS \<and> id_acceptable (mr_id r) \<and> mr_id r \<noteq> Some JNull \<and>
     (\<forall>n. mr_tool_name r = Some n \<longrightarrow> mr_method r = ''tools/call'' \<and> is_valid_tool_name n) \<and>
     (\<forall>a. mr_arguments r = Some a \<longrightarrow>
        mr_method r = ''tools/call'' \<and> length (to_text a) \<le> MAX_ARGUMENTS_SIZE) \<and>
     (\<forall>u. mr_resource_uri r = Some u \<longrightarrow>
        mr_method r \<in> {''resources/read'', ''resources/subscribe''} \<and> \<not> uri_rejected u)"

lemma opt_value_not_null [simp]: "opt_value v \<noteq> Some JNull"
  by (cases v rule: opt_value.cases) auto

lemma rpc_of_fields_id: "rpc_of_fields v i m p = Some rpc \<Longrightarrow> rpc_id rpc \<noteq> Some JNull"
  by (auto simp: rpc_of_fields_def split: option.splits json.splits)

lemma rpc_from_value_id: "rpc_from_value v = Some rpc \<Longrightarrow> rpc_id rpc \<noteq> Some JNull"
  by (cases v rule: rpc_from_value.cases) (auto dest: rpc_of_fields_id)

lemma try_parse_single_ok: "try_parse_single to_text v = Some r \<Longrightarrow> request_ok to_text r"
  by (auto simp: try_parse_single_def request_ok_def list_ex_iff extract_tool_name_def
      extract_arguments_def extract_uri_def not_less rpc_from_value_id
      split: option.splits if_splits)

lemma parse_items_ok:
  "parse_items to_text items = Some rs \<Longrightarrow> r \<in> set rs \<Longrightarrow> request_ok to_text r"
  by (induction items arbitrary: rs)
    (auto split: option.splits if_splits dest: try_parse_single_ok)

lemma parse_items_length: "parse_items to_text items = Some rs \<Longrightarrow> length rs \<le> length items"
  by (induction items arbitrary: rs) (fastforce split: option.splits if_splits)+

lemma to_jsonrpc_fields:
  "rpc_from_value (to_jsonrpc r) =
     Some \<lparr>rpc_jsonrpc = ''2.0'', rpc_id = opt_value (mr_id r), rpc_method = mr_method r,
           rpc_params =
             (if mr_tool_name r = None \<and> mr_arguments r = None \<and> mr_resource_uri r = None then None
              else Some (JObj (case mr_resource_uri r of
                 Some u \<Rightarrow> obj_insert ''uri'' (JStr u)
                   (case mr_arguments r of
                      Some a \<Rightarrow> obj_insert ''arguments'' a
                        (case mr_tool_name r of Some n \<Rightarrow> obj_insert ''name'' (JStr n) [] | None \<Rightarrow> [])
                    | None \<Rightarrow> (case mr_tool_name r of Some n \<Rightarrow> obj_insert ''name'' (JStr n) [] | None \<Rightarrow> []))
               | None \<Rightarrow>
                   (case mr_arguments r of
                      Some a \<Rightarrow> obj_insert ''arguments'' a
                        (case mr_tool_name r of Some n \<Rightarrow> obj_insert ''name'' (JStr n) [] | None \<Rightarrow> [])
                    | None \<Rightarrow> (case mr_tool_name r of Some n \<Rightarrow> obj_insert ''name'' (JStr n) [] | None \<Rightarrow> [])))))\<rparr>"
  by (cases "mr_id r"; cases "mr_tool_name r"; cases "mr_arguments r"; cases "mr_resource_uri r")
    (simp_all add: to_jsonrpc_def Let_def rpc_of_fields_def del: obj_insert.simps)

lemma opt_value_id: "v \<noteq> Some JNull \<Longrightarrow> opt_value v = v"
  by (cases v rule: opt_value.cases) auto

lemma try_parse_to_jsonrpc:
  assumes "request_ok to_text r"
  shows "try_parse_single to_text (to_jsonrpc r) = Some r"
  using assms
  by (cases "mr_tool_name r"; cases "mr_arguments r"; cases "mr_resource_uri r")
    (auto simp: try_parse_single_def to_jsonrpc_fields request_ok_def is_valid_version_def opt_value_id
      list_ex_iff extract_tool_name_def extract_arguments_def extract_uri_def not_less
      simp del: obj_insert.simps)

lemma parse_mcp_body_ok:
  assumes "parse_mcp_body from_text to_text body = Mcp c" "r \<in> set (mc_requests c)"
  shows "request_ok to_text r"
  using assms
  by (auto simp: parse_mcp_body_def dest: try_parse_single_ok parse_items_ok
      split: if_splits option.splits json.splits list.splits)

lemma parse_mcp_body_length:
  assumes "parse_mcp_body from_text to_text body = Mcp c"
  shows "0 < length (mc_requests c) \<and> length (mc_requests c) \<le> 100"
  using assms
  by (fastforce simp: parse_mcp_body_def MAX_BATCH_SIZE_def not_less dest: parse_items_length
      split: if_splits option.splits json.splits list.splits)

lemma parse_items_to_jsonrpc:
  "(\<And>r. r \<in> set rs \<Longrightarrow> request_ok to_text r) \<Longrightarrow>
   parse_items to_text (map to_jsonrpc rs) = Some rs"
  by (induction rs) (simp_all add: try_parse_to_jsonrpc)

lemma to_jsonrpc_is_object: "\<exists>m. to_jsonrpc r = JObj m"
  by (simp add: to_jsonrpc_def Let_def)

text \<open>The value that \<open>to_canonical_body\<close> serializes.\<close>

definition canonical_value :: "mcp_context \<Rightarrow> json" where
  "canonical_value c =
     (case mc_requests c of [r] \<Rightarrow> to_jsonrpc r | rs \<Rightarrow> JArr (map to_jsonrpc rs))"

lemma to_canonical_body_value: "to_canonical_body to_text c = to_text (canonical_value c)"
  by (simp add: to_canonical_body_def canonical_value_def split: list.splits)

lemma parse_canonical:
  assumes "\<And>r. r \<in> set (mc_requests c) \<Longrightarrow> request_ok to_text r"
    and "mc_requests c \<noteq> []" and "length (mc_requests c) \<le> 100"
    and "body \<noteq> []" and "from_text body = Some (canonical_value c)"
  shows "parse_mcp_body from_text to_text body = Mcp c"
proof (cases "\<exists>r. mc_requests c = [r]")
  case True
  then obtain r where r: "mc_requests c = [r]" by blast
  obtain m where m: "to_jsonrpc r = JObj m" using to_jsonrpc_is_object by blast
  have "try_parse_single to_text (to_jsonrpc r) = Some r"
    using assms(1) r by (simp add: try_parse_to_jsonrpc)
  then show ?thesis using assms r m by (cases c) (simp add: parse_mcp_body_def canonical_value_def)
next
  case False
  then have "canonical_value c = JArr (map to_jsonrpc (mc_requests c))"
    by (auto simp: canonical_value_def split: list.splits)
  then show ?thesis
    using assms parse_items_to_jsonrpc [of "mc_requests c" to_text]
    by (cases c) (simp add: parse_mcp_body_def MAX_BATCH_SIZE_def split: list.splits)
qed

lemma parse_items_rejects:
  "item \<in> set items \<Longrightarrow> looks_like_jsonrpc item \<Longrightarrow> try_parse_single to_text item = None \<Longrightarrow>
   parse_items to_text items = None"
  by (induction items) (auto split: option.splits)

section \<open>Properties\<close>

text \<open>
  C25: whatever the body, the parser hands on between one and a hundred requests, and each of them
  has an allowed method, an acceptable identifier, and only a validated tool name, bounded
  arguments and an accepted resource URI, each only for the methods they belong to.
\<close>

theorem parsed_requests_well_formed:
  assumes "parse_mcp_body from_text to_text body = Mcp c"
  shows "0 < length (mc_requests c) \<and> length (mc_requests c) \<le> 100 \<and>
    (\<forall>r \<in> set (mc_requests c). request_ok to_text r)"
  using parse_mcp_body_ok [OF assms] parse_mcp_body_length [OF assms] by blast

definition demo_call :: json where
  "demo_call = JObj [(''id'', JNum (NumInt 1)), (''jsonrpc'', JStr ''2.0''),
     (''method'', JStr ''tools/call''), (''params'', JObj [(''name'', JStr ''read_file'')])]"

definition demo_mcp_request :: mcp_request where
  "demo_mcp_request = \<lparr>mr_id = Some (JNum (NumInt 1)), mr_method = ''tools/call'',
     mr_tool_name = Some ''read_file'', mr_arguments = None, mr_resource_uri = None\<rparr>"

lemma demo_call_parses: "try_parse_single (\<lambda>_. ''x'') demo_call = Some demo_mcp_request"
  by (simp add: try_parse_single_def demo_call_def demo_mcp_request_def rpc_of_fields_def
      is_valid_version_def ALLOWED_MCP_METHODS_def extract_tool_name_def extract_arguments_def
      is_valid_tool_name_def is_ascii_alphanumeric_def)

lemma demo_parse:
  "parse_mcp_body (\<lambda>_. Some demo_call) (\<lambda>_. ''x'') ''{}'' = Mcp \<lparr>mc_requests = [demo_mcp_request]\<rparr>"
  using demo_call_parses by (simp add: parse_mcp_body_def demo_call_def)

theorem parsed_requests_well_formed_witness:
  "parse_mcp_body (\<lambda>_. Some demo_call) (\<lambda>_. ''x'') ''{}'' = Mcp \<lparr>mc_requests = [demo_mcp_request]\<rparr> \<and>
   request_ok (\<lambda>_. ''x'') demo_mcp_request"
  using parsed_requests_well_formed [OF demo_parse] demo_parse by simp

text \<open>
  C24: the body that is forwarded says what was inspected. If the parser accepts a body, then the
  canonical body written from its result is accepted too and gives the same requests, provided the
  JSON library reads back the value it wrote.
\<close>

theorem canonical_body_roundtrip:
  assumes "parse_mcp_body from_text to_text body = Mcp c"
    and "from_text (to_text (canonical_value c)) = Some (canonical_value c)"
    and "to_text (canonical_value c) \<noteq> []"
  shows "parse_mcp_body from_text to_text (to_canonical_body to_text c) = Mcp c"
  using parse_canonical [OF parse_mcp_body_ok [OF assms(1)]] parse_mcp_body_length [OF assms(1)] assms
  by (simp add: to_canonical_body_value)

lemma demo_canonical: "canonical_value \<lparr>mc_requests = [demo_mcp_request]\<rparr> = demo_call"
  by (simp add: canonical_value_def demo_call_def demo_mcp_request_def to_jsonrpc_def Let_def
      list_less_def less_char_def)

theorem canonical_body_roundtrip_witness:
  "parse_mcp_body (\<lambda>_. Some demo_call) (\<lambda>_. ''x'')
     (to_canonical_body (\<lambda>_. ''x'') \<lparr>mc_requests = [demo_mcp_request]\<rparr>) =
   Mcp \<lparr>mc_requests = [demo_mcp_request]\<rparr>"
  by (rule canonical_body_roundtrip [where body = "''{}''"])
    (simp_all add: demo_parse demo_canonical)

text \<open>
  One malformed call condemns its batch. If an item of a batch has a \<open>jsonrpc\<close> or
  \<open>method\<close> key and is not an acceptable request, then the whole body is treated as not MCP,
  so that no call in a batch can slip past inspection beside valid ones.
\<close>

theorem malformed_item_condemns_batch:
  assumes "from_text body = Some (JArr items)" and "item \<in> set items"
    and "looks_like_jsonrpc item" and "try_parse_single to_text item = None"
  shows "parse_mcp_body from_text to_text body = NonMcp"
  using parse_items_rejects [OF assms(2-4)] assms(1) by (simp add: parse_mcp_body_def)

theorem malformed_item_condemns_batch_witness:
  "parse_mcp_body (\<lambda>_. Some (JArr [demo_call, JObj [(''method'', JStr ''admin/drop'')]]))
     (\<lambda>_. ''x'') ''[]'' = NonMcp"
proof (rule malformed_item_condemns_batch)
  show "JObj [(''method'', JStr ''admin/drop'')] \<in> set [demo_call, JObj [(''method'', JStr ''admin/drop'')]]"
    by (intro list.set_intros)
qed (simp_all add: looks_like_jsonrpc_def try_parse_single_def rpc_of_fields_def)

end
