(* ===== verification/Policy_Model.thy ===== *)
theory Policy_Model
  imports Identity Mcp
begin

text \<open>
  The policy language of \<open>crates/arbiter-policy\<close>: rules, their specificity, compilation and
  validation (\<open>model.rs\<close>), errors (\<open>error.rs\<close>) and the reload of the shared configuration
  (\<open>watcher.rs\<close>). The regular expression library and the Unicode case tables are the record
  \<open>text_env\<close>; the TOML reader is an argument.
\<close>

section \<open>Rules\<close>

record 'r text_env =
  te_unicode_lower :: "string \<Rightarrow> string"
  te_regex_new :: "string \<Rightarrow> ('r, string) result"
  te_regex_escape :: "string \<Rightarrow> string"
  te_is_match :: "'r \<Rightarrow> string \<Rightarrow> bool"

record agent_match =
  am_agent_id :: "uuid option"
  am_trust_level :: "trust_level option"
  am_capabilities :: "string list"

record principal_match =
  pm_sub :: "string option"
  pm_groups :: "string list"

record 'r intent_match =
  im_keywords :: "string list"
  im_regex :: "string option"
  im_compiled_regex :: "'r option"
  im_compiled_keywords :: "'r list"

record parameter_constraint =
  pc_key :: string
  pc_max_value :: "f64 option"
  pc_min_value :: "f64 option"
  pc_allowed_values :: "string list"

datatype effect = EffAllow | EffDeny | EffEscalate

datatype disposition = DispBlock | DispAnnotate

record 'r policy =
  po_id :: string
  po_agent_match :: agent_match
  po_principal_match :: principal_match
  po_intent_match :: "'r intent_match"
  po_allowed_tools :: "string list"
  po_resource_match :: "string list"
  po_parameter_constraints :: "parameter_constraint list"
  po_effect :: effect
  po_disposition :: disposition
  po_priority :: i32

record 'r policy_config =
  cfg_policies :: "'r policy list"

datatype policy_error =
    ParseError string
  | InvalidRegex string string string
  | NoPolicies
  | PriorityTooHigh string i32 i32
  | RegexTooLong string nat nat
  | DuplicatePolicyId string
  | EmptyAllowOnAllEffect string

definition specificity :: "'r policy \<Rightarrow> i32" where
  "specificity p =
     (if po_priority p \<noteq> 0 then po_priority p
      else let score = 0;
               score = (if am_agent_id (po_agent_match p) \<noteq> None then score + 100 else score);
               score = (if am_trust_level (po_agent_match p) \<noteq> None then score + 50 else score);
               score = score + of_nat (min (length (am_capabilities (po_agent_match p))) 3) * 25;
               score = (if pm_sub (po_principal_match p) \<noteq> None then score + 40 else score);
               score = score + of_nat (length (pm_groups (po_principal_match p))) * 20;
               score = (if im_regex (po_intent_match p) \<noteq> None then score + 30 else score)
           in score + of_nat (length (im_keywords (po_intent_match p))) * 10)"

section \<open>Compilation\<close>

text \<open>The loop with the set of identifiers seen: the first one that occurs again.\<close>

fun duplicate_id :: "string set \<Rightarrow> 'r policy list \<Rightarrow> string option" where
  "duplicate_id seen [] = None"
| "duplicate_id seen (p # ps) =
     (if po_id p \<in> seen then Some (po_id p) else duplicate_id (insert (po_id p) seen) ps)"

definition MAX_PRIORITY :: i32 where
  "MAX_PRIORITY = 1000"

definition MAX_REGEX_PATTERN_LEN :: nat where
  "MAX_REGEX_PATTERN_LEN = 500"

definition keyword_pattern :: "'r text_env \<Rightarrow> string \<Rightarrow> string" where
  "keyword_pattern env keyword =
     [CHR 92, CHR ''b''] @ te_regex_escape env (to_lowercase (te_unicode_lower env) keyword) @
     [CHR 92, CHR ''b'']"

fun compile_keywords ::
  "'r text_env \<Rightarrow> string \<Rightarrow> string list \<Rightarrow> ('r list, policy_error) result" where
  "compile_keywords env pid [] = Ok []"
| "compile_keywords env pid (k # ks) =
     (case te_regex_new env (keyword_pattern env k) of
        Err reason \<Rightarrow> Err (InvalidRegex pid (keyword_pattern env k) reason)
      | Panic \<Rightarrow> Panic
      | Ok re \<Rightarrow>
          (case compile_keywords env pid ks of
             Ok res \<Rightarrow> Ok (re # res)
           | Err e \<Rightarrow> Err e
           | Panic \<Rightarrow> Panic))"

definition compile_regex ::
  "'r text_env \<Rightarrow> 'r policy \<Rightarrow> (unit, policy_error) result \<times> 'r policy" where
  "compile_regex env p =
     (case im_regex (po_intent_match p) of
        None \<Rightarrow> (Ok (), p)
      | Some pattern \<Rightarrow>
          if length pattern > MAX_REGEX_PATTERN_LEN
          then (Err (RegexTooLong (po_id p) (length pattern) MAX_REGEX_PATTERN_LEN), p)
          else (case te_regex_new env pattern of
                  Err reason \<Rightarrow> (Err (InvalidRegex (po_id p) pattern reason), p)
                | Panic \<Rightarrow> (Panic, p)
                | Ok re \<Rightarrow>
                    (Ok (), p\<lparr>po_intent_match := (po_intent_match p)\<lparr>im_compiled_regex := Some re\<rparr>\<rparr>)))"

text \<open>The body of the compilation loop changes the rule in place, also when it fails halfway.\<close>

definition compile_policy ::
  "'r text_env \<Rightarrow> 'r policy \<Rightarrow> (unit, policy_error) result \<times> 'r policy" where
  "compile_policy env p =
     (case compile_regex env p of
        (Err e, p') \<Rightarrow> (Err e, p')
      | (Panic, p') \<Rightarrow> (Panic, p')
      | (Ok _, p') \<Rightarrow>
          (case compile_keywords env (po_id p') (im_keywords (po_intent_match p')) of
             Err e \<Rightarrow> (Err e, p')
           | Panic \<Rightarrow> (Panic, p')
           | Ok res \<Rightarrow>
               (Ok (), p'\<lparr>po_intent_match := (po_intent_match p')\<lparr>im_compiled_keywords := res\<rparr>\<rparr>)))"

fun compile_policies ::
  "'r text_env \<Rightarrow> 'r policy list \<Rightarrow> (unit, policy_error) result \<times> 'r policy list" where
  "compile_policies env [] = (Ok (), [])"
| "compile_policies env (p # ps) =
     (case compile_policy env p of
        (Ok _, p') \<Rightarrow> (let (r, ps') = compile_policies env ps in (r, p' # ps'))
      | (Err e, p') \<Rightarrow> (Err e, p' # ps)
      | (Panic, p') \<Rightarrow> (Panic, p' # ps))"

definition blanket_allow :: "'r policy \<Rightarrow> bool" where
  "blanket_allow p \<longleftrightarrow>
     po_effect p = EffAllow \<and> po_allowed_tools p = [] \<and> po_resource_match p = []"

definition compile ::
  "'r text_env \<Rightarrow> 'r policy_config \<Rightarrow> (unit, policy_error) result \<times> 'r policy_config" where
  "compile env cfg =
     (case duplicate_id {} (cfg_policies cfg) of
        Some pid \<Rightarrow> (Err (DuplicatePolicyId pid), cfg)
      | None \<Rightarrow>
          (case find (\<lambda>p. sint (po_priority p) > sint MAX_PRIORITY) (cfg_policies cfg) of
             Some p \<Rightarrow> (Err (PriorityTooHigh (po_id p) (po_priority p) MAX_PRIORITY), cfg)
           | None \<Rightarrow>
               (let (r, ps) = compile_policies env (cfg_policies cfg); cfg' = cfg\<lparr>cfg_policies := ps\<rparr>
                in case r of
                     Err e \<Rightarrow> (Err e, cfg')
                   | Panic \<Rightarrow> (Panic, cfg')
                   | Ok _ \<Rightarrow>
                       (case find blanket_allow ps of
                          Some p \<Rightarrow> (Err (EmptyAllowOnAllEffect (po_id p)), cfg')
                        | None \<Rightarrow> (Ok (), cfg')))))"

definition from_toml ::
  "'r text_env \<Rightarrow> (string \<Rightarrow> ('r policy_config, string) result) \<Rightarrow> string \<Rightarrow>
   ('r policy_config, policy_error) result" where
  "from_toml env parse_toml toml =
     (case parse_toml toml of
        Err e \<Rightarrow> Err (ParseError e)
      | Panic \<Rightarrow> Panic
      | Ok cfg \<Rightarrow>
          (case compile env cfg of
             (Ok _, cfg') \<Rightarrow> Ok cfg'
           | (Err e, _) \<Rightarrow> Err e
           | (Panic, _) \<Rightarrow> Panic))"

section \<open>Validation\<close>

record policy_diagnostic =
  pd_level :: string
  pd_policy_id :: "string option"
  pd_message :: string

record validation_result =
  vr_valid :: bool
  vr_policy_count :: nat
  vr_diagnostics :: "policy_diagnostic list"

definition tools_overlap :: "string list \<Rightarrow> string list \<Rightarrow> bool" where
  "tools_overlap a b \<longleftrightarrow> a = [] \<or> b = [] \<or> list_ex (\<lambda>tool. tool \<in> set b) a"

fun duplicate_diagnostics :: "string set \<Rightarrow> 'r policy list \<Rightarrow> policy_diagnostic list" where
  "duplicate_diagnostics seen [] = []"
| "duplicate_diagnostics seen (p # ps) =
     (if po_id p \<in> seen
      then \<lparr>pd_level = ''error'', pd_policy_id = Some (po_id p),
            pd_message = ''duplicate policy ID '' @ quoted (po_id p)\<rparr> #
           duplicate_diagnostics seen ps
      else duplicate_diagnostics (insert (po_id p) seen) ps)"

definition regex_diagnostics :: "'r text_env \<Rightarrow> 'r policy \<Rightarrow> policy_diagnostic list" where
  "regex_diagnostics env p =
     (case im_regex (po_intent_match p) of
        None \<Rightarrow> []
      | Some pattern \<Rightarrow>
          (case te_regex_new env pattern of
             Err e \<Rightarrow> [\<lparr>pd_level = ''error'', pd_policy_id = Some (po_id p),
                        pd_message = ''invalid regex '' @ quoted pattern @ '': '' @ e\<rparr>]
           | _ \<Rightarrow> []))"

definition shadow_diagnostic ::
  "'r policy list \<Rightarrow> nat \<times> i32 \<Rightarrow> nat \<times> i32 \<Rightarrow> policy_diagnostic list" where
  "shadow_diagnostic policies hi_entry lo_entry =
     (let (hi_idx, hi_spec) = hi_entry; (lo_idx, lo_spec) = lo_entry;
          hi = policies ! hi_idx; lo = policies ! lo_idx
      in if sint hi_spec > sint lo_spec \<and> po_effect hi \<noteq> po_effect lo \<and>
            tools_overlap (po_allowed_tools hi) (po_allowed_tools lo)
         then [\<lparr>pd_level = ''warning'', pd_policy_id = Some (po_id lo),
                pd_message =
                  ''policy '' @ quoted (po_id lo) @ '' (specificity '' @
                  show_int (sint lo_spec) @ '') may be shadowed by '' @ quoted (po_id hi) @ '' (specificity '' @ show_int (sint hi_spec) @
                  '') with conflicting effect''\<rparr>]
         else [])"

definition by_specificity :: "('k \<times> i32) list \<Rightarrow> ('k \<times> i32) list" where
  "by_specificity = sort_key (\<lambda>entry. - sint (snd entry))"

definition validate_toml ::
  "'r text_env \<Rightarrow> (string \<Rightarrow> ('r policy_config, string) result) \<Rightarrow> string \<Rightarrow>
   (validation_result, unit) result" where
  "validate_toml env parse_toml toml =
     (case parse_toml toml of
        Panic \<Rightarrow> Panic
      | Err e \<Rightarrow>
          Ok \<lparr>vr_valid = False, vr_policy_count = 0,
              vr_diagnostics = [\<lparr>pd_level = ''error'', pd_policy_id = None,
                                 pd_message = ''TOML parse error: '' @ e\<rparr>]\<rparr>
      | Ok cfg \<Rightarrow>
          (let policies = cfg_policies cfg;
               sorted = by_specificity (zip [0..<length policies] (map specificity policies));
               shadowed = concat (map (\<lambda>i. concat (map (\<lambda>j. shadow_diagnostic policies (sorted ! i) (sorted ! j))
                                                  [i + 1..<length sorted])) [0..<length sorted]);
               diagnostics = duplicate_diagnostics {} policies @
                             concat (map (regex_diagnostics env) policies) @ shadowed
           in Ok \<lparr>vr_valid = \<not> list_ex (\<lambda>d. pd_level d = ''error'') diagnostics,
                  vr_policy_count = length policies, vr_diagnostics = diagnostics\<rparr>))"

section \<open>Reloading\<close>

text \<open>
  One reload of the watched file: what reading it gave, and the shared configuration before and
  after. A parse or validation error leaves the shared configuration alone.
\<close>

definition reload_from_file ::
  "'r text_env \<Rightarrow> (string \<Rightarrow> ('r policy_config, string) result) \<Rightarrow> (string, string) result \<Rightarrow>
   'r policy_config option \<Rightarrow> 'r policy_config option" where
  "reload_from_file env parse_toml contents shared =
     (case contents of
        Ok text \<Rightarrow>
          if text = [] then shared
          else (case from_toml env parse_toml text of
                  Ok new_config \<Rightarrow> Some new_config
                | Err _ \<Rightarrow> shared
                | Panic \<Rightarrow> shared)
      | _ \<Rightarrow> shared)"

text \<open>The background loop: one reload for every debounced group of file events.\<close>

fun reload_loop ::
  "'r text_env \<Rightarrow> (string \<Rightarrow> ('r policy_config, string) result) \<Rightarrow> (string, string) result list \<Rightarrow>
   'r policy_config option \<Rightarrow> 'r policy_config option" where
  "reload_loop env parse_toml [] shared = shared"
| "reload_loop env parse_toml (contents # readings) shared =
     reload_loop env parse_toml readings (reload_from_file env parse_toml contents shared)"

section \<open>What compilation guarantees\<close>

lemma duplicate_id_None:
  "duplicate_id seen ps = None \<longleftrightarrow> distinct (map po_id ps) \<and> (\<forall>p \<in> set ps. po_id p \<notin> seen)"
  by (induction ps arbitrary: seen) (auto simp: rev_image_eqI)

text \<open>Everything but the compiled patterns.\<close>

definition policy_source :: "'r policy \<Rightarrow> 'r policy" where
  "policy_source p = p\<lparr>po_intent_match :=
     (po_intent_match p)\<lparr>im_compiled_regex := None, im_compiled_keywords := []\<rparr>\<rparr>"

definition compiled_ok :: "'r text_env \<Rightarrow> 'r policy \<Rightarrow> bool" where
  "compiled_ok env p \<longleftrightarrow>
     (let im = po_intent_match p in
      (case im_regex im of
         None \<Rightarrow> True
       | Some r \<Rightarrow> length r \<le> MAX_REGEX_PATTERN_LEN \<and>
           (\<exists>re. te_regex_new env r = Ok re \<and> im_compiled_regex im = Some re)) \<and>
      map Ok (im_compiled_keywords im) = map (te_regex_new env \<circ> keyword_pattern env) (im_keywords im))"

lemma compile_keywords_Ok:
  "compile_keywords env pid ks = Ok res \<Longrightarrow> map Ok res = map (te_regex_new env \<circ> keyword_pattern env) ks"
  by (induction ks arbitrary: res) (auto split: result.splits)

lemma compile_policy_Ok:
  assumes "compile_policy env p = (Ok u, p')"
  shows "compiled_ok env p'" and "policy_source p' = policy_source p"
    and "im_regex (po_intent_match p) = None \<Longrightarrow>
      im_compiled_regex (po_intent_match p') = im_compiled_regex (po_intent_match p)"
  using assms
  by (auto simp: compile_policy_def compile_regex_def compiled_ok_def policy_source_def not_less Let_def
      split: result.splits option.splits if_splits prod.splits dest: compile_keywords_Ok)

lemma compile_policies_Ok:
  "compile_policies env ps = (Ok u, ps') \<Longrightarrow>
   list_all2 (\<lambda>p p'. compile_policy env p = (Ok (), p')) ps ps'"
  by (induction ps arbitrary: ps') (auto split: result.splits prod.splits)

lemma compile_Ok:
  assumes "compile env cfg = (Ok u, cfg')"
  shows "list_all2 (\<lambda>p p'. compile_policy env p = (Ok (), p')) (cfg_policies cfg) (cfg_policies cfg')"
    and "distinct (map po_id (cfg_policies cfg))"
    and "\<forall>p \<in> set (cfg_policies cfg). sint (po_priority p) \<le> 1000"
    and "\<forall>p \<in> set (cfg_policies cfg'). \<not> blanket_allow p"
  using assms
  by (auto simp: compile_def duplicate_id_None find_None_iff MAX_PRIORITY_def Let_def not_less
      split: option.splits prod.splits result.splits dest: compile_policies_Ok)

lemma source_fields:
  assumes "policy_source p' = policy_source p"
  shows "po_id p' = po_id p" and "po_priority p' = po_priority p"
    and "po_agent_match p' = po_agent_match p" and "po_principal_match p' = po_principal_match p"
    and "po_allowed_tools p' = po_allowed_tools p" and "po_resource_match p' = po_resource_match p"
    and "po_parameter_constraints p' = po_parameter_constraints p" and "po_effect p' = po_effect p"
    and "po_disposition p' = po_disposition p"
    and "im_keywords (po_intent_match p') = im_keywords (po_intent_match p)"
    and "im_regex (po_intent_match p') = im_regex (po_intent_match p)"
    and "specificity p' = specificity p"
  using assms
  by (cases p; cases p'; cases "po_intent_match p"; cases "po_intent_match p'";
      simp add: policy_source_def specificity_def)+

end
