(* ===== verification/Behavior.thy ===== *)
theory Behavior
  imports Json
begin

text \<open>
  Behavioural anomaly detection (\<open>crates/arbiter-behavior\<close>): the classification of operations
  (\<open>classifier.rs\<close>), the record of calls per session (\<open>tracker.rs\<close>) and the detector
  (\<open>detector.rs\<close>). Sets of regular expressions are the record \<open>set_env\<close>.
\<close>

section \<open>Classification of operations\<close>

datatype operation_type = OpRead | OpWrite | OpDelete | OpAdmin

definition contains_any_token :: "(string \<Rightarrow> string) \<Rightarrow> string \<Rightarrow> string list \<Rightarrow> bool" where
  "contains_any_token unicode_lower haystack needles =
     (let tokens = split_on (\<lambda>c. c \<in> set ''_-./ '') (to_lowercase unicode_lower haystack)
      in list_ex (\<lambda>needle. let lower_needle = to_lowercase unicode_lower needle
                           in list_ex (\<lambda>token. token = lower_needle) tokens) needles)"

definition ADMIN_TOKENS :: "string list" where
  "ADMIN_TOKENS = [''admin'', ''manage'', ''configure'', ''grant'', ''revoke'']"

definition DELETE_TOKENS :: "string list" where
  "DELETE_TOKENS = [''delete'', ''remove'', ''drop'', ''purge'']"

definition READ_TOKENS :: "string list" where
  "READ_TOKENS = [''read'', ''get'', ''list'', ''search'', ''view'', ''describe'', ''fetch'',
     ''query'', ''analyze'', ''summarize'', ''report'', ''calculate'', ''compute'', ''check'',
     ''inspect'', ''review'']"

definition classify_operation ::
  "(string \<Rightarrow> string) \<Rightarrow> string \<Rightarrow> string option \<Rightarrow> operation_type" where
  "classify_operation unicode_lower meth tool_name =
     (if meth \<in> set [''resources/read'', ''resources/subscribe'', ''completion/complete''] then OpRead
      else case tool_name of
        None \<Rightarrow> OpRead
      | Some t \<Rightarrow>
          (let tool = to_lowercase unicode_lower t
           in if contains_any_token unicode_lower tool ADMIN_TOKENS then OpAdmin
              else if contains_any_token unicode_lower tool DELETE_TOKENS then OpDelete
              else if contains_any_token unicode_lower tool READ_TOKENS then OpRead
              else OpWrite))"

section \<open>Calls of a session\<close>

record call_record =
  cr_tool_name :: string
  cr_method :: string
  cr_operation_type :: operation_type
  cr_timestamp :: instant

record behavior_tracker =
  bt_records :: "(uuid \<times> call_record list) list"

definition tracker_new :: behavior_tracker where
  "tracker_new = \<lparr>bt_records = []\<rparr>"

definition record_call ::
  "instant \<Rightarrow> uuid \<Rightarrow> string \<Rightarrow> string \<Rightarrow> operation_type \<Rightarrow> behavior_tracker \<Rightarrow> behavior_tracker" where
  "record_call now session_id tool meth operation bt =
     (let call = \<lparr>cr_tool_name = tool, cr_method = meth, cr_operation_type = operation,
                    cr_timestamp = now\<rparr>;
          calls = (case map_of (bt_records bt) session_id of Some cs \<Rightarrow> cs | None \<Rightarrow> [])
      in bt\<lparr>bt_records := AList.update session_id (calls @ [call]) (bt_records bt)\<rparr>)"

definition get_records :: "uuid \<Rightarrow> behavior_tracker \<Rightarrow> call_record list" where
  "get_records session_id bt =
     (case map_of (bt_records bt) session_id of Some cs \<Rightarrow> cs | None \<Rightarrow> [])"

definition clear_session :: "uuid \<Rightarrow> behavior_tracker \<Rightarrow> behavior_tracker" where
  "clear_session session_id bt = bt\<lparr>bt_records := AList.delete session_id (bt_records bt)\<rparr>"

lemma get_records_record_call [simp]:
  "get_records sid (record_call now sid' tool meth opn bt) =
     (if sid = sid'
      then get_records sid bt @ [\<lparr>cr_tool_name = tool, cr_method = meth, cr_operation_type = opn,
                                    cr_timestamp = now\<rparr>]
      else get_records sid bt)"
  by (auto simp: get_records_def record_call_def update_conv Let_def)

lemma get_records_clear_session [simp]:
  "get_records sid (clear_session sid' bt) = (if sid = sid' then [] else get_records sid bt)"
  by (simp add: get_records_def clear_session_def delete_conv)

section \<open>The detector\<close>

datatype intent_tier = TierUnknown | TierRead | TierWrite | TierAdmin

record anomaly_config =
  ac_escalate_to_deny :: bool
  ac_read_intent_keywords :: "string list"
  ac_write_intent_keywords :: "string list"
  ac_admin_intent_keywords :: "string list"
  ac_suspicious_arg_patterns :: "string list"

definition default_read_intent_keywords :: "string list" where
  "default_read_intent_keywords = [''read'', ''analyze'', ''summarize'', ''review'', ''inspect'',
     ''view'', ''check'', ''list'', ''search'', ''query'', ''describe'', ''explain'']"

definition default_write_intent_keywords :: "string list" where
  "default_write_intent_keywords = [''write'', ''create'', ''update'', ''modify'', ''edit'',
     ''deploy'', ''build'', ''generate'', ''publish'', ''upload'']"

definition default_admin_intent_keywords :: "string list" where
  "default_admin_intent_keywords = [''admin'', ''manage'', ''configure'', ''setup'', ''install'',
     ''maintain'', ''operate'', ''provision'']"

definition default_suspicious_arg_patterns :: "string list" where
  "default_suspicious_arg_patterns = [''rm -rf'', ''rm -f'', ''mkfs'', ''dd if='', ''chmod 777'',
     ''drop table'', ''drop database'', ''delete from'', ''truncate table'', ''; --'',
     [CHR 39] @ '' or '' @ [CHR 39] @ ''1'' @ [CHR 39] @ ''='' @ [CHR 39] @ ''1'',
     ''union select'', ''../../../'', ''..'' @ [CHR 92] @ ''..'' @ [CHR 92]]"

definition anomaly_config_default :: anomaly_config where
  "anomaly_config_default = \<lparr>ac_escalate_to_deny = True,
     ac_read_intent_keywords = default_read_intent_keywords,
     ac_write_intent_keywords = default_write_intent_keywords,
     ac_admin_intent_keywords = default_admin_intent_keywords,
     ac_suspicious_arg_patterns = default_suspicious_arg_patterns\<rparr>"

definition SUSPICIOUS_ARG_KEY_FRAGMENTS :: "string list" where
  "SUSPICIOUS_ARG_KEY_FRAGMENTS = [''exec'', ''shell'', ''command'', ''query'', ''sql'', ''eval'',
     ''script'', ''code'', ''run'', ''system'']"

definition MAX_READ_ARG_STRING_LEN :: nat where
  "MAX_READ_ARG_STRING_LEN = 1024"

datatype anomaly_response = Normal | Flagged string | Denied string

record 's set_env =
  se_unicode_lower :: "string \<Rightarrow> string"
  se_regex_escape :: "string \<Rightarrow> string"
  se_set_new :: "string list \<Rightarrow> ('s, string) result"
  se_set_is_match :: "'s \<Rightarrow> string \<Rightarrow> bool"
  se_json_text :: "json \<Rightarrow> string"

record 's anomaly_detector =
  ad_config :: anomaly_config
  ad_read_intent_regex :: 's
  ad_write_intent_regex :: 's
  ad_admin_intent_regex :: 's

definition intent_pattern :: "'s set_env \<Rightarrow> string \<Rightarrow> string" where
  "intent_pattern env keyword =
     ''(?i)'' @ [CHR 92, CHR ''b''] @ se_regex_escape env keyword @ [CHR 92, CHR ''b'']"

text \<open>Invalid keywords make the construction panic: \<open>None\<close>.\<close>

definition build_regex_set :: "'s set_env \<Rightarrow> string list \<Rightarrow> 's option" where
  "build_regex_set env keywords =
     (case se_set_new env (map (intent_pattern env) keywords) of Ok s \<Rightarrow> Some s | _ \<Rightarrow> None)"

definition detector_new :: "'s set_env \<Rightarrow> anomaly_config \<Rightarrow> 's anomaly_detector option" where
  "detector_new env cfg =
     (case build_regex_set env (ac_read_intent_keywords cfg) of
        None \<Rightarrow> None
      | Some r \<Rightarrow>
          (case build_regex_set env (ac_write_intent_keywords cfg) of
             None \<Rightarrow> None
           | Some w \<Rightarrow>
               (case build_regex_set env (ac_admin_intent_keywords cfg) of
                  None \<Rightarrow> None
                | Some a \<Rightarrow>
                    Some \<lparr>ad_config = cfg, ad_read_intent_regex = r, ad_write_intent_regex = w,
                          ad_admin_intent_regex = a\<rparr>)))"

definition classify_intent :: "'s set_env \<Rightarrow> 's anomaly_detector \<Rightarrow> string \<Rightarrow> intent_tier" where
  "classify_intent env d declared_intent =
     (if se_set_is_match env (ad_admin_intent_regex d) declared_intent then TierAdmin
      else if se_set_is_match env (ad_write_intent_regex d) declared_intent then TierWrite
      else if se_set_is_match env (ad_read_intent_regex d) declared_intent then TierRead
      else TierUnknown)"

text \<open>
  The filter on characters, on their UTF-8 bytes: the length of a control or zero-width character
  at the front, 0 when there is none. The lead bytes tested never occur inside a character.
\<close>

definition invisible_prefix :: "string \<Rightarrow> nat" where
  "invisible_prefix s =
     (case map (of_char :: char \<Rightarrow> nat) (take 3 s) of
        a # rest \<Rightarrow>
          if a < 32 \<or> a = 127 then 1
          else (case rest of
             b # rest' \<Rightarrow>
               if a = 194 \<and> (128 \<le> b \<and> b \<le> 159 \<or> b = 173) then 2
               else (case rest' of
                  [c] \<Rightarrow> if a = 226 \<and> b = 128 \<and> (c = 139 \<or> c = 140 \<or> c = 141) \<or>
                            a = 239 \<and> b = 187 \<and> c = 191 then 3 else 0
                | _ \<Rightarrow> 0)
           | [] \<Rightarrow> 0)
      | [] \<Rightarrow> 0)"

function strip_invisible :: "string \<Rightarrow> string" where
  "strip_invisible [] = []"
| "strip_invisible (c # s) =
     (let k = invisible_prefix (c # s)
      in if k = 0 then c # strip_invisible s else strip_invisible (drop (k - 1) s))"
  by pat_completeness auto
termination by (relation "measure length") auto

definition respond :: "'s anomaly_detector \<Rightarrow> string \<Rightarrow> anomaly_response" where
  "respond d reason = (if ac_escalate_to_deny (ad_config d) then Denied reason else Flagged reason)"

text \<open>The loop over the entries of the argument object.\<close>

definition entry_anomaly :: "(string \<Rightarrow> string) \<Rightarrow> string \<Rightarrow> string \<times> json \<Rightarrow> string option" where
  "entry_anomaly unicode_lower tool_name entry =
     (let (key, value) = entry;
          prefix = ''structural anomaly in tool '' @ quoted tool_name @ '': argument ''
      in if is_object value \<or> is_array value
         then Some (prefix @ quoted key @ '' contains a nested '' @
                (if is_object value then ''object'' else ''array'') @ '' in a read session'')
         else case find (\<lambda>f. contains_str f (to_lowercase unicode_lower key)) SUSPICIOUS_ARG_KEY_FRAGMENTS of
           Some f \<Rightarrow> Some (prefix @ ''key '' @ quoted key @ '' contains suspicious fragment '' @ quoted f)
         | None \<Rightarrow>
             (case as_str value of
                Some s \<Rightarrow>
                  if length s > MAX_READ_ARG_STRING_LEN
                  then Some (prefix @ quoted key @ '' has a string value of '' @ show_nat (length s) @
                         '' bytes (max '' @ show_nat MAX_READ_ARG_STRING_LEN @ '')'')
                  else None
              | None \<Rightarrow> None))"

fun first_anomaly :: "(string \<Rightarrow> string) \<Rightarrow> string \<Rightarrow> (string \<times> json) list \<Rightarrow> string option" where
  "first_anomaly unicode_lower tool_name [] = None"
| "first_anomaly unicode_lower tool_name (e # es) =
     (case entry_anomaly unicode_lower tool_name e of
        Some r \<Rightarrow> Some r
      | None \<Rightarrow> first_anomaly unicode_lower tool_name es)"

fun check_structural_anomalies :: "(string \<Rightarrow> string) \<Rightarrow> json \<Rightarrow> string \<Rightarrow> string option" where
  "check_structural_anomalies unicode_lower (JObj m) tool_name = first_anomaly unicode_lower tool_name m"
| "check_structural_anomalies unicode_lower _ tool_name = None"

definition scan_text :: "'s set_env \<Rightarrow> json \<Rightarrow> string" where
  "scan_text env args = strip_invisible (to_lowercase (se_unicode_lower env) (se_json_text env args))"

definition scan_arguments ::
  "'s set_env \<Rightarrow> 's anomaly_detector \<Rightarrow> string \<Rightarrow> json option \<Rightarrow> anomaly_response" where
  "scan_arguments env d tool_name arguments =
     (case arguments of
        None \<Rightarrow> Normal
      | Some args \<Rightarrow>
          (case find (\<lambda>p. contains_str p (scan_text env args)) (ac_suspicious_arg_patterns (ad_config d)) of
             Some p \<Rightarrow> respond d (''suspicious argument content in tool '' @ quoted tool_name @
                         '': pattern '' @ quoted p @ '' detected'')
           | None \<Rightarrow>
               (case check_structural_anomalies (se_unicode_lower env) args tool_name of
                  Some reason \<Rightarrow> respond d reason
                | None \<Rightarrow> Normal)))"

fun is_anomalous :: "intent_tier \<Rightarrow> operation_type \<Rightarrow> bool" where
  "is_anomalous TierUnknown _ = True"
| "is_anomalous TierAdmin opn = (opn = OpDelete)"
| "is_anomalous TierWrite opn = (opn = OpAdmin)"
| "is_anomalous TierRead opn = (opn \<noteq> OpRead)"

fun tier_label :: "intent_tier \<Rightarrow> string" where
  "tier_label TierUnknown = ''unknown (unclassified)''"
| "tier_label TierRead = ''read-only''"
| "tier_label TierWrite = ''write''"
| "tier_label TierAdmin = ''admin''"

fun operation_debug :: "operation_type \<Rightarrow> string" where
  "operation_debug OpRead = ''Read''"
| "operation_debug OpWrite = ''Write''"
| "operation_debug OpDelete = ''Delete''"
| "operation_debug OpAdmin = ''Admin''"

definition detect_with_args ::
  "'s set_env \<Rightarrow> 's anomaly_detector \<Rightarrow> string \<Rightarrow> operation_type \<Rightarrow> string \<Rightarrow> json option \<Rightarrow>
   anomaly_response" where
  "detect_with_args env d declared_intent operation tool_name arguments =
     (let tier = classify_intent env d declared_intent
      in if \<not> is_anomalous tier operation then scan_arguments env d tool_name arguments
         else respond d (''session intent '' @ quoted declared_intent @ '' classified as '' @
                tier_label tier @ '', but tool '' @ quoted tool_name @ '' classified as '' @
                operation_debug operation))"

definition detect ::
  "'s set_env \<Rightarrow> 's anomaly_detector \<Rightarrow> string \<Rightarrow> operation_type \<Rightarrow> string \<Rightarrow> anomaly_response" where
  "detect env d declared_intent operation tool_name =
     detect_with_args env d declared_intent operation tool_name None"

section \<open>When a call is normal\<close>

lemma respond_not_Normal [simp]: "respond d r \<noteq> Normal" "Normal \<noteq> respond d r"
  by (simp_all add: respond_def)

definition clean_entry :: "(string \<Rightarrow> string) \<Rightarrow> string \<times> json \<Rightarrow> bool" where
  "clean_entry unicode_lower entry \<longleftrightarrow>
     \<not> is_object (snd entry) \<and> \<not> is_array (snd entry) \<and>
     (\<forall>f \<in> set SUSPICIOUS_ARG_KEY_FRAGMENTS. \<not> contains_str f (to_lowercase unicode_lower (fst entry))) \<and>
     (\<forall>s. snd entry = JStr s \<longrightarrow> length s \<le> 1024)"

lemma entry_anomaly_None: "entry_anomaly ul tool e = None \<longleftrightarrow> clean_entry ul e"
proof (cases e)
  case (Pair key v)
  have "(find (\<lambda>f. contains_str f (to_lowercase ul key)) SUSPICIOUS_ARG_KEY_FRAGMENTS = None) =
      (\<forall>f \<in> set SUSPICIOUS_ARG_KEY_FRAGMENTS. \<not> contains_str f (to_lowercase ul key))"
    by (auto simp: find_None_iff)
  then show ?thesis
    using Pair
    by (cases v; cases "find (\<lambda>f. contains_str f (to_lowercase ul key)) SUSPICIOUS_ARG_KEY_FRAGMENTS")
      (simp_all add: entry_anomaly_def clean_entry_def MAX_READ_ARG_STRING_LEN_def not_less)
qed

lemma first_anomaly_None: "first_anomaly ul tool es = None \<longleftrightarrow> (\<forall>e \<in> set es. clean_entry ul e)"
proof (induction es)
  case (Cons e es)
  then show ?case
    using entry_anomaly_None [of ul tool e] by (cases "entry_anomaly ul tool e") auto
qed simp

definition clean_arguments :: "'s set_env \<Rightarrow> 's anomaly_detector \<Rightarrow> json \<Rightarrow> bool" where
  "clean_arguments env d args \<longleftrightarrow>
     (\<forall>p \<in> set (ac_suspicious_arg_patterns (ad_config d)). \<not> contains_str p (scan_text env args)) \<and>
     (\<forall>m. args = JObj m \<longrightarrow> (\<forall>e \<in> set m. clean_entry (se_unicode_lower env) e))"

lemma scan_arguments_Normal:
  "scan_arguments env d tool arguments = Normal \<longleftrightarrow>
     (\<forall>args. arguments = Some args \<longrightarrow> clean_arguments env d args)"
proof (cases arguments)
  case (Some args)
  have str: "check_structural_anomalies (se_unicode_lower env) args tool = None \<longleftrightarrow>
      (\<forall>m. args = JObj m \<longrightarrow> (\<forall>e \<in> set m. clean_entry (se_unicode_lower env) e))"
    by (cases args) (simp_all add: first_anomaly_None)
  let ?found = "find (\<lambda>p. contains_str p (scan_text env args)) (ac_suspicious_arg_patterns (ad_config d))"
  have "?found = None \<longleftrightarrow>
      (\<forall>p \<in> set (ac_suspicious_arg_patterns (ad_config d)). \<not> contains_str p (scan_text env args))"
    by (auto simp: find_None_iff)
  then have "clean_arguments env d args \<longleftrightarrow>
      ?found = None \<and> check_structural_anomalies (se_unicode_lower env) args tool = None"
    by (simp add: clean_arguments_def str)
  then show ?thesis
    by (cases ?found; cases "check_structural_anomalies (se_unicode_lower env) args tool")
      (simp_all add: scan_arguments_def Some)
qed (simp add: scan_arguments_def)

lemma detect_Normal:
  "detect_with_args env d intent opn tool arguments = Normal \<longleftrightarrow>
     \<not> is_anomalous (classify_intent env d intent) opn \<and>
     (\<forall>args. arguments = Some args \<longrightarrow> clean_arguments env d args)"
  by (simp add: detect_with_args_def Let_def scan_arguments_Normal)

lemma detect_response:
  "detect_with_args env d intent opn tool arguments = Normal \<or>
   (\<exists>reason. detect_with_args env d intent opn tool arguments =
      (if ac_escalate_to_deny (ad_config d) then Denied reason else Flagged reason))"
  by (auto simp: detect_with_args_def scan_arguments_def respond_def Let_def split: option.splits)

section \<open>Patterns with capital letters\<close>

lemma strip_invisible_subset: "set (strip_invisible s) \<subseteq> set s"
proof (induction s rule: strip_invisible.induct)
  case (2 c s)
  have "set (drop n s) \<subseteq> set s" for n by (rule set_drop_subset)
  then show ?case using 2 by (auto simp: Let_def)
qed simp

definition is_upper :: "char \<Rightarrow> bool" where
  "is_upper c \<longleftrightarrow> 65 \<le> (of_char c :: nat) \<and> (of_char c :: nat) \<le> 90"

lemma ascii_lower_not_upper: "\<not> is_upper (ascii_lower c)"
  by (auto simp: is_upper_def ascii_lower_def Let_def of_char_of take_bit_eq_mod)

lemma scan_text_not_upper:
  assumes "is_ascii (se_json_text env args)" and "c \<in> set (scan_text env args)"
  shows "\<not> is_upper c"
  using assms strip_invisible_subset [of "map ascii_lower (se_json_text env args)"]
  by (auto simp: scan_text_def to_lowercase_def ascii_lower_not_upper)

lemma contains_str_subset: "contains_str p s \<Longrightarrow> set p \<subseteq> set s"
  by (auto simp: contains_str_iff)

section \<open>Properties\<close>

text \<open>
  When a call passes the detector. The answer is \<open>Normal\<close> exactly when the operation fits the
  tier of the declared intent and the arguments, if any, contain no suspicious pattern, no nested
  value, no suspicious key and no over-long string; every other answer is a denial or a flag, as
  the configuration says. An intent of unknown tier is never \<open>Normal\<close>.
\<close>

theorem anomaly_response_characterised:
  "(detect_with_args env d intent opn tool arguments = Normal \<longleftrightarrow>
      (case classify_intent env d intent of
         TierUnknown \<Rightarrow> False
       | TierRead \<Rightarrow> opn = OpRead
       | TierWrite \<Rightarrow> opn \<noteq> OpAdmin
       | TierAdmin \<Rightarrow> opn \<noteq> OpDelete) \<and>
      (case arguments of None \<Rightarrow> True | Some args \<Rightarrow> clean_arguments env d args)) \<and>
   (detect_with_args env d intent opn tool arguments = Normal \<or>
      (\<exists>reason. detect_with_args env d intent opn tool arguments =
         (if ac_escalate_to_deny (ad_config d) then Denied reason else Flagged reason)))"
proof (intro conjI detect_response)
  have "is_anomalous (classify_intent env d intent) opn \<longleftrightarrow>
      \<not> (case classify_intent env d intent of
         TierUnknown \<Rightarrow> False | TierRead \<Rightarrow> opn = OpRead
       | TierWrite \<Rightarrow> opn \<noteq> OpAdmin | TierAdmin \<Rightarrow> opn \<noteq> OpDelete)"
    by (cases "classify_intent env d intent") auto
  then show "detect_with_args env d intent opn tool arguments = Normal \<longleftrightarrow>
      (case classify_intent env d intent of
         TierUnknown \<Rightarrow> False | TierRead \<Rightarrow> opn = OpRead
       | TierWrite \<Rightarrow> opn \<noteq> OpAdmin | TierAdmin \<Rightarrow> opn \<noteq> OpDelete) \<and>
      (case arguments of None \<Rightarrow> True | Some args \<Rightarrow> clean_arguments env d args)"
    by (cases arguments) (simp_all add: detect_Normal)
qed

text \<open>
  A configured pattern with a capital letter is dead. The arguments are lowered before the scan
  and the patterns are not, so on ASCII arguments such a pattern is never found.
\<close>

theorem capital_pattern_never_found:
  assumes "is_ascii (se_json_text env args)" and "c \<in> set p" and "is_upper c"
  shows "\<not> contains_str p (scan_text env args)"
  using contains_str_subset scan_text_not_upper [OF assms(1)] assms(2,3) by blast

theorem capital_pattern_never_found_witness:
  "\<not> contains_str ''DROP TABLE'' (scan_text
     \<lparr>se_unicode_lower = id, se_regex_escape = id, se_set_new = Ok, se_set_is_match = (\<lambda>_ _. False),
      se_json_text = (\<lambda>_. ''DROP TABLE users'')\<rparr> JNull)"
  by (rule capital_pattern_never_found [where c = "CHR ''D''"])
    (simp_all add: is_ascii_def is_upper_def)

end
