(* ===== verification/Config.thy ===== *)
theory Config
  imports Oauth Providers Policy_Model Behavior "HOL-Library.Monad_Syntax"
begin

text \<open>
  The configuration file (\<open>crates/arbiter/src/config.rs\<close>): its sections, how they are read from a
  TOML table with their defaults, the secrets taken from the environment, and the validation that
  decides whether the program starts. A TOML value is a \<open>json\<close> value without null. The TOML parser, the
  reader of one policy, the URI parser, the file system and the environment are arguments.
\<close>

section \<open>Reading fields\<close>

definition field_or :: "(json \<Rightarrow> 'a option) \<Rightarrow> 'a \<Rightarrow> string \<Rightarrow> (string \<times> json) list \<Rightarrow> 'a option" where
  "field_or read d k m = (case map_of m k of None \<Rightarrow> Some d | Some v \<Rightarrow> read v)"

definition field_required :: "(json \<Rightarrow> 'a option) \<Rightarrow> string \<Rightarrow> (string \<times> json) list \<Rightarrow> 'a option" where
  "field_required read k m = Option.bind (map_of m k) read"

definition some_of :: "(json \<Rightarrow> 'a option) \<Rightarrow> json \<Rightarrow> 'a option option" where
  "some_of read v = map_option Some (read v)"

fun json_bool :: "json \<Rightarrow> bool option" where
  "json_bool (JBool b) = Some b"
| "json_bool _ = None"

fun json_strings :: "json \<Rightarrow> string list option" where
  "json_strings (JArr xs) = those (map json_string xs)"
| "json_strings _ = None"

fun u16_from_value :: "json \<Rightarrow> 16 word option" where
  "u16_from_value (JNum (NumInt i)) = (if 0 \<le> i \<and> i < 65536 then Some (of_int i) else None)"
| "u16_from_value _ = None"

definition usize_from_value :: "json \<Rightarrow> nat option" where
  "usize_from_value v = map_option unat (u64_from_value v)"

fun i64_from_value :: "json \<Rightarrow> int option" where
  "i64_from_value (JNum (NumInt i)) = (if - (2 ^ 63) \<le> i \<and> i < 2 ^ 63 then Some i else None)"
| "i64_from_value _ = None"

fun f64_from_value :: "json \<Rightarrow> f64 option" where
  "f64_from_value (JNum n) = Some (num_as_f64 n)"
| "f64_from_value _ = None"

fun table_of :: "((string \<times> json) list \<Rightarrow> 'a option) \<Rightarrow> json \<Rightarrow> 'a option" where
  "table_of read (JObj m) = read m"
| "table_of read _ = None"

fun array_of :: "(json \<Rightarrow> 'a option) \<Rightarrow> json \<Rightarrow> 'a list option" where
  "array_of read (JArr xs) = those (map read xs)"
| "array_of read _ = None"

section \<open>Sections\<close>

record proxy_section =
  px_listen_addr :: string
  px_listen_port :: "16 word"
  px_upstream_url :: string
  px_blocked_paths :: "string list"
  px_require_session :: bool
  px_strict_mcp :: bool
  px_max_request_body_bytes :: nat
  px_max_response_body_bytes :: nat
  px_upstream_timeout_secs :: u64
  px_deny_non_post_methods :: bool

definition default_listen_addr :: string where
  "default_listen_addr = ''127.0.0.1''"

definition default_max_body_bytes :: nat where
  "default_max_body_bytes = 10 * 1024 * 1024"

definition proxy_default :: proxy_section where
  "proxy_default = \<lparr>px_listen_addr = default_listen_addr, px_listen_port = 8080,
     px_upstream_url = ''http://127.0.0.1:8081'', px_blocked_paths = [], px_require_session = True,
     px_strict_mcp = True, px_max_request_body_bytes = default_max_body_bytes,
     px_max_response_body_bytes = default_max_body_bytes, px_upstream_timeout_secs = 60,
     px_deny_non_post_methods = True\<rparr>"

definition proxy_from_table :: "(string \<times> json) list \<Rightarrow> proxy_section option" where
  "proxy_from_table m = do {
     addr \<leftarrow> field_or json_string default_listen_addr ''listen_addr'' m;
     port \<leftarrow> field_or u16_from_value 8080 ''listen_port'' m;
     url \<leftarrow> field_or json_string ''http://127.0.0.1:8081'' ''upstream_url'' m;
     blocked \<leftarrow> field_or json_strings [] ''blocked_paths'' m;
     require_session \<leftarrow> field_or json_bool True ''require_session'' m;
     strict_mcp \<leftarrow> field_or json_bool True ''strict_mcp'' m;
     max_req \<leftarrow> field_or usize_from_value default_max_body_bytes ''max_request_body_bytes'' m;
     max_resp \<leftarrow> field_or usize_from_value default_max_body_bytes ''max_response_body_bytes'' m;
     timeout \<leftarrow> field_or u64_from_value 60 ''upstream_timeout_secs'' m;
     deny_non_post \<leftarrow> field_or json_bool True ''deny_non_post_methods'' m;
     Some \<lparr>px_listen_addr = addr, px_listen_port = port, px_upstream_url = url, px_blocked_paths = blocked,
           px_require_session = require_session, px_strict_mcp = strict_mcp, px_max_request_body_bytes = max_req,
           px_max_response_body_bytes = max_resp, px_upstream_timeout_secs = timeout,
           px_deny_non_post_methods = deny_non_post\<rparr>}"

record oauth_section =
  os_jwks_cache_ttl_secs :: u64
  os_issuers :: "issuer_config list"

text \<open>An issuer entry is an issuer without redirect addresses.\<close>

definition issuer_entry_from_table :: "(string \<times> json) list \<Rightarrow> issuer_config option" where
  "issuer_entry_from_table m = do {
     name \<leftarrow> field_required json_string ''name'' m;
     url \<leftarrow> field_required json_string ''issuer_url'' m;
     jwks \<leftarrow> field_required json_string ''jwks_uri'' m;
     auds \<leftarrow> field_or json_strings [] ''audiences'' m;
     intro \<leftarrow> field_or (some_of json_string) None ''introspection_url'' m;
     cid \<leftarrow> field_or (some_of json_string) None ''client_id'' m;
     secret \<leftarrow> field_or (some_of json_string) None ''client_secret'' m;
     Some \<lparr>is_name = name, is_issuer_url = url, is_jwks_uri = jwks, is_audiences = auds,
           is_introspection_url = intro, is_client_id = cid, is_client_secret = secret,
           is_allowed_redirect_uris = []\<rparr>}"

definition oauth_from_table :: "(string \<times> json) list \<Rightarrow> oauth_section option" where
  "oauth_from_table m = do {
     ttl \<leftarrow> field_or u64_from_value default_jwks_cache_ttl ''jwks_cache_ttl_secs'' m;
     issuers \<leftarrow> field_or (array_of (table_of issuer_entry_from_table)) [] ''issuers'' m;
     Some \<lparr>os_jwks_cache_ttl_secs = ttl, os_issuers = issuers\<rparr>}"

record 'r policy_section =
  ps_file :: "string option"
  ps_policies :: "'r policy list"
  ps_watch :: bool
  ps_watch_debounce_ms :: u64

definition policy_default :: "'r policy_section" where
  "policy_default = \<lparr>ps_file = None, ps_policies = [], ps_watch = False, ps_watch_debounce_ms = 0\<rparr>"

definition policy_from_table :: "(json \<Rightarrow> 'r policy option) \<Rightarrow> (string \<times> json) list \<Rightarrow> 'r policy_section option" where
  "policy_from_table read_policy m = do {
     file \<leftarrow> field_or (some_of json_string) None ''file'' m;
     policies \<leftarrow> field_or (array_of read_policy) [] ''policies'' m;
     watch \<leftarrow> field_or json_bool False ''watch'' m;
     debounce \<leftarrow> field_or u64_from_value 500 ''watch_debounce_ms'' m;
     Some \<lparr>ps_file = file, ps_policies = policies, ps_watch = watch, ps_watch_debounce_ms = debounce\<rparr>}"

record sessions_section =
  sn_default_time_limit_secs :: u64
  sn_default_call_budget :: u64
  sn_escalate_anomalies :: bool
  sn_read_intent_keywords :: "string list"
  sn_write_intent_keywords :: "string list"
  sn_admin_intent_keywords :: "string list"
  sn_suspicious_arg_patterns :: "string list"
  sn_warning_threshold_pct :: f64
  sn_rate_limit_window_secs :: u64
  sn_cleanup_interval_secs :: u64
  sn_max_concurrent_sessions_per_agent :: "u64 option"

definition sessions_default :: sessions_section where
  "sessions_default = \<lparr>sn_default_time_limit_secs = 3600, sn_default_call_budget = 1000,
     sn_escalate_anomalies = True, sn_read_intent_keywords = default_read_intent_keywords,
     sn_write_intent_keywords = default_write_intent_keywords,
     sn_admin_intent_keywords = default_admin_intent_keywords, sn_suspicious_arg_patterns = [],
     sn_warning_threshold_pct = Fin 20, sn_rate_limit_window_secs = 60, sn_cleanup_interval_secs = 60,
     sn_max_concurrent_sessions_per_agent = Some 10\<rparr>"

definition sessions_from_table :: "(string \<times> json) list \<Rightarrow> sessions_section option" where
  "sessions_from_table m = do {
     time_limit \<leftarrow> field_or u64_from_value 3600 ''default_time_limit_secs'' m;
     budget \<leftarrow> field_or u64_from_value 1000 ''default_call_budget'' m;
     escalate \<leftarrow> field_or json_bool True ''escalate_anomalies'' m;
     read_kw \<leftarrow> field_or json_strings default_read_intent_keywords ''read_intent_keywords'' m;
     write_kw \<leftarrow> field_or json_strings default_write_intent_keywords ''write_intent_keywords'' m;
     admin_kw \<leftarrow> field_or json_strings default_admin_intent_keywords ''admin_intent_keywords'' m;
     patterns \<leftarrow> field_or json_strings [] ''suspicious_arg_patterns'' m;
     threshold \<leftarrow> field_or f64_from_value (Fin 20) ''warning_threshold_pct'' m;
     window \<leftarrow> field_or u64_from_value 60 ''rate_limit_window_secs'' m;
     cleanup \<leftarrow> field_or u64_from_value 60 ''cleanup_interval_secs'' m;
     cap \<leftarrow> field_or (some_of u64_from_value) (Some 10) ''max_concurrent_sessions_per_agent'' m;
     Some \<lparr>sn_default_time_limit_secs = time_limit, sn_default_call_budget = budget,
           sn_escalate_anomalies = escalate, sn_read_intent_keywords = read_kw, sn_write_intent_keywords = write_kw,
           sn_admin_intent_keywords = admin_kw, sn_suspicious_arg_patterns = patterns,
           sn_warning_threshold_pct = threshold, sn_rate_limit_window_secs = window,
           sn_cleanup_interval_secs = cleanup, sn_max_concurrent_sessions_per_agent = cap\<rparr>}"

record audit_section =
  au_enabled :: bool
  au_file_path :: "string option"
  au_redaction_patterns :: "string list"
  au_require_healthy :: bool
  au_hash_chain :: bool

definition audit_default :: audit_section where
  "audit_default = \<lparr>au_enabled = True, au_file_path = None, au_redaction_patterns = [],
     au_require_healthy = True, au_hash_chain = True\<rparr>"

definition audit_from_table :: "(string \<times> json) list \<Rightarrow> audit_section option" where
  "audit_from_table m = do {
     enabled \<leftarrow> field_or json_bool True ''enabled'' m;
     file \<leftarrow> field_or (some_of json_string) None ''file_path'' m;
     patterns \<leftarrow> field_or json_strings [] ''redaction_patterns'' m;
     healthy \<leftarrow> field_or json_bool True ''require_healthy'' m;
     chain \<leftarrow> field_or json_bool True ''hash_chain'' m;
     Some \<lparr>au_enabled = enabled, au_file_path = file, au_redaction_patterns = patterns,
           au_require_healthy = healthy, au_hash_chain = chain\<rparr>}"

record metrics_section =
  me_enabled :: bool
  me_require_auth :: bool

definition metrics_default :: metrics_section where
  "metrics_default = \<lparr>me_enabled = True, me_require_auth = False\<rparr>"

definition metrics_from_table :: "(string \<times> json) list \<Rightarrow> metrics_section option" where
  "metrics_from_table m = do {
     enabled \<leftarrow> field_or json_bool True ''enabled'' m;
     require_auth \<leftarrow> field_or json_bool False ''require_auth'' m;
     Some \<lparr>me_enabled = enabled, me_require_auth = require_auth\<rparr>}"

record admin_section =
  am_listen_addr :: string
  am_listen_port :: "16 word"
  am_api_key :: string
  am_signing_secret :: string
  am_token_expiry_secs :: int

definition DEFAULT_API_KEY :: string where
  "DEFAULT_API_KEY = ''arbiter-dev-key''"

definition DEFAULT_SIGNING_SECRET :: string where
  "DEFAULT_SIGNING_SECRET = ''arbiter-dev-secret-change-in-production''"

definition admin_default :: admin_section where
  "admin_default = \<lparr>am_listen_addr = default_listen_addr, am_listen_port = 3000, am_api_key = DEFAULT_API_KEY,
     am_signing_secret = DEFAULT_SIGNING_SECRET, am_token_expiry_secs = 3600\<rparr>"

definition admin_from_table :: "(string \<times> json) list \<Rightarrow> admin_section option" where
  "admin_from_table m = do {
     addr \<leftarrow> field_or json_string default_listen_addr ''listen_addr'' m;
     port \<leftarrow> field_or u16_from_value 3000 ''listen_port'' m;
     key \<leftarrow> field_or json_string DEFAULT_API_KEY ''api_key'' m;
     secret \<leftarrow> field_or json_string DEFAULT_SIGNING_SECRET ''signing_secret'' m;
     expiry \<leftarrow> field_or i64_from_value 3600 ''token_expiry_secs'' m;
     Some \<lparr>am_listen_addr = addr, am_listen_port = port, am_api_key = key, am_signing_secret = secret,
           am_token_expiry_secs = expiry\<rparr>}"

record storage_section =
  sg_backend :: string
  sg_sqlite_path :: string

definition storage_default :: storage_section where
  "storage_default = \<lparr>sg_backend = ''memory'', sg_sqlite_path = ''arbiter.db''\<rparr>"

definition storage_from_table :: "(string \<times> json) list \<Rightarrow> storage_section option" where
  "storage_from_table m = do {
     backend \<leftarrow> field_or json_string ''memory'' ''backend'' m;
     path \<leftarrow> field_or json_string ''arbiter.db'' ''sqlite_path'' m;
     Some \<lparr>sg_backend = backend, sg_sqlite_path = path\<rparr>}"

record credentials_section =
  cd_provider :: string
  cd_file_path :: "string option"
  cd_env_prefix :: string

definition credentials_from_table :: "(string \<times> json) list \<Rightarrow> credentials_section option" where
  "credentials_from_table m = do {
     provider \<leftarrow> field_or json_string ''file'' ''provider'' m;
     path \<leftarrow> field_or (some_of json_string) None ''file_path'' m;
     prefix \<leftarrow> field_or json_string ''ARBITER_CRED'' ''env_prefix'' m;
     Some \<lparr>cd_provider = provider, cd_file_path = path, cd_env_prefix = prefix\<rparr>}"

section \<open>The whole file\<close>

record 'r arbiter_config =
  ax_proxy :: proxy_section
  ax_oauth :: "oauth_section option"
  ax_policy :: "'r policy_section"
  ax_sessions :: sessions_section
  ax_audit :: audit_section
  ax_metrics :: metrics_section
  ax_admin :: admin_section
  ax_credentials :: "credentials_section option"
  ax_storage :: storage_section

definition config_from_table :: "(json \<Rightarrow> 'r policy option) \<Rightarrow> (string \<times> json) list \<Rightarrow> 'r arbiter_config option" where
  "config_from_table read_policy m = do {
     proxy \<leftarrow> field_or (table_of proxy_from_table) proxy_default ''proxy'' m;
     oauth \<leftarrow> field_or (some_of (table_of oauth_from_table)) None ''oauth'' m;
     policy \<leftarrow> field_or (table_of (policy_from_table read_policy)) policy_default ''policy'' m;
     sessions \<leftarrow> field_or (table_of sessions_from_table) sessions_default ''sessions'' m;
     audit \<leftarrow> field_or (table_of audit_from_table) audit_default ''audit'' m;
     metrics \<leftarrow> field_or (table_of metrics_from_table) metrics_default ''metrics'' m;
     admin \<leftarrow> field_or (table_of admin_from_table) admin_default ''admin'' m;
     credentials \<leftarrow> field_or (some_of (table_of credentials_from_table)) None ''credentials'' m;
     storage \<leftarrow> field_or (table_of storage_from_table) storage_default ''storage'' m;
     Some \<lparr>ax_proxy = proxy, ax_oauth = oauth, ax_policy = policy, ax_sessions = sessions, ax_audit = audit,
           ax_metrics = metrics, ax_admin = admin, ax_credentials = credentials, ax_storage = storage\<rparr>}"

record 'r config_env =
  ce_parse_toml :: "string \<Rightarrow> (json, string) result"
  ce_read_policy :: "json \<Rightarrow> 'r policy option"
  ce_type_error :: "json \<Rightarrow> string"
  ce_uri_ok :: "string \<Rightarrow> bool"
  ce_exists :: "string \<Rightarrow> bool"
  ce_vars :: environment
  ce_debug :: "string \<Rightarrow> string"
  ce_show_f64 :: "f64 \<Rightarrow> string"

definition config_parse :: "'r config_env \<Rightarrow> string \<Rightarrow> ('r arbiter_config, string) result" where
  "config_parse env s =
     (case ce_parse_toml env s of
        Ok v \<Rightarrow>
          (case table_of (config_from_table (ce_read_policy env)) v of
             Some c \<Rightarrow> Ok c
           | None \<Rightarrow> Err (ce_type_error env v))
      | Err e \<Rightarrow> Err e
      | Panic \<Rightarrow> Panic)"

definition env_override :: "'r config_env \<Rightarrow> string \<Rightarrow> string \<Rightarrow> string" where
  "env_override env name current =
     (case env_var (ce_debug env) (ce_vars env) name of
        Ok v \<Rightarrow> if v \<noteq> [] then v else current
      | _ \<Rightarrow> current)"

definition apply_env_overrides :: "'r config_env \<Rightarrow> 'r arbiter_config \<Rightarrow> 'r arbiter_config" where
  "apply_env_overrides env c =
     c\<lparr>ax_admin := (ax_admin c)
         \<lparr>am_api_key := env_override env ''ARBITER_ADMIN_API_KEY'' (am_api_key (ax_admin c)),
          am_signing_secret := env_override env ''ARBITER_SIGNING_SECRET'' (am_signing_secret (ax_admin c))\<rparr>\<rparr>"

definition config_from_file ::
  "'r config_env \<Rightarrow> (string, string) result \<Rightarrow> ('r arbiter_config, string) result" where
  "config_from_file env contents =
     (case contents of
        Ok text \<Rightarrow>
          (case config_parse env text of
             Ok c \<Rightarrow> Ok (apply_env_overrides env c)
           | Err e \<Rightarrow> Err e
           | Panic \<Rightarrow> Panic)
      | Err e \<Rightarrow> Err e
      | Panic \<Rightarrow> Panic)"

section \<open>Validation\<close>

datatype config_warning = CfgError string | CfgWarn string

fun is_error :: "config_warning \<Rightarrow> bool" where
  "is_error (CfgError _) = True"
| "is_error (CfgWarn _) = False"

fun config_warning_display :: "config_warning \<Rightarrow> string" where
  "config_warning_display (CfgError msg) = ''ERROR: '' @ msg"
| "config_warning_display (CfgWarn msg) = ''WARN: '' @ msg"

text \<open>
  \<open>Path::parent\<close>: slashes and dot components at the end do not count, the root has no parent, and a
  single component has the empty path as its parent.
\<close>

function trim_path :: "string \<Rightarrow> string" where
  "trim_path p =
     (if length p > 1 \<and> last p = CHR ''/'' then trim_path (butlast p)
      else if length p > 1 \<and> drop (length p - 2) p = ''/.'' then trim_path (take (length p - 1) p)
      else p)"
  by pat_completeness auto
termination by (relation "measure length") auto

declare trim_path.simps [simp del]

definition path_parent :: "string \<Rightarrow> string option" where
  "path_parent path =
     (let p = trim_path path
      in if p = [] \<or> p = ''/'' then None
         else Some (trim_path (rev (dropWhile (\<lambda>c. c \<noteq> CHR ''/'') (rev p)))))"

definition credentials_warnings :: "'r config_env \<Rightarrow> credentials_section \<Rightarrow> config_warning list" where
  "credentials_warnings env c =
     (if cd_provider c = ''file''
      then (case cd_file_path c of
              Some path \<Rightarrow>
                if \<not> ce_exists env path
                then [CfgError (''[credentials] file_path '' @ quoted path @ '' does not exist'')] else []
            | None \<Rightarrow> [CfgError (''[credentials] provider = '' @ [CHR 34] @ ''file'' @ [CHR 34] @ '' requires file_path'')])
      else if cd_provider c = ''env'' then []
      else [CfgError (''[credentials] provider must be '' @ quoted ''file'' @ '' or '' @ quoted ''env'' @ '', got '' @
              quoted (cd_provider c))])"

definition storage_warnings :: "storage_section \<Rightarrow> config_warning list" where
  "storage_warnings s =
     (if sg_backend s = ''memory''
      then [CfgWarn (''[storage] backend = '' @ [CHR 34] @ ''memory'' @ [CHR 34] @
              '': all session state (budgets, rate limits) will be lost on restart. Use '' @ [CHR 34] @ ''sqlite'' @
              [CHR 34] @ '' for production deployments.'')]
      else if sg_backend s = ''sqlite'' then []
      else [CfgError (''[storage] backend must be '' @ quoted ''memory'' @ '' or '' @ quoted ''sqlite'' @ '', got '' @
              quoted (sg_backend s))])"

definition encryption_key_set :: "'r config_env \<Rightarrow> bool" where
  "encryption_key_set env =
     (case env_var (ce_debug env) (ce_vars env) ''ARBITER_STORAGE_ENCRYPTION_KEY'' of
        Ok v \<Rightarrow> str_trim v \<noteq> [] | _ \<Rightarrow> False)"

definition encryption_warnings :: "'r config_env \<Rightarrow> storage_section \<Rightarrow> config_warning list" where
  "encryption_warnings env s =
     (if sg_backend s = ''sqlite'' \<and> \<not> encryption_key_set env
      then [CfgWarn (''[storage] SQLite backend without ARBITER_STORAGE_ENCRYPTION_KEY; session data stored in '' @
              ''plaintext. Set the env var for encryption at rest.'')] else [])"

definition config_validate :: "'r config_env \<Rightarrow> 'r arbiter_config \<Rightarrow> config_warning list" where
  "config_validate env c =
     (let px = ax_proxy c; am = ax_admin c; sn = ax_sessions c; sg = ax_storage c;
          port = show_nat (unat (px_listen_port px));
          plain_credentials = (ax_credentials c \<noteq> None \<and> starts_with ''http://'' (px_upstream_url px))
      in (if \<not> ce_uri_ok env (px_upstream_url px)
          then [CfgError (''[proxy] upstream_url '' @ quoted (px_upstream_url px) @ '' is not a valid URL'')] else []) @
         (if px_listen_port px = am_listen_port am \<and> px_listen_addr px = am_listen_addr am
          then [CfgError (''[proxy] listen_port ('' @ port @
                  '') conflicts with [admin] listen_port; both would bind to '' @ px_listen_addr px @ '':'' @ port)]
          else []) @
         (if am_api_key am = DEFAULT_API_KEY
          then [CfgError (''[admin] api_key is the default dev key. Set ARBITER_ADMIN_API_KEY env var or a unique key in '' @
                  ''config for production. Arbiter refuses to start with default credentials.'')] else []) @
         (if am_signing_secret am = DEFAULT_SIGNING_SECRET
          then [CfgError (''[admin] signing_secret is the default dev secret. Set ARBITER_SIGNING_SECRET env var or a '' @
                  ''unique secret in config for production. Arbiter refuses to start with default credentials.'')] else []) @
         (if \<not> px_deny_non_post_methods px
          then [CfgWarn (''[proxy] deny_non_post_methods = false: non-POST requests bypass session, policy, and behavior '' @
                  ''checks. Only x-agent-id attribution is enforced.'')] else []) @
         (case ps_file (ax_policy c) of
            Some path \<Rightarrow> if \<not> ce_exists env path
              then [CfgError (''[policy] file '' @ quoted path @ '' does not exist'')] else []
          | None \<Rightarrow> []) @
         (case Option.bind (au_file_path (ax_audit c)) path_parent of
            Some parent \<Rightarrow> if \<not> ce_exists env parent
              then [CfgError (''[audit] file_path parent directory '' @ quoted parent @ '' does not exist'')] else []
          | None \<Rightarrow> []) @
         (if plain_credentials
          then [CfgWarn (''[credentials] configured with an HTTP upstream URL; injected credentials will travel in '' @
                  ''plaintext. Use HTTPS for production.'')] else []) @
         (case ax_credentials c of Some cr \<Rightarrow> credentials_warnings env cr | None \<Rightarrow> []) @
         storage_warnings sg @
         (if px_max_request_body_bytes px = 0 then [CfgError ''[proxy] max_request_body_bytes must be > 0''] else []) @
         (if px_upstream_timeout_secs px = 0 then [CfgError ''[proxy] upstream_timeout_secs must be > 0''] else []) @
         (if \<not> (f64_less_eq (Fin 0) (sn_warning_threshold_pct sn) \<and> f64_less_eq (sn_warning_threshold_pct sn) (Fin 100))
          then [CfgError (''[sessions] warning_threshold_pct must be 0..100, got '' @
                  ce_show_f64 env (sn_warning_threshold_pct sn))] else []) @
         (if sn_rate_limit_window_secs sn = 0
          then [CfgError ''[sessions] rate_limit_window_secs must be > 0 (zero would allow unlimited burst)''] else []) @
         (if sn_default_call_budget sn = 0
          then [CfgWarn ''[sessions] default_call_budget is 0; all sessions will be immediately exhausted''] else []) @
         (if sn_default_time_limit_secs sn = 0
          then [CfgWarn ''[sessions] default_time_limit_secs is 0; all sessions will expire immediately''] else []) @
         (if plain_credentials
          then [CfgWarn (''[proxy] upstream_url uses HTTP with [credentials] enabled; injected secrets will be '' @
                  ''transmitted in plaintext. Use HTTPS for production deployments.'')] else []) @
         encryption_warnings env sg)"

text \<open>What \<open>main\<close> does before it runs the server: load, validate, and stop on an error.\<close>

definition load_config :: "'r config_env \<Rightarrow> (string, string) result \<Rightarrow> string \<Rightarrow> ('r arbiter_config, string) result" where
  "load_config env contents path =
     (case config_from_file env contents of
        Err e \<Rightarrow> Err (''failed to load config from '' @ path @ '': '' @ e)
      | Panic \<Rightarrow> Panic
      | Ok c \<Rightarrow>
          if list_ex is_error (config_validate env c)
          then Err (''configuration has errors; fix the issues above and restart. '' @
                 ''See arbiter.example.toml for reference.'')
          else Ok c)"

end
