(* ===== verification/Any_Registry.thy ===== *)
theory Any_Registry
  imports Registry_Storage
begin

text \<open>
  \<open>AnyRegistry\<close> (\<open>crates/arbiter-identity/src/any_registry.rs\<close>): the registry the administration
  API holds, in memory or over a storage backend. Every operation dispatches. The calls that loop
  over delegations may not return on some backend, so they have an optional result; in memory they
  always return.
\<close>

datatype 'b any_registry = RegInMemory registry | RegStorageBacked 'b

fun anyreg_register_agent ::
  "'b agent_storage \<Rightarrow> (uuid \<Rightarrow> string) \<Rightarrow> uuid \<Rightarrow> instant \<Rightarrow> string \<Rightarrow> string \<Rightarrow> string list \<Rightarrow> trust_level \<Rightarrow>
   instant option \<Rightarrow> 'b any_registry \<Rightarrow> (agent, identity_error) result \<times> 'b any_registry" where
  "anyreg_register_agent ops us new_id now owner model capabilities level expires_at (RegInMemory r) =
     map_prod id RegInMemory (register_agent new_id now owner model capabilities level expires_at r)"
| "anyreg_register_agent ops us new_id now owner model capabilities level expires_at (RegStorageBacked r) =
     map_prod id RegStorageBacked (sr_register_agent ops us new_id now owner model capabilities level expires_at r)"

fun anyreg_get_agent ::
  "'b agent_storage \<Rightarrow> (uuid \<Rightarrow> string) \<Rightarrow> instant \<Rightarrow> uuid \<Rightarrow> 'b any_registry \<Rightarrow>
   (agent, identity_error) result \<times> 'b any_registry" where
  "anyreg_get_agent ops us now i (RegInMemory r) = (get_agent now i r, RegInMemory r)"
| "anyreg_get_agent ops us now i (RegStorageBacked r) = map_prod id RegStorageBacked (sr_get_agent ops us now i r)"

fun anyreg_update_trust_level ::
  "'b agent_storage \<Rightarrow> (uuid \<Rightarrow> string) \<Rightarrow> uuid \<Rightarrow> trust_level \<Rightarrow> 'b any_registry \<Rightarrow>
   (agent, identity_error) result \<times> 'b any_registry" where
  "anyreg_update_trust_level ops us i level (RegInMemory r) = map_prod id RegInMemory (update_trust_level i level r)"
| "anyreg_update_trust_level ops us i level (RegStorageBacked r) =
     map_prod id RegStorageBacked (sr_update_trust_level ops us i level r)"

fun anyreg_deactivate_agent ::
  "'b agent_storage \<Rightarrow> (uuid \<Rightarrow> string) \<Rightarrow> uuid \<Rightarrow> 'b any_registry \<Rightarrow>
   (unit, identity_error) result \<times> 'b any_registry" where
  "anyreg_deactivate_agent ops us i (RegInMemory r) = map_prod id RegInMemory (deactivate_agent i r)"
| "anyreg_deactivate_agent ops us i (RegStorageBacked r) = map_prod id RegStorageBacked (sr_deactivate_agent ops us i r)"

fun anyreg_list_agents ::
  "'b agent_storage \<Rightarrow> instant \<Rightarrow> 'b any_registry \<Rightarrow> (agent list, unit) result \<times> 'b any_registry" where
  "anyreg_list_agents ops now (RegInMemory r) = (Ok (list_agents now r), RegInMemory r)"
| "anyreg_list_agents ops now (RegStorageBacked r) = map_prod id RegStorageBacked (sr_list_agents ops r)"

fun anyreg_create_delegation ::
  "'b agent_storage \<Rightarrow> (uuid \<Rightarrow> string) \<Rightarrow> instant \<Rightarrow> uuid \<Rightarrow> uuid \<Rightarrow> string list \<Rightarrow> instant option \<Rightarrow>
   'b any_registry \<Rightarrow> ((delegation_link, identity_error) result \<times> 'b any_registry) option" where
  "anyreg_create_delegation ops us now f t scopes expires_at (RegInMemory r) =
     Some (map_prod id RegInMemory (create_delegation now f t scopes expires_at r))"
| "anyreg_create_delegation ops us now f t scopes expires_at (RegStorageBacked r) =
     map_option (map_prod id RegStorageBacked) (sr_create_delegation ops us now f t scopes expires_at r)"

fun anyreg_verify_chain ::
  "'b agent_storage \<Rightarrow> (uuid \<Rightarrow> string) \<Rightarrow> (nat \<Rightarrow> instant) \<Rightarrow> uuid \<Rightarrow> 'b any_registry \<Rightarrow>
   ((delegation_link list, identity_error) result \<times> 'b any_registry) option" where
  "anyreg_verify_chain ops us now i (RegInMemory r) = Some (verify_chain now i r, RegInMemory r)"
| "anyreg_verify_chain ops us now i (RegStorageBacked r) =
     map_option (map_prod id RegStorageBacked) (sr_verify_chain ops us now i r)"

fun anyreg_get_chain_for_agent ::
  "'b agent_storage \<Rightarrow> (uuid \<Rightarrow> string) \<Rightarrow> uuid \<Rightarrow> 'b any_registry \<Rightarrow>
   ((delegation_link list, identity_error) result \<times> 'b any_registry) option" where
  "anyreg_get_chain_for_agent ops us i (RegInMemory r) = Some (get_chain_for_agent i r, RegInMemory r)"
| "anyreg_get_chain_for_agent ops us i (RegStorageBacked r) =
     map_option (map_prod id RegStorageBacked) (sr_get_chain_for_agent ops us i r)"

fun anyreg_cascade_deactivate ::
  "'b agent_storage \<Rightarrow> (uuid \<Rightarrow> string) \<Rightarrow> uuid \<Rightarrow> 'b any_registry \<Rightarrow>
   ((uuid list, identity_error) result \<times> 'b any_registry) option" where
  "anyreg_cascade_deactivate ops us i (RegInMemory r) = Some (map_prod id RegInMemory (cascade_deactivate i r))"
| "anyreg_cascade_deactivate ops us i (RegStorageBacked r) =
     map_option (map_prod id RegStorageBacked) (sr_cascade_deactivate ops us i r)"

fun anyreg_list_delegations_from ::
  "'b agent_storage \<Rightarrow> uuid \<Rightarrow> 'b any_registry \<Rightarrow> (delegation_link list, unit) result \<times> 'b any_registry" where
  "anyreg_list_delegations_from ops i (RegInMemory r) = (Ok (list_delegations_from i r), RegInMemory r)"
| "anyreg_list_delegations_from ops i (RegStorageBacked r) =
     map_prod id RegStorageBacked (sr_list_delegations_from ops i r)"

fun anyreg_list_delegations_to ::
  "'b agent_storage \<Rightarrow> uuid \<Rightarrow> 'b any_registry \<Rightarrow> (delegation_link list, unit) result \<times> 'b any_registry" where
  "anyreg_list_delegations_to ops i (RegInMemory r) = (Ok (list_delegations_to i r), RegInMemory r)"
| "anyreg_list_delegations_to ops i (RegStorageBacked r) =
     map_prod id RegStorageBacked (sr_list_delegations_to ops i r)"

end
