(* ===== verification/Any_Store.thy ===== *)
theory Any_Store
  imports Session_Storage
begin

text \<open>
  \<open>AnySessionStore\<close> (\<open>crates/arbiter-session/src/any_store.rs\<close>): the store the request
  pipeline holds, in memory or over a storage backend. Every operation dispatches. The store meets
  the contract \<open>session_backend\<close> because both alternatives do.
\<close>

datatype 'b any_session_store = InMemory session_store | StorageBacked "'b storage_backed"

fun any_create ::
  "'b session_storage \<Rightarrow> uuid \<Rightarrow> instant \<Rightarrow> instant \<Rightarrow> create_session_request \<Rightarrow> 'b any_session_store \<Rightarrow>
   task_session \<times> 'b any_session_store" where
  "any_create ops sid now1 now2 req (InMemory s) = map_prod id InMemory (create sid now1 now2 req s)"
| "any_create ops sid now1 now2 req (StorageBacked s) =
     map_prod id StorageBacked (sb_create ops sid now1 now2 req s)"

fun any_create_if_under_cap ::
  "'b session_storage \<Rightarrow> (uuid \<Rightarrow> string) \<Rightarrow> uuid \<Rightarrow> instant \<Rightarrow> instant \<Rightarrow> create_session_request \<Rightarrow>
   u64 \<Rightarrow> 'b any_session_store \<Rightarrow> (task_session, session_error) result \<times> 'b any_session_store" where
  "any_create_if_under_cap ops us sid now1 now2 req max_sessions (InMemory s) =
     map_prod id InMemory (create_if_under_cap us sid now1 now2 req max_sessions s)"
| "any_create_if_under_cap ops us sid now1 now2 req max_sessions (StorageBacked s) =
     map_prod id StorageBacked (sb_create_if_under_cap ops us sid now1 now2 req max_sessions s)"

fun any_use_session ::
  "'b session_storage \<Rightarrow> uuid \<Rightarrow> string \<Rightarrow> uuid option \<Rightarrow> instant \<Rightarrow> instant \<Rightarrow> 'b any_session_store \<Rightarrow>
   (task_session, session_error) result \<times> 'b any_session_store" where
  "any_use_session ops sid tool ra now1 now2 (InMemory s) =
     map_prod id InMemory (use_session sid tool ra now1 now2 s)"
| "any_use_session ops sid tool ra now1 now2 (StorageBacked s) =
     map_prod id StorageBacked (sb_use_session ops sid tool ra now1 now2 s)"

fun any_use_session_batch :: "'b session_storage \<Rightarrow> 'b any_session_store batch_op" where
  "any_use_session_batch ops sid tools ra now1 now2 now3 (InMemory s) =
     map_prod id InMemory (use_session_batch sid tools ra now1 now2 now3 s)"
| "any_use_session_batch ops sid tools ra now1 now2 now3 (StorageBacked s) =
     map_prod id StorageBacked (sb_use_session_batch ops sid tools ra now1 now2 now3 s)"

fun any_close ::
  "'b session_storage \<Rightarrow> uuid \<Rightarrow> 'b any_session_store \<Rightarrow>
   (task_session, session_error) result \<times> 'b any_session_store" where
  "any_close ops sid (InMemory s) = map_prod id InMemory (close sid s)"
| "any_close ops sid (StorageBacked s) = map_prod id StorageBacked (sb_close ops sid s)"

text \<open>The reading operations look at the sessions of the store or of its cache.\<close>

fun any_sessions :: "'b any_session_store \<Rightarrow> session_store" where
  "any_sessions (InMemory s) = s"
| "any_sessions (StorageBacked s) = sb_cache s"

definition any_get :: "uuid \<Rightarrow> 'b any_session_store \<Rightarrow> (task_session, session_error) result" where
  "any_get sid st = get_session sid (any_sessions st)"

definition any_list_all :: "'b any_session_store \<Rightarrow> task_session list" where
  "any_list_all st = list_all_sessions (any_sessions st)"

definition any_count_active_for_agent :: "uuid \<Rightarrow> 'b any_session_store \<Rightarrow> u64" where
  "any_count_active_for_agent agent_id st = count_active_for_agent agent_id (any_sessions st)"

fun any_close_sessions_for_agent ::
  "'b session_storage \<Rightarrow> uuid \<Rightarrow> 'b any_session_store \<Rightarrow> nat \<times> 'b any_session_store" where
  "any_close_sessions_for_agent ops agent_id (InMemory s) =
     map_prod id InMemory (close_sessions_for_agent agent_id s)"
| "any_close_sessions_for_agent ops agent_id (StorageBacked s) =
     map_prod id StorageBacked (sb_close_sessions_for_agent ops agent_id s)"

fun any_cleanup_expired ::
  "'b session_storage \<Rightarrow> (uuid \<Rightarrow> instant) \<Rightarrow> 'b any_session_store \<Rightarrow> nat \<times> 'b any_session_store" where
  "any_cleanup_expired ops now (InMemory s) = map_prod id InMemory (cleanup_expired now s)"
| "any_cleanup_expired ops now (StorageBacked s) = map_prod id StorageBacked (sb_cleanup_expired ops now s)"

definition any_look :: "'b any_session_store \<Rightarrow> uuid \<Rightarrow> task_session option" where
  "any_look st = lookup_session (any_sessions st)"

interpretation any: session_backend any_look "any_use_session_batch ops"
proof unfold_locales
  fix sid tools ra now1 now2 now3 and st st' :: "'a any_session_store" and r s s' k
  show "\<exists>s. any_look st sid = Some s \<and> batch_granted s tools ra now1 s' \<and> any_look st' sid = Some s'"
    if "any_use_session_batch ops sid tools ra now1 now2 now3 st = (Ok s', st')"
    using that mem.batch_ok sb.batch_ok
    by (cases st) (fastforce simp: any_look_def map_prod_def split: prod.splits)+
  show "\<exists>s'. any_look st' sid = Some s' \<and>
      (s' \<in> {s, s\<lparr>ts_status := StExpired\<rparr>} \<or> batch_granted s tools ra now1 s')"
    if run: "any_use_session_batch ops sid tools ra now1 now2 now3 st = (r, st')"
      and bad: "\<not> is_ok r" and look: "any_look st sid = Some s"
  proof (cases st)
    case (InMemory m)
    then obtain m' where "use_session_batch sid tools ra now1 now2 now3 m = (r, m')" "st' = InMemory m'"
      using run by (cases "use_session_batch sid tools ra now1 now2 now3 m") auto
    then show ?thesis using mem.batch_err [OF _ bad] look InMemory by (simp add: any_look_def)
  next
    case (StorageBacked m)
    then obtain m' where "sb_use_session_batch ops sid tools ra now1 now2 now3 m = (r, m')"
      "st' = StorageBacked m'"
      using run by (cases "sb_use_session_batch ops sid tools ra now1 now2 now3 m") auto
    then show ?thesis using sb.batch_err [OF _ bad] look StorageBacked by (simp add: any_look_def)
  qed
  show "any_look st' k = any_look st k"
    if "any_use_session_batch ops sid tools ra now1 now2 now3 st = (r, st')" "k \<noteq> sid"
    using that mem.batch_other sb.batch_other
    by (cases st) (fastforce simp: any_look_def map_prod_def split: prod.splits)+
qed

end
