(* ===== verification/Policy_Eval.thy ===== *)
theory Policy_Eval
  imports Policy_Model
begin

text \<open>
  Policy evaluation (\<open>crates/arbiter-policy/src/eval.rs\<close>): the matching of one rule against a
  request, the choice of the most specific matching rule, the restriction by the delegation
  chain, and the trace. The clock reading of the trace and the printing of identifiers are
  arguments.
\<close>

section \<open>Matching\<close>

record eval_context =
  ec_agent :: agent
  ec_delegation_chain :: "delegation_link list"
  ec_declared_intent :: string
  ec_principal_sub :: string
  ec_principal_groups :: "string list"

datatype decision =
    Allow string
  | Deny string
  | Escalate string
  | Annotate string string

fun trust_level_rank :: "trust_level \<Rightarrow> nat" where
  "trust_level_rank Untrusted = 0"
| "trust_level_rank Basic = 1"
| "trust_level_rank Verified = 2"
| "trust_level_rank Trusted = 3"

definition trust_level_gte :: "trust_level \<Rightarrow> trust_level \<Rightarrow> bool" where
  "trust_level_gte agent_level required_level \<longleftrightarrow>
     trust_level_rank agent_level \<ge> trust_level_rank required_level"

definition matches_agent :: "agent_match \<Rightarrow> eval_context \<Rightarrow> bool" where
  "matches_agent am ctx \<longleftrightarrow>
     (case am_agent_id am of Some i \<Rightarrow> ag_id (ec_agent ctx) = i | None \<Rightarrow> True) \<and>
     (case am_trust_level am of
        Some l \<Rightarrow> trust_level_gte (ag_trust_level (ec_agent ctx)) l | None \<Rightarrow> True) \<and>
     list_all (\<lambda>cap. cap \<in> set (ag_capabilities (ec_agent ctx))) (am_capabilities am)"

definition matches_principal :: "principal_match \<Rightarrow> eval_context \<Rightarrow> bool" where
  "matches_principal pm ctx \<longleftrightarrow>
     (case pm_sub pm of Some s \<Rightarrow> ec_principal_sub ctx = s | None \<Rightarrow> True) \<and>
     (pm_groups pm = [] \<or> list_ex (\<lambda>g. g \<in> set (ec_principal_groups ctx)) (pm_groups pm))"

definition compiles_and_matches :: "'r text_env \<Rightarrow> string \<Rightarrow> string \<Rightarrow> bool" where
  "compiles_and_matches env pattern text =
     (case te_regex_new env pattern of Ok re \<Rightarrow> te_is_match env re text | _ \<Rightarrow> False)"

definition matches_intent :: "'r text_env \<Rightarrow> 'r intent_match \<Rightarrow> string \<Rightarrow> bool" where
  "matches_intent env im declared_intent \<longleftrightarrow>
     (let lower_intent = to_lowercase (te_unicode_lower env) declared_intent in
      (if im_compiled_keywords im \<noteq> []
       then list_all (\<lambda>re. te_is_match env re lower_intent) (im_compiled_keywords im)
       else list_all (\<lambda>k. compiles_and_matches env (keyword_pattern env k) lower_intent) (im_keywords im)) \<and>
      (case im_compiled_regex im of
         Some re \<Rightarrow> te_is_match env re declared_intent
       | None \<Rightarrow>
           (case im_regex im of
              Some pattern \<Rightarrow> compiles_and_matches env pattern declared_intent
            | None \<Rightarrow> True)))"

definition matches_resource_uri :: "'r policy \<Rightarrow> mcp_request \<Rightarrow> bool" where
  "matches_resource_uri p req \<longleftrightarrow>
     po_resource_match p = [] \<or>
     (case mr_resource_uri req of
        Some uri \<Rightarrow> list_ex (\<lambda>pre. starts_with pre uri) (po_resource_match p)
      | None \<Rightarrow> False)"

definition matches_tool :: "'r text_env \<Rightarrow> 'r policy \<Rightarrow> mcp_request \<Rightarrow> bool" where
  "matches_tool env p req =
     (if po_allowed_tools p = [] \<or> list_ex (\<lambda>t. t = ''*'') (po_allowed_tools p)
      then matches_resource_uri p req
      else case mr_tool_name req of
        Some tool \<Rightarrow>
          (let lower = to_lowercase (te_unicode_lower env) tool
           in list_ex (\<lambda>t. to_lowercase (te_unicode_lower env) t = lower) (po_allowed_tools p))
      | None \<Rightarrow>
          if mr_method req = ''tools/call'' then False
          else if \<not> list_ex (\<lambda>t. t = mr_method req) (po_allowed_tools p) then False
          else matches_resource_uri p req)"

fun traverse_segments :: "json \<Rightarrow> string list \<Rightarrow> json option" where
  "traverse_segments v [] = Some v"
| "traverse_segments v (seg # segs) =
     (case jget seg v of None \<Rightarrow> None | Some v' \<Rightarrow> traverse_segments v' segs)"

definition traverse_dot_path :: "json \<Rightarrow> string \<Rightarrow> json option" where
  "traverse_dot_path v path = traverse_segments v (split_on (\<lambda>c. c = CHR ''.'') path)"

definition numeric_bounds_ok :: "parameter_constraint \<Rightarrow> json \<Rightarrow> bool" where
  "numeric_bounds_ok c value =
     (case as_f64 value of
        None \<Rightarrow> False
      | Some num \<Rightarrow>
          \<not> (case pc_max_value c of Some mx \<Rightarrow> f64_less mx num | None \<Rightarrow> False) \<and>
          \<not> (case pc_min_value c of Some mn \<Rightarrow> f64_less num mn | None \<Rightarrow> False))"

definition allowed_value_ok :: "parameter_constraint \<Rightarrow> json \<Rightarrow> bool" where
  "allowed_value_ok c value =
     (case as_str value of None \<Rightarrow> False | Some s \<Rightarrow> s \<in> set (pc_allowed_values c))"

definition constraint_ok :: "json \<Rightarrow> parameter_constraint \<Rightarrow> bool" where
  "constraint_ok args c =
     (case traverse_dot_path args (pc_key c) of
        None \<Rightarrow> False
      | Some value \<Rightarrow>
          (pc_max_value c \<noteq> None \<or> pc_min_value c \<noteq> None \<longrightarrow> numeric_bounds_ok c value) \<and>
          (pc_allowed_values c \<noteq> [] \<longrightarrow> allowed_value_ok c value))"

definition matches_parameter_constraints :: "parameter_constraint list \<Rightarrow> mcp_request \<Rightarrow> bool" where
  "matches_parameter_constraints cs req =
     (if cs = [] then True
      else case mr_arguments req of
        None \<Rightarrow> False
      | Some args \<Rightarrow> list_all (constraint_ok args) cs)"

definition explain_mismatch ::
  "'r text_env \<Rightarrow> 'r policy \<Rightarrow> eval_context \<Rightarrow> mcp_request \<Rightarrow> string option" where
  "explain_mismatch env p ctx req =
     (if \<not> matches_agent (po_agent_match p) ctx then Some ''agent criteria not met''
      else if \<not> matches_principal (po_principal_match p) ctx then Some ''principal criteria not met''
      else if \<not> matches_intent env (po_intent_match p) (ec_declared_intent ctx)
      then Some ''intent criteria not met''
      else if \<not> matches_tool env p req
      then Some (''tool '' @ quoted (case mr_tool_name req of Some t \<Rightarrow> t | None \<Rightarrow> ''(none)'') @
             '' not in allowed_tools'')
      else if \<not> matches_parameter_constraints (po_parameter_constraints p) req
      then Some ''parameter constraints not met''
      else None)"

section \<open>Evaluation\<close>

record policy_trace =
  pt_policy_id :: string
  pt_matched :: bool
  pt_effect :: string
  pt_specificity :: i32
  pt_disposition :: "string option"
  pt_skip_reason :: "string option"
  pt_agent_id :: "string option"
  pt_principal_sub :: "string option"
  pt_tool_name :: "string option"
  pt_timestamp :: "instant option"

record eval_result =
  er_decision :: decision
  er_trace :: "policy_trace list"

fun effect_name :: "effect \<Rightarrow> string" where
  "effect_name EffAllow = ''allow''"
| "effect_name EffDeny = ''deny''"
| "effect_name EffEscalate = ''escalate''"

fun disposition_name :: "disposition \<Rightarrow> string" where
  "disposition_name DispBlock = ''block''"
| "disposition_name DispAnnotate = ''annotate''"

definition requested_tool :: "mcp_request \<Rightarrow> string" where
  "requested_tool req = (case mr_tool_name req of Some t \<Rightarrow> t | None \<Rightarrow> mr_method req)"

fun decision_of :: "'r policy \<Rightarrow> decision" where
  "decision_of p =
     (case po_effect p of
        EffAllow \<Rightarrow> Allow (po_id p)
      | EffDeny \<Rightarrow>
          (let reason = ''denied by policy '' @ quoted (po_id p)
           in case po_disposition p of
                DispBlock \<Rightarrow> Deny reason
              | DispAnnotate \<Rightarrow> Annotate (po_id p) reason)
      | EffEscalate \<Rightarrow> Escalate (''escalation required by policy '' @ quoted (po_id p)))"

definition trace_entry ::
  "'r text_env \<Rightarrow> (uuid \<Rightarrow> string) \<Rightarrow> instant \<Rightarrow> eval_context \<Rightarrow> mcp_request \<Rightarrow> 'r policy \<Rightarrow> policy_trace" where
  "trace_entry env uuid_to_string now ctx req p =
     (let skip = explain_mismatch env p ctx req
      in \<lparr>pt_policy_id = po_id p, pt_matched = (skip = None), pt_effect = effect_name (po_effect p),
          pt_specificity = specificity p, pt_disposition = Some (disposition_name (po_disposition p)),
          pt_skip_reason = skip, pt_agent_id = Some (uuid_to_string (ag_id (ec_agent ctx))),
          pt_principal_sub = Some (ec_principal_sub ctx), pt_tool_name = Some (requested_tool req),
          pt_timestamp = Some now\<rparr>)"

text \<open>The loop over the rules: the matching ones with their specificity, and the trace.\<close>

fun collect_matching ::
  "'r text_env \<Rightarrow> (uuid \<Rightarrow> string) \<Rightarrow> instant \<Rightarrow> eval_context \<Rightarrow> mcp_request \<Rightarrow> 'r policy list \<Rightarrow>
   ('r policy \<times> i32) list \<times> policy_trace list" where
  "collect_matching env uuid_to_string now ctx req [] = ([], [])"
| "collect_matching env uuid_to_string now ctx req (p # ps) =
     (let (matching, trace) = collect_matching env uuid_to_string now ctx req ps;
          entry = trace_entry env uuid_to_string now ctx req p
      in (if explain_mismatch env p ctx req = None then (p, specificity p) # matching else matching,
          entry # trace))"

definition outside_scope :: "string \<Rightarrow> delegation_link \<Rightarrow> bool" where
  "outside_scope tool link \<longleftrightarrow>
     dl_scope_narrowing link \<noteq> [] \<and> \<not> list_ex (\<lambda>s. s = tool) (dl_scope_narrowing link)"

definition evaluate_explained ::
  "'r text_env \<Rightarrow> (uuid \<Rightarrow> string) \<Rightarrow> instant \<Rightarrow> 'r policy_config \<Rightarrow> eval_context \<Rightarrow> mcp_request \<Rightarrow>
   eval_result" where
  "evaluate_explained env uuid_to_string now cfg ctx req =
     (let (found, trace) = collect_matching env uuid_to_string now ctx req (cfg_policies cfg);
          matching = by_specificity found
      in case find (outside_scope (requested_tool req)) (ec_delegation_chain ctx) of
           Some _ \<Rightarrow>
             \<lparr>er_decision = Deny (''tool '' @ quoted (requested_tool req) @ '' not in delegation scope narrowing''),
              er_trace = trace\<rparr>
         | None \<Rightarrow>
             (case matching of
                (p, _) # _ \<Rightarrow> \<lparr>er_decision = decision_of p, er_trace = trace\<rparr>
              | [] \<Rightarrow> \<lparr>er_decision = Deny ''no matching policy found (deny-by-default)'', er_trace = trace\<rparr>))"

definition evaluate ::
  "'r text_env \<Rightarrow> (uuid \<Rightarrow> string) \<Rightarrow> instant \<Rightarrow> 'r policy_config \<Rightarrow> eval_context \<Rightarrow> mcp_request \<Rightarrow> decision" where
  "evaluate env uuid_to_string now cfg ctx req = er_decision (evaluate_explained env uuid_to_string now cfg ctx req)"

definition authorized_tools :: "'r text_env \<Rightarrow> 'r policy_config \<Rightarrow> eval_context \<Rightarrow> string list" where
  "authorized_tools env cfg ctx =
     remdups_adj (sort (concat (map po_allowed_tools (filter (\<lambda>p.
        po_effect p = EffAllow \<and> matches_agent (po_agent_match p) ctx \<and>
        matches_principal (po_principal_match p) ctx \<and>
        matches_intent env (po_intent_match p) (ec_declared_intent ctx)) (cfg_policies cfg)))))"

end
