(* ===== verification/Stages.thy ===== *)
theory Stages
  imports Any_Store Identity Policy_Eval Behavior Any_Registry
begin

text \<open>
  The enforcement stages of the request pipeline (\<open>crates/arbiter/src/stages\<close>): session
  enforcement, policy evaluation and anomaly detection, with the structured errors they return
  (\<open>ArbiterError\<close> in \<open>handler.rs\<close>). A stage continues, denies with a status and an error, or
  unwinds because an operation it calls does.
\<close>

section \<open>Errors\<close>

datatype error_code =
    SessionRequired | NonMcpRejected | SessionInvalid | PolicyDenied | EscalationRequired
  | BehavioralAnomaly | MiddlewareRejected | CodeCredentialError | UpstreamError

record arbiter_error =
  ae_code :: error_code
  ae_message :: string
  ae_detail :: "string option"
  ae_hint :: "string option"
  ae_request_id :: "string option"
  ae_policy_trace :: "policy_trace list option"

definition plain_error :: "error_code \<Rightarrow> string \<Rightarrow> string option \<Rightarrow> string option \<Rightarrow> arbiter_error" where
  "plain_error code message detail hint =
     \<lparr>ae_code = code, ae_message = message, ae_detail = detail, ae_hint = hint,
      ae_request_id = None, ae_policy_trace = None\<rparr>"

definition session_required :: arbiter_error where
  "session_required = plain_error SessionRequired ''MCP requests require an active session'' None
     (Some ''An active session is required. Include a valid session ID in the x-arbiter-session header.'')"

definition non_mcp_rejected :: arbiter_error where
  "non_mcp_rejected =
     plain_error NonMcpRejected ''Only MCP JSON-RPC traffic is allowed on this endpoint'' None
       (Some (''Ensure your POST body is a valid JSON-RPC 2.0 request with '' @
          [CHR 34] @ ''jsonrpc'' @ [CHR 34] @ '': '' @ [CHR 34] @ ''2.0'' @ [CHR 34] @
          ''. Non-MCP traffic is rejected when strict_mcp is enabled''))"

fun session_error_display :: "session_error \<Rightarrow> string" where
  "session_error_display (SessNotFound _) = ''session not found''"
| "session_error_display (SessExpired _) = ''session expired''"
| "session_error_display (BudgetExceeded _ _ _) = ''session budget exceeded''"
| "session_error_display (ToolNotAuthorized _ _) = ''tool not authorized in session''"
| "session_error_display (AlreadyClosed _) = ''session already closed''"
| "session_error_display (RateLimited _ _) = ''session rate limit exceeded''"
| "session_error_display (AgentMismatch _ _ _) = ''agent mismatch''"
| "session_error_display (StorageWriteThrough _ _) = ''storage write-through failed''"
| "session_error_display (TooManySessions _ _ _) = ''too many concurrent sessions''"

fun session_error_texts :: "(uuid \<Rightarrow> string) \<Rightarrow> session_error \<Rightarrow> string \<times> string" where
  "session_error_texts us (SessNotFound i) =
     (''session '' @ us i @ '' does not exist'',
      ''Verify the session ID in the x-arbiter-session header. Sessions may have been purged on server restart (in-memory store).'')"
| "session_error_texts us (SessExpired i) =
     (''session '' @ us i @ '' has expired'',
      ''Create a new session. Session time limits are set at creation time.'')"
| "session_error_texts us (BudgetExceeded i _ _) =
     (''session '' @ us i @ '' budget exhausted'', ''Create a new session with a higher call budget.'')"
| "session_error_texts us (ToolNotAuthorized i tool) =
     (''tool '' @ quoted tool @ '' is not authorized for session '' @ us i,
      ''Check that the tool is permitted by the applicable policy.'')"
| "session_error_texts us (AlreadyClosed i) =
     (''session '' @ us i @ '' has been closed'',
      ''Create a new session. Closed sessions cannot be reused.'')"
| "session_error_texts us (RateLimited i _) =
     (''session '' @ us i @ '' rate limited'',
      ''Wait before retrying, or create a session with a higher rate limit.'')"
| "session_error_texts us (TooManySessions a _ _) =
     (''agent '' @ a @ '' has too many active sessions'',
      ''Close existing sessions before creating new ones.'')"
| "session_error_texts us (AgentMismatch i _ _) =
     (''session '' @ us i @ '' is not bound to this agent'',
      ''The session belongs to a different agent. Each session is bound to the agent that created it.'')"
| "session_error_texts us (StorageWriteThrough i _) =
     (''session '' @ us i @ '' storage write failed'',
      ''The session state update could not be persisted. Retry the request.'')"

definition session_error_body :: "(uuid \<Rightarrow> string) \<Rightarrow> session_error \<Rightarrow> arbiter_error" where
  "session_error_body us e =
     (let (detail, hint) = session_error_texts us e
      in plain_error SessionInvalid (''Session error: '' @ session_error_display e) (Some detail) (Some hint))"

definition policy_denied_with_trace :: "string \<Rightarrow> policy_trace list \<Rightarrow> arbiter_error" where
  "policy_denied_with_trace reason trace =
     plain_error PolicyDenied (''Policy: '' @ reason) None
       (Some ''Request denied by authorization policy. Contact your administrator to debug policy evaluation.'')"

definition escalation_required :: "string \<Rightarrow> arbiter_error" where
  "escalation_required reason =
     plain_error EscalationRequired (''Escalation required: '' @ reason) None
       (Some (''This operation requires human-in-the-loop approval. The matching policy has effect = '' @
          [CHR 34] @ ''escalate'' @ [CHR 34] @ ''.''))"

definition credential_error_body :: arbiter_error where
  "credential_error_body =
     plain_error CodeCredentialError ''Credential injection failed'' None
       (Some ''A ${CRED:ref} pattern in the request could not be resolved. Check that the credential reference exists in the configured provider.'')"

definition behavioral_anomaly :: "string \<Rightarrow> arbiter_error" where
  "behavioral_anomaly reason =
     plain_error BehavioralAnomaly (''Behavioral anomaly: '' @ reason) None
       (Some (''The tool call doesn'' @ [CHR 39] @ ''t match the session'' @ [CHR 39] @
          ''s declared intent. Create a new session with the appropriate intent for this operation.''))"

section \<open>Verdicts\<close>

datatype stage_verdict =
    Continue
  | StageDeny nat "string option" arbiter_error
  | StageUnwind

definition status_from_u16 :: "nat \<Rightarrow> nat" where
  "status_from_u16 code = (if 100 \<le> code \<and> code < 1000 then code else 403)"

section \<open>Stage 7: the session\<close>

definition validate_session_tools ::
  "'b session_storage \<Rightarrow> (uuid \<Rightarrow> string) \<Rightarrow> uuid \<Rightarrow> uuid option \<Rightarrow> mcp_request list \<Rightarrow>
   instant \<Rightarrow> instant \<Rightarrow> instant \<Rightarrow> 'b any_session_store \<Rightarrow> stage_verdict \<times> 'b any_session_store" where
  "validate_session_tools ops us sid requesting requests now1 now2 now3 st =
     (let tools = map requested_tool requests
      in case any_use_session_batch ops sid tools requesting now1 now2 now3 st of
           (Ok _, st') \<Rightarrow> (Continue, st')
         | (Err e, st') \<Rightarrow>
             (StageDeny (status_from_u16 (status_code_for_error e))
                (Some (''session-whitelist: '' @ session_error_display e)) (session_error_body us e), st')
         | (Panic, st') \<Rightarrow> (StageUnwind, st'))"

section \<open>Stage 8: policies\<close>

definition principal_of :: "string \<Rightarrow> string" where
  "principal_of chain = hd (split_on (\<lambda>c. c = CHR ''>'') chain)"

text \<open>The agent assumed for an identifier the registry does not know.\<close>

definition unknown_agent :: "uuid \<Rightarrow> string \<Rightarrow> instant \<Rightarrow> agent" where
  "unknown_agent i princ now =
     \<lparr>ag_id = i, ag_owner = princ, ag_model = [], ag_capabilities = [], ag_trust_level = Untrusted,
      ag_created_at = now, ag_expires_at = None, ag_active = True\<rparr>"

definition agent_or_unknown ::
  "'d agent_storage \<Rightarrow> (uuid \<Rightarrow> string) \<Rightarrow> instant \<Rightarrow> instant \<Rightarrow> uuid \<Rightarrow> string \<Rightarrow> 'd any_registry \<Rightarrow>
   (agent, unit) result \<times> 'd any_registry" where
  "agent_or_unknown agents us now1 now2 i princ rg =
     (let (r, rg) = anyreg_get_agent agents us now1 i rg
      in (case r of Ok a \<Rightarrow> Ok a | Err _ \<Rightarrow> Ok (unknown_agent i princ now2) | Panic \<Rightarrow> Panic, rg))"

text \<open>The context of a session; \<open>Err\<close> stands for the absence of a context.\<close>

definition build_eval_context ::
  "'d agent_storage \<Rightarrow> (uuid \<Rightarrow> string) \<Rightarrow> (string \<Rightarrow> delegation_link option) \<Rightarrow> instant \<Rightarrow> instant \<Rightarrow>
   task_session \<Rightarrow> string \<Rightarrow> 'd any_registry \<Rightarrow> (eval_context, unit) result \<times> 'd any_registry" where
  "build_eval_context agents us link_from_text now1 now2 s chain rg =
     (let princ = principal_of chain
      in and_then (agent_or_unknown agents us now1 now2 (ts_agent_id s) princ rg) (\<lambda>a rg.
           (Ok \<lparr>ec_agent = a,
                ec_delegation_chain = List.map_filter link_from_text (ts_delegation_chain_snapshot s),
                ec_declared_intent = ts_declared_intent s,
                ec_principal_sub = princ,
                ec_principal_groups = []\<rparr>, rg)))"

definition build_eval_context_from_header ::
  "'d agent_storage \<Rightarrow> (uuid \<Rightarrow> string) \<Rightarrow> (string \<Rightarrow> uuid option) \<Rightarrow> instant \<Rightarrow> instant \<Rightarrow> string \<Rightarrow> string \<Rightarrow>
   'd any_registry \<Rightarrow> (eval_context, unit) result \<times> 'd any_registry" where
  "build_eval_context_from_header agents us parse_uuid now1 now2 agent_id_header chain rg =
     (case parse_uuid agent_id_header of
        None \<Rightarrow> (Err (), rg)
      | Some i \<Rightarrow>
          (let princ = principal_of chain
           in and_then (agent_or_unknown agents us now1 now2 i princ rg) (\<lambda>a rg.
                (Ok \<lparr>ec_agent = a, ec_delegation_chain = [], ec_declared_intent = [],
                     ec_principal_sub = princ, ec_principal_groups = []\<rparr>, rg))))"

text \<open>Each evaluation reads the clock; \<open>now i\<close> is the i-th reading.\<close>

fun evaluate_requests ::
  "'r text_env \<Rightarrow> (uuid \<Rightarrow> string) \<Rightarrow> (nat \<Rightarrow> instant) \<Rightarrow> 'r policy_config \<Rightarrow> eval_context \<Rightarrow> nat \<Rightarrow>
   string option \<Rightarrow> mcp_request list \<Rightarrow> stage_verdict \<times> string option" where
  "evaluate_requests env us now cfg ctx i last_policy_id [] = (Continue, last_policy_id)"
| "evaluate_requests env us now cfg ctx i last_policy_id (req # reqs) =
     (let res = evaluate_explained env us (now i) cfg ctx req
      in case er_decision res of
           Allow pid \<Rightarrow> evaluate_requests env us now cfg ctx (Suc i) (Some pid) reqs
         | Deny reason \<Rightarrow>
             (StageDeny 403 (Some reason) (policy_denied_with_trace reason (er_trace res)), None)
         | Escalate reason \<Rightarrow>
             (StageDeny 403 (Some (''escalate: '' @ reason)) (escalation_required reason), None)
         | Annotate pid reason \<Rightarrow> evaluate_requests env us now cfg ctx (Suc i) (Some pid) reqs)"

definition evaluate_mcp_policies ::
  "'r text_env \<Rightarrow> (uuid \<Rightarrow> string) \<Rightarrow> (nat \<Rightarrow> instant) \<Rightarrow> 'r policy_config \<Rightarrow> eval_context \<Rightarrow>
   mcp_request list \<Rightarrow> stage_verdict \<times> string option" where
  "evaluate_mcp_policies env us now cfg ctx requests = evaluate_requests env us now cfg ctx 0 None requests"

section \<open>Stage 9: anomalies\<close>

fun detect_requests ::
  "'s set_env \<Rightarrow> 's anomaly_detector \<Rightarrow> string \<Rightarrow> string list \<Rightarrow> mcp_request list \<Rightarrow>
   stage_verdict \<times> string list" where
  "detect_requests env d intent flags [] = (Continue, flags)"
| "detect_requests env d intent flags (req # reqs) =
     (let opn = classify_operation (se_unicode_lower env) (mr_method req) (mr_tool_name req)
      in case detect_with_args env d intent opn (requested_tool req) (mr_arguments req) of
           Normal \<Rightarrow> detect_requests env d intent flags reqs
         | Flagged reason \<Rightarrow> detect_requests env d intent (flags @ [reason]) reqs
         | Denied reason \<Rightarrow>
             (StageDeny 403 None (behavioral_anomaly reason), flags @ [reason]))"

definition detect_behavioral_anomalies ::
  "'s set_env \<Rightarrow> 's anomaly_detector \<Rightarrow> string \<Rightarrow> mcp_request list \<Rightarrow> stage_verdict \<times> string list" where
  "detect_behavioral_anomalies env d intent requests = detect_requests env d intent [] requests"

section \<open>When a stage continues\<close>

lemma validate_session_tools_Continue:
  assumes "validate_session_tools ops us sid ra reqs now1 now2 now3 st = (Continue, st')"
  shows "\<exists>s s'. any_look st sid = Some s \<and> any_look st' sid = Some s' \<and>
    batch_granted s (map requested_tool reqs) ra now1 s'"
proof -
  obtain s' where "any_use_session_batch ops sid (map requested_tool reqs) ra now1 now2 now3 st = (Ok s', st')"
    using assms by (auto simp: validate_session_tools_def split: prod.splits result.splits)
  from any.batch_ok [OF this] show ?thesis by blast
qed

lemma validate_session_tools_other:
  assumes "validate_session_tools ops us sid ra reqs now1 now2 now3 st = (v, st')" and "k \<noteq> sid"
  shows "any_look st' k = any_look st k"
proof -
  obtain r where "any_use_session_batch ops sid (map requested_tool reqs) ra now1 now2 now3 st = (r, st')"
    using assms(1) by (auto simp: validate_session_tools_def split: prod.splits result.splits)
  from any.batch_other [OF this assms(2)] show ?thesis .
qed

lemma evaluate_requests_Continue:
  "evaluate_requests env us now cfg ctx i l reqs = (Continue, l') \<Longrightarrow> req \<in> set reqs \<Longrightarrow>
   \<exists>j. (\<exists>pid. evaluate env us (now j) cfg ctx req = Allow pid) \<or>
       (\<exists>pid reason. evaluate env us (now j) cfg ctx req = Annotate pid reason)"
  by (induction reqs arbitrary: i l) (auto simp: evaluate_def Let_def split: decision.splits)

lemma detect_requests_Continue:
  "detect_requests env d intent flags reqs = (Continue, flags') \<Longrightarrow> req \<in> set reqs \<Longrightarrow>
   \<nexists>reason. detect_with_args env d intent
     (classify_operation (se_unicode_lower env) (mr_method req) (mr_tool_name req))
     (requested_tool req) (mr_arguments req) = Denied reason"
  by (induction reqs arbitrary: flags) (auto simp: Let_def split: anomaly_response.splits)

end
