(* ===== verification/Audit_Log.thy ===== *)
theory Audit_Log
  imports Json
begin

text \<open>
  The audit trail (\<open>crates/arbiter-audit\<close>): entries (\<open>entry.rs\<close>), the redaction of arguments
  (\<open>redaction.rs\<close>), the capture of one request (\<open>middleware.rs\<close>), per-session statistics
  (\<open>stats.rs\<close>) and the sink with its hash chain and health state (\<open>sink.rs\<close>). Regular
  expressions, the JSON form of an entry and the hash function are arguments, and so is the outcome
  of every file write.
\<close>

section \<open>Entries\<close>

record audit_entry =
  au_timestamp :: instant
  au_request_id :: uuid
  au_agent_id :: string
  au_delegation_chain :: string
  au_task_session_id :: string
  au_tool_called :: string
  au_arguments :: json
  au_authorization_decision :: string
  au_policy_matched :: "string option"
  au_anomaly_flags :: "string list"
  au_failure_category :: "string option"
  au_latency_ms :: u64
  au_upstream_status :: "nat option"
  au_inspection_findings :: "string list"
  au_chain_sequence :: "u64 option"
  au_chain_prev_hash :: "string option"
  au_chain_record_hash :: "string option"

definition audit_entry_new :: "instant \<Rightarrow> uuid \<Rightarrow> audit_entry" where
  "audit_entry_new now request_id =
     \<lparr>au_timestamp = now, au_request_id = request_id, au_agent_id = [], au_delegation_chain = [],
      au_task_session_id = [], au_tool_called = [], au_arguments = JNull,
      au_authorization_decision = [], au_policy_matched = None, au_anomaly_flags = [],
      au_failure_category = None, au_latency_ms = 0, au_upstream_status = None,
      au_inspection_findings = [], au_chain_sequence = None, au_chain_prev_hash = None,
      au_chain_record_hash = None\<rparr>"

section \<open>Redaction\<close>

record 'r redaction_env =
  re_new :: "string \<Rightarrow> 'r option"
  re_escape :: "string \<Rightarrow> string"
  re_find_iter :: "'r \<Rightarrow> string \<Rightarrow> (nat \<times> nat) list"

definition REDACTED_ARG :: string where
  "REDACTED_ARG = ''[REDACTED]''"

definition compile_redaction :: "'r redaction_env \<Rightarrow> string list \<Rightarrow> 'r list" where
  "compile_redaction env patterns = List.map_filter (\<lambda>p. re_new env (''(?i)'' @ re_escape env p)) patterns"

definition is_ascii_alphabetic :: "char \<Rightarrow> bool" where
  "is_ascii_alphabetic c \<longleftrightarrow>
     (let n = of_char c :: nat in 65 \<le> n \<and> n \<le> 90 \<or> 97 \<le> n \<and> n \<le> 122)"

text \<open>
  The characters beside a match, on bytes: a byte of a longer character is never a letter.
\<close>

definition has_letter_boundary_match :: "'r redaction_env \<Rightarrow> string \<Rightarrow> 'r \<Rightarrow> bool" where
  "has_letter_boundary_match env key pattern \<longleftrightarrow>
     list_ex (\<lambda>(start, stop).
       let bef = take start key; after = drop stop key;
           preceded = (bef \<noteq> [] \<and> is_ascii_alphabetic (last bef));
           followed = (after \<noteq> [] \<and> is_ascii_alphabetic (hd after))
       in \<not> preceded \<and> \<not> followed) (re_find_iter env pattern key)"

definition sensitive_key :: "'r redaction_env \<Rightarrow> 'r list \<Rightarrow> string \<Rightarrow> bool" where
  "sensitive_key env patterns key \<longleftrightarrow> list_ex (has_letter_boundary_match env key) patterns"

definition MAX_REDACTION_DEPTH :: nat where
  "MAX_REDACTION_DEPTH = 64"

function redact_value_depth :: "'r redaction_env \<Rightarrow> 'r list \<Rightarrow> nat \<Rightarrow> json \<Rightarrow> json" where
  "redact_value_depth env patterns depth v =
     (if depth \<ge> MAX_REDACTION_DEPTH then JStr ''[TRUNCATED: max redaction depth]''
      else case v of
        JObj m \<Rightarrow>
          JObj (map (\<lambda>(k, v). (k, if sensitive_key env patterns k then JStr REDACTED_ARG
                                   else redact_value_depth env patterns (depth + 1) v)) m)
      | JArr xs \<Rightarrow> JArr (map (redact_value_depth env patterns (depth + 1)) xs)
      | other \<Rightarrow> other)"
  by pat_completeness auto
termination
  by (relation "measure (\<lambda>(env, patterns, depth, v). MAX_REDACTION_DEPTH - depth)") auto

declare redact_value_depth.simps [simp del]

definition redact :: "'r redaction_env \<Rightarrow> 'r list \<Rightarrow> json \<Rightarrow> json" where
  "redact env patterns v = redact_value_depth env patterns 0 v"

section \<open>Capture of a request\<close>

definition finalize :: "'r redaction_env \<Rightarrow> 'r list \<Rightarrow> u64 \<Rightarrow> nat option \<Rightarrow> audit_entry \<Rightarrow> audit_entry" where
  "finalize env patterns latency status e =
     e\<lparr>au_latency_ms := latency, au_upstream_status := status,
       au_arguments := redact env patterns (au_arguments e)\<rparr>"

section \<open>Statistics\<close>

record session_counters =
  sc_denied :: u64
  sc_anomalies :: u64

type_synonym audit_stats = "(string \<times> session_counters) list"

definition stats_record :: "audit_entry \<Rightarrow> audit_stats \<Rightarrow> audit_stats" where
  "stats_record e st =
     (if au_task_session_id e = [] then st
      else let c = (case map_of st (au_task_session_id e) of
                      Some c \<Rightarrow> c | None \<Rightarrow> \<lparr>sc_denied = 0, sc_anomalies = 0\<rparr>);
               c = (if au_authorization_decision e = ''deny'' then c\<lparr>sc_denied := sc_denied c + 1\<rparr> else c);
               c = (if au_anomaly_flags e \<noteq> [] then c\<lparr>sc_anomalies := sc_anomalies c + 1\<rparr> else c)
           in AList.update (au_task_session_id e) c st)"

definition stats_for_session :: "string \<Rightarrow> audit_stats \<Rightarrow> session_counters" where
  "stats_for_session sid st =
     (case map_of st sid of Some c \<Rightarrow> c | None \<Rightarrow> \<lparr>sc_denied = 0, sc_anomalies = 0\<rparr>)"

definition stats_remove_session :: "string \<Rightarrow> audit_stats \<Rightarrow> audit_stats" where
  "stats_remove_session sid st = AList.delete sid st"

record aggregate_audit_stats =
  ag_total_denied :: u64
  ag_total_anomalies :: u64
  ag_sessions_with_anomalies :: u64
  ag_sessions_with_denials :: u64
  ag_per_session :: "(string \<times> session_counters) list"

definition stats_aggregate :: "audit_stats \<Rightarrow> aggregate_audit_stats" where
  "stats_aggregate st =
     \<lparr>ag_total_denied = sum_list (map (sc_denied \<circ> snd) st),
      ag_total_anomalies = sum_list (map (sc_anomalies \<circ> snd) st),
      ag_sessions_with_anomalies = of_nat (length (filter (\<lambda>(_, c). sc_anomalies c > 0) st)),
      ag_sessions_with_denials = of_nat (length (filter (\<lambda>(_, c). sc_denied c > 0) st)),
      ag_per_session = st\<rparr>"

section \<open>The sink\<close>

record sink_config =
  sk_write_stdout :: bool
  sk_has_file :: bool
  sk_hash_chain :: bool

record audit_sink =
  as_config :: sink_config
  as_stats :: audit_stats
  as_write_failures :: u64
  as_total_write_failures :: u64
  as_recovery_successes :: u64
  as_sequence :: u64
  as_prev_hash :: string
  as_file :: "string list"

text \<open>\<open>file\<close> is what the append-only file holds when the sink is created.\<close>

definition sink_new :: "sink_config \<Rightarrow> string list \<Rightarrow> audit_sink" where
  "sink_new cfg file =
     \<lparr>as_config = cfg, as_stats = [], as_write_failures = 0, as_total_write_failures = 0,
      as_recovery_successes = 0, as_sequence = 0, as_prev_hash = ''genesis'', as_file = file\<rparr>"

definition RECOVERY_THRESHOLD :: u64 where
  "RECOVERY_THRESHOLD = 3"

definition is_degraded :: "audit_sink \<Rightarrow> bool" where
  "is_degraded s \<longleftrightarrow> as_write_failures s > 0"

record entry_codec =
  cd_to_text :: "audit_entry \<Rightarrow> string"
  cd_hash :: "string \<Rightarrow> string"

definition chain_entry :: "entry_codec \<Rightarrow> audit_entry \<Rightarrow> audit_sink \<Rightarrow> audit_entry \<times> audit_sink" where
  "chain_entry cd e s =
     (if \<not> sk_hash_chain (as_config s) then (e, s)
      else let sequence = as_sequence s + 1;
               e1 = e\<lparr>au_chain_sequence := Some sequence, au_chain_prev_hash := Some (as_prev_hash s),
                      au_chain_record_hash := None\<rparr>;
               record_hash = cd_hash cd (cd_to_text cd e1)
           in (e1\<lparr>au_chain_record_hash := Some record_hash\<rparr>,
               s\<lparr>as_sequence := sequence, as_prev_hash := record_hash\<rparr>))"

text \<open>
  What the file write did: it succeeded, or failed with an error after appending what the argument
  says (a torn line, or nothing).
\<close>

datatype write_outcome = Written | WriteFailed string "string list"

definition count_success :: "audit_sink \<Rightarrow> audit_sink" where
  "count_success s =
     (if as_write_failures s > 0
      then let successes = as_recovery_successes s + 1
           in if successes \<ge> RECOVERY_THRESHOLD
              then s\<lparr>as_write_failures := 0, as_recovery_successes := 0\<rparr>
              else s\<lparr>as_recovery_successes := successes\<rparr>
      else s)"

definition count_failure :: "audit_sink \<Rightarrow> audit_sink" where
  "count_failure s =
     s\<lparr>as_write_failures := as_write_failures s + 1,
       as_total_write_failures := as_total_write_failures s + 1, as_recovery_successes := 0\<rparr>"

definition sink_write ::
  "entry_codec \<Rightarrow> write_outcome \<Rightarrow> audit_entry \<Rightarrow> audit_sink \<Rightarrow> (unit, string) result \<times> audit_sink" where
  "sink_write cd outcome e s =
     (let (chained, s) = chain_entry cd e s; line = cd_to_text cd chained
      in if \<not> sk_has_file (as_config s) then (Ok (), s\<lparr>as_stats := stats_record e (as_stats s)\<rparr>)
         else case outcome of
           Written \<Rightarrow>
             (let s = count_success (s\<lparr>as_file := as_file s @ [line]\<rparr>)
              in (Ok (), s\<lparr>as_stats := stats_record e (as_stats s)\<rparr>))
         | WriteFailed err torn \<Rightarrow> (Err err, count_failure (s\<lparr>as_file := as_file s @ torn\<rparr>)))"

fun sink_run :: "entry_codec \<Rightarrow> (write_outcome \<times> audit_entry) list \<Rightarrow> audit_sink \<Rightarrow> audit_sink" where
  "sink_run cd [] s = s"
| "sink_run cd ((outcome, e) # ws) s = sink_run cd ws (snd (sink_write cd outcome e s))"

section \<open>Redacted values\<close>

text \<open>No entry with a sensitive key carries anything but the mask, at any depth.\<close>

fun no_sensitive :: "(string \<Rightarrow> bool) \<Rightarrow> json \<Rightarrow> bool" where
  "no_sensitive S (JObj m) = (\<forall>e \<in> set m. (S (fst e) \<longrightarrow> snd e = JStr REDACTED_ARG) \<and> no_sensitive S (snd e))"
| "no_sensitive S (JArr xs) = (\<forall>x \<in> set xs. no_sensitive S x)"
| "no_sensitive S _ = True"

fun json_depth :: "json \<Rightarrow> nat" where
  "json_depth (JObj m) = Suc (fold max (map (\<lambda>e. json_depth (snd e)) m) 0)"
| "json_depth (JArr xs) = Suc (fold max (map json_depth xs) 0)"
| "json_depth _ = 0"

lemma redact_no_sensitive:
  "no_sensitive (sensitive_key env patterns) (redact_value_depth env patterns depth v)"
proof (induction env patterns depth v rule: redact_value_depth.induct)
  case (1 env patterns depth v)
  show ?case
  proof (cases "depth \<ge> MAX_REDACTION_DEPTH")
    case True
    then show ?thesis by (subst redact_value_depth.simps) simp
  next
    case False
    with 1 show ?thesis
      by (subst redact_value_depth.simps) (auto split: json.split simp: REDACTED_ARG_def)
  qed
qed

text \<open>The same shape where nothing is sensitive and nothing is too deep.\<close>

fun keys_plain :: "(string \<Rightarrow> bool) \<Rightarrow> json \<Rightarrow> bool" where
  "keys_plain S (JObj m) = (\<forall>e \<in> set m. \<not> S (fst e) \<and> keys_plain S (snd e))"
| "keys_plain S (JArr xs) = (\<forall>x \<in> set xs. keys_plain S x)"
| "keys_plain S _ = True"

lemma fold_max_bound: "x \<in> set xs \<Longrightarrow> (x :: nat) \<le> fold max xs a"
  by (metis List.finite_set Max_ge Max.set_eq_fold finite_insert insertCI list.simps(15))

lemma redact_plain:
  "keys_plain (sensitive_key env patterns) v \<Longrightarrow> depth + json_depth v < MAX_REDACTION_DEPTH \<Longrightarrow>
   redact_value_depth env patterns depth v = v"
proof (induction v arbitrary: depth)
  case (JArr xs)
  have "redact_value_depth env patterns (Suc depth) x = x" if "x \<in> set xs" for x
  proof (rule JArr.IH [OF that])
    have "json_depth x \<le> fold max (map json_depth xs) 0" using that by (intro fold_max_bound) simp
    then show "Suc depth + json_depth x < MAX_REDACTION_DEPTH" using JArr.prems(2) by simp
  qed (use JArr.prems that in simp)
  then show ?case using JArr.prems by (subst redact_value_depth.simps) (simp add: map_idI)
next
  case (JObj m)
  have "redact_value_depth env patterns (Suc depth) (snd e) = snd e" if "e \<in> set m" for e
  proof (rule JObj.IH [OF that])
    show "snd e \<in> Basic_BNFs.snds e" by (simp add: snds.simps)
    have "json_depth (snd e) \<le> fold max (map (\<lambda>e. json_depth (snd e)) m) 0"
      using that by (intro fold_max_bound) auto
    then show "Suc depth + json_depth (snd e) < MAX_REDACTION_DEPTH" using JObj.prems(2) by simp
  qed (use JObj.prems that in simp)
  then have "map (\<lambda>(k, v). (k, if sensitive_key env patterns k then JStr REDACTED_ARG
      else redact_value_depth env patterns (depth + 1) v)) m = m"
    using JObj.prems by (intro map_idI) fastforce
  then show ?case using JObj.prems by (subst redact_value_depth.simps) simp
qed (subst redact_value_depth.simps; simp)+

section \<open>The chain on file\<close>

text \<open>
  A verifier that reads the entries from top to bottom: sequence numbers without gaps, every entry
  naming the hash of the one before, every hash recomputed.
\<close>

fun verify_chain_from :: "entry_codec \<Rightarrow> u64 \<Rightarrow> string \<Rightarrow> audit_entry list \<Rightarrow> bool" where
  "verify_chain_from cd sequence prev [] = True"
| "verify_chain_from cd sequence prev (e # es) =
     (au_chain_sequence e = Some (sequence + 1) \<and> au_chain_prev_hash e = Some prev \<and>
      (let h = cd_hash cd (cd_to_text cd (e\<lparr>au_chain_record_hash := None\<rparr>))
       in au_chain_record_hash e = Some h \<and> verify_chain_from cd (sequence + 1) h es))"

text \<open>The entries of a run, as the sink chains them.\<close>

fun chained_entries :: "entry_codec \<Rightarrow> audit_entry list \<Rightarrow> audit_sink \<Rightarrow> audit_entry list" where
  "chained_entries cd [] s = []"
| "chained_entries cd (e # es) s =
     (let (c, s') = chain_entry cd e s in c # chained_entries cd es s')"

lemma chained_entries_Cons:
  "chained_entries cd (e # es) s =
   fst (chain_entry cd e s) # chained_entries cd es (snd (chain_entry cd e s))"
  by (simp add: case_prod_unfold Let_def)

declare chained_entries.simps(2) [simp del]

lemma chained_entries_verify:
  "sk_hash_chain (as_config s) \<Longrightarrow>
   verify_chain_from cd (as_sequence s) (as_prev_hash s) (chained_entries cd es s)"
proof (induction es arbitrary: s)
  case (Cons e es)
  let ?s = "snd (chain_entry cd e s)"
  have "sk_hash_chain (as_config ?s)" using Cons.prems by (simp add: chain_entry_def Let_def)
  from Cons.IH [OF this] Cons.prems show ?case by (simp add: chained_entries_Cons chain_entry_def Let_def)
qed simp

lemma chained_entries_cong:
  "as_config s = as_config t \<Longrightarrow> as_sequence s = as_sequence t \<Longrightarrow> as_prev_hash s = as_prev_hash t \<Longrightarrow>
   chained_entries cd es s = chained_entries cd es t"
proof (induction es arbitrary: s t)
  case (Cons e es)
  have "fst (chain_entry cd e s) = fst (chain_entry cd e t)"
    using Cons.prems by (simp add: chain_entry_def Let_def)
  moreover have "chained_entries cd es (snd (chain_entry cd e s)) = chained_entries cd es (snd (chain_entry cd e t))"
    using Cons.prems by (intro Cons.IH) (simp_all add: chain_entry_def Let_def)
  ultimately show ?case by (simp add: chained_entries_Cons)
qed simp

lemma sink_write_Written:
  assumes "sk_has_file (as_config s)"
  shows "as_file (snd (sink_write cd Written e s)) = as_file s @ [cd_to_text cd (fst (chain_entry cd e s))]"
    and "as_config (snd (sink_write cd Written e s)) = as_config s"
    and "as_sequence (snd (sink_write cd Written e s)) = as_sequence (snd (chain_entry cd e s))"
    and "as_prev_hash (snd (sink_write cd Written e s)) = as_prev_hash (snd (chain_entry cd e s))"
  using assms by (simp_all add: sink_write_def chain_entry_def count_success_def Let_def)

lemma sink_run_file:
  assumes "sk_has_file (as_config s)"
  shows "as_file (sink_run cd (map (Pair Written) es) s) =
    as_file s @ map (cd_to_text cd) (chained_entries cd es s)"
  using assms
proof (induction es arbitrary: s)
  case (Cons e es)
  let ?s = "snd (sink_write cd Written e s)"
  note w = sink_write_Written [OF Cons.prems, of cd e]
  have "chained_entries cd es ?s = chained_entries cd es (snd (chain_entry cd e s))"
    using w by (intro chained_entries_cong) (simp_all add: chain_entry_def Let_def)
  with Cons.IH [of ?s] Cons.prems w show ?case by (simp add: chained_entries_Cons)
qed simp

section \<open>Health\<close>

lemma sink_write_health:
  assumes "sk_has_file (as_config s)"
  shows "as_write_failures (snd (sink_write cd (WriteFailed err torn) e s)) = as_write_failures s + 1"
    and "as_recovery_successes (snd (sink_write cd (WriteFailed err torn) e s)) = 0"
    and "as_write_failures (snd (sink_write cd Written e s)) = as_write_failures (count_success s)"
    and "as_recovery_successes (snd (sink_write cd Written e s)) = as_recovery_successes (count_success s)"
    and "as_config (snd (sink_write cd w e s)) = as_config s"
  using assms
  by (cases w; simp add: sink_write_def chain_entry_def count_success_def count_failure_def Let_def)+

section \<open>Properties\<close>

text \<open>
  C9: redaction is complete and only that. In the redacted arguments no entry with a sensitive key
  carries anything but the mask, however deeply it is nested; arguments without a sensitive key,
  nested less than 64 levels deep, are unchanged.
\<close>

theorem redaction_complete:
  "no_sensitive (sensitive_key env patterns) (redact env patterns v) \<and>
   (\<not> keys_plain (sensitive_key env patterns) v \<or> json_depth v \<ge> 64 \<or> redact env patterns v = v)"
proof
  show "no_sensitive (sensitive_key env patterns) (redact env patterns v)"
    unfolding redact_def by (rule redact_no_sensitive)
  show "\<not> keys_plain (sensitive_key env patterns) v \<or> json_depth v \<ge> 64 \<or> redact env patterns v = v"
    using redact_plain [of env patterns v 0] unfolding redact_def MAX_REDACTION_DEPTH_def by linarith
qed

theorem redaction_complete_witness:
  "no_sensitive (\<lambda>k. k = ''key'')
     (redact \<lparr>re_new = Some, re_escape = id, re_find_iter = (\<lambda>p k. if k = p then [(0, length k)] else [])\<rparr>
        [''key''] (JArr [JObj [(''key'', JStr ''s3cr3t'')]]))"
proof -
  let ?env = "\<lparr>re_new = Some, re_escape = id,
    re_find_iter = (\<lambda>p k. if k = p then [(0, length k)] else [])\<rparr>"
  have "sensitive_key ?env [''key''] = (\<lambda>k. k = ''key'')"
    by (rule ext) (simp add: sensitive_key_def has_letter_boundary_match_def)
  then show ?thesis using redaction_complete [of ?env "[''key'']"] by simp
qed


definition demo_codec :: entry_codec where
  "demo_codec = \<lparr>cd_to_text = au_tool_called, cd_hash = (\<lambda>t. ''h'' @ t)\<rparr>"

definition demo_sink_config :: sink_config where
  "demo_sink_config = \<lparr>sk_write_stdout = True, sk_has_file = True, sk_hash_chain = True\<rparr>"


text \<open>
  C28: recovery has a hysteresis. After a failed write the sink reports itself degraded, and it
  stays so through the next two successful writes and recovers with the third.
\<close>

theorem sink_recovers_after_three:
  assumes "sk_has_file (as_config s)" and "as_write_failures s < 2 ^ 63"
  shows "let s1 = snd (sink_write cd (WriteFailed err torn) e0 s);
             s2 = snd (sink_write cd Written e1 s1);
             s3 = snd (sink_write cd Written e2 s2);
             s4 = snd (sink_write cd Written e3 s3)
         in is_degraded s1 \<and> is_degraded s2 \<and> is_degraded s3 \<and> \<not> is_degraded s4"
proof -
  have pos: "as_write_failures s + 1 > 0"
  proof -
    have "unat (as_write_failures s) < 2 ^ 63" using assms(2) by (simp add: word_less_nat_alt)
    then have "unat (as_write_failures s + 1) = unat (as_write_failures s) + 1"
      by (simp add: unat_word_ariths)
    then show ?thesis by (simp add: word_less_nat_alt)
  qed
  show ?thesis
    using assms(1) pos
    by (simp add: Let_def is_degraded_def sink_write_health count_success_def RECOVERY_THRESHOLD_def
        word_le_nat_alt)
qed

theorem sink_recovers_after_three_witness:
  "let s1 = snd (sink_write demo_codec (WriteFailed ''full'' []) (audit_entry_new 0 1) (sink_new demo_sink_config []));
       s2 = snd (sink_write demo_codec Written (audit_entry_new 0 1) s1);
       s3 = snd (sink_write demo_codec Written (audit_entry_new 0 1) s2);
       s4 = snd (sink_write demo_codec Written (audit_entry_new 0 1) s3)
   in is_degraded s1 \<and> is_degraded s2 \<and> is_degraded s3 \<and> \<not> is_degraded s4"
  by (rule sink_recovers_after_three) (simp_all add: sink_new_def demo_sink_config_def)

end
