(* ===== verification/Gateway.thy ===== *)
theory Gateway
  imports Stages Mcp Credential Audit_Log Proxy
begin

text \<open>
  The request pipeline (\<open>handle_request\<close> in \<open>crates/arbiter/src/handler.rs\<close>), stage by stage and
  in its order: endpoints, audit gate, middleware, parsing, enforcement gates, session, policies,
  anomalies, credential injection, the request sent upstream, and what happens to the answer. The
  state is the session store, the agent registry, the anomaly counters, the credential provider and
  the audit sink. What the operating environment supplies for one request (clock readings, the
  outcome of the audit write) is the record \<open>readings\<close>; libraries are the record \<open>gateway_env\<close>.
  Metrics and log messages have no effect on the outcome and are left out.
\<close>

section \<open>State and environment\<close>

record ('b, 'd, 'r, 's, 'p, 'q) gateway_env =
  ge_storage :: "'b session_storage"
  ge_agents :: "'d agent_storage"
  ge_text :: "'r text_env"
  ge_sets :: "'s set_env"
  ge_redaction :: "'q redaction_env"
  ge_codec :: entry_codec
  ge_from_text :: "string \<Rightarrow> json option"
  ge_link_from_text :: "string \<Rightarrow> delegation_link option"
  ge_uuid_to_string :: "uuid \<Rightarrow> string"
  ge_parse_uuid :: "string \<Rightarrow> uuid option"
  ge_lossy :: "string \<Rightarrow> string"
  ge_to_str :: "string \<Rightarrow> string option"
  ge_header_ok :: "string \<Rightarrow> string \<Rightarrow> bool"
  ge_uri_ok :: "string \<Rightarrow> bool"
  ge_resolve :: "'p provider"
  ge_pattern_match :: "response_pattern \<Rightarrow> string \<Rightarrow> bool"
  ge_gunzip :: "string \<Rightarrow> string option"
  ge_inflate :: "string \<Rightarrow> string option"
  ge_percent :: "int \<Rightarrow> int \<Rightarrow> f64"
  ge_show_percent :: "f64 \<Rightarrow> string"

record ('r, 's, 'q) gateway_config =
  gc_upstream_url :: string
  gc_middleware :: "middleware list"
  gc_policy :: "'r policy_config option"
  gc_detector :: "'s anomaly_detector"
  gc_redaction :: "'q list"
  gc_has_provider :: bool
  gc_require_session :: bool
  gc_strict_mcp :: bool
  gc_deny_non_post_methods :: bool
  gc_metrics_require_auth :: bool
  gc_metrics_auth_key :: string
  gc_warning_threshold_pct :: f64
  gc_max_request_body_bytes :: nat
  gc_max_response_body_bytes :: nat
  gc_upstream_timeout_secs :: u64
  gc_require_audit_healthy :: bool
  gc_trust_degradation_threshold :: "32 word"

record ('b, 'd, 'p) gateway_state =
  gs_sessions :: "'b any_session_store"
  gs_registry :: "'d any_registry"
  gs_anomaly_counts :: "(uuid \<times> (32 word \<times> instant)) list"
  gs_provider :: 'p
  gs_sink :: "audit_sink option"

record readings =
  rd_request_id :: uuid
  rd_timestamp :: instant
  rd_latency :: u64
  rd_metrics :: "string option"
  rd_write :: write_outcome
  rd_non_post :: instant
  rd_batch1 :: instant
  rd_batch2 :: instant
  rd_batch3 :: instant
  rd_warn :: instant
  rd_context1 :: instant
  rd_context2 :: instant
  rd_eval :: "nat \<Rightarrow> instant"
  rd_anomaly :: instant
  rd_agent :: instant
  rd_reset :: instant

section \<open>Answers\<close>

fun error_code_name :: "error_code \<Rightarrow> string" where
  "error_code_name SessionRequired = ''SESSION_REQUIRED''"
| "error_code_name NonMcpRejected = ''NON_MCP_REJECTED''"
| "error_code_name SessionInvalid = ''SESSION_INVALID''"
| "error_code_name PolicyDenied = ''POLICY_DENIED''"
| "error_code_name EscalationRequired = ''ESCALATION_REQUIRED''"
| "error_code_name BehavioralAnomaly = ''BEHAVIORAL_ANOMALY''"
| "error_code_name MiddlewareRejected = ''MIDDLEWARE_REJECTED''"
| "error_code_name CodeCredentialError = ''CREDENTIAL_ERROR''"
| "error_code_name UpstreamError = ''UPSTREAM_ERROR''"

definition insert_opt :: "string \<Rightarrow> string option \<Rightarrow> (string \<times> json) list \<Rightarrow> (string \<times> json) list" where
  "insert_opt k v obj = (case v of Some s \<Rightarrow> obj_insert k (JStr s) obj | None \<Rightarrow> obj)"

text \<open>The trace of an error is never set, so it is never written.\<close>

definition error_json :: "arbiter_error \<Rightarrow> json" where
  "error_json e = JObj (insert_opt ''request_id'' (ae_request_id e) (insert_opt ''hint'' (ae_hint e)
     (insert_opt ''detail'' (ae_detail e) (obj_insert ''message'' (JStr (ae_message e))
       (obj_insert ''code'' (JStr (error_code_name (ae_code e))) [])))))"

definition json_response :: "nat \<Rightarrow> string \<Rightarrow> http_response" where
  "json_response status body =
     \<lparr>hs_status = status, hs_headers = [(''content-type'', ''application/json'')], hs_body = body\<rparr>"

definition error_response :: "(json \<Rightarrow> string) \<Rightarrow> nat \<Rightarrow> arbiter_error \<Rightarrow> http_response" where
  "error_response to_text status e = json_response status (to_text (JObj [(''error'', error_json e)]))"

definition constant_time_eq :: "string \<Rightarrow> string \<Rightarrow> bool" where
  "constant_time_eq a b =
     (let max_len = max (length a) (length b);
          pad = (\<lambda>s. s @ replicate (max_len - length s) (char_of (0 :: nat)))
      in pad a = pad b \<and> (of_nat (length a) :: u64) = of_nat (length b))"

definition write_audit ::
  "('b, 'd, 'r, 's, 'p, 'q) gateway_env \<Rightarrow> readings \<Rightarrow> audit_entry \<Rightarrow> ('b, 'd, 'p) gateway_state \<Rightarrow>
   ('b, 'd, 'p) gateway_state" where
  "write_audit env rd entry st =
     (case gs_sink st of
        None \<Rightarrow> st
      | Some sink \<Rightarrow> st\<lparr>gs_sink := Some (snd (sink_write (ge_codec env) (rd_write rd) entry sink))\<rparr>)"

definition finish ::
  "('b, 'd, 'r, 's, 'p, 'q) gateway_env \<Rightarrow> ('r, 's, 'q) gateway_config \<Rightarrow> readings \<Rightarrow> nat option \<Rightarrow>
   audit_entry \<Rightarrow> ('b, 'd, 'p) gateway_state \<Rightarrow> ('b, 'd, 'p) gateway_state" where
  "finish env cfg rd status capture st =
     write_audit env rd (finalize (ge_redaction env) (gc_redaction cfg) (rd_latency rd) status capture) st"

type_synonym denial = "nat \<times> string option \<times> arbiter_error"

definition deny ::
  "('b, 'd, 'r, 's, 'p, 'q) gateway_env \<Rightarrow> ('r, 's, 'q) gateway_config \<Rightarrow> readings \<Rightarrow> audit_entry \<Rightarrow> denial \<Rightarrow>
   ('b, 'd, 'p) gateway_state \<Rightarrow> http_response \<times> ('b, 'd, 'p) gateway_state" where
  "deny env cfg rd capture d st =
     (let (status, policy_matched, e) = d;
          capture = capture\<lparr>au_authorization_decision := ''deny''\<rparr>;
          capture = (case policy_matched of
                       Some p \<Rightarrow> capture\<lparr>au_policy_matched := Some p\<rparr> | None \<Rightarrow> capture);
          e = e\<lparr>ae_request_id := Some (ge_uuid_to_string env (rd_request_id rd))\<rparr>
      in (error_response (se_json_text (ge_sets env)) status e, finish env cfg rd (Some status) capture st))"

section \<open>Stages 0 to 3: endpoints, audit gate, capture\<close>

definition sink_degraded :: "('b, 'd, 'p) gateway_state \<Rightarrow> bool" where
  "sink_degraded st = (case gs_sink st of Some s \<Rightarrow> is_degraded s | None \<Rightarrow> False)"

definition health_endpoint :: "(json \<Rightarrow> string) \<Rightarrow> ('b, 'd, 'p) gateway_state \<Rightarrow> http_response" where
  "health_endpoint to_text st =
     (if sink_degraded st then json_response 503 (to_text (JObj [(''status'', JStr ''degraded'')]))
      else json_response 200 (to_text (JObj [(''status'', JStr ''healthy'')])))"

definition header_text ::
  "('b, 'd, 'r, 's, 'p, 'q) gateway_env \<Rightarrow> string \<Rightarrow> http_request \<Rightarrow> string" where
  "header_text env name req =
     (case Option.bind (header_get name (hq_headers req)) (ge_to_str env) of Some s \<Rightarrow> s | None \<Rightarrow> [])"

definition metrics_endpoint ::
  "('b, 'd, 'r, 's, 'p, 'q) gateway_env \<Rightarrow> ('r, 's, 'q) gateway_config \<Rightarrow> readings \<Rightarrow> http_request \<Rightarrow>
   http_response" where
  "metrics_endpoint env cfg rd req =
     (if gc_metrics_require_auth cfg \<and>
         \<not> constant_time_eq (header_text env ''x-api-key'' req) (gc_metrics_auth_key cfg)
      then json_response 401 ([CHR 123, CHR 34] @ ''error'' @ [CHR 34] @ '':'' @ [CHR 34] @
             ''metrics endpoint requires x-api-key header'' @ [CHR 34, CHR 125])
      else case rd_metrics rd of
        Some body \<Rightarrow>
          \<lparr>hs_status = 200,
           hs_headers = [(''content-type'', ''text/plain; version=0.0.4; charset=utf-8'')],
           hs_body = body\<rparr>
      | None \<Rightarrow> error_response (se_json_text (ge_sets env)) 500
                  (plain_error UpstreamError ''Internal Server Error'' None None))"

definition audit_gate_response :: http_response where
  "audit_gate_response = json_response 503
     ([CHR 123, CHR 34] @ ''error'' @ [CHR 34] @ '':'' @ [CHR 123, CHR 34] @ ''code'' @ [CHR 34] @ '':'' @
      [CHR 34] @ ''AUDIT_REQUIRED'' @ [CHR 34] @ '','' @ [CHR 34] @ ''message'' @ [CHR 34] @ '':'' @
      [CHR 34] @ ''Service unavailable: audit system is degraded'' @ [CHR 34, CHR 125, CHR 125])"

definition begin_capture ::
  "('b, 'd, 'r, 's, 'p, 'q) gateway_env \<Rightarrow> readings \<Rightarrow> http_request \<Rightarrow> audit_entry" where
  "begin_capture env rd req =
     (audit_entry_new (rd_timestamp rd) (rd_request_id rd))
       \<lparr>au_agent_id := header_text env ''x-agent-id'' req,
        au_task_session_id := header_text env ''x-arbiter-session'' req,
        au_delegation_chain := header_text env ''x-delegation-chain'' req,
        au_tool_called := hq_method req @ '' '' @ hq_path req\<rparr>"

section \<open>Stage 6: body and MCP parsing\<close>

definition rejected :: "nat \<Rightarrow> error_code \<Rightarrow> string \<Rightarrow> string option \<Rightarrow> string option \<Rightarrow> denial" where
  "rejected status code message detail hint = (status, None, plain_error code message detail hint)"

definition body_gate :: "('r, 's, 'q) gateway_config \<Rightarrow> http_request \<Rightarrow> denial option" where
  "body_gate cfg req =
     (if length (hq_body req) > gc_max_request_body_bytes cfg
      then Some (rejected 413 MiddlewareRejected ''Request body too large'' None None)
      else if header_get ''upgrade'' (hq_headers req) \<noteq> None
      then Some (rejected 501 MiddlewareRejected ''Protocol upgrades are not supported'' None
             (Some ''Arbiter does not support WebSocket or other protocol upgrades''))
      else None)"

definition tool_label :: "mcp_request \<Rightarrow> string" where
  "tool_label r =
     (case mr_tool_name r of Some n \<Rightarrow> n @ '' ('' @ mr_method r @ '')'' | None \<Rightarrow> mr_method r)"

definition capture_mcp :: "parse_result \<Rightarrow> audit_entry \<Rightarrow> audit_entry" where
  "capture_mcp mcp capture =
     (case mcp of
        NonMcp \<Rightarrow> capture
      | Mcp ctx \<Rightarrow>
          (let labels = map tool_label (mc_requests ctx);
               capture = (if labels \<noteq> [] then capture\<lparr>au_tool_called := join_str ''; '' labels\<rparr> else capture)
           in case mc_requests ctx of
                r # _ \<Rightarrow> (case mr_arguments r of Some a \<Rightarrow> capture\<lparr>au_arguments := a\<rparr> | None \<Rightarrow> capture)
              | [] \<Rightarrow> capture))"

section \<open>Stage 6.5: enforcement gates\<close>

definition session_gate :: "('r, 's, 'q) gateway_config \<Rightarrow> parse_result \<Rightarrow> string \<Rightarrow> denial option" where
  "session_gate cfg mcp session_header =
     (if gc_require_session cfg \<and> mcp \<noteq> NonMcp \<and> session_header = []
      then Some (403, None, session_required) else None)"

definition is_blank :: "char \<Rightarrow> bool" where
  "is_blank c \<longleftrightarrow> (let n = of_char c :: nat in n = 32 \<or> 9 \<le> n \<and> n \<le> 13)"

text \<open>A header value that converted to text is ASCII, so trimming it removes ASCII blanks.\<close>

definition trim :: "string \<Rightarrow> string" where
  "trim s = rev (dropWhile is_blank (rev (dropWhile is_blank s)))"

definition parse_session_header :: "(string \<Rightarrow> uuid option) \<Rightarrow> string \<Rightarrow> uuid option" where
  "parse_session_header parse_uuid h = parse_uuid (trim h)"

definition non_post_session_gate ::
  "('b, 'd, 'r, 's, 'p, 'q) gateway_env \<Rightarrow> readings \<Rightarrow> string \<Rightarrow> uuid \<Rightarrow> 'b any_session_store \<Rightarrow>
   denial option" where
  "non_post_session_gate env rd agent_header sid store =
     (case any_get sid store of
        Ok s \<Rightarrow>
          if is_expired (rd_non_post rd) s
          then Some (408, None, session_error_body (ge_uuid_to_string env) (SessExpired sid))
          else (case ge_parse_uuid env agent_header of
                  Some aid \<Rightarrow>
                    if aid \<noteq> ts_agent_id s
                    then Some (403, None, session_error_body (ge_uuid_to_string env)
                                 (AgentMismatch sid (ts_agent_id s) aid))
                    else None
                | None \<Rightarrow> None)
      | _ \<Rightarrow> Some (404, None, session_error_body (ge_uuid_to_string env) (SessNotFound sid)))"

definition non_post_gate ::
  "('b, 'd, 'r, 's, 'p, 'q) gateway_env \<Rightarrow> ('r, 's, 'q) gateway_config \<Rightarrow> readings \<Rightarrow> http_request \<Rightarrow> string \<Rightarrow>
   string \<Rightarrow> 'b any_session_store \<Rightarrow> denial option" where
  "non_post_gate env cfg rd req agent_header session_header store =
     (if hq_method req = ''POST'' then None
      else if gc_deny_non_post_methods cfg
      then Some (rejected 405 MiddlewareRejected ''Method not allowed''
             (Some (''HTTP method '' @ hq_method req @ '' is not permitted. MCP uses POST exclusively.''))
             (Some ''Only POST requests are accepted on the proxy port. Non-POST methods bypass authorization and are denied by default.''))
      else if agent_header = []
      then Some (rejected 400 MiddlewareRejected ''x-agent-id header required''
             (Some ''Non-POST requests require an x-agent-id header for audit attribution.'') None)
      else if gc_require_session cfg \<and> session_header \<noteq> []
      then (case parse_session_header (ge_parse_uuid env) session_header of
              Some sid \<Rightarrow> non_post_session_gate env rd agent_header sid store
            | None \<Rightarrow> None)
      else None)"

definition non_mcp_gate ::
  "('r, 's, 'q) gateway_config \<Rightarrow> http_request \<Rightarrow> parse_result \<Rightarrow> denial option" where
  "non_mcp_gate cfg req mcp =
     (if mcp = NonMcp \<and> hq_method req = ''POST'' \<and> (gc_strict_mcp cfg \<or> gc_policy cfg \<noteq> None)
      then Some (403, None, non_mcp_rejected) else None)"

definition session_header_gate :: "(string \<Rightarrow> uuid option) \<Rightarrow> string \<Rightarrow> denial option" where
  "session_header_gate parse_uuid session_header =
     (if session_header \<noteq> [] \<and> parse_session_header parse_uuid session_header = None
      then Some (rejected 400 SessionInvalid ''Malformed session header''
             (Some (''x-arbiter-session header value '' @ quoted session_header @ '' is not a valid UUID''))
             (Some ''The x-arbiter-session header must contain a valid UUID v4''))
      else None)"

definition parsed_session_id :: "(string \<Rightarrow> uuid option) \<Rightarrow> string \<Rightarrow> uuid option" where
  "parsed_session_id parse_uuid session_header =
     (if session_header \<noteq> [] then parse_session_header parse_uuid session_header else None)"

section \<open>Stage 7: session\<close>

text \<open>A stage proceeds with a value, refuses with a denial, or unwinds.\<close>

datatype 'a stage = Proceed 'a | Refuse denial | Unwind

fun stage_of_verdict :: "'a \<Rightarrow> stage_verdict \<Rightarrow> 'a stage" where
  "stage_of_verdict x Continue = Proceed x"
| "stage_of_verdict x (StageDeny status pm e) = Refuse (status, pm, e)"
| "stage_of_verdict x StageUnwind = Unwind"

definition session_stage ::
  "('b, 'd, 'r, 's, 'p, 'q) gateway_env \<Rightarrow> readings \<Rightarrow> string \<Rightarrow> uuid option \<Rightarrow> parse_result \<Rightarrow>
   'b any_session_store \<Rightarrow> task_session option stage \<times> 'b any_session_store" where
  "session_stage env rd agent_header session_id mcp store =
     (case (session_id, mcp) of
        (Some sid, Mcp ctx) \<Rightarrow>
          if agent_header = []
          then (Refuse (rejected 400 SessionInvalid ''x-agent-id header is required when a session is active''
                  None (Some ''Include the x-agent-id header matching the agent that owns this session'')), store)
          else (case ge_parse_uuid env agent_header of
            None \<Rightarrow> (Refuse (rejected 400 SessionInvalid ''x-agent-id header must be a valid UUID'' None None), store)
          | Some aid \<Rightarrow>
              (case any_get sid store of
                 Ok session \<Rightarrow>
                   if ts_agent_id session \<noteq> aid
                   then (Refuse (rejected 403 SessionInvalid ''Session does not belong to this agent'' None None), store)
                   else let (verdict, store') =
                          validate_session_tools (ge_storage env) (ge_uuid_to_string env) sid (Some aid)
                            (mc_requests ctx) (rd_batch1 rd) (rd_batch2 rd) (rd_batch3 rd) store
                        in (stage_of_verdict (Some session) verdict, store')
               | _ \<Rightarrow> (Refuse (rejected 403 SessionInvalid ''Session not found'' None None), store)))
      | _ \<Rightarrow> (Proceed None, store))"

definition capture_session :: "task_session option \<Rightarrow> audit_entry \<Rightarrow> audit_entry" where
  "capture_session session capture =
     (case session of
        Some s \<Rightarrow>
          if ts_delegation_chain_snapshot s \<noteq> []
          then capture\<lparr>au_delegation_chain := join_str '','' (ts_delegation_chain_snapshot s)\<rparr>
          else capture
      | None \<Rightarrow> capture)"

text \<open>Stage 7.5: the usage and warning headers. \<open>consumed\<close> is the size of the batch.\<close>

definition saturating_sub :: "u64 \<Rightarrow> u64 \<Rightarrow> u64" where
  "saturating_sub a b = (if b \<le> a then a - b else 0)"

definition session_warnings ::
  "('b, 'd, 'r, 's, 'p, 'q) gateway_env \<Rightarrow> ('r, 's, 'q) gateway_config \<Rightarrow> readings \<Rightarrow> u64 \<Rightarrow> task_session \<Rightarrow>
   (string \<times> string) list" where
  "session_warnings env cfg rd consumed s =
     (let calls_remaining = saturating_sub (ts_call_budget s) (ts_calls_made s + consumed);
          budget_pct = (if ts_call_budget s > 0
                        then ge_percent env (uint calls_remaining) (uint (ts_call_budget s)) else Fin 0);
          time_remaining = max (num_seconds (ts_created_at s + ts_time_limit s - rd_warn rd)) 0;
          time_pct = (if num_seconds (ts_time_limit s) > 0
                      then ge_percent env time_remaining (num_seconds (ts_time_limit s)) else Fin 0)
      in [(''x-arbiter-calls-remaining'', show_int (uint calls_remaining)),
          (''x-arbiter-seconds-remaining'', show_int time_remaining)] @
         (if f64_less_eq budget_pct (gc_warning_threshold_pct cfg) \<and> ts_call_budget s > 0
          then [(''x-arbiter-warning'', ''budget low: '' @ show_int (uint calls_remaining) @ '' of '' @
                 show_int (uint (ts_call_budget s)) @ '' calls remaining ('' @ ge_show_percent env budget_pct @ ''%)'')]
          else []) @
         (if f64_less_eq time_pct (gc_warning_threshold_pct cfg) \<and> time_remaining > 0
          then [(''x-arbiter-warning'', ''time low: '' @ show_int time_remaining @ ''s remaining ('' @
                 ge_show_percent env time_pct @ ''%)'')]
          else []))"

definition batch_size :: "parse_result \<Rightarrow> u64" where
  "batch_size mcp = (case mcp of Mcp ctx \<Rightarrow> of_nat (length (mc_requests ctx)) | NonMcp \<Rightarrow> 0)"

section \<open>Stage 8: policies\<close>

definition policy_context ::
  "('b, 'd, 'r, 's, 'p, 'q) gateway_env \<Rightarrow> readings \<Rightarrow> string \<Rightarrow> string \<Rightarrow> uuid option \<Rightarrow> task_session option \<Rightarrow>
   'd any_registry \<Rightarrow> (eval_context, unit) result \<times> 'd any_registry" where
  "policy_context env rd agent_header chain_header session_id session rg =
     (case session of
        Some s \<Rightarrow> build_eval_context (ge_agents env) (ge_uuid_to_string env) (ge_link_from_text env)
                    (rd_context1 rd) (rd_context2 rd) s chain_header rg
      | None \<Rightarrow>
          if session_id \<noteq> None then (Err (), rg)
          else build_eval_context_from_header (ge_agents env) (ge_uuid_to_string env) (ge_parse_uuid env)
                 (rd_context1 rd) (rd_context2 rd) agent_header chain_header rg)"

definition policy_stage ::
  "('b, 'd, 'r, 's, 'p, 'q) gateway_env \<Rightarrow> ('r, 's, 'q) gateway_config \<Rightarrow> readings \<Rightarrow> string \<Rightarrow> string \<Rightarrow>
   uuid option \<Rightarrow> task_session option \<Rightarrow> parse_result \<Rightarrow> 'd any_registry \<Rightarrow>
   string option stage \<times> 'd any_registry" where
  "policy_stage env cfg rd agent_header chain_header session_id session mcp rg =
     (case mcp of
        NonMcp \<Rightarrow> (Proceed None, rg)
      | Mcp ctx \<Rightarrow>
          let no_policies = rejected 403 PolicyDenied
                ''No authorization policies are loaded; all MCP traffic is denied''
                (Some ''deny-by-default: the gateway has no policies configured to authorize this request'') None
          in case gc_policy cfg of
               None \<Rightarrow> (Refuse no_policies, rg)
             | Some policies \<Rightarrow>
                 if cfg_policies policies = [] then (Refuse no_policies, rg)
                 else case policy_context env rd agent_header chain_header session_id session rg of
                   (Ok ectx, rg) \<Rightarrow>
                     (let (verdict, pid) = evaluate_mcp_policies (ge_text env) (ge_uuid_to_string env)
                            (rd_eval rd) policies ectx (mc_requests ctx)
                      in (stage_of_verdict pid verdict, rg))
                 | (Panic, rg) \<Rightarrow> (Unwind, rg)
                 | (Err _, rg) \<Rightarrow>
                     (if session_id = None
                      then Refuse (rejected 403 PolicyDenied
                             ''Cannot evaluate authorization without agent identity'' None None)
                      else Proceed None, rg))"

section \<open>Stage 9: anomalies and trust\<close>

definition ANOMALY_DECAY_INTERVAL :: int where
  "ANOMALY_DECAY_INTERVAL = 3600"

text \<open>The counter of an agent halves for every full interval since the last flag.\<close>

definition decayed :: "32 word \<Rightarrow> instant \<Rightarrow> instant \<Rightarrow> 32 word" where
  "decayed cnt last_time now =
     (let elapsed_secs = max (now - last_time) 0 div 1000000000;
          periods = elapsed_secs div ANOMALY_DECAY_INTERVAL;
          shift = periods mod 2 ^ 32
      in if periods > 0 then (if shift < 32 then drop_bit (nat shift) cnt else 0) else cnt)"

definition bump_anomaly ::
  "instant \<Rightarrow> nat \<Rightarrow> uuid \<Rightarrow> (uuid \<times> (32 word \<times> instant)) list \<Rightarrow>
   32 word \<times> (uuid \<times> (32 word \<times> instant)) list" where
  "bump_anomaly now flags aid counts =
     (let (cnt, last_time) = (case map_of counts aid of Some c \<Rightarrow> c | None \<Rightarrow> (0, now));
          cnt = decayed cnt last_time now + of_nat flags
      in (cnt, AList.update aid (cnt, now) counts))"

fun demoted :: "trust_level \<Rightarrow> trust_level" where
  "demoted Trusted = Verified"
| "demoted Verified = Basic"
| "demoted Basic = Untrusted"
| "demoted Untrusted = Untrusted"

text \<open>
  The feedback on trust: the new state, and whether the agent was demoted, which aborts the request.
\<close>

definition degrade_trust ::
  "('b, 'd, 'r, 's, 'p, 'q) gateway_env \<Rightarrow> ('r, 's, 'q) gateway_config \<Rightarrow> readings \<Rightarrow> uuid \<Rightarrow> nat \<Rightarrow>
   ('b, 'd, 'p) gateway_state \<Rightarrow> (bool, unit) result \<times> ('b, 'd, 'p) gateway_state" where
  "degrade_trust env cfg rd aid flags st =
     (let (cnt, counts) = bump_anomaly (rd_anomaly rd) flags aid (gs_anomaly_counts st);
          st = st\<lparr>gs_anomaly_counts := counts\<rparr>
      in if cnt < gc_trust_degradation_threshold cfg then (Ok False, st)
         else case anyreg_get_agent (ge_agents env) (ge_uuid_to_string env) (rd_agent rd) aid (gs_registry st) of
           (Ok a, rg) \<Rightarrow>
             if demoted (ag_trust_level a) = ag_trust_level a then (Ok False, st\<lparr>gs_registry := rg\<rparr>)
             else (case anyreg_update_trust_level (ge_agents env) (ge_uuid_to_string env) aid
                          (demoted (ag_trust_level a)) rg of
                 (Panic, rg) \<Rightarrow> (Panic, st\<lparr>gs_registry := rg\<rparr>)
               | (_, rg) \<Rightarrow>
                   (Ok True, st\<lparr>gs_registry := rg,
                                gs_anomaly_counts := AList.update aid (0, rd_reset rd) counts\<rparr>))
         | (Err _, rg) \<Rightarrow> (Ok False, st\<lparr>gs_registry := rg\<rparr>)
         | (Panic, rg) \<Rightarrow> (Panic, st\<lparr>gs_registry := rg\<rparr>))"

definition anomaly_stage ::
  "('b, 'd, 'r, 's, 'p, 'q) gateway_env \<Rightarrow> ('r, 's, 'q) gateway_config \<Rightarrow> readings \<Rightarrow> string \<Rightarrow>
   task_session option \<Rightarrow> parse_result \<Rightarrow> ('b, 'd, 'p) gateway_state \<Rightarrow>
   unit stage \<times> string list \<times> ('b, 'd, 'p) gateway_state" where
  "anomaly_stage env cfg rd agent_header session mcp st =
     (case (mcp, session) of
        (Mcp ctx, Some s) \<Rightarrow>
          (let (verdict, flags) = detect_behavioral_anomalies (ge_sets env) (gc_detector cfg)
                 (ts_declared_intent s) (mc_requests ctx);
               (aborted, st) =
                 (if flags = [] then (Ok False, st)
                  else case ge_parse_uuid env agent_header of
                    Some aid \<Rightarrow> degrade_trust env cfg rd aid (length flags) st
                  | None \<Rightarrow> (Ok False, st))
           in (case aborted of
                 Ok True \<Rightarrow> Refuse (403, None, behavioral_anomaly ''request aborted: agent trust level demoted'')
               | Panic \<Rightarrow> Unwind
               | _ \<Rightarrow> stage_of_verdict () verdict, flags, st))
      | _ \<Rightarrow> (Proceed (), [], st))"

section \<open>Stage 9.5: canonical body and credentials\<close>

definition canonical_body :: "(json \<Rightarrow> string) \<Rightarrow> parse_result \<Rightarrow> string \<Rightarrow> string" where
  "canonical_body to_text mcp body =
     (case mcp of Mcp ctx \<Rightarrow> to_canonical_body to_text ctx | NonMcp \<Rightarrow> body)"

definition credential_headers ::
  "(string \<Rightarrow> string option) \<Rightarrow> (string \<times> string) list \<Rightarrow> (string \<times> string) list" where
  "credential_headers to_str headers =
     List.map_filter (\<lambda>(name, value).
       case to_str value of
         Some v \<Rightarrow> if contains_str ''${CRED:'' v then Some (name, v) else None
       | None \<Rightarrow> None) headers"

definition apply_headers ::
  "(string \<Rightarrow> string \<Rightarrow> bool) \<Rightarrow> (string \<times> string) list \<Rightarrow> (string \<times> string) list \<Rightarrow> (string \<times> string) list" where
  "apply_headers header_ok injected headers =
     fold (\<lambda>(n, v) hs. if header_ok n v then header_insert n v hs else hs) injected headers"

definition credential_stage ::
  "('b, 'd, 'r, 's, 'p, 'q) gateway_env \<Rightarrow> ('r, 's, 'q) gateway_config \<Rightarrow> task_session option \<Rightarrow> string \<Rightarrow>
   (string \<times> string) list \<Rightarrow> 'p \<Rightarrow> (string \<times> (string \<times> string) list \<times> string list) stage \<times> 'p" where
  "credential_stage env cfg session body headers p =
     (case session of
        None \<Rightarrow> (Proceed (body, headers, []), p)
      | Some s \<Rightarrow>
          if \<not> gc_has_provider cfg then (Proceed (body, headers, []), p)
          else case from_utf8 body of
            None \<Rightarrow> (Refuse (rejected 400 MiddlewareRejected
                       ''Request body must be valid UTF-8 when credential injection is enabled'' None None), p)
          | Some body_str \<Rightarrow>
              (let header_pairs = credential_headers (ge_to_str env) headers; body_refs = find_refs body_str
               in if list_ex (\<lambda>r. \<not> is_credential_authorized s r) body_refs
                  then (Refuse (rejected 403 SessionInvalid
                          ''credential reference not authorized for this session'' None None), p)
                  else if body_refs = [] \<and> header_pairs = [] then (Proceed (body, headers, []), p)
                  else case inject_credentials (ge_resolve env) body_str header_pairs p of
                    (Ok injd, p') \<Rightarrow>
                      (Proceed (ir_body injd, apply_headers (ge_header_ok env) (ir_headers injd) headers,
                         if ir_resolved_refs injd \<noteq> [] then ir_resolved_values injd else []), p')
                  | (Err e, p') \<Rightarrow> (Refuse (400, None, credential_error_body), p')
                  | (Panic, p') \<Rightarrow> (Unwind, p')))"

section \<open>Stage 10: the request sent upstream\<close>

record upstream_request =
  uq_method :: string
  uq_uri :: string
  uq_headers :: "(string \<times> string) list"
  uq_body :: string

definition strip_arbiter_headers :: "(string \<times> string) list \<Rightarrow> (string \<times> string) list" where
  "strip_arbiter_headers hs = filter (\<lambda>h. \<not> starts_with ''x-arbiter-'' (fst h)) hs"

definition upstream_request_of ::
  "('r, 's, 'q) gateway_config \<Rightarrow> http_request \<Rightarrow> (string \<times> string) list \<Rightarrow> string \<Rightarrow> upstream_request" where
  "upstream_request_of cfg req headers body =
     (let hs = strip_arbiter_headers (header_remove ''host'' (header_remove ''content-length'' headers));
          hs = (if gc_has_provider cfg then header_remove ''accept-encoding'' hs else hs)
      in \<lparr>uq_method = hq_method req, uq_uri = gc_upstream_url cfg @ hq_path_and_query req,
          uq_headers = hs, uq_body = body\<rparr>)"

text \<open>What is kept while the upstream works.\<close>

record pending =
  pe_capture :: audit_entry
  pe_session :: "task_session option"
  pe_secrets :: "string list"
  pe_warnings :: "(string \<times> string) list"

datatype admission =
    Answered http_response
  | Forwarded upstream_request pending
  | HandlerError
  | Unwound

section \<open>From the request to the upstream\<close>

definition refuse ::
  "('b, 'd, 'r, 's, 'p, 'q) gateway_env \<Rightarrow> ('r, 's, 'q) gateway_config \<Rightarrow> readings \<Rightarrow> audit_entry \<Rightarrow> denial \<Rightarrow>
   ('b, 'd, 'p) gateway_state \<Rightarrow> admission \<times> ('b, 'd, 'p) gateway_state" where
  "refuse env cfg rd capture d st = map_prod Answered id (deny env cfg rd capture d st)"

text \<open>Stage 9.5 and 10: credentials, then the upstream request.\<close>

definition forward_stage ::
  "('b, 'd, 'r, 's, 'p, 'q) gateway_env \<Rightarrow> ('r, 's, 'q) gateway_config \<Rightarrow> readings \<Rightarrow> http_request \<Rightarrow>
   parse_result \<Rightarrow> task_session option \<Rightarrow> (string \<times> string) list \<Rightarrow> audit_entry \<Rightarrow> ('b, 'd, 'p) gateway_state \<Rightarrow>
   admission \<times> ('b, 'd, 'p) gateway_state" where
  "forward_stage env cfg rd req mcp session warnings capture st =
     (let body = canonical_body (se_json_text (ge_sets env)) mcp (hq_body req);
          (r, p) = credential_stage env cfg session body (hq_headers req) (gs_provider st);
          st = st\<lparr>gs_provider := p\<rparr>
      in case r of
           Unwind \<Rightarrow> (Unwound, st)
         | Refuse d \<Rightarrow> refuse env cfg rd capture d st
         | Proceed (body', headers, secrets) \<Rightarrow>
             (let uq = upstream_request_of cfg req headers body'
              in if \<not> ge_uri_ok env (uq_uri uq) then (HandlerError, st)
                 else (Forwarded uq \<lparr>pe_capture = capture\<lparr>au_authorization_decision := ''allow''\<rparr>,
                                     pe_session = session, pe_secrets = secrets,
                                     pe_warnings = warnings\<rparr>, st)))"

definition anomaly_then_forward ::
  "('b, 'd, 'r, 's, 'p, 'q) gateway_env \<Rightarrow> ('r, 's, 'q) gateway_config \<Rightarrow> readings \<Rightarrow> http_request \<Rightarrow> string \<Rightarrow>
   parse_result \<Rightarrow> task_session option \<Rightarrow> (string \<times> string) list \<Rightarrow> audit_entry \<Rightarrow> ('b, 'd, 'p) gateway_state \<Rightarrow>
   admission \<times> ('b, 'd, 'p) gateway_state" where
  "anomaly_then_forward env cfg rd req agent_header mcp session warnings capture st =
     (let (r, flags, st) = anomaly_stage env cfg rd agent_header session mcp st;
          capture = (if flags \<noteq> [] then capture\<lparr>au_anomaly_flags := flags\<rparr> else capture)
      in case r of
           Unwind \<Rightarrow> (Unwound, st)
         | Refuse d \<Rightarrow> refuse env cfg rd capture d st
         | Proceed _ \<Rightarrow> forward_stage env cfg rd req mcp session warnings capture st)"

definition enforce ::
  "('b, 'd, 'r, 's, 'p, 'q) gateway_env \<Rightarrow> ('r, 's, 'q) gateway_config \<Rightarrow> readings \<Rightarrow> http_request \<Rightarrow> parse_result \<Rightarrow>
   audit_entry \<Rightarrow> ('b, 'd, 'p) gateway_state \<Rightarrow> admission \<times> ('b, 'd, 'p) gateway_state" where
  "enforce env cfg rd req mcp capture st =
     (let agent_header = header_text env ''x-agent-id'' req;
          chain_header = header_text env ''x-delegation-chain'' req;
          sid = parsed_session_id (ge_parse_uuid env) (header_text env ''x-arbiter-session'' req);
          (r, store) = session_stage env rd agent_header sid mcp (gs_sessions st);
          st = st\<lparr>gs_sessions := store\<rparr>
      in case r of
           Unwind \<Rightarrow> (Unwound, st)
         | Refuse d \<Rightarrow> refuse env cfg rd capture d st
         | Proceed session \<Rightarrow>
             (let capture = capture_session session capture;
                  warnings = (case session of
                                Some s \<Rightarrow> session_warnings env cfg rd (batch_size mcp) s | None \<Rightarrow> [])
              in case policy_stage env cfg rd agent_header chain_header sid session mcp (gs_registry st) of (r, rg) \<Rightarrow>
                 let st = st\<lparr>gs_registry := rg\<rparr> in case r of
                   Unwind \<Rightarrow> (Unwound, st)
                 | Refuse d \<Rightarrow> refuse env cfg rd capture d st
                 | Proceed pid \<Rightarrow>
                     (let capture = (case pid of
                                       Some p \<Rightarrow> capture\<lparr>au_policy_matched := Some p\<rparr> | None \<Rightarrow> capture)
                      in anomaly_then_forward env cfg rd req agent_header mcp session warnings capture st)))"

fun first_denial :: "denial option list \<Rightarrow> denial option" where
  "first_denial [] = None"
| "first_denial (Some d # ds) = Some d"
| "first_denial (None # ds) = first_denial ds"

definition after_middleware ::
  "('b, 'd, 'r, 's, 'p, 'q) gateway_env \<Rightarrow> ('r, 's, 'q) gateway_config \<Rightarrow> readings \<Rightarrow> http_request \<Rightarrow> audit_entry \<Rightarrow>
   ('b, 'd, 'p) gateway_state \<Rightarrow> admission \<times> ('b, 'd, 'p) gateway_state" where
  "after_middleware env cfg rd req capture st =
     (case body_gate cfg req of
        Some d \<Rightarrow> refuse env cfg rd capture d st
      | None \<Rightarrow>
          (let mcp = parse_mcp_body (ge_from_text env) (se_json_text (ge_sets env)) (hq_body req);
               capture = capture_mcp mcp capture;
               agent_header = header_text env ''x-agent-id'' req;
               session_header = header_text env ''x-arbiter-session'' req
           in case first_denial
                [session_gate cfg mcp session_header,
                 non_post_gate env cfg rd req agent_header session_header (gs_sessions st),
                 non_mcp_gate cfg req mcp,
                 session_header_gate (ge_parse_uuid env) session_header] of
                Some d \<Rightarrow> refuse env cfg rd capture d st
              | None \<Rightarrow>
                  enforce env cfg rd req mcp
                    (if hq_method req \<noteq> ''POST'' then capture\<lparr>au_authorization_decision := ''allow''\<rparr> else capture)
                    st))"

definition handle_admission ::
  "('b, 'd, 'r, 's, 'p, 'q) gateway_env \<Rightarrow> ('r, 's, 'q) gateway_config \<Rightarrow> readings \<Rightarrow> http_request \<Rightarrow>
   ('b, 'd, 'p) gateway_state \<Rightarrow> admission \<times> ('b, 'd, 'p) gateway_state" where
  "handle_admission env cfg rd req st =
     (if hq_method req = ''GET'' \<and> hq_path req = ''/health''
      then (Answered (health_endpoint (se_json_text (ge_sets env)) st), st)
      else if hq_method req = ''GET'' \<and> hq_path req = ''/metrics''
      then (Answered (metrics_endpoint env cfg rd req), st)
      else if gc_require_audit_healthy cfg \<and> sink_degraded st then (Answered audit_gate_response, st)
      else let capture = begin_capture env rd req
           in case chain_execute (ge_lossy env) (gc_middleware cfg) req of
                Ok req' \<Rightarrow> after_middleware env cfg rd req' capture st
              | Err resp \<Rightarrow>
                  (Answered resp, finish env cfg rd (Some (hs_status resp))
                     (capture\<lparr>au_authorization_decision := ''deny''\<rparr>) st)
              | Panic \<Rightarrow> (Unwound, st))"

section \<open>From the upstream to the answer\<close>

datatype upstream_outcome = TimedOut | UpstreamFailed | UpstreamAnswer http_response

text \<open>\<open>None\<close> is an error; its message is only logged.\<close>

definition decompress_body ::
  "('b, 'd, 'r, 's, 'p, 'q) gateway_env \<Rightarrow> nat \<Rightarrow> string \<Rightarrow> string \<Rightarrow> string option" where
  "decompress_body env max_bytes encoding body =
     (let encoding = map ascii_lower (trim encoding);
          limited = (\<lambda>r. case r of Some b \<Rightarrow> if length b > max_bytes then None else Some b | None \<Rightarrow> None)
      in if encoding = ''identity'' \<or> encoding = [] then Some body
         else if encoding = ''gzip'' \<or> encoding = ''x-gzip'' then limited (ge_gunzip env body)
         else if encoding = ''deflate'' then limited (ge_inflate env body)
         else None)"

definition error_text :: "string \<Rightarrow> string" where
  "error_text message =
     [CHR 123, CHR 34] @ ''error'' @ [CHR 34] @ '': '' @ [CHR 34] @ message @ [CHR 34, CHR 125]"

definition decompress_stage ::
  "('b, 'd, 'r, 's, 'p, 'q) gateway_env \<Rightarrow> ('r, 's, 'q) gateway_config \<Rightarrow> string list \<Rightarrow> http_response \<Rightarrow>
   http_response" where
  "decompress_stage env cfg secrets resp =
     (case header_get ''content-encoding'' (hs_headers resp) of
        Some encoding \<Rightarrow>
          if secrets = [] then resp
          else (let encoding_str = (case ge_to_str env encoding of Some e \<Rightarrow> e | None \<Rightarrow> [])
                in case decompress_body env (gc_max_response_body_bytes cfg) encoding_str (hs_body resp) of
                     Some bytes \<Rightarrow>
                       resp\<lparr>hs_body := bytes, hs_headers := header_remove ''content-encoding'' (hs_headers resp)\<rparr>
                   | None \<Rightarrow>
                       resp\<lparr>hs_body := error_text ''upstream response uses unsupported content encoding'',
                            hs_status := 502\<rparr>)
      | None \<Rightarrow> resp)"

definition scrub_stage ::
  "('b, 'd, 'r, 's, 'p, 'q) gateway_env \<Rightarrow> string list \<Rightarrow> http_response \<Rightarrow> http_response" where
  "scrub_stage env secrets resp =
     (if secrets = [] then resp
      else case from_utf8 (hs_body resp) of
        Some t \<Rightarrow> resp\<lparr>hs_body := scrub_response (se_json_text (ge_sets env)) t secrets\<rparr>
      | None \<Rightarrow> resp\<lparr>hs_body := error_text ''upstream response contained invalid encoding'', hs_status := 502\<rparr>)"

fun detected_to_session :: "detected_sensitivity \<Rightarrow> data_sensitivity" where
  "detected_to_session DetInternal = Internal"
| "detected_to_session DetConfidential = Confidential"
| "detected_to_session DetRestricted = Restricted"

fun detected_debug :: "detected_sensitivity \<Rightarrow> string" where
  "detected_debug DetInternal = ''Internal''"
| "detected_debug DetConfidential = ''Confidential''"
| "detected_debug DetRestricted = ''Restricted''"

definition max_detected :: "data_finding list \<Rightarrow> data_sensitivity option" where
  "max_detected findings =
     fold (\<lambda>f acc. let mapped = detected_to_session (df_sensitivity f)
                   in Some (case acc of None \<Rightarrow> mapped | Some prev \<Rightarrow> max prev mapped)) findings None"

text \<open>Stage 10.6: the findings to record, and whether the answer is blocked.\<close>

definition classify_answer ::
  "('b, 'd, 'r, 's, 'p, 'q) gateway_env \<Rightarrow> task_session option \<Rightarrow> http_response \<Rightarrow> string list \<times> bool" where
  "classify_answer env session resp =
     (case session of
        None \<Rightarrow> ([], False)
      | Some s \<Rightarrow>
          (let t = (case from_utf8 (hs_body resp) of Some t \<Rightarrow> t | None \<Rightarrow> []);
               findings = scan_response (ge_pattern_match env) t;
               ceiling = ts_data_sensitivity_ceiling s
           in case max_detected findings of
                None \<Rightarrow> ([], False)
              | Some detected \<Rightarrow>
                  (map (\<lambda>f. detected_debug (df_sensitivity f) @ '': '' @ df_pattern_name f) findings,
                   detected > ceiling \<and> detected = Restricted \<and> ceiling \<noteq> Restricted)))"

definition gateway_error ::
  "('b, 'd, 'r, 's, 'p, 'q) gateway_env \<Rightarrow> readings \<Rightarrow> nat \<Rightarrow> string \<Rightarrow> string \<Rightarrow> http_response" where
  "gateway_error env rd status message detail =
     error_response (se_json_text (ge_sets env)) status
       ((plain_error UpstreamError message (Some detail) None)
          \<lparr>ae_request_id := Some (ge_uuid_to_string env (rd_request_id rd))\<rparr>)"

definition answer_headers ::
  "('b, 'd, 'r, 's, 'p, 'q) gateway_env \<Rightarrow> (string \<times> string) list \<Rightarrow> http_response \<Rightarrow> (string \<times> string) list" where
  "answer_headers env warnings resp =
     (let hs = header_insert ''content-length'' (show_nat (length (hs_body resp))) (hs_headers resp);
          hs = strip_arbiter_headers hs
      in fold (\<lambda>(n, v) hs. if ge_header_ok env n v then header_append n v hs else hs) warnings hs)"

definition handle_answer ::
  "('b, 'd, 'r, 's, 'p, 'q) gateway_env \<Rightarrow> ('r, 's, 'q) gateway_config \<Rightarrow> readings \<Rightarrow> pending \<Rightarrow> http_response \<Rightarrow>
   ('b, 'd, 'p) gateway_state \<Rightarrow> http_response \<times> ('b, 'd, 'p) gateway_state" where
  "handle_answer env cfg rd pe resp st =
     (if length (hs_body resp) > gc_max_response_body_bytes cfg
      then (gateway_error env rd 502 ''Upstream response too large''
              ''upstream response exceeded the configured size limit'',
            finish env cfg rd None (pe_capture pe) st)
      else let status = hs_status resp;
               resp = scrub_stage env (pe_secrets pe) (decompress_stage env cfg (pe_secrets pe) resp);
               (findings, blocked) = classify_answer env (pe_session pe) resp;
               capture = (if findings \<noteq> [] then (pe_capture pe)\<lparr>au_inspection_findings := findings\<rparr>
                          else pe_capture pe)
           in if blocked
              then (gateway_error env rd 502 ''Response blocked: contained restricted data''
                      (''The upstream response contained data classified as Restricted, which exceeds this session'' @
                       [CHR 39] @ ''s data sensitivity ceiling''),
                    finish env cfg rd (Some status) capture st)
              else (resp\<lparr>hs_headers := answer_headers env (pe_warnings pe) resp\<rparr>,
                    finish env cfg rd (Some status) capture st))"

fun handle_response ::
  "('b, 'd, 'r, 's, 'p, 'q) gateway_env \<Rightarrow> ('r, 's, 'q) gateway_config \<Rightarrow> readings \<Rightarrow> pending \<Rightarrow> upstream_outcome \<Rightarrow>
   ('b, 'd, 'p) gateway_state \<Rightarrow> http_response \<times> ('b, 'd, 'p) gateway_state" where
  "handle_response env cfg rd pe TimedOut st =
     (gateway_error env rd 504 ''Gateway Timeout''
        (''upstream did not respond within '' @ show_nat (unat (gc_upstream_timeout_secs cfg)) @ '' seconds''),
      finish env cfg rd None (pe_capture pe) st)"
| "handle_response env cfg rd pe UpstreamFailed st =
     (gateway_error env rd 502 ''Bad Gateway'' ''upstream server returned an error or is unreachable'',
      finish env cfg rd None (pe_capture pe) st)"
| "handle_response env cfg rd pe (UpstreamAnswer resp) st = handle_answer env cfg rd pe resp st"

end
