(* ===== verification/Lifecycle.thy ===== *)
theory Lifecycle
  imports Any_Registry Gateway Encryption
begin

text \<open>
  The administration API (\<open>crates/arbiter-lifecycle\<close>): tokens and the blocklist (\<open>token.rs\<close>), the
  rate limiter and the shared state (\<open>state.rs\<close>), and one definition per handler (\<open>api.rs\<close>). A
  request is what the extractors hand to the handler, an answer is a status and the body the handler
  serialises. Clock readings, fresh identifiers and the contents of the policy file are the record
  \<open>api_readings\<close>; libraries and storage backends are the record \<open>api_env\<close>. Log lines have no effect
  on an answer and are left out; the two gauges the handlers change are part of the state.
\<close>

section \<open>Tokens\<close>

record agent_token_claims =
  tk_sub :: string
  tk_agent_id :: string
  tk_iss :: string
  tk_iat :: int
  tk_exp :: int
  tk_jti :: string

record token_config =
  tc_signing_secret :: string
  tc_expiry_seconds :: int
  tc_issuer :: string

definition token_config_default :: token_config where
  "token_config_default = \<lparr>tc_signing_secret = [], tc_expiry_seconds = 3600, tc_issuer = ''arbiter''\<rparr>"

definition MIN_SIGNING_SECRET_LEN :: nat where
  "MIN_SIGNING_SECRET_LEN = 32"

definition MAX_TOKEN_EXPIRY_SECS :: int where
  "MAX_TOKEN_EXPIRY_SECS = 86400"

definition timestamp :: "instant \<Rightarrow> int" where
  "timestamp t = t div 1000000000"

definition issue_token ::
  "(string \<Rightarrow> agent_token_claims \<Rightarrow> (string, string) result) \<Rightarrow> (uuid \<Rightarrow> string) \<Rightarrow> instant \<Rightarrow> uuid \<Rightarrow>
   uuid \<Rightarrow> string \<Rightarrow> token_config \<Rightarrow> (string, string) result" where
  "issue_token encode us now jti agent_id owner config =
     (if length (tc_signing_secret config) < MIN_SIGNING_SECRET_LEN then Err ''InvalidKeyFormat''
      else case duration_seconds (min (tc_expiry_seconds config) MAX_TOKEN_EXPIRY_SECS) of
        None \<Rightarrow> Panic
      | Some d \<Rightarrow>
          encode (tc_signing_secret config)
            \<lparr>tk_sub = owner, tk_agent_id = us agent_id, tk_iss = tc_issuer config, tk_iat = timestamp now,
             tk_exp = timestamp (now + d), tk_jti = us jti\<rparr>)"

section \<open>Blocklist of token identifiers\<close>

record jti_blocklist =
  jb_revoked :: "(string \<times> int) list"

definition blocklist_new :: jti_blocklist where
  "blocklist_new = \<lparr>jb_revoked = []\<rparr>"

definition revoke :: "string \<Rightarrow> int \<Rightarrow> jti_blocklist \<Rightarrow> jti_blocklist" where
  "revoke jti expiry b = b\<lparr>jb_revoked := AList.update jti expiry (jb_revoked b)\<rparr>"

definition is_revoked :: "string \<Rightarrow> jti_blocklist \<Rightarrow> bool" where
  "is_revoked jti b \<longleftrightarrow> map_of (jb_revoked b) jti \<noteq> None"

definition blocklist_cleanup :: "instant \<Rightarrow> jti_blocklist \<Rightarrow> jti_blocklist" where
  "blocklist_cleanup now b = b\<lparr>jb_revoked := filter (\<lambda>e. snd e > timestamp now) (jb_revoked b)\<rparr>"

definition blocklist_len :: "jti_blocklist \<Rightarrow> nat" where
  "blocklist_len b = length (jb_revoked b)"

definition blocklist_is_empty :: "jti_blocklist \<Rightarrow> bool" where
  "blocklist_is_empty b \<longleftrightarrow> blocklist_len b = 0"

section \<open>Rate limiter\<close>

record admin_rate_limiter =
  rl_clients :: "(string \<times> instant list) list"
  rl_max_requests :: u64
  rl_window_duration :: span

definition limiter_new :: "u64 \<Rightarrow> span \<Rightarrow> admin_rate_limiter" where
  "limiter_new max_requests window_duration =
     \<lparr>rl_clients = [], rl_max_requests = max_requests, rl_window_duration = window_duration\<rparr>"

definition client_window :: "string \<Rightarrow> admin_rate_limiter \<Rightarrow> instant list" where
  "client_window key rl = (case map_of (rl_clients rl) key of Some w \<Rightarrow> w | None \<Rightarrow> [])"

text \<open>The difference of two monotonic instants is never negative.\<close>

definition evict :: "span \<Rightarrow> instant \<Rightarrow> instant list \<Rightarrow> instant list" where
  "evict d now w = dropWhile (\<lambda>front. max 0 (now - front) > d) w"

definition limiter_check :: "instant \<Rightarrow> string \<Rightarrow> admin_rate_limiter \<Rightarrow> bool \<times> admin_rate_limiter" where
  "limiter_check now key rl =
     (let w = evict (rl_window_duration rl) now (client_window key rl)
      in if (of_nat (length w) :: u64) \<ge> rl_max_requests rl
         then (False, rl\<lparr>rl_clients := AList.update key w (rl_clients rl)\<rparr>)
         else (True, rl\<lparr>rl_clients := AList.update key (w @ [now]) (rl_clients rl)\<rparr>))"

definition limiter_check_global :: "instant \<Rightarrow> admin_rate_limiter \<Rightarrow> bool \<times> admin_rate_limiter" where
  "limiter_check_global now rl = limiter_check now ''__global__'' rl"

section \<open>State\<close>

record ('b, 'd, 'r) api_env =
  le_sessions :: "'b session_storage"
  le_agents :: "'d agent_storage"
  le_text :: "'r text_env"
  le_parse_toml :: "string \<Rightarrow> ('r policy_config, string) result"
  le_uuid_to_string :: "uuid \<Rightarrow> string"
  le_encode :: "string \<Rightarrow> agent_token_claims \<Rightarrow> (string, string) result"
  le_to_str :: "string \<Rightarrow> string option"
  le_key_hash :: "string \<Rightarrow> string"
  le_percent :: "int \<Rightarrow> int \<Rightarrow> f64"

record app_config =
  ap_admin_api_key :: string
  ap_token_config :: token_config
  ap_policy_file_path :: "string option"
  ap_warning_threshold_pct :: f64
  ap_default_rate_limit_window_secs :: u64
  ap_max_concurrent_sessions_per_agent :: "u64 option"

record ('b, 'd, 'r) app_state =
  st_registry :: "'d any_registry"
  st_sessions :: "'b any_session_store"
  st_policy :: "'r policy_config option"
  st_audit_sink :: "audit_sink option"
  st_limiter :: admin_rate_limiter
  st_active_sessions :: int
  st_registered_agents :: int

record api_readings =
  ar_limiter :: instant
  ar_registry :: instant
  ar_now :: instant
  ar_token :: instant
  ar_new_id :: uuid
  ar_jti :: uuid
  ar_create1 :: instant
  ar_create2 :: instant
  ar_file :: "(string, string) result"

definition DEFAULT_ADMIN_MAX_REQUESTS_PER_MINUTE :: u64 where
  "DEFAULT_ADMIN_MAX_REQUESTS_PER_MINUTE = 60"

definition app_with_token_config ::
  "string \<Rightarrow> token_config \<Rightarrow> app_config \<times> ('b, 'd, 'r) app_state" where
  "app_with_token_config admin_api_key token_config =
     (\<lparr>ap_admin_api_key = admin_api_key, ap_token_config = token_config, ap_policy_file_path = None,
       ap_warning_threshold_pct = Fin 20, ap_default_rate_limit_window_secs = 60,
       ap_max_concurrent_sessions_per_agent = Some 10\<rparr>,
      \<lparr>st_registry = RegInMemory registry_new, st_sessions = InMemory store_new, st_policy = None,
       st_audit_sink = None,
       st_limiter = limiter_new DEFAULT_ADMIN_MAX_REQUESTS_PER_MINUTE (60 * 1000000000),
       st_active_sessions = 0, st_registered_agents = 0\<rparr>)"

definition app_new :: "string \<Rightarrow> app_config \<times> ('b, 'd, 'r) app_state" where
  "app_new admin_api_key = app_with_token_config admin_api_key token_config_default"

definition with_admin_rate_limit :: "u64 \<Rightarrow> ('b, 'd, 'r) app_state \<Rightarrow> ('b, 'd, 'r) app_state" where
  "with_admin_rate_limit max_requests st = st\<lparr>st_limiter := limiter_new max_requests (60 * 1000000000)\<rparr>"

section \<open>Requests and answers\<close>

text \<open>Fields with a serde default are optional in the request; the default functions fill them.\<close>

record register_agent_request =
  ra_owner :: string
  ra_model :: string
  ra_capabilities :: "string list option"
  ra_trust_level :: "trust_level option"
  ra_expires_at :: "instant option"

record delegate_request =
  dq_to :: uuid
  dq_scopes :: "string list"
  dq_expires_at :: "instant option"

record token_request =
  tq_expiry_seconds :: "int option"

record create_session_api_request =
  cs_agent_id :: uuid
  cs_delegation_chain_snapshot :: "string list option"
  cs_declared_intent :: string
  cs_authorized_tools :: "string list option"
  cs_authorized_credentials :: "string list option"
  cs_time_limit_secs :: "int option"
  cs_call_budget :: "u64 option"
  cs_rate_limit_per_minute :: "u64 option"
  cs_rate_limit_window_secs :: "u64 option"
  cs_data_sensitivity_ceiling :: "data_sensitivity option"

record policy_explain_request =
  pe_agent_id :: uuid
  pe_declared_intent :: string
  pe_tool :: string
  pe_arguments :: "json option"
  pe_principal :: "string option"

definition default_trust_level :: trust_level where
  "default_trust_level = Untrusted"

definition default_time_limit :: int where
  "default_time_limit = 3600"

definition default_call_budget :: u64 where
  "default_call_budget = 1000"

definition default_data_sensitivity :: data_sensitivity where
  "default_data_sensitivity = Internal"

definition or_default :: "'a \<Rightarrow> 'a option \<Rightarrow> 'a" where
  "or_default d v = (case v of Some x \<Rightarrow> x | None \<Rightarrow> d)"

record create_session_response =
  cn_session_id :: uuid
  cn_declared_intent :: string
  cn_authorized_tools :: "string list"
  cn_authorized_credentials :: "string list"
  cn_call_budget :: u64
  cn_time_limit_secs :: int

record session_status_response =
  sq_session_id :: uuid
  sq_agent_id :: uuid
  sq_status :: string
  sq_declared_intent :: string
  sq_authorized_tools :: "string list"
  sq_authorized_credentials :: "string list"
  sq_calls_made :: u64
  sq_call_budget :: u64
  sq_calls_remaining :: u64
  sq_rate_limit_per_minute :: "u64 option"
  sq_data_sensitivity_ceiling :: string
  sq_created_at :: instant
  sq_expires_at :: instant
  sq_seconds_remaining :: int
  sq_warnings :: "string list"

record session_close_response =
  sx_session_id :: uuid
  sx_status :: string
  sx_declared_intent :: string
  sx_total_calls :: u64
  sx_call_budget :: u64
  sx_budget_utilization_pct :: f64
  sx_time_used_secs :: int
  sx_time_limit_secs :: int
  sx_denied_attempts :: u64
  sx_anomalies_detected :: u64

record policy_explain_response =
  pr_decision :: string
  pr_matched_policy :: "string option"
  pr_reason :: "string option"
  pr_trace :: "policy_trace list"

datatype api_body =
    ErrorBody string
  | RegisteredBody uuid string
  | AgentBody agent
  | AgentsBody "agent list"
  | LinkBody delegation_link
  | DelegationsBody uuid "delegation_link list" "delegation_link list" nat nat
  | DeactivatedBody "uuid list" nat nat
  | TokenBody string int
  | CreatedBody create_session_response
  | StatusBody session_status_response
  | ClosedBody session_close_response
  | ExplainBody policy_explain_response
  | ValidationBody validation_result
  | ReloadedBody nat
  | SchemaBody

text \<open>A handler answers, unwinds, or never returns.\<close>

datatype api_outcome = Reply nat api_body | Aborted | NoReturn

abbreviation api_error :: "nat \<Rightarrow> string \<Rightarrow> api_outcome" where
  "api_error status msg \<equiv> Reply status (ErrorBody msg)"

section \<open>Rate limit and key\<close>

type_synonym headers = "(string \<times> string) list"

definition presented_key :: "('b, 'd, 'r) api_env \<Rightarrow> headers \<Rightarrow> string option" where
  "presented_key env hs = Option.bind (header_get ''x-api-key'' hs) (le_to_str env)"

definition client_key :: "('b, 'd, 'r) api_env \<Rightarrow> headers \<Rightarrow> string" where
  "client_key env hs =
     (case presented_key env hs of Some k \<Rightarrow> ''key:'' @ le_key_hash env k | None \<Rightarrow> ''__unauth__'')"

definition check_admin_rate_limit ::
  "('b, 'd, 'r) api_env \<Rightarrow> api_readings \<Rightarrow> headers \<Rightarrow> ('b, 'd, 'r) app_state \<Rightarrow>
   api_outcome option \<times> ('b, 'd, 'r) app_state" where
  "check_admin_rate_limit env rd hs st =
     (let (ok, rl) = limiter_check (ar_limiter rd) (client_key env hs) (st_limiter st)
      in (if ok then None else Some (api_error 429 ''admin API rate limit exceeded, try again later''),
          st\<lparr>st_limiter := rl\<rparr>))"

text \<open>The comparison is that of the request pipeline: padded to one length, then the lengths.\<close>

definition validate_admin_key ::
  "('b, 'd, 'r) api_env \<Rightarrow> headers \<Rightarrow> string \<Rightarrow> api_outcome option" where
  "validate_admin_key env hs expected =
     (case presented_key env hs of
        None \<Rightarrow> Some (api_error 401 ''missing x-api-key header'')
      | Some key \<Rightarrow> if \<not> constant_time_eq key expected then Some (api_error 401 ''invalid API key'') else None)"

text \<open>How every handler starts.\<close>

definition guarded ::
  "('b, 'd, 'r) api_env \<Rightarrow> app_config \<Rightarrow> api_readings \<Rightarrow> headers \<Rightarrow> ('b, 'd, 'r) app_state \<Rightarrow>
   (('b, 'd, 'r) app_state \<Rightarrow> api_outcome \<times> ('b, 'd, 'r) app_state) \<Rightarrow>
   api_outcome \<times> ('b, 'd, 'r) app_state" where
  "guarded env cfg rd hs st body =
     (case check_admin_rate_limit env rd hs st of
        (Some e, st) \<Rightarrow> (e, st)
      | (None, st) \<Rightarrow>
          (case validate_admin_key env hs (ap_admin_api_key cfg) of
             Some e \<Rightarrow> (e, st)
           | None \<Rightarrow> body st))"

section \<open>Agents\<close>

definition api_register_agent ::
  "('b, 'd, 'r) api_env \<Rightarrow> app_config \<Rightarrow> api_readings \<Rightarrow> headers \<Rightarrow> register_agent_request \<Rightarrow>
   ('b, 'd, 'r) app_state \<Rightarrow> api_outcome \<times> ('b, 'd, 'r) app_state" where
  "api_register_agent env cfg rd hs req st =
     guarded env cfg rd hs st (\<lambda>st.
       case anyreg_register_agent (le_agents env) (le_uuid_to_string env) (ar_new_id rd) (ar_registry rd)
              (ra_owner req) (ra_model req) (or_default [] (ra_capabilities req))
              (or_default default_trust_level (ra_trust_level req)) (ra_expires_at req) (st_registry st) of
         (Panic, rg) \<Rightarrow> (Aborted, st\<lparr>st_registry := rg\<rparr>)
       | (Err _, rg) \<Rightarrow> (api_error 500 ''internal error'', st\<lparr>st_registry := rg\<rparr>)
       | (Ok a, rg) \<Rightarrow>
           (case issue_token (le_encode env) (le_uuid_to_string env) (ar_token rd) (ar_jti rd) (ag_id a)
                   (ra_owner req) (ap_token_config cfg) of
              Panic \<Rightarrow> (Aborted, st\<lparr>st_registry := rg\<rparr>)
            | Err _ \<Rightarrow> (api_error 500 ''token issuance failed'', st\<lparr>st_registry := rg\<rparr>)
            | Ok token \<Rightarrow>
                (Reply 201 (RegisteredBody (ag_id a) token),
                 st\<lparr>st_registry := rg, st_registered_agents := st_registered_agents st + 1\<rparr>)))"

definition api_get_agent ::
  "('b, 'd, 'r) api_env \<Rightarrow> app_config \<Rightarrow> api_readings \<Rightarrow> headers \<Rightarrow> uuid \<Rightarrow>
   ('b, 'd, 'r) app_state \<Rightarrow> api_outcome \<times> ('b, 'd, 'r) app_state" where
  "api_get_agent env cfg rd hs i st =
     guarded env cfg rd hs st (\<lambda>st.
       let (r, rg) = anyreg_get_agent (le_agents env) (le_uuid_to_string env) (ar_registry rd) i (st_registry st)
       in (case r of
             Ok a \<Rightarrow> Reply 200 (AgentBody a)
           | Err _ \<Rightarrow> api_error 404 ''agent not found''
           | Panic \<Rightarrow> Aborted, st\<lparr>st_registry := rg\<rparr>))"

fun delegation_error_status :: "identity_error \<Rightarrow> nat" where
  "delegation_error_status (DelegationSourceNotFound _) = 404"
| "delegation_error_status (DelegationTargetNotFound _) = 404"
| "delegation_error_status (ScopeNarrowingViolation _) = 400"
| "delegation_error_status (DelegateFromDeactivated _) = 400"
| "delegation_error_status (CircularDelegation _ _) = 400"
| "delegation_error_status _ = 500"

definition api_delegate_agent ::
  "('b, 'd, 'r) api_env \<Rightarrow> app_config \<Rightarrow> api_readings \<Rightarrow> headers \<Rightarrow> uuid \<Rightarrow> delegate_request \<Rightarrow>
   ('b, 'd, 'r) app_state \<Rightarrow> api_outcome \<times> ('b, 'd, 'r) app_state" where
  "api_delegate_agent env cfg rd hs from_id req st =
     guarded env cfg rd hs st (\<lambda>st.
       case anyreg_create_delegation (le_agents env) (le_uuid_to_string env) (ar_registry rd) from_id (dq_to req)
              (dq_scopes req) (dq_expires_at req) (st_registry st) of
         None \<Rightarrow> (NoReturn, st)
       | Some (r, rg) \<Rightarrow>
           (case r of
              Ok link \<Rightarrow> Reply 201 (LinkBody link)
            | Err e \<Rightarrow> api_error (delegation_error_status e) ''internal error''
            | Panic \<Rightarrow> Aborted, st\<lparr>st_registry := rg\<rparr>))"

definition api_list_delegations ::
  "('b, 'd, 'r) api_env \<Rightarrow> app_config \<Rightarrow> api_readings \<Rightarrow> headers \<Rightarrow> uuid \<Rightarrow>
   ('b, 'd, 'r) app_state \<Rightarrow> api_outcome \<times> ('b, 'd, 'r) app_state" where
  "api_list_delegations env cfg rd hs i st =
     guarded env cfg rd hs st (\<lambda>st.
       let (r, rg) = anyreg_get_agent (le_agents env) (le_uuid_to_string env) (ar_registry rd) i (st_registry st)
       in case r of
            Err _ \<Rightarrow> (api_error 404 ''internal error'', st\<lparr>st_registry := rg\<rparr>)
          | Panic \<Rightarrow> (Aborted, st\<lparr>st_registry := rg\<rparr>)
          | Ok _ \<Rightarrow>
              let (outgoing, rg) = anyreg_list_delegations_from (le_agents env) i rg;
                  (incoming, rg) = anyreg_list_delegations_to (le_agents env) i rg
              in (case (outgoing, incoming) of
                    (Ok out_links, Ok in_links) \<Rightarrow>
                      Reply 200 (DelegationsBody i out_links in_links (length out_links) (length in_links))
                  | _ \<Rightarrow> Aborted, st\<lparr>st_registry := rg\<rparr>))"

fun deactivation_error_status :: "identity_error \<Rightarrow> nat" where
  "deactivation_error_status (AgentNotFound _) = 404"
| "deactivation_error_status (AgentDeactivated _) = 409"
| "deactivation_error_status _ = 500"

text \<open>Closing the sessions of every deactivated agent, in the order of the list.\<close>

fun close_all ::
  "'b session_storage \<Rightarrow> uuid list \<Rightarrow> 'b any_session_store \<Rightarrow> nat \<times> 'b any_session_store" where
  "close_all ops [] ss = (0, ss)"
| "close_all ops (a # as) ss =
     (let (closed, ss) = any_close_sessions_for_agent ops a ss;
          (rest, ss) = close_all ops as ss
      in (closed + rest, ss))"

definition api_deactivate_agent ::
  "('b, 'd, 'r) api_env \<Rightarrow> app_config \<Rightarrow> api_readings \<Rightarrow> headers \<Rightarrow> uuid \<Rightarrow>
   ('b, 'd, 'r) app_state \<Rightarrow> api_outcome \<times> ('b, 'd, 'r) app_state" where
  "api_deactivate_agent env cfg rd hs i st =
     guarded env cfg rd hs st (\<lambda>st.
       case anyreg_cascade_deactivate (le_agents env) (le_uuid_to_string env) i (st_registry st) of
         None \<Rightarrow> (NoReturn, st)
       | Some (Panic, rg) \<Rightarrow> (Aborted, st\<lparr>st_registry := rg\<rparr>)
       | Some (Err e, rg) \<Rightarrow>
           (api_error (deactivation_error_status e) ''internal error'', st\<lparr>st_registry := rg\<rparr>)
       | Some (Ok deactivated, rg) \<Rightarrow>
           (let (total_sessions_closed, ss) = close_all (le_sessions env) deactivated (st_sessions st)
            in (Reply 200 (DeactivatedBody deactivated (length deactivated) total_sessions_closed),
                st\<lparr>st_registry := rg, st_sessions := ss,
                   st_registered_agents := st_registered_agents st - int (length deactivated)\<rparr>)))"

definition api_issue_agent_token ::
  "('b, 'd, 'r) api_env \<Rightarrow> app_config \<Rightarrow> api_readings \<Rightarrow> headers \<Rightarrow> uuid \<Rightarrow> token_request option \<Rightarrow>
   ('b, 'd, 'r) app_state \<Rightarrow> api_outcome \<times> ('b, 'd, 'r) app_state" where
  "api_issue_agent_token env cfg rd hs i body st =
     guarded env cfg rd hs st (\<lambda>st.
       let (r, rg) = anyreg_get_agent (le_agents env) (le_uuid_to_string env) (ar_registry rd) i (st_registry st)
       in (case r of
             Err _ \<Rightarrow> api_error 404 ''internal error''
           | Panic \<Rightarrow> Aborted
           | Ok a \<Rightarrow>
               if \<not> ag_active a
               then api_error 400 (''agent '' @ le_uuid_to_string env i @ '' is deactivated'')
               else let expiry = Option.bind body tq_expiry_seconds in
               if (case expiry of Some e \<Rightarrow> e \<le> 0 | None \<Rightarrow> False) then api_error 400 ''expiry_seconds must be positive''
               else let config = (case expiry of
                                    Some e \<Rightarrow> (ap_token_config cfg)\<lparr>tc_expiry_seconds := e\<rparr>
                                  | None \<Rightarrow> ap_token_config cfg)
                    in case issue_token (le_encode env) (le_uuid_to_string env) (ar_token rd) (ar_jti rd)
                              (ag_id a) (ag_owner a) config of
                         Ok token \<Rightarrow> Reply 200 (TokenBody token (tc_expiry_seconds config))
                       | Err _ \<Rightarrow> api_error 500 ''token issuance failed''
                       | Panic \<Rightarrow> Aborted, st\<lparr>st_registry := rg\<rparr>))"

definition api_list_agents ::
  "('b, 'd, 'r) api_env \<Rightarrow> app_config \<Rightarrow> api_readings \<Rightarrow> headers \<Rightarrow>
   ('b, 'd, 'r) app_state \<Rightarrow> api_outcome \<times> ('b, 'd, 'r) app_state" where
  "api_list_agents env cfg rd hs st =
     guarded env cfg rd hs st (\<lambda>st.
       let (r, rg) = anyreg_list_agents (le_agents env) (ar_registry rd) (st_registry st)
       in (case r of Ok as \<Rightarrow> Reply 200 (AgentsBody as) | _ \<Rightarrow> Aborted, st\<lparr>st_registry := rg\<rparr>))"

section \<open>Sessions\<close>

definition MAX_INTENT_LEN :: nat where
  "MAX_INTENT_LEN = 512"

text \<open>The checks of \<open>create_session\<close> on the agent, on the cap and on the parameters, in order.\<close>

definition agent_refusal ::
  "('b, 'd, 'r) api_env \<Rightarrow> api_readings \<Rightarrow> uuid \<Rightarrow> (agent, identity_error) result \<Rightarrow> api_outcome option" where
  "agent_refusal env rd i r =
     (let name = ''agent '' @ le_uuid_to_string env i
      in case r of
           Panic \<Rightarrow> Some Aborted
         | Err _ \<Rightarrow> Some (api_error 404 (name @ '' not found''))
         | Ok a \<Rightarrow>
             if \<not> ag_active a then Some (api_error 400 (name @ '' is deactivated''))
             else (case ag_expires_at a of
               Some e \<Rightarrow> if e < ar_now rd then Some (api_error 400 (name @ '' has expired'')) else None
             | None \<Rightarrow> None))"

definition cap_refusal ::
  "('b, 'd, 'r) api_env \<Rightarrow> app_config \<Rightarrow> uuid \<Rightarrow> 'b any_session_store \<Rightarrow> api_outcome option" where
  "cap_refusal env cfg i ss =
     (case ap_max_concurrent_sessions_per_agent cfg of
        None \<Rightarrow> None
      | Some max_sessions \<Rightarrow>
          let active_count = any_count_active_for_agent i ss
          in if active_count \<ge> max_sessions
             then Some (api_error 429 (''agent '' @ le_uuid_to_string env i @ '' has too many concurrent sessions ('' @
                    show_int (uint active_count) @ ''/'' @ show_int (uint max_sessions) @ '')''))
             else None)"

definition window_refusal :: "u64 option \<Rightarrow> api_outcome option" where
  "window_refusal w =
     (case w of
        None \<Rightarrow> None
      | Some window \<Rightarrow>
          if window = 0 then Some (api_error 400 ''rate_limit_window_secs must be positive'')
          else if window < 10 then Some (api_error 400 ''rate_limit_window_secs must be at least 10 seconds'')
          else if window > 3600 then Some (api_error 400 ''rate_limit_window_secs cannot exceed 3600 (1 hour)'')
          else None)"

definition parameter_refusal :: "create_session_api_request \<Rightarrow> api_outcome option" where
  "parameter_refusal req =
     (let time_limit_secs = or_default default_time_limit (cs_time_limit_secs req);
          call_budget = or_default default_call_budget (cs_call_budget req)
      in if time_limit_secs \<le> 0 then Some (api_error 400 ''time_limit_secs must be positive'')
         else if time_limit_secs > 86400
         then Some (api_error 400 ''time_limit_secs cannot exceed 86400 (24 hours)'')
         else if call_budget = 0 then Some (api_error 400 ''call_budget must be positive'')
         else if call_budget > 1000000 then Some (api_error 400 ''call_budget cannot exceed 1000000'')
         else if str_trim (cs_declared_intent req) = []
         then Some (api_error 400 ''declared_intent must not be empty'')
         else if length (cs_declared_intent req) > MAX_INTENT_LEN
         then Some (api_error 400 ''declared_intent exceeds maximum length of 512 bytes'')
         else window_refusal (cs_rate_limit_window_secs req))"

definition session_admission ::
  "('b, 'd, 'r) api_env \<Rightarrow> app_config \<Rightarrow> api_readings \<Rightarrow> create_session_api_request \<Rightarrow>
   ('b, 'd, 'r) app_state \<Rightarrow> api_outcome option \<times> ('b, 'd, 'r) app_state" where
  "session_admission env cfg rd req st =
     (let i = cs_agent_id req;
          (r, rg) = anyreg_get_agent (le_agents env) (le_uuid_to_string env) (ar_registry rd) i (st_registry st);
          st = st\<lparr>st_registry := rg\<rparr>
      in case agent_refusal env rd i r of
           Some e \<Rightarrow> (Some e, st)
         | None \<Rightarrow>
             (case cap_refusal env cfg i (st_sessions st) of
                Some e \<Rightarrow> (Some e, st)
              | None \<Rightarrow> (parameter_refusal req, st)))"

definition session_request :: "app_config \<Rightarrow> create_session_api_request \<Rightarrow> create_session_request option" where
  "session_request cfg req =
     map_option (\<lambda>time_limit.
       \<lparr>csr_agent_id = cs_agent_id req,
        csr_delegation_chain_snapshot = or_default [] (cs_delegation_chain_snapshot req),
        csr_declared_intent = cs_declared_intent req,
        csr_authorized_tools = or_default [] (cs_authorized_tools req),
        csr_authorized_credentials = or_default [] (cs_authorized_credentials req),
        csr_time_limit = time_limit,
        csr_call_budget = or_default default_call_budget (cs_call_budget req),
        csr_rate_limit_per_minute = cs_rate_limit_per_minute req,
        csr_rate_limit_window_secs =
          or_default (ap_default_rate_limit_window_secs cfg) (cs_rate_limit_window_secs req),
        csr_data_sensitivity_ceiling =
          or_default default_data_sensitivity (cs_data_sensitivity_ceiling req)\<rparr>)
     (duration_seconds (or_default default_time_limit (cs_time_limit_secs req)))"

definition session_commit ::
  "('b, 'd, 'r) api_env \<Rightarrow> app_config \<Rightarrow> api_readings \<Rightarrow> create_session_api_request \<Rightarrow>
   ('b, 'd, 'r) app_state \<Rightarrow> api_outcome \<times> ('b, 'd, 'r) app_state" where
  "session_commit env cfg rd req st =
     (case session_request cfg req of
        None \<Rightarrow> (Aborted, st)
      | Some create_req \<Rightarrow>
          (let (s, ss) = any_create (le_sessions env) (ar_new_id rd) (ar_create1 rd) (ar_create2 rd) create_req
                           (st_sessions st)
           in (Reply 201 (CreatedBody
                 \<lparr>cn_session_id = ts_session_id s, cn_declared_intent = ts_declared_intent s,
                  cn_authorized_tools = ts_authorized_tools s,
                  cn_authorized_credentials = ts_authorized_credentials s,
                  cn_call_budget = ts_call_budget s,
                  cn_time_limit_secs = or_default default_time_limit (cs_time_limit_secs req)\<rparr>),
               st\<lparr>st_sessions := ss, st_active_sessions := st_active_sessions st + 1\<rparr>)))"

definition api_create_session ::
  "('b, 'd, 'r) api_env \<Rightarrow> app_config \<Rightarrow> api_readings \<Rightarrow> headers \<Rightarrow> create_session_api_request \<Rightarrow>
   ('b, 'd, 'r) app_state \<Rightarrow> api_outcome \<times> ('b, 'd, 'r) app_state" where
  "api_create_session env cfg rd hs req st =
     guarded env cfg rd hs st (\<lambda>st.
       case session_admission env cfg rd req st of
         (Some e, st) \<Rightarrow> (e, st)
       | (None, st) \<Rightarrow> session_commit env cfg rd req st)"

fun session_status_name :: "session_status \<Rightarrow> string" where
  "session_status_name StActive = ''active''"
| "session_status_name StClosed = ''closed''"
| "session_status_name StExpired = ''expired''"

fun data_sensitivity_name :: "data_sensitivity \<Rightarrow> string" where
  "data_sensitivity_name Public = ''public''"
| "data_sensitivity_name Internal = ''internal''"
| "data_sensitivity_name Confidential = ''confidential''"
| "data_sensitivity_name Restricted = ''restricted''"

definition status_warnings ::
  "('b, 'd, 'r) api_env \<Rightarrow> app_config \<Rightarrow> u64 \<Rightarrow> int \<Rightarrow> task_session \<Rightarrow> string list" where
  "status_warnings env cfg calls_remaining seconds_remaining s =
     (let budget_pct_remaining = (if ts_call_budget s > 0
            then le_percent env (uint calls_remaining) (uint (ts_call_budget s)) else Fin 0);
          time_pct_remaining = (if num_seconds (ts_time_limit s) > 0
            then le_percent env seconds_remaining (num_seconds (ts_time_limit s)) else Fin 0)
      in (if f64_less_eq budget_pct_remaining (ap_warning_threshold_pct cfg) \<and> ts_call_budget s > 0
          then [''budget low: '' @ show_int (uint calls_remaining) @ '' of '' @ show_int (uint (ts_call_budget s)) @
                '' calls remaining''] else []) @
         (if f64_less_eq time_pct_remaining (ap_warning_threshold_pct cfg) \<and> seconds_remaining > 0
          then [''time low: '' @ show_int seconds_remaining @ ''s remaining''] else []))"

definition api_get_session ::
  "('b, 'd, 'r) api_env \<Rightarrow> app_config \<Rightarrow> api_readings \<Rightarrow> headers \<Rightarrow> uuid \<Rightarrow>
   ('b, 'd, 'r) app_state \<Rightarrow> api_outcome \<times> ('b, 'd, 'r) app_state" where
  "api_get_session env cfg rd hs i st =
     guarded env cfg rd hs st (\<lambda>st.
       (case any_get i (st_sessions st) of
          Ok s \<Rightarrow>
            (let expires_at = ts_created_at s + ts_time_limit s;
                 seconds_remaining = max (num_seconds (expires_at - ar_now rd)) 0;
                 calls_remaining = saturating_sub (ts_call_budget s) (ts_calls_made s)
             in Reply 200 (StatusBody
                  \<lparr>sq_session_id = ts_session_id s, sq_agent_id = ts_agent_id s,
                   sq_status = session_status_name (ts_status s), sq_declared_intent = ts_declared_intent s,
                   sq_authorized_tools = ts_authorized_tools s,
                   sq_authorized_credentials = ts_authorized_credentials s, sq_calls_made = ts_calls_made s,
                   sq_call_budget = ts_call_budget s, sq_calls_remaining = calls_remaining,
                   sq_rate_limit_per_minute = ts_rate_limit_per_minute s,
                   sq_data_sensitivity_ceiling = data_sensitivity_name (ts_data_sensitivity_ceiling s),
                   sq_created_at = ts_created_at s, sq_expires_at = expires_at,
                   sq_seconds_remaining = seconds_remaining,
                   sq_warnings = status_warnings env cfg calls_remaining seconds_remaining s\<rparr>))
        | _ \<Rightarrow> api_error 404 ''internal error'', st))"

fun close_error_status :: "session_error \<Rightarrow> nat" where
  "close_error_status (SessNotFound _) = 404"
| "close_error_status (AlreadyClosed _) = 409"
| "close_error_status _ = 500"

text \<open>The audit statistics of a session are read and dropped when it is closed.\<close>

definition take_stats :: "string \<Rightarrow> audit_sink option \<Rightarrow> (u64 \<times> u64) \<times> audit_sink option" where
  "take_stats sid sink =
     (case sink of
        None \<Rightarrow> ((0, 0), None)
      | Some s \<Rightarrow>
          (let c = stats_for_session sid (as_stats s)
           in ((sc_denied c, sc_anomalies c),
               Some (s\<lparr>as_stats := stats_remove_session sid (as_stats s)\<rparr>))))"

definition api_close_session ::
  "('b, 'd, 'r) api_env \<Rightarrow> app_config \<Rightarrow> api_readings \<Rightarrow> headers \<Rightarrow> uuid \<Rightarrow>
   ('b, 'd, 'r) app_state \<Rightarrow> api_outcome \<times> ('b, 'd, 'r) app_state" where
  "api_close_session env cfg rd hs i st =
     guarded env cfg rd hs st (\<lambda>st.
       case any_close (le_sessions env) i (st_sessions st) of
         (Panic, ss) \<Rightarrow> (Aborted, st\<lparr>st_sessions := ss\<rparr>)
       | (Err e, ss) \<Rightarrow> (api_error (close_error_status e) ''internal error'', st\<lparr>st_sessions := ss\<rparr>)
       | (Ok s, ss) \<Rightarrow>
           (let ((denied, anomalies), sink) = take_stats (le_uuid_to_string env i) (st_audit_sink st)
            in (Reply 200 (ClosedBody
                  \<lparr>sx_session_id = ts_session_id s, sx_status = ''closed'',
                   sx_declared_intent = ts_declared_intent s, sx_total_calls = ts_calls_made s,
                   sx_call_budget = ts_call_budget s,
                   sx_budget_utilization_pct = (if ts_call_budget s > 0
                     then le_percent env (uint (ts_calls_made s)) (uint (ts_call_budget s)) else Fin 0),
                   sx_time_used_secs = num_seconds (ar_now rd - ts_created_at s),
                   sx_time_limit_secs = num_seconds (ts_time_limit s),
                   sx_denied_attempts = denied, sx_anomalies_detected = anomalies\<rparr>),
                st\<lparr>st_sessions := ss, st_audit_sink := sink,
                   st_active_sessions := st_active_sessions st - 1\<rparr>)))"

section \<open>Policies\<close>

fun identity_error_display :: "(uuid \<Rightarrow> string) \<Rightarrow> identity_error \<Rightarrow> string" where
  "identity_error_display us (AgentNotFound i) = ''agent not found: '' @ us i"
| "identity_error_display us (AgentDeactivated i) = ''agent already deactivated: '' @ us i"
| "identity_error_display us (DelegationSourceNotFound i) = ''delegation source agent not found: '' @ us i"
| "identity_error_display us (DelegationTargetNotFound i) = ''delegation target agent not found: '' @ us i"
| "identity_error_display us (ScopeNarrowingViolation s) =
     ''scope narrowing violation: child requested scope '' @ quoted s @ '' not held by parent''"
| "identity_error_display us (ChainExpired f t) =
     ''delegation chain expired at link from '' @ us f @ '' to '' @ us t"
| "identity_error_display us (ChainBroken i) = ''delegation chain broken: no link found for agent '' @ us i"
| "identity_error_display us (AgentExpired i) = ''agent expired: '' @ us i"
| "identity_error_display us (DelegateFromDeactivated i) = ''cannot delegate from deactivated agent: '' @ us i"
| "identity_error_display us (CircularDelegation f t) =
     ''circular delegation detected: '' @ us f @ '' -> '' @ us t @ '' would create a cycle''"
| "identity_error_display us (CrossOwnerDelegation f t fo ow) =
     ''cross-owner delegation denied: '' @ us f @ '' (owner: '' @ fo @ '') -> '' @ us t @ '' (owner: '' @ ow @ '')''"
| "identity_error_display us (InternalError e) = ''internal storage error: '' @ e"

fun explained_decision :: "decision \<Rightarrow> string \<times> string option \<times> string option" where
  "explained_decision (Allow pid) = (''allow'', Some pid, None)"
| "explained_decision (Deny reason) = (''deny'', None, Some reason)"
| "explained_decision (Escalate reason) = (''escalate'', None, Some reason)"
| "explained_decision (Annotate pid reason) = (''annotate'', Some pid, Some reason)"

definition api_explain_policy ::
  "('b, 'd, 'r) api_env \<Rightarrow> app_config \<Rightarrow> api_readings \<Rightarrow> headers \<Rightarrow> policy_explain_request \<Rightarrow>
   ('b, 'd, 'r) app_state \<Rightarrow> api_outcome \<times> ('b, 'd, 'r) app_state" where
  "api_explain_policy env cfg rd hs req st =
     guarded env cfg rd hs st (\<lambda>st.
       case st_policy st of
         None \<Rightarrow>
           (Reply 200 (ExplainBody \<lparr>pr_decision = ''allow'', pr_matched_policy = None,
              pr_reason = Some ''no policies configured'', pr_trace = []\<rparr>), st)
       | Some policy_config \<Rightarrow>
           (let (r, rg) = anyreg_get_agent (le_agents env) (le_uuid_to_string env) (ar_registry rd)
                            (pe_agent_id req) (st_registry st)
            in (case r of
                  Panic \<Rightarrow> Aborted
                | Err e \<Rightarrow> api_error 404 (''agent not found: '' @ identity_error_display (le_uuid_to_string env) e)
                | Ok a \<Rightarrow>
                    (let ctx = \<lparr>ec_agent = a, ec_delegation_chain = [], ec_declared_intent = pe_declared_intent req,
                                ec_principal_sub = or_default (ag_owner a) (pe_principal req),
                                ec_principal_groups = []\<rparr>;
                         mcp_req = \<lparr>mr_id = None, mr_method = ''tools/call'', mr_tool_name = Some (pe_tool req),
                                    mr_arguments = pe_arguments req, mr_resource_uri = None\<rparr>;
                         res = evaluate_explained (le_text env) (le_uuid_to_string env) (ar_now rd) policy_config
                                 ctx mcp_req;
                         (decision, matched_policy, reason) = explained_decision (er_decision res)
                     in Reply 200 (ExplainBody \<lparr>pr_decision = decision, pr_matched_policy = matched_policy,
                          pr_reason = reason, pr_trace = er_trace res\<rparr>)), st\<lparr>st_registry := rg\<rparr>)))"

definition api_validate_policy ::
  "('b, 'd, 'r) api_env \<Rightarrow> app_config \<Rightarrow> api_readings \<Rightarrow> headers \<Rightarrow> string \<Rightarrow>
   ('b, 'd, 'r) app_state \<Rightarrow> api_outcome \<times> ('b, 'd, 'r) app_state" where
  "api_validate_policy env cfg rd hs policy_toml st =
     guarded env cfg rd hs st (\<lambda>st.
       (case validate_toml (le_text env) (le_parse_toml env) policy_toml of
          Ok v \<Rightarrow> Reply 200 (ValidationBody v) | _ \<Rightarrow> Aborted, st))"

definition api_reload_policy ::
  "('b, 'd, 'r) api_env \<Rightarrow> app_config \<Rightarrow> api_readings \<Rightarrow> headers \<Rightarrow>
   ('b, 'd, 'r) app_state \<Rightarrow> api_outcome \<times> ('b, 'd, 'r) app_state" where
  "api_reload_policy env cfg rd hs st =
     guarded env cfg rd hs st (\<lambda>st.
       case ap_policy_file_path cfg of
         None \<Rightarrow> (api_error 400 ''no policy file configured; policies are inline or absent'', st)
       | Some _ \<Rightarrow>
           (case ar_file rd of
              Err _ \<Rightarrow> (api_error 500 ''failed to read policy file'', st)
            | Panic \<Rightarrow> (Aborted, st)
            | Ok contents \<Rightarrow>
                (case from_toml (le_text env) (le_parse_toml env) contents of
                   Err _ \<Rightarrow> (api_error 400 ''failed to parse policy file'', st)
                 | Panic \<Rightarrow> (Aborted, st)
                 | Ok new_config \<Rightarrow>
                     (Reply 200 (ReloadedBody (length (cfg_policies new_config))),
                      st\<lparr>st_policy := Some new_config\<rparr>))))"

text \<open>The schema document itself is a constant text and is not reproduced.\<close>

definition api_policy_schema ::
  "('b, 'd, 'r) api_env \<Rightarrow> app_config \<Rightarrow> api_readings \<Rightarrow> headers \<Rightarrow>
   ('b, 'd, 'r) app_state \<Rightarrow> api_outcome \<times> ('b, 'd, 'r) app_state" where
  "api_policy_schema env cfg rd hs st = guarded env cfg rd hs st (\<lambda>st. (Reply 200 SchemaBody, st))"

section \<open>Routes\<close>

datatype api_call =
    RegisterAgent register_agent_request
  | ListAgents
  | GetAgent uuid
  | DeactivateAgent uuid
  | DelegateAgent uuid delegate_request
  | ListDelegations uuid
  | IssueAgentToken uuid "token_request option"
  | CreateSession create_session_api_request
  | GetSession uuid
  | CloseSession uuid
  | ExplainPolicy policy_explain_request
  | ValidatePolicy string
  | ReloadPolicy
  | PolicySchema

text \<open>The method and the paths of every call, in the order of the router.\<close>

definition route :: "api_call \<Rightarrow> string \<times> string list" where
  "route c =
     (case c of
        RegisterAgent _ \<Rightarrow> (''POST'', [''/agents''])
      | ListAgents \<Rightarrow> (''GET'', [''/agents''])
      | GetAgent _ \<Rightarrow> (''GET'', [''/agents/{id}''])
      | DeactivateAgent _ \<Rightarrow> (''DELETE'', [''/agents/{id}''])
      | DelegateAgent _ _ \<Rightarrow> (''POST'', [''/agents/{id}/delegate''])
      | ListDelegations _ \<Rightarrow> (''GET'', [''/agents/{id}/delegations''])
      | IssueAgentToken _ _ \<Rightarrow> (''POST'', [''/agents/{id}/token''])
      | CreateSession _ \<Rightarrow> (''POST'', [''/sessions''])
      | GetSession _ \<Rightarrow> (''GET'', [''/sessions/{id}''])
      | CloseSession _ \<Rightarrow> (''POST'', [''/sessions/{id}/close''])
      | ExplainPolicy _ \<Rightarrow> (''POST'', [''/policy/explain''])
      | ValidatePolicy _ \<Rightarrow> (''POST'', [''/policy/validate''])
      | ReloadPolicy \<Rightarrow> (''POST'', [''/policy/reload'', ''/admin/policies/reload''])
      | PolicySchema \<Rightarrow> (''GET'', [''/policy/schema'']))"

fun api_handle ::
  "('b, 'd, 'r) api_env \<Rightarrow> app_config \<Rightarrow> api_readings \<Rightarrow> headers \<Rightarrow> api_call \<Rightarrow>
   ('b, 'd, 'r) app_state \<Rightarrow> api_outcome \<times> ('b, 'd, 'r) app_state" where
  "api_handle env cfg rd hs (RegisterAgent req) st = api_register_agent env cfg rd hs req st"
| "api_handle env cfg rd hs ListAgents st = api_list_agents env cfg rd hs st"
| "api_handle env cfg rd hs (GetAgent i) st = api_get_agent env cfg rd hs i st"
| "api_handle env cfg rd hs (DeactivateAgent i) st = api_deactivate_agent env cfg rd hs i st"
| "api_handle env cfg rd hs (DelegateAgent i req) st = api_delegate_agent env cfg rd hs i req st"
| "api_handle env cfg rd hs (ListDelegations i) st = api_list_delegations env cfg rd hs i st"
| "api_handle env cfg rd hs (IssueAgentToken i body) st = api_issue_agent_token env cfg rd hs i body st"
| "api_handle env cfg rd hs (CreateSession req) st = api_create_session env cfg rd hs req st"
| "api_handle env cfg rd hs (GetSession i) st = api_get_session env cfg rd hs i st"
| "api_handle env cfg rd hs (CloseSession i) st = api_close_session env cfg rd hs i st"
| "api_handle env cfg rd hs (ExplainPolicy req) st = api_explain_policy env cfg rd hs req st"
| "api_handle env cfg rd hs (ValidatePolicy toml) st = api_validate_policy env cfg rd hs toml st"
| "api_handle env cfg rd hs ReloadPolicy st = api_reload_policy env cfg rd hs st"
| "api_handle env cfg rd hs PolicySchema st = api_policy_schema env cfg rd hs st"

end
