(* ===== verification/Policy_Props.thy ===== *)
theory Policy_Props
  imports Policy_Eval
begin

text \<open>
  What policy evaluation guarantees: which rule decides, what an \<open>Allow\<close> rests on, that
  compiled and uncompiled rules decide alike, what a compiled configuration satisfies, and that
  a bad reload changes nothing.
\<close>

section \<open>Choosing the rule\<close>

text \<open>A stable sort starts with the first of the least elements.\<close>

lemma sort_key_first:
  assumes "sort_key f xs = x # rest"
  shows "\<exists>us vs. xs = us @ x # vs \<and> (\<forall>u \<in> set us. f x < f u) \<and> (\<forall>v \<in> set vs. f x \<le> f v)"
  using assms
proof (induction xs arbitrary: x rest)
  case (Cons a xs)
  show ?case
  proof (cases "sort_key f xs")
    case Nil
    then have "xs = []" by (metis set_empty set_sort)
    then show ?thesis using Cons.prems by (intro exI [of _ "[]"]) auto
  next
    case (Cons y ys)
    note tail = this
    show ?thesis
    proof (cases "f a \<le> f y")
      case True
      have "f y \<le> f z" if "z \<in> set xs" for z
        using sorted_sort_key [of f xs] tail that set_sort [of f xs] by auto
      then have "\<forall>z \<in> set xs. f a \<le> f z" using True by fastforce
      then show ?thesis
        using Cons.prems tail True by (intro exI [of _ "[]"] exI [of _ xs]) auto
    next
      case False
      then have "x = y" using Cons.prems tail by simp
      then obtain us vs where "xs = us @ x # vs"
        "\<forall>u \<in> set us. f x < f u" "\<forall>v \<in> set vs. f x \<le> f v"
        using Cons.IH [OF tail] by blast
      then show ?thesis
        using False \<open>x = y\<close> by (intro exI [of _ "a # us"] exI [of _ vs]) auto
    qed
  qed
qed simp

lemma filter_split:
  "filter P xs = us' @ x # vs' \<Longrightarrow>
   \<exists>us vs. xs = us @ x # vs \<and> filter P us = us' \<and> P x \<and> filter P vs = vs'"
proof (induction xs arbitrary: us')
  case (Cons a xs)
  show ?case
  proof (cases "P a \<and> us' = []")
    case True
    with Cons.prems show ?thesis by (intro exI [of _ "[]"] exI [of _ xs]) auto
  next
    case False
    define ws where "ws = (if P a then tl us' else us')"
    have "filter P xs = ws @ x # vs'" using Cons.prems False by (cases us') (auto simp: ws_def split: if_splits)
    then obtain us vs where "xs = us @ x # vs" "filter P us = ws" "P x" "filter P vs = vs'"
      using Cons.IH by blast
    then show ?thesis using Cons.prems False
      by (intro exI [of _ "a # us"] exI [of _ vs]) (cases us'; auto simp: ws_def split: if_splits)
  qed
qed simp

definition policy_matches :: "'r text_env \<Rightarrow> eval_context \<Rightarrow> mcp_request \<Rightarrow> 'r policy \<Rightarrow> bool" where
  "policy_matches env ctx req p \<longleftrightarrow> explain_mismatch env p ctx req = None"

lemma collect_matching_eq:
  "collect_matching env us now ctx req ps =
     (map (\<lambda>p. (p, specificity p)) (filter (policy_matches env ctx req) ps),
      map (trace_entry env us now ctx req) ps)"
  by (induction ps) (simp_all add: policy_matches_def Let_def)

lemma by_specificity_map:
  "by_specificity (map (\<lambda>p. (p, specificity p)) ps) =
   map (\<lambda>p. (p, specificity p)) (sort_key (\<lambda>p. - sint (specificity p)) ps)"
proof -
  have insort: "insort_key (\<lambda>e. - sint (snd e)) (a, specificity a) (map (\<lambda>p. (p, specificity p)) qs) =
      map (\<lambda>p. (p, specificity p)) (insort_key (\<lambda>p. - sint (specificity p)) a qs)" for a qs
    by (induction qs) auto
  show ?thesis unfolding by_specificity_def by (induction ps) (simp_all add: insort)
qed

definition in_delegated_scope :: "eval_context \<Rightarrow> mcp_request \<Rightarrow> bool" where
  "in_delegated_scope ctx req \<longleftrightarrow>
     (\<forall>l \<in> set (ec_delegation_chain ctx).
        dl_scope_narrowing l = [] \<or> requested_tool req \<in> set (dl_scope_narrowing l))"

lemma evaluate_eq:
  "evaluate env us now cfg ctx req =
     (if \<not> in_delegated_scope ctx req
      then Deny (''tool '' @ quoted (requested_tool req) @ '' not in delegation scope narrowing'')
      else case sort_key (\<lambda>p. - sint (specificity p)) (filter (policy_matches env ctx req) (cfg_policies cfg)) of
             p # _ \<Rightarrow> decision_of p
           | [] \<Rightarrow> Deny ''no matching policy found (deny-by-default)'')"
proof -
  have scope: "find (outside_scope (requested_tool req)) (ec_delegation_chain ctx) = None \<longleftrightarrow>
      in_delegated_scope ctx req"
    by (auto simp: find_None_iff outside_scope_def in_delegated_scope_def list_ex_iff)
  show ?thesis
  proof (cases "in_delegated_scope ctx req")
    case True
    with scope show ?thesis
      by (auto simp: evaluate_def evaluate_explained_def collect_matching_eq by_specificity_map
          split: list.splits)
  next
    case False
    with scope obtain l where "find (outside_scope (requested_tool req)) (ec_delegation_chain ctx) = Some l"
      by auto
    with False show ?thesis
      by (simp add: evaluate_def evaluate_explained_def collect_matching_eq)
  qed
qed

lemma evaluate_chosen:
  assumes "in_delegated_scope ctx req" and "\<exists>p \<in> set (cfg_policies cfg). policy_matches env ctx req p"
  shows "\<exists>us p vs. cfg_policies cfg = us @ p # vs \<and> policy_matches env ctx req p \<and>
    (\<forall>q \<in> set us. policy_matches env ctx req q \<longrightarrow> sint (specificity q) < sint (specificity p)) \<and>
    (\<forall>q \<in> set vs. policy_matches env ctx req q \<longrightarrow> sint (specificity q) \<le> sint (specificity p)) \<and>
    evaluate env uuid_to_string now cfg ctx req = decision_of p"
proof -
  let ?ms = "filter (policy_matches env ctx req) (cfg_policies cfg)"
  have "set (sort_key (\<lambda>p. - sint (specificity p)) ?ms) \<noteq> {}" using assms(2) by auto
  then obtain p rest where srt: "sort_key (\<lambda>p. - sint (specificity p)) ?ms = p # rest"
    by (cases "sort_key (\<lambda>p. - sint (specificity p)) ?ms") auto
  obtain us' vs' where split: "?ms = us' @ p # vs'"
    and us': "\<forall>u \<in> set us'. - sint (specificity p) < - sint (specificity u)"
    and vs': "\<forall>v \<in> set vs'. - sint (specificity p) \<le> - sint (specificity v)"
    using sort_key_first [OF srt] by blast
  obtain us vs where ps: "cfg_policies cfg = us @ p # vs" "policy_matches env ctx req p"
    and flt: "filter (policy_matches env ctx req) us = us'" "filter (policy_matches env ctx req) vs = vs'"
    using filter_split [OF split] by blast
  have "sint (specificity q) < sint (specificity p)" if "q \<in> set us" "policy_matches env ctx req q" for q
    using us' that by (simp add: flt(1) [symmetric])
  moreover have "sint (specificity q) \<le> sint (specificity p)" if "q \<in> set vs" "policy_matches env ctx req q" for q
    using vs' that by (simp add: flt(2) [symmetric])
  moreover have "evaluate env uuid_to_string now cfg ctx req = decision_of p"
    using assms(1) srt by (simp add: evaluate_eq)
  ultimately show ?thesis using ps by blast
qed

lemma evaluate_none:
  assumes "\<not> (\<exists>p \<in> set (cfg_policies cfg). policy_matches env ctx req p)" and "in_delegated_scope ctx req"
  shows "evaluate env uuid_to_string now cfg ctx req = Deny ''no matching policy found (deny-by-default)''"
proof -
  have "filter (policy_matches env ctx req) (cfg_policies cfg) = []" using assms(1) by (simp add: filter_empty_conv)
  then show ?thesis using assms(2) by (simp add: evaluate_eq)
qed

lemma evaluate_out_of_scope:
  "\<not> in_delegated_scope ctx req \<Longrightarrow> evaluate env us now cfg ctx req =
     Deny (''tool '' @ quoted (requested_tool req) @ '' not in delegation scope narrowing'')"
  by (simp add: evaluate_eq)

section \<open>What an Allow rests on\<close>

lemma policy_matches_iff:
  "policy_matches env ctx req p \<longleftrightarrow>
     matches_agent (po_agent_match p) ctx \<and> matches_principal (po_principal_match p) ctx \<and>
     matches_intent env (po_intent_match p) (ec_declared_intent ctx) \<and> matches_tool env p req \<and>
     matches_parameter_constraints (po_parameter_constraints p) req"
  by (simp add: policy_matches_def explain_mismatch_def)

lemma evaluate_Allow:
  assumes "evaluate env us now cfg ctx req = Allow pid"
  shows "\<exists>p \<in> set (cfg_policies cfg). po_id p = pid \<and> po_effect p = EffAllow \<and>
      policy_matches env ctx req p \<and>
      (\<forall>q \<in> set (cfg_policies cfg). policy_matches env ctx req q \<longrightarrow>
         sint (specificity q) \<le> sint (specificity p))"
    and "in_delegated_scope ctx req"
proof -
  show scope: "in_delegated_scope ctx req"
    using assms evaluate_out_of_scope [of ctx req env us now cfg] by auto
  have "\<exists>p \<in> set (cfg_policies cfg). policy_matches env ctx req p"
    using assms evaluate_none [OF _ scope, of cfg env us now] by auto
  then obtain ps p qs where p: "cfg_policies cfg = ps @ p # qs" "policy_matches env ctx req p"
    "\<forall>q \<in> set ps. policy_matches env ctx req q \<longrightarrow> sint (specificity q) < sint (specificity p)"
    "\<forall>q \<in> set qs. policy_matches env ctx req q \<longrightarrow> sint (specificity q) \<le> sint (specificity p)"
    "decision_of p = Allow pid"
    using evaluate_chosen [OF scope, of cfg env us now] assms by auto
  have "po_effect p = EffAllow \<and> po_id p = pid"
    using p(5) by (auto simp: Let_def split: effect.splits disposition.splits)
  moreover have "\<forall>q \<in> set (cfg_policies cfg). policy_matches env ctx req q \<longrightarrow>
      sint (specificity q) \<le> sint (specificity p)"
    using p(1,3,4) by fastforce
  ultimately show "\<exists>p \<in> set (cfg_policies cfg). po_id p = pid \<and> po_effect p = EffAllow \<and>
      policy_matches env ctx req p \<and>
      (\<forall>q \<in> set (cfg_policies cfg). policy_matches env ctx req q \<longrightarrow>
         sint (specificity q) \<le> sint (specificity p))"
    using p(1,2) by (intro bexI [of _ p]) auto
qed

text \<open>What the caller asked for, argument by argument.\<close>

definition argument_within :: "parameter_constraint \<Rightarrow> json \<Rightarrow> bool" where
  "argument_within c v \<longleftrightarrow>
     (\<forall>mx. pc_max_value c = Some mx \<longrightarrow> (\<exists>x. as_f64 v = Some x \<and> \<not> f64_less mx x)) \<and>
     (\<forall>mn. pc_min_value c = Some mn \<longrightarrow> (\<exists>x. as_f64 v = Some x \<and> \<not> f64_less x mn)) \<and>
     (pc_allowed_values c \<noteq> [] \<longrightarrow> (\<exists>s \<in> set (pc_allowed_values c). v = JStr s))"

lemma constraint_ok_within:
  "constraint_ok args c \<Longrightarrow> \<exists>v. traverse_dot_path args (pc_key c) = Some v \<and> argument_within c v"
  by (auto simp: constraint_ok_def argument_within_def numeric_bounds_ok_def allowed_value_ok_def
      split: option.splits elim: as_str.elims)

lemma constraints_within:
  assumes "matches_parameter_constraints cs req" and "c \<in> set cs"
  shows "\<exists>args v. mr_arguments req = Some args \<and> traverse_dot_path args (pc_key c) = Some v \<and>
    argument_within c v"
  using assms constraint_ok_within
  by (fastforce simp: matches_parameter_constraints_def list_all_iff split: if_splits option.splits)

section \<open>Compiled rules decide like their sources\<close>

lemma compiled_keywords_match:
  "map Ok res = map (te_regex_new env \<circ> keyword_pattern env) ks \<Longrightarrow>
   list_all (\<lambda>re. te_is_match env re text) res =
   list_all (\<lambda>k. compiles_and_matches env (keyword_pattern env k) text) ks"
proof (induction ks arbitrary: res)
  case (Cons k ks)
  then obtain re rest where "res = re # rest" "te_regex_new env (keyword_pattern env k) = Ok re"
    "map Ok rest = map (te_regex_new env \<circ> keyword_pattern env) ks" by auto
  then show ?case using Cons.IH by (simp add: compiles_and_matches_def)
qed simp

lemma matches_intent_compiled:
  assumes "compiled_ok env p'" and "policy_source p' = policy_source p"
    and "im_regex (po_intent_match p) = None \<Longrightarrow> im_compiled_regex (po_intent_match p') = None"
    and "im_compiled_regex (po_intent_match p) = None" and "im_compiled_keywords (po_intent_match p) = []"
  shows "matches_intent env (po_intent_match p') intent = matches_intent env (po_intent_match p) intent"
proof -
  let ?im = "po_intent_match p" and ?im' = "po_intent_match p'"
  note src = source_fields [OF assms(2)]
  have kws: "map Ok (im_compiled_keywords ?im') = map (te_regex_new env \<circ> keyword_pattern env) (im_keywords ?im)"
    using assms(1) src by (simp add: compiled_ok_def Let_def)
  then have "im_compiled_keywords ?im' = [] \<longleftrightarrow> im_keywords ?im = []" by auto
  then have "(if im_compiled_keywords ?im' \<noteq> []
      then list_all (\<lambda>re. te_is_match env re t) (im_compiled_keywords ?im')
      else list_all (\<lambda>k. compiles_and_matches env (keyword_pattern env k) t) (im_keywords ?im')) =
      list_all (\<lambda>k. compiles_and_matches env (keyword_pattern env k) t) (im_keywords ?im)" for t
    using compiled_keywords_match [OF kws, of t] src by simp
  moreover have "(case im_compiled_regex ?im' of
         Some re \<Rightarrow> te_is_match env re intent
       | None \<Rightarrow> (case im_regex ?im' of
              Some pattern \<Rightarrow> compiles_and_matches env pattern intent | None \<Rightarrow> True)) =
      (case im_regex ?im of Some pattern \<Rightarrow> compiles_and_matches env pattern intent | None \<Rightarrow> True)"
    using assms(1,3) src
    by (cases "im_regex ?im") (auto simp: compiled_ok_def compiles_and_matches_def Let_def)
  ultimately show ?thesis using assms(4,5) by (simp add: matches_intent_def Let_def)
qed

definition uncompiled :: "'r policy \<Rightarrow> bool" where
  "uncompiled p \<longleftrightarrow>
     im_compiled_regex (po_intent_match p) = None \<and> im_compiled_keywords (po_intent_match p) = []"

lemma policy_matches_compiled:
  assumes "compile_policy env p = (Ok (), p')" and "uncompiled p"
  shows "policy_matches env ctx req p' = policy_matches env ctx req p"
proof -
  note ok = compile_policy_Ok [OF assms(1)]
  note src = source_fields [OF ok(2)]
  have "matches_intent env (po_intent_match p') i = matches_intent env (po_intent_match p) i" for i
    using matches_intent_compiled [OF ok(1,2)] ok(3) assms(2) by (simp add: uncompiled_def)
  moreover have "matches_tool env p' req = matches_tool env p req"
    by (simp add: matches_tool_def matches_resource_uri_def src cong: option.case_cong)
  ultimately show ?thesis by (simp add: policy_matches_iff src)
qed

lemma decision_compiled:
  assumes "compile_policy env p = (Ok (), p')"
  shows "decision_of p' = decision_of p"
  by (simp add: source_fields [OF compile_policy_Ok(2) [OF assms]] Let_def split: effect.split disposition.split)

lemma list_all2_insort:
  "list_all2 R xs ys \<Longrightarrow> R x y \<Longrightarrow> (\<And>a b. R a b \<Longrightarrow> f a = g b) \<Longrightarrow>
   list_all2 R (insort_key f x xs) (insort_key g y ys)"
  by (induction xs ys rule: list_all2_induct) auto

lemma list_all2_sort:
  assumes "list_all2 R xs ys" and "\<And>a b. R a b \<Longrightarrow> f a = g b"
  shows "list_all2 R (sort_key f xs) (sort_key g ys)"
  using assms(1) by (induction rule: list_all2_induct) (simp_all add: list_all2_insort assms(2))

lemma list_all2_filter:
  "list_all2 R xs ys \<Longrightarrow> (\<And>a b. R a b \<Longrightarrow> P a = Q b) \<Longrightarrow> list_all2 R (filter P xs) (filter Q ys)"
  by (induction rule: list_all2_induct) auto

lemma evaluate_compiled:
  assumes "list_all2 (\<lambda>p p'. compile_policy env p = (Ok (), p') \<and> uncompiled p)
      (cfg_policies cfg) (cfg_policies cfg')"
  shows "evaluate env us now cfg' ctx req = evaluate env us now cfg ctx req"
proof -
  let ?R = "\<lambda>p p'. compile_policy env p = (Ok (), p') \<and> uncompiled p"
  let ?srt = "\<lambda>c. sort_key (\<lambda>p. - sint (specificity p)) (filter (policy_matches env ctx req) (cfg_policies c))"
  have "list_all2 ?R (?srt cfg) (?srt cfg')"
  proof (intro list_all2_sort list_all2_filter assms)
    show "policy_matches env ctx req a = policy_matches env ctx req b" if "?R a b" for a b
      using policy_matches_compiled that by blast
    show "- sint (specificity a) = - sint (specificity b)" if "?R a b" for a b
      using that source_fields(12) [OF compile_policy_Ok(2), of env a "()" b] by simp
  qed
  then have "(case ?srt cfg' of p # _ \<Rightarrow> decision_of p | [] \<Rightarrow> d) =
      (case ?srt cfg of p # _ \<Rightarrow> decision_of p | [] \<Rightarrow> d)" for d
    by (auto simp: decision_compiled simp del: decision_of.simps split: list.splits)
  then show ?thesis by (simp add: evaluate_eq del: decision_of.simps)
qed

section \<open>Properties\<close>

text \<open>
  C5: which rule decides. When the requested tool lies within the scope of every delegation, the
  decision is that of the first among the most specific matching rules, in the order of the
  file; with no matching rule it is the default denial.
\<close>

theorem first_most_specific_rule_decides:
  assumes "in_delegated_scope ctx req"
  shows "(\<exists>us p vs. cfg_policies cfg = us @ p # vs \<and> policy_matches env ctx req p \<and>
      (\<forall>q \<in> set us. policy_matches env ctx req q \<longrightarrow> sint (specificity q) < sint (specificity p)) \<and>
      (\<forall>q \<in> set vs. policy_matches env ctx req q \<longrightarrow> sint (specificity q) \<le> sint (specificity p)) \<and>
      evaluate env uuid_to_string now cfg ctx req = decision_of p) \<or>
    (\<forall>p \<in> set (cfg_policies cfg). \<not> policy_matches env ctx req p) \<and>
      evaluate env uuid_to_string now cfg ctx req = Deny ''no matching policy found (deny-by-default)''"
  using evaluate_chosen [OF assms] evaluate_none [OF _ assms] by blast

definition demo_text_env :: "string text_env" where
  "demo_text_env = \<lparr>te_unicode_lower = id, te_regex_new = Ok, te_regex_escape = id,
     te_is_match = contains_str\<rparr>"

definition demo_policy :: "string \<Rightarrow> effect \<Rightarrow> i32 \<Rightarrow> string policy" where
  "demo_policy i e prio = \<lparr>po_id = i,
     po_agent_match = \<lparr>am_agent_id = None, am_trust_level = Some Basic, am_capabilities = []\<rparr>,
     po_principal_match = \<lparr>pm_sub = None, pm_groups = []\<rparr>,
     po_intent_match = \<lparr>im_keywords = [], im_regex = Some ''read'', im_compiled_regex = None,
                        im_compiled_keywords = []\<rparr>,
     po_allowed_tools = [''read_file''], po_resource_match = [], po_parameter_constraints = [],
     po_effect = e, po_disposition = DispBlock, po_priority = prio\<rparr>"

definition demo_config :: "string policy_config" where
  "demo_config = \<lparr>cfg_policies = [demo_policy ''deny-read'' EffDeny 0, demo_policy ''allow-read'' EffAllow 200]\<rparr>"

definition demo_context :: eval_context where
  "demo_context = \<lparr>ec_agent = \<lparr>ag_id = 1, ag_owner = ''user:alice'', ag_model = ''m'',
       ag_capabilities = [], ag_trust_level = Verified, ag_created_at = 0, ag_expires_at = None,
       ag_active = True\<rparr>,
     ec_delegation_chain = [\<lparr>dl_from = 2, dl_to = 1, dl_scope_narrowing = [''read_file''],
       dl_created_at = 0, dl_expires_at = None\<rparr>],
     ec_declared_intent = ''read the logs'', ec_principal_sub = ''user:alice'', ec_principal_groups = []\<rparr>"

definition demo_request :: mcp_request where
  "demo_request = \<lparr>mr_id = None, mr_method = ''tools/call'', mr_tool_name = Some ''read_file'',
     mr_arguments = None, mr_resource_uri = None\<rparr>"

lemmas demo_defs = demo_text_env_def demo_config_def demo_context_def demo_request_def demo_policy_def

lemma demo_scope: "in_delegated_scope demo_context demo_request"
  by (simp add: demo_defs in_delegated_scope_def requested_tool_def)

lemma demo_allowed:
  "evaluate demo_text_env (\<lambda>_. ''x'') 0 demo_config demo_context demo_request = Allow ''allow-read''"
  by code_simp

theorem first_most_specific_rule_decides_witness:
  "in_delegated_scope demo_context demo_request \<and>
   (\<exists>us p vs. cfg_policies demo_config = us @ p # vs \<and>
      (\<forall>q \<in> set us. policy_matches demo_text_env demo_context demo_request q \<longrightarrow>
         sint (specificity q) < sint (specificity p)) \<and>
      decision_of p = Allow ''allow-read'')"
proof -
  have "evaluate demo_text_env (\<lambda>_. ''x'') 0 demo_config demo_context demo_request \<noteq>
      Deny ''no matching policy found (deny-by-default)''"
    by (simp add: demo_allowed)
  with first_most_specific_rule_decides
    [OF demo_scope, of demo_config demo_text_env "\<lambda>_. ''x''" 0]
  have "\<exists>us p vs. cfg_policies demo_config = us @ p # vs \<and>
      (\<forall>q \<in> set us. policy_matches demo_text_env demo_context demo_request q \<longrightarrow>
         sint (specificity q) < sint (specificity p)) \<and>
      evaluate demo_text_env (\<lambda>_. ''x'') 0 demo_config demo_context demo_request = decision_of p"
    by blast
  then show ?thesis by (simp only: demo_allowed demo_scope simp_thms eq_commute)
qed

text \<open>
  C6: what an allowed call satisfies. An \<open>Allow\<close> names an allow rule of the configuration that
  no matching rule beats; the agent has the rule's trust level and capabilities, every constrained
  argument is present, of the right type and within its bounds, and the tool lies within every
  non-empty scope of the delegation chain.
\<close>

theorem allowed_call_is_authorized:
  assumes "evaluate env uuid_to_string now cfg ctx req = Allow pid"
  shows "(\<exists>p \<in> set (cfg_policies cfg). po_id p = pid \<and> po_effect p = EffAllow \<and>
      (\<forall>q \<in> set (cfg_policies cfg). policy_matches env ctx req q \<longrightarrow>
         sint (specificity q) \<le> sint (specificity p)) \<and>
      (\<forall>l. am_trust_level (po_agent_match p) = Some l \<longrightarrow>
         trust_level_rank l \<le> trust_level_rank (ag_trust_level (ec_agent ctx))) \<and>
      set (am_capabilities (po_agent_match p)) \<subseteq> set (ag_capabilities (ec_agent ctx)) \<and>
      (\<forall>c \<in> set (po_parameter_constraints p). \<exists>args v. mr_arguments req = Some args \<and>
         traverse_dot_path args (pc_key c) = Some v \<and> argument_within c v)) \<and>
    (\<forall>l \<in> set (ec_delegation_chain ctx).
       dl_scope_narrowing l = [] \<or> requested_tool req \<in> set (dl_scope_narrowing l))"
proof -
  obtain p where p: "p \<in> set (cfg_policies cfg)" "po_id p = pid" "po_effect p = EffAllow"
    and pm: "policy_matches env ctx req p"
    and best: "\<forall>q \<in> set (cfg_policies cfg). policy_matches env ctx req q \<longrightarrow>
         sint (specificity q) \<le> sint (specificity p)"
    using evaluate_Allow(1) [OF assms] by blast
  have agent: "matches_agent (po_agent_match p) ctx"
    and params: "matches_parameter_constraints (po_parameter_constraints p) req"
    using pm by (simp_all add: policy_matches_iff)
  have "\<forall>l. am_trust_level (po_agent_match p) = Some l \<longrightarrow>
      trust_level_rank l \<le> trust_level_rank (ag_trust_level (ec_agent ctx))"
    and "set (am_capabilities (po_agent_match p)) \<subseteq> set (ag_capabilities (ec_agent ctx))"
    using agent by (auto simp: matches_agent_def trust_level_gte_def list_all_iff)
  then show ?thesis
    using p best constraints_within [OF params] evaluate_Allow(2) [OF assms]
    by (auto simp: in_delegated_scope_def)
qed

theorem allowed_call_is_authorized_witness:
  "evaluate demo_text_env (\<lambda>_. ''x'') 0 demo_config demo_context demo_request = Allow ''allow-read'' \<and>
   (\<exists>p \<in> set (cfg_policies demo_config). po_id p = ''allow-read'' \<and> po_effect p = EffAllow)"
  using allowed_call_is_authorized [OF demo_allowed] demo_allowed by blast

text \<open>
  C26: compiling changes no decision. Evaluating a configuration whose patterns were compiled in
  advance gives, for every request, the decision of the same configuration with patterns compiled
  on demand.
\<close>

theorem compilation_preserves_decisions:
  assumes "compile env cfg = (Ok (), cfg')" and "\<forall>p \<in> set (cfg_policies cfg). uncompiled p"
  shows "evaluate env uuid_to_string now cfg' ctx req = evaluate env uuid_to_string now cfg ctx req"
proof -
  have "list_all2 (\<lambda>p p'. compile_policy env p = (Ok (), p') \<and> uncompiled p)
      (cfg_policies cfg) (cfg_policies cfg')"
    using compile_Ok(1) [OF assms(1)] assms(2) by (auto simp: list_all2_conv_all_nth)
  then show ?thesis by (rule evaluate_compiled)
qed

lemma demo_compiles: "compile demo_text_env demo_config = (Ok (), snd (compile demo_text_env demo_config))"
  by code_simp

theorem compilation_preserves_decisions_witness:
  "evaluate demo_text_env (\<lambda>_. ''x'') 0 (snd (compile demo_text_env demo_config)) demo_context demo_request =
   Allow ''allow-read''"
  using compilation_preserves_decisions [OF demo_compiles, of "\<lambda>_. ''x''" 0 demo_context demo_request]
  by (simp add: demo_allowed) (simp add: demo_defs uncompiled_def)

text \<open>
  What a loaded configuration satisfies. The rules of a configuration that \<open>from_toml\<close>
  returns have distinct identifiers, priorities of at most 1000, patterns of at most 500 bytes,
  all compiled, and none of them allows every tool and resource.
\<close>

theorem loaded_config_invariant:
  assumes "from_toml env parse_toml toml = Ok cfg"
  shows "distinct (map po_id (cfg_policies cfg)) \<and>
    (\<forall>p \<in> set (cfg_policies cfg). sint (po_priority p) \<le> 1000 \<and> compiled_ok env p \<and>
       \<not> (po_effect p = EffAllow \<and> po_allowed_tools p = [] \<and> po_resource_match p = []))"
proof -
  obtain src where src: "compile env src = (Ok (), cfg)"
    using assms by (auto simp: from_toml_def split: result.splits prod.splits)
  note ok = compile_Ok [OF src]
  have rel: "list_all2 (\<lambda>p p'. compiled_ok env p' \<and> po_id p' = po_id p \<and> po_priority p' = po_priority p)
      (cfg_policies src) (cfg_policies cfg)"
    using ok(1) by (rule list_all2_mono)
      (auto dest: compile_policy_Ok(1) intro: source_fields [OF compile_policy_Ok(2)])
  then have "map po_id (cfg_policies cfg) = map po_id (cfg_policies src)"
    by (auto simp: list_all2_conv_all_nth intro: nth_equalityI)
  moreover have "sint (po_priority p) \<le> 1000 \<and> compiled_ok env p" if "p \<in> set (cfg_policies cfg)" for p
    using rel ok(3) that by (auto simp: list_all2_conv_all_nth in_set_conv_nth [of p])
  ultimately show ?thesis using ok(2,4) by (auto simp: blanket_allow_def)
qed

theorem loaded_config_invariant_witness:
  "\<exists>cfg. from_toml demo_text_env (\<lambda>_. Ok demo_config) ''x'' = Ok cfg \<and>
     (\<forall>p \<in> set (cfg_policies cfg). compiled_ok demo_text_env p)"
proof -
  have "from_toml demo_text_env (\<lambda>_. Ok demo_config) ''x'' = Ok (snd (compile demo_text_env demo_config))"
    by code_simp
  with loaded_config_invariant [OF this] show ?thesis by blast
qed

text \<open>
  Reloading is all or nothing. After any sequence of reloads, the shared configuration is the
  one of the last reading that was a valid configuration, and the initial one when none was.
\<close>

theorem reload_keeps_last_valid:
  "reload_loop env parse_toml readings shared =
     (case rev (List.map_filter (\<lambda>r. case r of
             Ok t \<Rightarrow> if t = [] then None
                     else (case from_toml env parse_toml t of Ok cfg \<Rightarrow> Some cfg | _ \<Rightarrow> None)
           | _ \<Rightarrow> None) readings) of
        [] \<Rightarrow> shared
      | cfg # _ \<Rightarrow> Some cfg)"
  (is "_ = (case rev (List.map_filter ?valid readings) of [] \<Rightarrow> shared | cfg # _ \<Rightarrow> Some cfg)")
proof (induction readings arbitrary: shared)
  case (Cons r rs)
  have step: "reload_from_file env parse_toml r shared =
      (case ?valid r of None \<Rightarrow> shared | Some cfg \<Rightarrow> Some cfg)"
    by (auto simp: reload_from_file_def split: result.splits)
  show ?case
    by (simp add: Cons.IH step map_filter_simps split: option.split list.split)
qed (simp add: map_filter_simps)

text \<open>
  The validation endpoint is more permissive than loading. A configuration with a rule that
  allows everything, a priority above the maximum or an over-long pattern is reported as valid and
  without any diagnostic, and then refused by \<open>from_toml\<close>.
\<close>

theorem validation_misses_load_errors:
  "\<exists>parse_toml.
     validate_toml demo_text_env parse_toml ''blanket'' =
       Ok \<lparr>vr_valid = True, vr_policy_count = 1, vr_diagnostics = []\<rparr> \<and>
     from_toml demo_text_env parse_toml ''blanket'' = Err (EmptyAllowOnAllEffect ''a'') \<and>
     validate_toml demo_text_env parse_toml ''priority'' =
       Ok \<lparr>vr_valid = True, vr_policy_count = 1, vr_diagnostics = []\<rparr> \<and>
     from_toml demo_text_env parse_toml ''priority'' = Err (PriorityTooHigh ''a'' 5000 1000) \<and>
     validate_toml demo_text_env parse_toml ''pattern'' =
       Ok \<lparr>vr_valid = True, vr_policy_count = 1, vr_diagnostics = []\<rparr> \<and>
     from_toml demo_text_env parse_toml ''pattern'' = Err (RegexTooLong ''a'' 501 500)"
  by (rule exI [of _ "\<lambda>t. if t = ''blanket''
        then Ok \<lparr>cfg_policies = [(demo_policy ''a'' EffAllow 0)\<lparr>po_allowed_tools := []\<rparr>]\<rparr>
        else if t = ''priority'' then Ok \<lparr>cfg_policies = [demo_policy ''a'' EffAllow 5000]\<rparr>
        else Ok \<lparr>cfg_policies = [(demo_policy ''a'' EffAllow 0)\<lparr>po_intent_match :=
          \<lparr>im_keywords = [], im_regex = Some (replicate 501 (CHR ''x'')), im_compiled_regex = None,
           im_compiled_keywords = []\<rparr>\<rparr>]\<rparr>"]) code_simp

end
