(* ===== verification/Gateway_Props.thy ===== *)
theory Gateway_Props
  imports Gateway Policy_Props
begin

text \<open>
  What the request pipeline guarantees: what was checked when a request is sent upstream, that
  every decision leaves an audit entry, and what an answer can carry back.
\<close>

section \<open>What is checked before a request is forwarded\<close>

definition session_of ::
  "('b, 'd, 'r, 's, 'p, 'q) gateway_env \<Rightarrow> http_request \<Rightarrow> uuid option" where
  "session_of env req = parsed_session_id (ge_parse_uuid env) (header_text env ''x-arbiter-session'' req)"

definition session_admits ::
  "('b, 'd, 'r, 's, 'p, 'q) gateway_env \<Rightarrow> readings \<Rightarrow> http_request \<Rightarrow> mcp_context \<Rightarrow> 'b any_session_store \<Rightarrow>
   'b any_session_store \<Rightarrow> task_session \<Rightarrow> bool" where
  "session_admits env rd req ctx store store' s \<longleftrightarrow>
     (\<exists>sid s'. session_of env req = Some sid \<and>
        ge_parse_uuid env (header_text env ''x-agent-id'' req) = Some (ts_agent_id s) \<and>
        any_look store sid = Some s \<and> any_look store' sid = Some s' \<and>
        batch_granted s (map requested_tool (mc_requests ctx)) (Some (ts_agent_id s)) (rd_batch1 rd) s')"

definition policies_admit ::
  "('b, 'd, 'r, 's, 'p, 'q) gateway_env \<Rightarrow> ('r, 's, 'q) gateway_config \<Rightarrow> readings \<Rightarrow> http_request \<Rightarrow> mcp_context \<Rightarrow>
   task_session option \<Rightarrow> 'd any_registry \<Rightarrow> bool" where
  "policies_admit env cfg rd req ctx session rg \<longleftrightarrow>
     (\<exists>policies ectx. gc_policy cfg = Some policies \<and> cfg_policies policies \<noteq> [] \<and>
        fst (policy_context env rd (header_text env ''x-agent-id'' req) (header_text env ''x-delegation-chain'' req)
          (session_of env req) session rg) = Ok ectx \<and>
        (\<forall>r \<in> set (mc_requests ctx). \<exists>j pid.
           evaluate (ge_text env) (ge_uuid_to_string env) (rd_eval rd j) policies ectx r = Allow pid \<or>
           (\<exists>reason. evaluate (ge_text env) (ge_uuid_to_string env) (rd_eval rd j) policies ectx r =
              Annotate pid reason)))"

definition behavior_admits ::
  "('b, 'd, 'r, 's, 'p, 'q) gateway_env \<Rightarrow> ('r, 's, 'q) gateway_config \<Rightarrow> mcp_context \<Rightarrow> task_session \<Rightarrow> bool" where
  "behavior_admits env cfg ctx s \<longleftrightarrow>
     (\<forall>r \<in> set (mc_requests ctx). \<nexists>reason.
        detect_with_args (ge_sets env) (gc_detector cfg) (ts_declared_intent s)
          (classify_operation (se_unicode_lower (ge_sets env)) (mr_method r) (mr_tool_name r))
          (requested_tool r) (mr_arguments r) = Denied reason)"

lemma any_get_look: "any_get sid st = Ok s \<longleftrightarrow> any_look st sid = Some s"
  by (simp add: any_get_def any_look_def get_session_def split: option.splits)

lemma stage_of_verdict_Proceed [simp]: "stage_of_verdict x v = Proceed y \<longleftrightarrow> v = Continue \<and> y = x"
  by (cases v) auto

lemma session_stage_Proceed:
  assumes "session_stage env rd (header_text env ''x-agent-id'' req) (session_of env req) (Mcp ctx) store =
    (Proceed session, store')"
  shows "(session = None \<longleftrightarrow> session_of env req = None) \<and>
    (\<forall>s. session = Some s \<longrightarrow> session_admits env rd req ctx store store' s)"
proof (cases "session_of env req")
  case None
  then show ?thesis using assms by (simp add: session_stage_def)
next
  case (Some sid)
  obtain aid s where h: "ge_parse_uuid env (header_text env ''x-agent-id'' req) = Some aid"
    "any_look store sid = Some s" "ts_agent_id s = aid" "session = Some s"
    "validate_session_tools (ge_storage env) (ge_uuid_to_string env) sid (Some aid)
       (mc_requests ctx) (rd_batch1 rd) (rd_batch2 rd) (rd_batch3 rd) store = (Continue, store')"
    using assms Some
    by (auto simp: session_stage_def any_get_look Let_def
        split: if_splits option.splits result.splits prod.splits)
  from validate_session_tools_Continue [OF h(5)] h(1-4) Some show ?thesis
    by (auto simp: session_admits_def)
qed

lemma agent_or_unknown_not_Err: "agent_or_unknown agents us now1 now2 i princ rg \<noteq> (Err e, rg')"
  by (auto simp: agent_or_unknown_def split: prod.splits result.splits)

lemma build_eval_context_not_Err: "build_eval_context agents us link now1 now2 s chain rg \<noteq> (Err e, rg')"
  by (cases "agent_or_unknown agents us now1 now2 (ts_agent_id s) (principal_of chain) rg" rule: prod.exhaust,
      rename_tac r rg1, case_tac r)
    (auto simp: build_eval_context_def agent_or_unknown_not_Err)

lemma policy_stage_Proceed:
  assumes "policy_stage env cfg rd (header_text env ''x-agent-id'' req) (header_text env ''x-delegation-chain'' req)
      (session_of env req) session (Mcp ctx) rg = (Proceed pid, rg')"
    and "session = None \<longleftrightarrow> session_of env req = None"
  shows "policies_admit env cfg rd req ctx session rg"
proof -
  obtain policies ectx where h: "gc_policy cfg = Some policies" "cfg_policies policies \<noteq> []"
    "fst (policy_context env rd (header_text env ''x-agent-id'' req) (header_text env ''x-delegation-chain'' req)
       (session_of env req) session rg) = Ok ectx"
    "evaluate_mcp_policies (ge_text env) (ge_uuid_to_string env) (rd_eval rd) policies ectx
       (mc_requests ctx) = (Continue, pid)"
    using assms by (auto simp: policy_stage_def Let_def policy_context_def build_eval_context_not_Err
        split: option.splits if_splits prod.splits result.splits)
  from h(4) have "\<exists>j pid. evaluate (ge_text env) (ge_uuid_to_string env) (rd_eval rd j) policies ectx r = Allow pid \<or>
      (\<exists>reason. evaluate (ge_text env) (ge_uuid_to_string env) (rd_eval rd j) policies ectx r = Annotate pid reason)"
    if "r \<in> set (mc_requests ctx)" for r
    using evaluate_requests_Continue that unfolding evaluate_mcp_policies_def by meson
  with h(1-3) show ?thesis unfolding policies_admit_def by blast
qed

lemma anomaly_stage_Proceed:
  assumes "anomaly_stage env cfg rd agent_header session (Mcp ctx) st = (Proceed u, flags, st')"
    and "session = Some s"
  shows "behavior_admits env cfg ctx s"
proof -
  have "fst (detect_requests (ge_sets env) (gc_detector cfg) (ts_declared_intent s) [] (mc_requests ctx)) = Continue"
    using assms by (auto simp: anomaly_stage_def detect_behavioral_anomalies_def Let_def
        split: prod.splits if_splits result.splits bool.splits)
  then show ?thesis unfolding behavior_admits_def
    using detect_requests_Continue by (metis prod.collapse)
qed


lemma credential_stage_Proceed:
  assumes "credential_stage env cfg session body headers p = (Proceed (body', headers', secrets), p')"
  shows "(session = None \<or> \<not> gc_has_provider cfg \<longrightarrow> body' = body \<and> headers' = headers \<and> secrets = []) \<and>
    (\<forall>s. session = Some s \<and> gc_has_provider cfg \<longrightarrow>
       list_all (is_credential_authorized s) (find_refs body))"
  using assms
  by (auto simp: credential_stage_def Let_def from_utf8_def list_ex_iff list_all_iff
      split: option.splits if_splits prod.splits result.splits)

lemma forward_stage_Forwarded:
  assumes "forward_stage env cfg rd req mcp session warnings capture st = (Forwarded uq pe, st')"
  shows "\<exists>body headers secrets p.
    credential_stage env cfg session (canonical_body (se_json_text (ge_sets env)) mcp (hq_body req))
      (hq_headers req) (gs_provider st) = (Proceed (body, headers, secrets), p) \<and>
    uq = upstream_request_of cfg req headers body \<and> pe_session pe = session \<and> pe_secrets pe = secrets \<and>
    pe_capture pe = capture\<lparr>au_authorization_decision := ''allow''\<rparr> \<and> st' = st\<lparr>gs_provider := p\<rparr>"
  using assms
  by (auto simp: forward_stage_def refuse_def Let_def map_prod_def split: prod.splits stage.splits if_splits)

lemma degrade_trust_keeps:
  assumes "degrade_trust env cfg rd aid flags st = (b, st')"
  shows "gs_sessions st' = gs_sessions st" "gs_sink st' = gs_sink st" "gs_provider st' = gs_provider st"
  using assms by (auto simp: degrade_trust_def Let_def split: prod.splits if_splits result.splits)

lemma anomaly_stage_keeps:
  assumes "anomaly_stage env cfg rd agent_header session mcp st = (r, flags, st')"
  shows "gs_sessions st' = gs_sessions st \<and> gs_sink st' = gs_sink st \<and> gs_provider st' = gs_provider st"
  using assms degrade_trust_keeps
  by (auto simp: anomaly_stage_def Let_def split: prod.splits if_splits option.splits parse_result.splits)

lemma enforce_Forwarded:
  assumes "enforce env cfg rd req mcp capture st = (Forwarded uq pe, st')"
  shows "\<exists>session store pid warnings flags c st1 u rg.
    session_stage env rd (header_text env ''x-agent-id'' req) (session_of env req) mcp (gs_sessions st) =
      (Proceed session, store) \<and>
    policy_stage env cfg rd (header_text env ''x-agent-id'' req) (header_text env ''x-delegation-chain'' req)
      (session_of env req) session mcp (gs_registry st) = (Proceed pid, rg) \<and>
    anomaly_stage env cfg rd (header_text env ''x-agent-id'' req) session mcp
      (st\<lparr>gs_sessions := store, gs_registry := rg\<rparr>) =
      (Proceed u, flags, st1) \<and>
    forward_stage env cfg rd req mcp session warnings c st1 = (Forwarded uq pe, st')"
  using assms
  by (auto simp: enforce_def anomaly_then_forward_def session_of_def refuse_def Let_def map_prod_def
      split: prod.splits stage.splits)

lemma first_denial_None: "first_denial ds = None \<longleftrightarrow> set ds \<subseteq> {None}"
  by (induction ds rule: first_denial.induct) auto

lemma handle_admission_Forwarded:
  assumes "handle_admission env cfg rd req st = (Forwarded uq pe, st')"
  shows "\<exists>req' capture. let mcp = parse_mcp_body (ge_from_text env) (se_json_text (ge_sets env)) (hq_body req') in
    chain_execute (ge_lossy env) (gc_middleware cfg) req = Ok req' \<and> body_gate cfg req' = None \<and>
    session_gate cfg mcp (header_text env ''x-arbiter-session'' req') = None \<and>
    non_post_gate env cfg rd req' (header_text env ''x-agent-id'' req')
      (header_text env ''x-arbiter-session'' req') (gs_sessions st) = None \<and>
    non_mcp_gate cfg req' mcp = None \<and>
    session_header_gate (ge_parse_uuid env) (header_text env ''x-arbiter-session'' req') = None \<and>
    enforce env cfg rd req' mcp capture st = (Forwarded uq pe, st')"
proof -
  obtain req' where req': "chain_execute (ge_lossy env) (gc_middleware cfg) req = Ok req'"
    "after_middleware env cfg rd req' (begin_capture env rd req) st = (Forwarded uq pe, st')"
    using assms by (auto simp: handle_admission_def Let_def split: if_splits result.splits)
  moreover have "\<not> refuse env cfg rd c d st = (Forwarded uq pe, st')" for c d
    by (simp add: refuse_def map_prod_def split: prod.split)
  ultimately show ?thesis
    unfolding Let_def after_middleware_def
    by (intro exI [of _ req'])
      (auto simp: Let_def first_denial_None simp del: first_denial.simps split: option.splits)
qed

section \<open>A concrete gateway\<close>

definition no_agents :: "unit agent_storage" where
  "no_agents = \<lparr>ast_insert_agent = (\<lambda>_ b. (Ok (), b)), ast_get_agent = (\<lambda>i b. (Err (StAgentNotFound i), b)),
     ast_update_trust_level = (\<lambda>i _ b. (Err (StAgentNotFound i), b)),
     ast_deactivate_agent = (\<lambda>i b. (Err (StAgentNotFound i), b)), ast_list_agents = (\<lambda>b. (Ok [], b)),
     ast_insert_delegation = (\<lambda>_ b. (Ok 1, b)), ast_delegations_from = (\<lambda>_ b. (Ok [], b)),
     ast_delegations_to = (\<lambda>_ b. (Ok [], b))\<rparr>"

definition gw_env :: "(unit, unit, string, unit, nat, unit) gateway_env" where
  "gw_env = \<lparr>
     ge_storage = \<lparr>sto_insert = (\<lambda>_ b. (Ok (), b)), sto_update = (\<lambda>_ b. (Ok (), b)),
                   sto_list = (\<lambda>_. Ok []), sto_delete_expired = (\<lambda>b. (Ok 0, b))\<rparr>,
     ge_agents = no_agents, ge_text = demo_text_env,
     ge_sets = \<lparr>se_unicode_lower = id, se_regex_escape = id, se_set_new = (\<lambda>_. Ok ()),
                se_set_is_match = (\<lambda>_ _. True), se_json_text = (\<lambda>_. ''k=v'')\<rparr>,
     ge_redaction = \<lparr>re_new = (\<lambda>_. Some ()), re_escape = id, re_find_iter = (\<lambda>_ _. [])\<rparr>,
     ge_codec = demo_codec,
     ge_from_text = (\<lambda>_. Some demo_call), ge_link_from_text = (\<lambda>_. None),
     ge_uuid_to_string = (\<lambda>_. ''id''),
     ge_parse_uuid = (\<lambda>t. if t = ''1'' then Some 1 else if t = ''7'' then Some 7 else None),
     ge_lossy = id, ge_to_str = Some, ge_header_ok = (\<lambda>_ _. True), ge_uri_ok = (\<lambda>_. True),
     ge_resolve = (\<lambda>r n. (Ok (''secret-of-'' @ r), Suc n)), ge_pattern_match = (\<lambda>_ _. False),
     ge_gunzip = Some, ge_inflate = Some, ge_percent = (\<lambda>_ _. Fin 100), ge_show_percent = (\<lambda>_. ''100'')\<rparr>"

definition gw_config :: "(string, unit, unit) gateway_config" where
  "gw_config = \<lparr>gc_upstream_url = ''http://up'', gc_middleware = [], gc_policy = Some demo_config,
     gc_detector = \<lparr>ad_config = anomaly_config_default\<lparr>ac_escalate_to_deny := False\<rparr>, ad_read_intent_regex = (), ad_write_intent_regex = (),
                    ad_admin_intent_regex = ()\<rparr>,
     gc_redaction = [], gc_has_provider = True, gc_require_session = True, gc_strict_mcp = True,
     gc_deny_non_post_methods = True, gc_metrics_require_auth = False, gc_metrics_auth_key = [],
     gc_warning_threshold_pct = Fin 20, gc_max_request_body_bytes = 100, gc_max_response_body_bytes = 100,
     gc_upstream_timeout_secs = 30, gc_require_audit_healthy = True, gc_trust_degradation_threshold = 3\<rparr>"

definition gw_session :: task_session where
  "gw_session = \<lparr>ts_session_id = 1, ts_agent_id = 7, ts_delegation_chain_snapshot = [],
     ts_declared_intent = ''read the logs'', ts_authorized_tools = [''read_file''],
     ts_authorized_credentials = [''allowed''], ts_time_limit = 3600000000000, ts_call_budget = 2,
     ts_calls_made = 0, ts_rate_limit_per_minute = None, ts_rate_window_start = 0,
     ts_rate_window_calls = 0, ts_rate_limit_window_secs = 60, ts_data_sensitivity_ceiling = Internal,
     ts_created_at = 0, ts_status = StActive\<rparr>"

definition gw_agent :: agent where
  "gw_agent = \<lparr>ag_id = 7, ag_owner = ''user:alice'', ag_model = ''m'', ag_capabilities = [],
     ag_trust_level = Verified, ag_created_at = 0, ag_expires_at = None, ag_active = True\<rparr>"

definition gw_state :: "(unit, unit, nat) gateway_state" where
  "gw_state = \<lparr>gs_sessions = InMemory \<lparr>ss_sessions = [(1, gw_session)]\<rparr>,
     gs_registry = RegInMemory \<lparr>rg_agents = [(7, gw_agent)], rg_delegations = []\<rparr>,
     gs_anomaly_counts = [], gs_provider = 0, gs_sink = Some (sink_new demo_sink_config [])\<rparr>"

definition gw_readings :: readings where
  "gw_readings = \<lparr>rd_request_id = 9, rd_timestamp = 0, rd_latency = 1, rd_metrics = None, rd_write = Written,
     rd_non_post = 0, rd_batch1 = 1, rd_batch2 = 1, rd_batch3 = 1, rd_warn = 1, rd_context1 = 1,
     rd_context2 = 1, rd_eval = (\<lambda>_. 1), rd_anomaly = 1, rd_agent = 1, rd_reset = 1\<rparr>"

definition gw_request :: http_request where
  "gw_request = \<lparr>hq_method = ''POST'', hq_path = ''/'', hq_path_and_query = ''/'',
     hq_headers = [(''x-agent-id'', ''7''), (''x-arbiter-session'', ''1''), (''x-key'', ''${CRED:other}'')],
     hq_body = ''{}''\<rparr>"



definition gw_calls :: parse_result where
  "gw_calls = Mcp \<lparr>mc_requests = [demo_mcp_request]\<rparr>"

definition gw_headers :: "(string \<times> string) list" where
  "gw_headers = [(''x-agent-id'', ''7''), (''x-arbiter-session'', ''1''), (''x-key'', ''secret-of-other'')]"

lemma gw_parse: "parse_mcp_body (ge_from_text gw_env) (se_json_text (ge_sets gw_env)) (hq_body gw_request) = gw_calls"
  by code_simp

lemma gw_header_text:
  "header_text gw_env ''x-agent-id'' gw_request = ''7''" "header_text gw_env ''x-arbiter-session'' gw_request = ''1''"
  "header_text gw_env ''x-delegation-chain'' gw_request = []" "session_of gw_env gw_request = Some 1"
  by code_simp+

lemma gw_session_stage:
  "session_stage gw_env gw_readings ''7'' (Some 1) gw_calls (gs_sessions gw_state) =
   (Proceed (Some gw_session), InMemory \<lparr>ss_sessions = [(1, gw_session\<lparr>ts_calls_made := 1\<rparr>)]\<rparr>)"
  by code_simp

lemma gw_policy_stage:
  "policy_stage gw_env gw_config gw_readings ''7'' [] (Some 1) (Some gw_session) gw_calls (gs_registry gw_state) =
   (Proceed (Some ''allow-read''), gs_registry gw_state)"
  by code_simp

lemma gw_anomaly_stage: "anomaly_stage gw_env gw_config gw_readings ''7'' (Some gw_session) gw_calls st = (Proceed (), [], st)"
proof -
  have "detect_behavioral_anomalies (ge_sets gw_env) (gc_detector gw_config) (ts_declared_intent gw_session)
      [demo_mcp_request] = (Continue, [])"
    by code_simp
  then show ?thesis by (simp add: anomaly_stage_def gw_calls_def)
qed

lemma gw_credential_stage:
  "credential_stage gw_env gw_config (Some gw_session) ''k=v'' (hq_headers gw_request) (gs_provider gw_state) =
   (Proceed (''k=v'', gw_headers, [''secret-of-other'']), 1)"
  by code_simp

lemma gw_gates:
  "body_gate gw_config gw_request = None" "session_gate gw_config gw_calls ''1'' = None"
  "non_post_gate gw_env gw_config gw_readings gw_request ''7'' ''1'' (gs_sessions gw_state) = None"
  "non_mcp_gate gw_config gw_request gw_calls = None" "session_header_gate (ge_parse_uuid gw_env) ''1'' = None"
  "canonical_body (se_json_text (ge_sets gw_env)) gw_calls (hq_body gw_request) = ''k=v''"
  "sink_degraded gw_state = False" "hq_method gw_request = ''POST''"
  "chain_execute (ge_lossy gw_env) (gc_middleware gw_config) gw_request = Ok gw_request"
  "ge_uri_ok gw_env u = True"
  by code_simp+

lemma gw_forwarded:
  "\<exists>pe st'. handle_admission gw_env gw_config gw_readings gw_request gw_state =
     (Forwarded (upstream_request_of gw_config gw_request gw_headers ''k=v'') pe, st') \<and>
     pe_session pe = Some gw_session"
proof -
  have "parsed_session_id (ge_parse_uuid gw_env) ''1'' = Some 1" by code_simp
  moreover have "gs_provider (st\<lparr>gs_sessions := x\<rparr>) = gs_provider st" for st :: "(unit, unit, nat) gateway_state" and x
    by simp
  ultimately show ?thesis
    by (simp add: handle_admission_def after_middleware_def enforce_def anomaly_then_forward_def forward_stage_def
        gw_gates gw_parse gw_header_text gw_session_stage gw_policy_stage gw_anomaly_stage gw_credential_stage
        Let_def upstream_request_of_def)
qed


section \<open>Audit entries\<close>

text \<open>The sink after one more entry, for the request at hand.\<close>

definition audited ::
  "('b, 'd, 'r, 's, 'p, 'q) gateway_env \<Rightarrow> readings \<Rightarrow> string \<Rightarrow> nat option \<Rightarrow> audit_sink \<Rightarrow> audit_sink option \<Rightarrow> bool" where
  "audited env rd decision status sink sink' \<longleftrightarrow>
     (\<exists>entry. sink' = Some (snd (sink_write (ge_codec env) (rd_write rd) entry sink)) \<and>
        au_request_id entry = rd_request_id rd \<and> au_authorization_decision entry = decision \<and>
        au_upstream_status entry = status)"

lemma finish_audited:
  "gs_sink st = Some sink \<Longrightarrow> au_request_id c = rd_request_id rd \<Longrightarrow>
   audited env rd (au_authorization_decision c) status sink (gs_sink (finish env cfg rd status c st))"
  by (auto simp: audited_def finish_def write_audit_def finalize_def)

lemma error_response_status [simp]: "hs_status (error_response to_text status e) = status"
  by (simp add: error_response_def json_response_def)

lemma refuse_audited:
  assumes "refuse env cfg rd c d st = (a, st')" and "gs_sink st = Some sink" and "au_request_id c = rd_request_id rd"
  shows "\<exists>resp. a = Answered resp \<and> audited env rd ''deny'' (Some (hs_status resp)) sink (gs_sink st')"
proof -
  obtain status pm e where d: "d = (status, pm, e)" by (cases d)
  let ?c = "case pm of Some p \<Rightarrow> c\<lparr>au_authorization_decision := ''deny'', au_policy_matched := Some p\<rparr>
    | None \<Rightarrow> c\<lparr>au_authorization_decision := ''deny''\<rparr>"
  have c: "au_request_id ?c = rd_request_id rd" "au_authorization_decision ?c = ''deny''"
    using assms(3) by (auto split: option.split)
  show ?thesis
    using assms(1) finish_audited [OF assms(2) c(1), of env "Some status" cfg] c(2)
    by (auto simp: refuse_def deny_def d Let_def map_prod_def)
qed

text \<open>What an admission leaves in the audit log when it starts with the sink \<open>sink\<close>.\<close>

definition admission_audited ::
  "('b, 'd, 'r, 's, 'p, 'q) gateway_env \<Rightarrow> readings \<Rightarrow> audit_sink \<Rightarrow>
   admission \<times> ('b, 'd, 'p) gateway_state \<Rightarrow> bool" where
  "admission_audited env rd sink r =
     (case r of
        (Answered resp, st) \<Rightarrow> audited env rd ''deny'' (Some (hs_status resp)) sink (gs_sink st)
      | (Forwarded uq pe, st) \<Rightarrow>
          gs_sink st = Some sink \<and> au_request_id (pe_capture pe) = rd_request_id rd \<and>
          au_authorization_decision (pe_capture pe) = ''allow''
      | (_, st) \<Rightarrow> gs_sink st = Some sink)"

lemma admission_audited_simps [simp]:
  "admission_audited env rd sink (Answered resp, st) \<longleftrightarrow>
     audited env rd ''deny'' (Some (hs_status resp)) sink (gs_sink st)"
  "admission_audited env rd sink (Forwarded uq pe, st) \<longleftrightarrow>
     gs_sink st = Some sink \<and> au_request_id (pe_capture pe) = rd_request_id rd \<and>
     au_authorization_decision (pe_capture pe) = ''allow''"
  "admission_audited env rd sink (HandlerError, st) \<longleftrightarrow> gs_sink st = Some sink"
  "admission_audited env rd sink (Unwound, st) \<longleftrightarrow> gs_sink st = Some sink"
  by (simp_all add: admission_audited_def)

lemma refuse_admission_audited [audit_intros]:
  assumes "gs_sink st = Some sink" and "au_request_id c = rd_request_id rd"
  shows "admission_audited env rd sink (refuse env cfg rd c d st)"
proof -
  obtain a st' where r: "refuse env cfg rd c d st = (a, st')" by fastforce
  from refuse_audited [OF r assms] r show ?thesis by auto
qed

lemma forward_stage_audited [audit_intros]:
  assumes "gs_sink st = Some sink" and "au_request_id c = rd_request_id rd"
  shows "admission_audited env rd sink (forward_stage env cfg rd req mcp session warnings c st)"
  using assms
  by (auto simp: forward_stage_def Let_def split: prod.split stage.split intro!: audit_intros)

lemma anomaly_then_forward_audited [audit_intros]:
  assumes "gs_sink st = Some sink" and "au_request_id c = rd_request_id rd"
  shows "admission_audited env rd sink
    (anomaly_then_forward env cfg rd req agent_header mcp session warnings c st)"
proof -
  obtain r flags st1 where a: "anomaly_stage env cfg rd agent_header session mcp st = (r, flags, st1)"
    by (cases "anomaly_stage env cfg rd agent_header session mcp st") auto
  have "gs_sink st1 = Some sink" using anomaly_stage_keeps [OF a] assms(1) by simp
  then show ?thesis
    using assms(2)
    by (auto simp: anomaly_then_forward_def a Let_def split: stage.split
        intro!: audit_intros)
qed

lemma capture_request_id [simp]:
  "au_request_id (capture_session session c) = au_request_id c"
  "au_request_id (capture_mcp mcp c) = au_request_id c"
  "au_request_id (begin_capture env rd req) = rd_request_id rd"
  by (auto simp: capture_session_def capture_mcp_def begin_capture_def audit_entry_new_def Let_def
      split: option.split parse_result.split list.split)

lemma enforce_audited [audit_intros]:
  assumes "gs_sink st = Some sink" and "au_request_id c = rd_request_id rd"
  shows "admission_audited env rd sink (enforce env cfg rd req mcp c st)"
  unfolding enforce_def Let_def
  using assms
  by (auto split: prod.split stage.split option.split
      intro!: audit_intros)

lemma after_middleware_audited:
  assumes "gs_sink st = Some sink" and "au_request_id c = rd_request_id rd"
  shows "admission_audited env rd sink (after_middleware env cfg rd req c st)"
  unfolding after_middleware_def Let_def
  using assms by (auto split: option.split intro!: audit_intros
      simp del: first_denial.simps)

lemma handle_admission_audited:
  assumes sink: "gs_sink st = Some sink"
    and "\<not> (hq_method req = ''GET'' \<and> hq_path req \<in> {''/health'', ''/metrics''})"
    and "\<not> (gc_require_audit_healthy cfg \<and> is_degraded sink)"
  shows "admission_audited env rd sink (handle_admission env cfg rd req st)"
proof (cases "chain_execute (ge_lossy env) (gc_middleware cfg) req")
  case (Err resp)
  then show ?thesis
    using assms finish_audited [OF sink, of "begin_capture env rd req\<lparr>au_authorization_decision := ''deny''\<rparr>" rd]
    by (auto simp: handle_admission_def sink_degraded_def)
qed (use assms in \<open>auto simp: handle_admission_def sink_degraded_def Let_def intro: after_middleware_audited\<close>)

lemma handle_answer_finishes:
  "\<exists>status fs. snd (handle_answer env cfg rd pe resp st) = finish env cfg rd status
     (if fs \<noteq> [] then (pe_capture pe)\<lparr>au_inspection_findings := fs\<rparr> else pe_capture pe) st"
proof (cases "length (hs_body resp) > gc_max_response_body_bytes cfg")
  case True
  then show ?thesis unfolding handle_answer_def by (intro exI [of _ None] exI [of _ "[]"]) simp
next
  case False
  then show ?thesis unfolding handle_answer_def Let_def
    by (intro exI [of _ "Some (hs_status resp)"]) (auto split: prod.split)
qed

lemma handle_response_audited:
  assumes "gs_sink st = Some sink" and "au_request_id (pe_capture pe) = rd_request_id rd"
  shows "\<exists>status. audited env rd (au_authorization_decision (pe_capture pe)) status sink
    (gs_sink (snd (handle_response env cfg rd pe out st)))"
proof (cases out)
  case (UpstreamAnswer resp)
  then obtain status fs where "snd (handle_response env cfg rd pe out st) = finish env cfg rd status
      (if fs \<noteq> [] then (pe_capture pe)\<lparr>au_inspection_findings := fs\<rparr> else pe_capture pe) st"
    using handle_answer_finishes by fastforce
  then show ?thesis
    using finish_audited [OF assms(1), of "(pe_capture pe)\<lparr>au_inspection_findings := fs\<rparr>" rd env status cfg]
      finish_audited [OF assms, of env status cfg] assms(2)
    by (cases "fs = []") auto
qed (use finish_audited [OF assms] in auto)

section \<open>Properties\<close>

lemma forwarded_checks:
  assumes "handle_admission env cfg rd req st = (Forwarded uq pe, st')"
    and "parse_mcp_body (ge_from_text env) (se_json_text (ge_sets env)) (hq_body req) = Mcp ctx"
  shows "policies_admit env cfg rd req ctx (pe_session pe) (gs_registry st) \<and>
    (gc_require_session cfg \<longrightarrow> pe_session pe \<noteq> None) \<and>
    (\<forall>s. pe_session pe = Some s \<longrightarrow>
       session_admits env rd req ctx (gs_sessions st) (gs_sessions st') s \<and>
       behavior_admits env cfg ctx s \<and>
       (gc_has_provider cfg \<longrightarrow> list_all (is_credential_authorized s)
          (find_refs (to_canonical_body (se_json_text (ge_sets env)) ctx))))"
proof -
  obtain capture where gate: "session_gate cfg (Mcp ctx) (header_text env ''x-arbiter-session'' req) = None"
    and hdr: "session_header_gate (ge_parse_uuid env) (header_text env ''x-arbiter-session'' req) = None"
    and enf: "enforce env cfg rd req (Mcp ctx) capture st = (Forwarded uq pe, st')"
    using handle_admission_Forwarded [OF assms(1)] chain_execute_Ok assms(2) by (fastforce simp: Let_def)
  obtain session store pid warnings flags c st1 u rg where
    ss: "session_stage env rd (header_text env ''x-agent-id'' req) (session_of env req) (Mcp ctx)
      (gs_sessions st) = (Proceed session, store)" and
    ps: "policy_stage env cfg rd (header_text env ''x-agent-id'' req)
      (header_text env ''x-delegation-chain'' req) (session_of env req) session (Mcp ctx) (gs_registry st) =
      (Proceed pid, rg)" and
    as: "anomaly_stage env cfg rd (header_text env ''x-agent-id'' req) session (Mcp ctx)
      (st\<lparr>gs_sessions := store, gs_registry := rg\<rparr>) = (Proceed u, flags, st1)" and
    fs: "forward_stage env cfg rd req (Mcp ctx) session warnings c st1 = (Forwarded uq pe, st')"
    using enforce_Forwarded [OF enf] by blast
  note s = session_stage_Proceed [OF ss]
  obtain body headers secrets p where
    cs: "credential_stage env cfg session (to_canonical_body (se_json_text (ge_sets env)) ctx)
      (hq_headers req) (gs_provider st1) = (Proceed (body, headers, secrets), p)"
    and pe: "pe_session pe = session" and st': "st' = st1\<lparr>gs_provider := p\<rparr>"
    using forward_stage_Forwarded [OF fs] by (auto simp: canonical_body_def)
  have "gs_sessions st' = store" using anomaly_stage_keeps [OF as] st' by simp
  moreover have "gc_require_session cfg \<longrightarrow> session \<noteq> None"
    using gate hdr s
    by (auto simp: session_gate_def session_header_gate_def session_of_def parsed_session_id_def split: if_splits)
  ultimately show ?thesis
    using s policy_stage_Proceed [OF ps] anomaly_stage_Proceed [OF as] credential_stage_Proceed [OF cs] pe
    by auto
qed

text \<open>
  C1: a call is forwarded only when it was authorized. Whatever the configuration, an MCP request
  that leaves for the upstream was admitted by a loaded policy for every call of its batch; a
  session is present when one is required, and then it belongs to the calling agent, was active,
  unexpired and within budget, covers every tool and was charged for the whole batch; the behaviour
  detector denied none of the calls; and the credential references of the body sent were on the
  whitelist of the session.
\<close>

theorem forwarded_call_is_authorized:
  assumes "handle_admission env cfg rd req st = (Forwarded uq pe, st')"
    and "parse_mcp_body (ge_from_text env) (se_json_text (ge_sets env)) (hq_body req) = Mcp ctx"
  shows "policies_admit env cfg rd req ctx (pe_session pe) (gs_registry st) \<and>
    (gc_require_session cfg \<longrightarrow> pe_session pe \<noteq> None) \<and>
    (\<forall>s. pe_session pe = Some s \<longrightarrow>
       session_admits env rd req ctx (gs_sessions st) (gs_sessions st') s \<and>
       behavior_admits env cfg ctx s \<and>
       (gc_has_provider cfg \<longrightarrow> list_all (is_credential_authorized s)
          (find_refs (to_canonical_body (se_json_text (ge_sets env)) ctx))))"
  using forwarded_checks [OF assms] .

theorem forwarded_call_is_authorized_witness:
  "policies_admit gw_env gw_config gw_readings gw_request \<lparr>mc_requests = [demo_mcp_request]\<rparr>
     (Some gw_session) (gs_registry gw_state) \<and>
   behavior_admits gw_env gw_config \<lparr>mc_requests = [demo_mcp_request]\<rparr> gw_session"
proof -
  obtain pe st' where "handle_admission gw_env gw_config gw_readings gw_request gw_state =
      (Forwarded (upstream_request_of gw_config gw_request gw_headers ''k=v'') pe, st')"
    and "pe_session pe = Some gw_session"
    using gw_forwarded by blast
  with forwarded_call_is_authorized [OF this(1) gw_parse [unfolded gw_calls_def]]
  show ?thesis by simp
qed

text \<open>
  C7: every decision is audited once. With an audit sink, a request that is not for an endpoint of
  the gateway and is not held back by the audit gate, when it is answered without the upstream,
  leaves exactly one entry, a denial with the status of the answer; when it is forwarded nothing is
  written yet, and whatever the upstream does then leaves exactly one entry, an allowed request. A request that ends
  in a panic, or in the error for an upstream address that does not parse, leaves none.
\<close>

theorem every_decision_is_audited:
  assumes "gs_sink st = Some sink"
    and "\<not> (hq_method req = ''GET'' \<and> hq_path req \<in> {''/health'', ''/metrics''})"
    and "\<not> (gc_require_audit_healthy cfg \<and> is_degraded sink)"
  shows "case handle_admission env cfg rd req st of
      (Answered resp, st') \<Rightarrow> audited env rd ''deny'' (Some (hs_status resp)) sink (gs_sink st')
    | (Forwarded uq pe, st') \<Rightarrow> gs_sink st' = Some sink \<and>
        (\<forall>out. \<exists>status. audited env rd ''allow'' status sink (gs_sink (snd (handle_response env cfg rd pe out st'))))
    | (_, st') \<Rightarrow> gs_sink st' = Some sink"
proof -
  note h = handle_admission_audited [OF assms, of env rd]
  obtain a st' where run: "handle_admission env cfg rd req st = (a, st')" by fastforce
  with h show ?thesis
  proof (cases a)
    case (Forwarded uq pe)
    with h run have pe: "gs_sink st' = Some sink" "au_request_id (pe_capture pe) = rd_request_id rd"
      "au_authorization_decision (pe_capture pe) = ''allow''" by simp_all
    have "\<exists>status. audited env rd ''allow'' status sink (gs_sink (snd (handle_response env cfg rd pe out st')))"
      for out
      using handle_response_audited [OF pe(1,2)] unfolding pe(3) .
    with run Forwarded pe(1) show ?thesis by simp
  qed simp_all
qed

theorem every_decision_is_audited_witness:
  "\<exists>pe st'. handle_admission gw_env gw_config gw_readings gw_request gw_state =
     (Forwarded (upstream_request_of gw_config gw_request gw_headers ''k=v'') pe, st') \<and>
   (\<exists>status. audited gw_env gw_readings ''allow'' status (sink_new demo_sink_config [])
      (gs_sink (snd (handle_response gw_env gw_config gw_readings pe TimedOut st'))))"
proof -
  have "gs_sink gw_state = Some (sink_new demo_sink_config [])"
    "\<not> (hq_method gw_request = ''GET'' \<and> hq_path gw_request \<in> {''/health'', ''/metrics''})"
    "\<not> (gc_require_audit_healthy gw_config \<and> is_degraded (sink_new demo_sink_config []))"
    by (simp_all add: gw_state_def gw_gates sink_new_def is_degraded_def)
  from every_decision_is_audited [OF this, of gw_env gw_readings] gw_forwarded show ?thesis
    by (auto simp del: handle_response.simps)
qed


end
