(* ===== verification/Lifecycle_Props.thy ===== *)
theory Lifecycle_Props
  imports Lifecycle Gateway_Props
begin

text \<open>
  What the administration API guarantees: nothing happens without the key, the rate limiter keeps
  its promise over every window, sessions and tokens have bounded parameters; and where it does not
  keep what it says: the session cap is lost between two requests, a failed registration leaves an
  agent behind.
\<close>

section \<open>The key\<close>

lemma constant_time_eq_iff:
  assumes "length a < 2 ^ 64" and "length b < 2 ^ 64"
  shows "constant_time_eq a b \<longleftrightarrow> a = b"
proof
  assume eq: "constant_time_eq a b"
  have "unat (of_nat (length a) :: u64) = unat (of_nat (length b) :: u64)"
    using eq by (simp add: constant_time_eq_def Let_def)
  then have "length a = length b"
    using assms by (simp add: unat_of_nat)
  then show "a = b" using eq by (simp add: constant_time_eq_def Let_def)
qed (simp add: constant_time_eq_def)

lemma guarded_denied:
  assumes "guarded env cfg rd hs st body = (out, st')"
    and "validate_admin_key env hs (ap_admin_api_key cfg) = Some e"
  shows "(out = e \<or> (\<exists>msg. out = api_error 429 msg)) \<and> st' = st\<lparr>st_limiter := st_limiter st'\<rparr>"
  using assms
  by (auto simp: guarded_def check_admin_rate_limit_def split: prod.splits if_splits)

lemma api_handle_guarded: "\<exists>body. api_handle env cfg rd hs c st = guarded env cfg rd hs st body"
  by (cases c)
    (auto simp: api_register_agent_def api_list_agents_def api_get_agent_def api_deactivate_agent_def
      api_delegate_agent_def api_list_delegations_def api_issue_agent_token_def api_create_session_def
      api_get_session_def api_close_session_def api_explain_policy_def api_validate_policy_def
      api_reload_policy_def api_policy_schema_def)

lemma guarded_runs:
  assumes "guarded env cfg rd hs st body = (out, st')"
    and "\<And>msg. out \<noteq> api_error 401 msg" and "\<And>msg. out \<noteq> api_error 429 msg"
  shows "\<exists>rl. body (st\<lparr>st_limiter := rl\<rparr>) = (out, st')"
  using assms
  by (auto simp: guarded_def check_admin_rate_limit_def validate_admin_key_def
      split: prod.splits if_splits option.splits)

section \<open>The rate limiter\<close>

text \<open>A run of the limiter: the requests of all clients in the order they arrive.\<close>

fun limiter_run :: "(instant \<times> string) list \<Rightarrow> admin_rate_limiter \<Rightarrow> bool list \<times> admin_rate_limiter" where
  "limiter_run [] rl = ([], rl)"
| "limiter_run ((now, key) # reqs) rl =
     (let (ok, rl) = limiter_check now key rl;
          (oks, rl) = limiter_run reqs rl
      in (ok # oks, rl))"

definition accepted_times :: "string \<Rightarrow> (instant \<times> string) list \<Rightarrow> admin_rate_limiter \<Rightarrow> instant list" where
  "accepted_times key reqs rl =
     map (fst o fst) (filter (\<lambda>((now, k), ok). ok \<and> k = key) (zip reqs (fst (limiter_run reqs rl))))"

text \<open>What the limiter knows about one client: \<open>acc\<close> are the accepted times so far.\<close>

definition window_inv :: "nat \<Rightarrow> span \<Rightarrow> instant \<Rightarrow> instant list \<Rightarrow> instant list \<Rightarrow> bool" where
  "window_inv n d latest acc w \<longleftrightarrow>
     length w \<le> n \<and> (\<forall>s \<in> set acc. s \<le> latest) \<and>
     (\<exists>old. acc = old @ w \<and> (\<forall>s \<in> set old. latest - s > d)) \<and>
     (\<forall>a. length (filter (\<lambda>s. a \<le> s \<and> s \<le> a + d) acc) \<le> n)"

lemma evict_split:
  assumes "0 \<le> d"
  obtains old where "w = old @ evict d now w" "\<forall>s \<in> set old. now - s > d"
proof
  show "w = takeWhile (\<lambda>front. max 0 (now - front) > d) w @ evict d now w"
    by (simp add: evict_def)
  show "\<forall>s \<in> set (takeWhile (\<lambda>front. max 0 (now - front) > d) w). now - s > d"
    using assms by (auto dest!: set_takeWhileD)
qed

lemma window_inv_evict:
  assumes "window_inv n d latest acc w" and "0 \<le> d" and "latest \<le> now"
  shows "window_inv n d now acc (evict d now w)"
proof -
  obtain old where old: "acc = old @ w" "\<forall>s \<in> set old. latest - s > d"
    using assms(1) by (auto simp: window_inv_def)
  obtain old' where old': "w = old' @ evict d now w" "\<forall>s \<in> set old'. now - s > d"
    using evict_split [OF assms(2)] .
  have "acc = (old @ old') @ evict d now w" using old(1) old'(1) by simp
  moreover have "\<forall>s \<in> set (old @ old'). now - s > d" using old(2) old'(2) assms(3) by force
  moreover have "length (evict d now w) \<le> n"
    using assms(1) length_dropWhile_le [of "\<lambda>front. max 0 (now - front) > d" w]
    by (simp add: window_inv_def evict_def)
  moreover have "\<forall>s \<in> set acc. s \<le> now" using assms(1,3) by (auto simp: window_inv_def)
  moreover have "\<forall>a. length (filter (\<lambda>s. a \<le> s \<and> s \<le> a + d) acc) \<le> n"
    using assms(1) by (simp add: window_inv_def)
  ultimately show ?thesis unfolding window_inv_def by blast
qed

lemma window_inv_accept:
  assumes "window_inv n d now acc w" and "0 \<le> d" and "length w < n"
  shows "window_inv n d now (acc @ [now]) (w @ [now])"
proof -
  obtain old where old: "acc = old @ w" "\<forall>s \<in> set old. now - s > d"
    using assms(1) by (auto simp: window_inv_def)
  have "length (filter (\<lambda>s. a \<le> s \<and> s \<le> a + d) (acc @ [now])) \<le> n" for a
  proof (cases "a \<le> now \<and> now \<le> a + d")
    case True
    then have "filter (\<lambda>s. a \<le> s \<and> s \<le> a + d) old = []" using old(2) by (auto simp: filter_empty_conv)
    then have "length (filter (\<lambda>s. a \<le> s \<and> s \<le> a + d) (acc @ [now])) \<le> length w + 1"
      using True old(1) by (simp add: length_filter_le)
    then show ?thesis using assms(3) by simp
  next
    case False
    then show ?thesis using assms(1) by (auto simp: window_inv_def)
  qed
  then show ?thesis using assms(1,3) old by (auto simp: window_inv_def)
qed

lemma limiter_check_keeps:
  assumes "limiter_check now key rl = (ok, rl')"
  shows "rl_max_requests rl' = rl_max_requests rl" "rl_window_duration rl' = rl_window_duration rl"
    "k \<noteq> key \<Longrightarrow> client_window k rl' = client_window k rl"
  using assms by (auto simp: limiter_check_def client_window_def Let_def split: if_splits)

lemma limiter_check_step:
  assumes "limiter_check now key rl = (ok, rl')" and "0 \<le> rl_window_duration rl" and "latest \<le> now"
    and inv: "window_inv (unat (rl_max_requests rl)) (rl_window_duration rl) latest acc (client_window key rl)"
  shows "window_inv (unat (rl_max_requests rl)) (rl_window_duration rl) now (if ok then acc @ [now] else acc)
    (client_window key rl')"
proof -
  let ?w = "evict (rl_window_duration rl) now (client_window key rl)"
  note ev = window_inv_evict [OF inv assms(2,3)]
  have "length ?w \<le> unat (rl_max_requests rl)" using ev by (simp add: window_inv_def)
  then have len: "unat (of_nat (length ?w) :: u64) = length ?w"
    using unsigned_less [where 'a = nat, of "rl_max_requests rl"] by (simp add: unat_of_nat)
  have "length ?w < unat (rl_max_requests rl)" if ok
    using assms(1) that len by (auto simp: limiter_check_def Let_def word_le_nat_alt split: if_splits)
  then show ?thesis
    using assms(1) ev window_inv_accept [OF ev assms(2)]
    by (auto simp: limiter_check_def client_window_def Let_def split: if_splits)
qed

lemma limiter_run_bound:
  "sorted (map fst reqs) \<Longrightarrow> \<forall>r \<in> set reqs. latest \<le> fst r \<Longrightarrow> 0 \<le> rl_window_duration rl \<Longrightarrow>
   window_inv (unat (rl_max_requests rl)) (rl_window_duration rl) latest acc (client_window key rl) \<Longrightarrow>
   length (filter (\<lambda>s. a \<le> s \<and> s \<le> a + rl_window_duration rl) (acc @ accepted_times key reqs rl))
     \<le> unat (rl_max_requests rl)"
proof (induction reqs arbitrary: rl latest acc)
  case Nil
  then show ?case by (simp add: accepted_times_def window_inv_def)
next
  case (Cons r reqs)
  obtain now k where r: "r = (now, k)" by (cases r)
  obtain ok rl' where chk: "limiter_check now k rl = (ok, rl')" by fastforce
  note keeps = limiter_check_keeps [OF chk]
  have tl: "sorted (map fst reqs)" "\<forall>r \<in> set reqs. now \<le> fst r" "latest \<le> now" using Cons.prems r by auto
  let ?acc = "if ok \<and> k = key then acc @ [now] else acc"
  have "window_inv (unat (rl_max_requests rl)) (rl_window_duration rl) now ?acc (client_window key rl')"
  proof (cases "k = key")
    case True
    then show ?thesis using limiter_check_step [OF chk] Cons.prems tl(3) by (auto split: if_splits)
  next
    case False
    moreover obtain old where "acc = old @ client_window key rl" "\<forall>s \<in> set old. latest - s > rl_window_duration rl"
      using Cons.prems(4) by (auto simp: window_inv_def)
    moreover have "\<forall>s \<in> set acc. s \<le> now" using Cons.prems(4) tl(3) by (auto simp: window_inv_def)
    moreover have "\<forall>s \<in> set old. now - s > rl_window_duration rl" using calculation(3) tl(3) by force
    ultimately show ?thesis using Cons.prems(4) keeps(3) [of key] unfolding window_inv_def by auto
  qed
  from Cons.IH [OF tl(1,2), of rl' ?acc] this keeps Cons.prems(3)
  have "length (filter (\<lambda>s. a \<le> s \<and> s \<le> a + rl_window_duration rl) (?acc @ accepted_times key reqs rl'))
     \<le> unat (rl_max_requests rl)" by simp
  moreover have "acc @ accepted_times key (r # reqs) rl = ?acc @ accepted_times key reqs rl'"
    using r chk by (simp add: accepted_times_def split: prod.split)
  ultimately show ?case by simp
qed

section \<open>Sessions and tokens\<close>

lemma any_create_look:
  assumes "any_create ops sid now1 now2 req ss = (s, ss')" and "1000000000 \<le> csr_time_limit req"
  shows "any_look ss' = (any_look ss)(sid \<mapsto> s) \<and> s = fresh_session sid now1 now2 (csr_time_limit req) req"
  using assms
  by (cases ss) (auto simp: any_look_def create_def sb_create_def put_session_def Let_def fun_eq_iff update_conv')

text \<open>The bounds that the API promises for a session it creates.\<close>

definition session_bounded :: "app_config \<Rightarrow> task_session \<Rightarrow> bool" where
  "session_bounded cfg s \<longleftrightarrow>
     1000000000 \<le> ts_time_limit s \<and> ts_time_limit s \<le> 86400 * 1000000000 \<and>
     0 < ts_call_budget s \<and> ts_call_budget s \<le> 1000000 \<and> ts_calls_made s = 0 \<and>
     str_trim (ts_declared_intent s) \<noteq> [] \<and> length (ts_declared_intent s) \<le> 512 \<and>
     (ts_rate_limit_window_secs s = ap_default_rate_limit_window_secs cfg \<or>
      10 \<le> ts_rate_limit_window_secs s \<and> ts_rate_limit_window_secs s \<le> 3600) \<and>
     ts_status s = StActive"

lemma parameter_refusal_None:
  assumes "parameter_refusal req = None"
  shows "0 < or_default default_time_limit (cs_time_limit_secs req)"
    "or_default default_time_limit (cs_time_limit_secs req) \<le> 86400"
    "0 < or_default default_call_budget (cs_call_budget req)"
    "or_default default_call_budget (cs_call_budget req) \<le> 1000000"
    "str_trim (cs_declared_intent req) \<noteq> []" "length (cs_declared_intent req) \<le> 512"
    "cs_rate_limit_window_secs req = None \<or>
     (\<exists>w. cs_rate_limit_window_secs req = Some w \<and> 10 \<le> w \<and> w \<le> 3600)"
  using assms
  by (auto simp: parameter_refusal_def window_refusal_def MAX_INTENT_LEN_def Let_def word_neq_0_conv
      split: if_splits option.splits)

lemma session_commit_created:
  assumes "session_commit env cfg rd req st = (out, st')" and "parameter_refusal req = None"
  shows "\<exists>s b. out = Reply 201 (CreatedBody b) \<and> cn_session_id b = ar_new_id rd \<and>
    any_look (st_sessions st') = (any_look (st_sessions st))(ar_new_id rd \<mapsto> s) \<and>
    ts_agent_id s = cs_agent_id req \<and> session_bounded cfg s \<and> st_registry st' = st_registry st"
proof -
  note p = parameter_refusal_None [OF assms(2)]
  let ?secs = "or_default default_time_limit (cs_time_limit_secs req)"
  obtain create_req where cr: "session_request cfg req = Some create_req"
    "create_req = \<lparr>csr_agent_id = cs_agent_id req,
        csr_delegation_chain_snapshot = or_default [] (cs_delegation_chain_snapshot req),
        csr_declared_intent = cs_declared_intent req,
        csr_authorized_tools = or_default [] (cs_authorized_tools req),
        csr_authorized_credentials = or_default [] (cs_authorized_credentials req),
        csr_time_limit = ?secs * 1000000000,
        csr_call_budget = or_default default_call_budget (cs_call_budget req),
        csr_rate_limit_per_minute = cs_rate_limit_per_minute req,
        csr_rate_limit_window_secs =
          or_default (ap_default_rate_limit_window_secs cfg) (cs_rate_limit_window_secs req),
        csr_data_sensitivity_ceiling = or_default default_data_sensitivity (cs_data_sensitivity_ceiling req)\<rparr>"
    using p(1,2) by (simp add: session_request_def duration_seconds_def)
  obtain s ss where run: "any_create (le_sessions env) (ar_new_id rd) (ar_create1 rd) (ar_create2 rd) create_req
      (st_sessions st) = (s, ss)" by fastforce
  have "1000000000 \<le> csr_time_limit create_req" using p(1) by (simp add: cr(2))
  note look = any_create_look [OF run this]
  have "session_bounded cfg s"
    using look p by (auto simp: session_bounded_def fresh_session_def cr(2) or_default_def)
  moreover have "ts_agent_id s = cs_agent_id req" "ts_session_id s = ar_new_id rd"
    using look by (simp_all add: fresh_session_def cr(2))
  moreover obtain b where "out = Reply 201 (CreatedBody b)" "cn_session_id b = ts_session_id s"
    "st_sessions st' = ss" "st_registry st' = st_registry st"
    using assms(1) cr(1) run by (auto simp: session_commit_def)
  ultimately show ?thesis using look by metis
qed

lemma agent_refusal_None:
  assumes "agent_refusal env rd i r = None"
  obtains a where "r = Ok a" "ag_active a" "\<And>e. ag_expires_at a = Some e \<Longrightarrow> ar_now rd \<le> e"
  using assms by (auto simp: agent_refusal_def Let_def split: result.splits if_splits option.splits)

lemma session_admission_None:
  assumes "session_admission env cfg rd req st = (None, st')"
  obtains a rg where "anyreg_get_agent (le_agents env) (le_uuid_to_string env) (ar_registry rd) (cs_agent_id req)
      (st_registry st) = (Ok a, rg)" "st' = st\<lparr>st_registry := rg\<rparr>" "ag_active a"
    "\<And>e. ag_expires_at a = Some e \<Longrightarrow> ar_now rd \<le> e"
    "cap_refusal env cfg (cs_agent_id req) (st_sessions st) = None" "parameter_refusal req = None"
  using assms
  by (auto simp: session_admission_def Let_def split: prod.splits option.splits elim!: agent_refusal_None)

lemma api_create_session_201:
  assumes "api_create_session env cfg rd hs req st = (Reply 201 body, st')"
  obtains rl st1 where "session_admission env cfg rd req (st\<lparr>st_limiter := rl\<rparr>) = (None, st1)"
    "session_commit env cfg rd req st1 = (Reply 201 body, st')"
proof -
  obtain rl where "(case session_admission env cfg rd req (st\<lparr>st_limiter := rl\<rparr>) of
      (Some e, st) \<Rightarrow> (e, st) | (None, st) \<Rightarrow> session_commit env cfg rd req st) = (Reply 201 body, st')"
    using guarded_runs [OF assms [unfolded api_create_session_def]] by auto
  moreover have "session_admission env cfg rd req st \<noteq> (Some (Reply 201 body), st')" for st
    by (auto simp: session_admission_def agent_refusal_def cap_refusal_def parameter_refusal_def window_refusal_def
        Let_def split: prod.splits option.splits if_splits result.splits)
  ultimately show thesis using that by (auto split: prod.splits option.splits)
qed

section \<open>A concrete server\<close>

definition lc_env :: "(unit, unit, string) api_env" where
  "lc_env = \<lparr>le_sessions = ge_storage gw_env, le_agents = no_agents, le_text = demo_text_env,
     le_parse_toml = (\<lambda>_. Err ''no''), le_uuid_to_string = (\<lambda>_. ''id''),
     le_encode = (\<lambda>secret claims. Ok (tk_sub claims)), le_to_str = Some, le_key_hash = id,
     le_percent = (\<lambda>_ _. Fin 100)\<rparr>"

definition lc_token_config :: token_config where
  "lc_token_config = \<lparr>tc_signing_secret = ''0123456789abcdef0123456789abcdef'', tc_expiry_seconds = 3600,
     tc_issuer = ''arbiter''\<rparr>"

definition lc_config :: app_config where
  "lc_config = (fst (app_with_token_config ''administration-key'' lc_token_config :: _ \<times> (unit, unit, string) app_state))
     \<lparr>ap_max_concurrent_sessions_per_agent := Some 1\<rparr>"

definition lc_state :: "(unit, unit, string) app_state" where
  "lc_state = (snd (app_with_token_config ''administration-key'' lc_token_config))
     \<lparr>st_registry := gs_registry gw_state\<rparr>"

definition lc_readings :: "uuid \<Rightarrow> api_readings" where
  "lc_readings i = \<lparr>ar_limiter = 0, ar_registry = 0, ar_now = 0, ar_token = 0, ar_new_id = i, ar_jti = 0,
     ar_create1 = 0, ar_create2 = 0, ar_file = Err ''absent''\<rparr>"

definition lc_headers :: headers where
  "lc_headers = [(''x-api-key'', ''administration-key'')]"

definition lc_request :: create_session_api_request where
  "lc_request = \<lparr>cs_agent_id = 7, cs_delegation_chain_snapshot = None, cs_declared_intent = ''read the logs'',
     cs_authorized_tools = Some [''read_file''], cs_authorized_credentials = None, cs_time_limit_secs = None,
     cs_call_budget = Some 5, cs_rate_limit_per_minute = None, cs_rate_limit_window_secs = Some 60,
     cs_data_sensitivity_ceiling = None\<rparr>"

definition is_reply :: "nat \<Rightarrow> api_outcome \<Rightarrow> bool" where
  "is_reply status out = (case out of Reply s _ \<Rightarrow> s = status | _ \<Rightarrow> False)"
lemma lc_intent: "str_trim ''read the logs'' \<noteq> []"
  by code_simp

lemmas lc_defs = lc_request_def lc_config_def lc_state_def lc_readings_def lc_env_def lc_headers_def
  app_with_token_config_def gw_state_def gw_agent_def limiter_new_def

lemmas session_api_defs = session_admission_def agent_refusal_def cap_refusal_def parameter_refusal_def
  window_refusal_def session_commit_def session_request_def or_default_def default_time_limit_def
  default_data_sensitivity_def MAX_INTENT_LEN_def DEFAULT_ADMIN_MAX_REQUESTS_PER_MINUTE_def
  any_count_active_for_agent_def count_active_for_agent_def active_for_def get_agent_def create_def
  fresh_session_def put_session_def store_new_def

lemma lc_admitted:
  "i \<in> {1, 2} \<Longrightarrow> session_admission lc_env lc_config (lc_readings i) lc_request lc_state = (None, lc_state)"
  using lc_intent by (auto simp: session_api_defs lc_defs)

lemma lc_both_committed:
  "any_count_active_for_agent 7 (st_sessions (snd (session_commit lc_env lc_config (lc_readings 2) lc_request
     (snd (session_commit lc_env lc_config (lc_readings 1) lc_request lc_state))))) = 2"
  by (simp add: session_api_defs lc_defs Let_def)

lemma lc_key: "ap_admin_api_key lc_config = ''administration-key''"
  by (simp add: lc_config_def app_with_token_config_def)

lemma lc_guarded:
  "ap_admin_api_key cfg = ''administration-key'' \<Longrightarrow> guarded lc_env cfg (lc_readings i) lc_headers lc_state body =
     body (lc_state\<lparr>st_limiter := (st_limiter lc_state)\<lparr>rl_clients := [(''key:administration-key'', [0])]\<rparr>\<rparr>)"
  by (simp add: guarded_def check_admin_rate_limit_def validate_admin_key_def limiter_check_def client_key_def
      presented_key_def header_get_def constant_time_eq_def client_window_def evict_def lc_defs Let_def
      DEFAULT_ADMIN_MAX_REQUESTS_PER_MINUTE_def)



definition lc_session :: "uuid \<Rightarrow> task_session" where
  "lc_session i = \<lparr>ts_session_id = i, ts_agent_id = 7, ts_delegation_chain_snapshot = [],
     ts_declared_intent = ''read the logs'', ts_authorized_tools = [''read_file''], ts_authorized_credentials = [],
     ts_time_limit = 3600000000000, ts_call_budget = 5, ts_calls_made = 0, ts_rate_limit_per_minute = None,
     ts_rate_window_start = 0, ts_rate_window_calls = 0, ts_rate_limit_window_secs = 60,
     ts_data_sensitivity_ceiling = Internal, ts_created_at = 0, ts_status = StActive\<rparr>"

definition lc_state1 :: "(unit, unit, string) app_state" where
  "lc_state1 = lc_state\<lparr>st_sessions := InMemory \<lparr>ss_sessions = [(1, lc_session 1)]\<rparr>,
     st_limiter := (st_limiter lc_state)\<lparr>rl_clients := [(''key:administration-key'', [0])]\<rparr>,
     st_active_sessions := 1\<rparr>"

lemma lc_created:
  "api_create_session lc_env lc_config (lc_readings 1) lc_headers lc_request lc_state =
     (Reply 201 (CreatedBody \<lparr>cn_session_id = 1, cn_declared_intent = ''read the logs'',
       cn_authorized_tools = [''read_file''], cn_authorized_credentials = [], cn_call_budget = 5,
       cn_time_limit_secs = 3600\<rparr>), lc_state1)"
  using lc_intent by (simp add: api_create_session_def lc_guarded lc_key)
   (simp add: session_api_defs lc_defs Let_def lc_state1_def lc_session_def)

lemma lc_refused:
  "is_reply 429 (fst (api_create_session lc_env lc_config (lc_readings 2) lc_headers lc_request lc_state1))"
  by (simp add: api_create_session_def guarded_def check_admin_rate_limit_def validate_admin_key_def limiter_check_def
      client_key_def presented_key_def header_get_def constant_time_eq_def client_window_def evict_def Let_def lc_defs
      lc_state1_def lc_session_def session_api_defs is_reply_def word_le_nat_alt)

lemma lc_token:
  "fst (api_issue_agent_token lc_env lc_config (lc_readings 1) lc_headers 7 (Some \<lparr>tq_expiry_seconds = Some 100000\<rparr>) lc_state) =
     Reply 200 (TokenBody ''user:alice'' 100000)"
  by (simp add: api_issue_agent_token_def lc_guarded lc_key)
    (simp add: lc_defs get_agent_def issue_token_def lc_token_config_def MIN_SIGNING_SECRET_LEN_def
      MAX_TOKEN_EXPIRY_SECS_def)

lemma lc_explained:
  "fst (api_explain_policy lc_env lc_config (lc_readings 1) lc_headers
     \<lparr>pe_agent_id = 7, pe_declared_intent = [], pe_tool = ''read_file'', pe_arguments = None, pe_principal = None\<rparr> lc_state) =
   Reply 200 (ExplainBody \<lparr>pr_decision = ''allow'', pr_matched_policy = None,
     pr_reason = Some ''no policies configured'', pr_trace = []\<rparr>)"
  by (simp add: api_explain_policy_def lc_guarded lc_key) (simp add: lc_defs)

lemma lc_unregistered:
  "fst (api_register_agent lc_env (lc_config\<lparr>ap_token_config := token_config_default\<rparr>) (lc_readings 5) lc_headers
     \<lparr>ra_owner = ''o'', ra_model = ''m'', ra_capabilities = None, ra_trust_level = Some Trusted, ra_expires_at = None\<rparr>
     lc_state) = api_error 500 ''token issuance failed''"
  by (simp add: api_register_agent_def lc_guarded lc_key)
    (simp add: lc_defs register_agent_def issue_token_def token_config_default_def MIN_SIGNING_SECRET_LEN_def Let_def)

section \<open>Properties\<close>

text \<open>
  C11: nothing happens without the key. A request of any kind whose header does not carry the
  administration key is answered with 401, or 429 by the rate limiter, and leaves the registry, the
  sessions, the policies, the statistics and the gauges as they were.
\<close>

theorem admin_key_required:
  assumes "presented_key env hs \<noteq> Some (ap_admin_api_key cfg)"
    and "length (ap_admin_api_key cfg) < 2 ^ 64" and "\<forall>k. presented_key env hs = Some k \<longrightarrow> length k < 2 ^ 64"
    and "api_handle env cfg rd hs c st = (out, st')"
  shows "(\<exists>msg. out = api_error 401 msg \<or> out = api_error 429 msg) \<and> st' = st\<lparr>st_limiter := st_limiter st'\<rparr>"
proof -
  obtain msg where "validate_admin_key env hs (ap_admin_api_key cfg) = Some (api_error 401 msg)"
    using assms(1-3) by (cases "presented_key env hs") (auto simp: validate_admin_key_def constant_time_eq_iff)
  moreover obtain body where "guarded env cfg rd hs st body = (out, st')"
    using api_handle_guarded assms(4) by metis
  ultimately show ?thesis using guarded_denied by blast
qed

theorem admin_key_required_witness:
  "\<exists>msg. fst (api_handle lc_env lc_config (lc_readings 1) [(''x-api-key'', ''guess'')] (DeactivateAgent 7) lc_state) =
     api_error 401 msg \<or>
   fst (api_handle lc_env lc_config (lc_readings 1) [(''x-api-key'', ''guess'')] (DeactivateAgent 7) lc_state) =
     api_error 429 msg"
proof -
  have "presented_key lc_env [(''x-api-key'', ''guess'')] = Some ''guess''"
    by (simp add: presented_key_def header_get_def lc_env_def)
  moreover have "ap_admin_api_key lc_config = ''administration-key''"
    by (simp add: lc_config_def app_with_token_config_def)
  ultimately show ?thesis
    using admin_key_required [of lc_env "[(''x-api-key'', ''guess'')]" lc_config "lc_readings 1" "DeactivateAgent 7"
        lc_state, OF _ _ _ prod.collapse [symmetric]] by simp
qed

text \<open>
  C12: the rate limiter keeps its promise. However the requests of all clients interleave, as long as
  the clock does not run backwards, no client has more requests accepted within any window of the
  configured length than the configured maximum.
\<close>

theorem rate_limiter_bounds_every_window:
  assumes "sorted (map fst reqs)" and "0 \<le> d"
  shows "length (filter (\<lambda>s. a \<le> s \<and> s \<le> a + d) (accepted_times key reqs (limiter_new n d))) \<le> unat n"
proof (cases reqs)
  case (Cons r rs)
  have "window_inv (unat n) d (fst r) [] (client_window key (limiter_new n d))"
    by (simp add: window_inv_def client_window_def limiter_new_def)
  with limiter_run_bound [of reqs "fst r" "limiter_new n d" "[]" key a] assms Cons show ?thesis
    by (auto simp: limiter_new_def)
qed (simp add: accepted_times_def)

theorem rate_limiter_bounds_every_window_witness:
  "length (filter (\<lambda>s. 0 \<le> s \<and> s \<le> 0 + 60) (accepted_times ''k'' [(0, ''k''), (1, ''k''), (2, ''j''), (3, ''k'')]
     (limiter_new 2 60))) \<le> 2"
  using rate_limiter_bounds_every_window [of "[(0, ''k''), (1, ''k''), (2, ''j''), (3, ''k'')]" 60 0 "''k''" 2] by simp

text \<open>
  C30: sessions created over the API are well formed. An answer 201 means that the agent exists, is
  active and has not expired, and that the session now stored under the announced identifier is
  active, belongs to that agent and keeps the documented bounds on time, budget, intent and rate
  window.
\<close>

theorem created_session_is_well_formed:
  assumes "api_create_session env cfg rd hs req st = (Reply 201 (CreatedBody b), st')"
  shows "\<exists>s a rg. any_look (st_sessions st') (cn_session_id b) = Some s \<and> session_bounded cfg s \<and>
    ts_agent_id s = cs_agent_id req \<and>
    anyreg_get_agent (le_agents env) (le_uuid_to_string env) (ar_registry rd) (cs_agent_id req) (st_registry st) =
      (Ok a, rg) \<and> ag_active a \<and> (\<forall>e. ag_expires_at a = Some e \<longrightarrow> ar_now rd \<le> e)"
proof -
  obtain rl st1 where adm: "session_admission env cfg rd req (st\<lparr>st_limiter := rl\<rparr>) = (None, st1)"
    and com: "session_commit env cfg rd req st1 = (Reply 201 (CreatedBody b), st')"
    using api_create_session_201 [OF assms] .
  from adm show ?thesis
  proof (rule session_admission_None)
    fix a rg
    assume "anyreg_get_agent (le_agents env) (le_uuid_to_string env) (ar_registry rd) (cs_agent_id req)
        (st_registry (st\<lparr>st_limiter := rl\<rparr>)) = (Ok a, rg)" "ag_active a"
      "\<And>e. ag_expires_at a = Some e \<Longrightarrow> ar_now rd \<le> e" "parameter_refusal req = None"
    with session_commit_created [OF com] show ?thesis by auto
  qed
qed

theorem created_session_is_well_formed_witness:
  "\<exists>b st' s. api_create_session lc_env lc_config (lc_readings 1) lc_headers lc_request lc_state =
     (Reply 201 (CreatedBody b), st') \<and> any_look (st_sessions st') (cn_session_id b) = Some s \<and> session_bounded lc_config s"
proof -
  from created_session_is_well_formed [OF lc_created] lc_created show ?thesis by blast
qed

text \<open>
  Tokens are bounded, their announcement is not. A token is only issued for an active agent, its
  claims name that agent, and it expires after the requested time but at most one day after it was
  issued; the answer announces the requested time even when it is longer.
\<close>

theorem issued_token_is_bounded:
  assumes "api_issue_agent_token env cfg rd hs i (Some \<lparr>tq_expiry_seconds = Some e\<rparr>) st =
    (Reply 200 (TokenBody token announced), st')"
  shows "\<exists>claims a rg. anyreg_get_agent (le_agents env) (le_uuid_to_string env) (ar_registry rd) i (st_registry st) =
      (Ok a, rg) \<and> ag_active a \<and>
    le_encode env (tc_signing_secret (ap_token_config cfg)) claims = Ok token \<and>
    32 \<le> length (tc_signing_secret (ap_token_config cfg)) \<and>
    tk_agent_id claims = le_uuid_to_string env (ag_id a) \<and>
    0 < tk_exp claims - tk_iat claims \<and> tk_exp claims - tk_iat claims = min e 86400 \<and> announced = e"
proof -
  obtain r rg where get: "anyreg_get_agent (le_agents env) (le_uuid_to_string env) (ar_registry rd) i
      (st_registry st) = (r, rg)" by fastforce
  note run = guarded_runs [OF assms [unfolded api_issue_agent_token_def]]
  obtain a where a: "r = Ok a" "ag_active a" "0 < e" "announced = e"
    and tok: "issue_token (le_encode env) (le_uuid_to_string env) (ar_token rd) (ar_jti rd) (ag_id a)
      (ag_owner a) ((ap_token_config cfg)\<lparr>tc_expiry_seconds := e\<rparr>) = Ok token"
    using run get by (cases r) (auto simp: Let_def split: if_splits result.splits)
  have d: "duration_seconds (min e 86400) = Some (min e 86400 * 1000000000)" using a(3) by simp
  have ts: "timestamp (t + k * 1000000000) - timestamp t = k" for t k by (simp add: timestamp_def)
  show ?thesis
    using tok get a d ts [of "ar_token rd" "min e 86400"]
    by (auto simp: issue_token_def MIN_SIGNING_SECRET_LEN_def MAX_TOKEN_EXPIRY_SECS_def Let_def split: if_splits)
qed

theorem issued_token_is_bounded_witness:
  "\<exists>(claims :: agent_token_claims) st'. api_issue_agent_token lc_env lc_config (lc_readings 1) lc_headers 7 (Some \<lparr>tq_expiry_seconds = Some 100000\<rparr>)
     lc_state = (Reply 200 (TokenBody ''user:alice'' 100000), st') \<and> tk_sub claims = ''user:alice'' \<and>
     tk_exp claims - tk_iat claims = 86400"
proof -
  let ?run = "api_issue_agent_token lc_env lc_config (lc_readings 1) lc_headers 7 (Some \<lparr>tq_expiry_seconds = Some 100000\<rparr>) lc_state"
  obtain st' where run: "?run = (Reply 200 (TokenBody ''user:alice'' 100000), st')"
    using lc_token by (cases ?run) simp
  from issued_token_is_bounded [OF run] obtain claims where
    "le_encode lc_env (tc_signing_secret (ap_token_config lc_config)) claims = Ok ''user:alice''"
    "tk_exp claims - tk_iat claims = 86400" by auto
  with run show ?thesis by (intro exI [of _ claims] exI [of _ st']) (simp add: lc_env_def)
qed


text \<open>
  A registration that fails leaves its agent behind. With a signing secret shorter than 32 bytes,
  which the default configuration has, a registration that passes the key check is answered with 500,
  and the registry in memory nevertheless holds the new agent, active and with the requested trust.
\<close>

theorem failed_registration_leaves_agent:
  assumes "api_register_agent env cfg rd hs req st = (out, st')"
    and "\<And>msg. out \<noteq> api_error 401 msg" and "\<And>msg. out \<noteq> api_error 429 msg"
    and "st_registry st = RegInMemory rg" and "length (tc_signing_secret (ap_token_config cfg)) < 32"
  shows "out = api_error 500 ''token issuance failed'' \<and>
    (\<exists>rg' a. st_registry st' = RegInMemory rg' \<and> lookup_agent rg' (ar_new_id rd) = Some a \<and> ag_active a \<and>
       ag_trust_level a = or_default default_trust_level (ra_trust_level req))"
  using guarded_runs [OF assms(1) [unfolded api_register_agent_def] assms(2,3)] assms(4,5)
  by (auto simp: register_agent_def issue_token_def MIN_SIGNING_SECRET_LEN_def Let_def)

theorem failed_registration_leaves_agent_witness:
  "\<exists>st' rg' a. api_register_agent lc_env (lc_config\<lparr>ap_token_config := token_config_default\<rparr>) (lc_readings 5) lc_headers
      \<lparr>ra_owner = ''o'', ra_model = ''m'', ra_capabilities = None, ra_trust_level = Some Trusted, ra_expires_at = None\<rparr>
      lc_state = (api_error 500 ''token issuance failed'', st') \<and>
    st_registry st' = RegInMemory rg' \<and> lookup_agent rg' 5 = Some a \<and> ag_active a"
proof -
  let ?cfg = "lc_config\<lparr>ap_token_config := token_config_default\<rparr>"
  let ?req = "\<lparr>ra_owner = ''o'', ra_model = ''m'', ra_capabilities = None, ra_trust_level = Some Trusted, ra_expires_at = None\<rparr>"
  let ?run = "api_register_agent lc_env ?cfg (lc_readings 5) lc_headers ?req lc_state"
  obtain st' where run: "?run = (api_error 500 ''token issuance failed'', st')"
    using lc_unregistered by (cases ?run) simp
  have "st_registry lc_state = RegInMemory \<lparr>rg_agents = [(7, gw_agent)], rg_delegations = []\<rparr>"
    by (simp add: lc_state_def gw_state_def)
  from failed_registration_leaves_agent [OF run _ _ this] run show ?thesis
    by (auto simp: token_config_default_def lc_readings_def)
qed

text \<open>
  The dry run allows what the gateway denies. While no policies are configured, the explanation
  of any call is allow, and the request pipeline refuses every MCP request.
\<close>

theorem explanation_contradicts_gateway:
  assumes "api_explain_policy env cfg rd hs req st = (out, st')" and "st_policy st = None" and "gc_policy gcfg = None"
    and "\<And>msg. out \<noteq> api_error 401 msg" and "\<And>msg. out \<noteq> api_error 429 msg"
  shows "(\<exists>b. out = Reply 200 (ExplainBody b) \<and> pr_decision b = ''allow'') \<and>
    (\<exists>d. policy_stage genv gcfg grd agent_header chain_header sid session (Mcp ctx) rg = (Refuse d, rg))"
  using guarded_runs [OF assms(1) [unfolded api_explain_policy_def] assms(4,5)] assms(2,3)
  by (auto simp: policy_stage_def rejected_def Let_def)

theorem explanation_contradicts_gateway_witness:
  "\<exists>d. policy_stage gw_env (gw_config\<lparr>gc_policy := None\<rparr>) gw_readings ''7'' [] (Some 1) (Some gw_session) gw_calls
     (gs_registry gw_state) = (Refuse d, gs_registry gw_state)"
proof -
  let ?run = "api_explain_policy lc_env lc_config (lc_readings 1) lc_headers
     \<lparr>pe_agent_id = 7, pe_declared_intent = [], pe_tool = ''read_file'', pe_arguments = None, pe_principal = None\<rparr> lc_state"
  obtain st' b where run: "?run = (Reply 200 (ExplainBody b), st')"
    using lc_explained by (cases ?run) simp
  have "st_policy lc_state = None" by (simp add: lc_state_def app_with_token_config_def)
  then show ?thesis
    unfolding gw_calls_def
    by (intro conjunct2 [OF explanation_contradicts_gateway [OF run, of "gw_config\<lparr>gc_policy := None\<rparr>"]]) simp_all
qed

end
