(* ===== verification/Identity_Props.thy ===== *)
theory Identity_Props
  imports Identity
begin

text \<open>
  The registry's properties: delegations only narrow scopes and stay acyclic, chains are paths
  to the delegated agent, and deactivation cascades to everything below an agent.
\<close>

section \<open>The delegation graph\<close>

definition edges :: "delegation_link list \<Rightarrow> (uuid \<times> uuid) set" where
  "edges ds = (\<lambda>d. (dl_from d, dl_to d)) ` set ds"

lemma edges_append [simp]: "edges (ds @ es) = edges ds \<union> edges es"
  by (auto simp: edges_def)

lemma edges_single [simp]: "edges [l] = {(dl_from l, dl_to l)}"
  by (simp add: edges_def)

lemma incoming_edge: "incoming ds c = Some l \<Longrightarrow> (dl_from l, c) \<in> edges ds"
  using incoming_Some [of ds c l] by (auto simp: edges_def)

lemma no_incoming: "incoming ds c = None \<Longrightarrow> (a, c) \<notin> (edges ds)\<^sup>+"
  by (auto simp: incoming_None edges_def elim: tranclE)

lemma unique_incoming:
  "distinct (map dl_to ds) \<Longrightarrow> incoming ds c = Some l \<Longrightarrow> (a, c) \<in> edges ds \<Longrightarrow> a = dl_from l"
  using incoming_Some [of ds c l] by (auto simp: edges_def distinct_map dest: inj_onD)

text \<open>
  With at most one link into every agent, the walk of the cycle check sees every ancestor.
\<close>

lemma would_close_cycle_complete:
  assumes "\<not> would_close_cycle ds t V c" and "distinct (map dl_to ds)" and "acyclic (edges ds)"
    and "\<forall>v \<in> V. (c, v) \<in> (edges ds)\<^sup>*"
  shows "(t, c) \<notin> (edges ds)\<^sup>+"
  using assms
proof (induction ds t V c rule: would_close_cycle.induct)
  case (1 ds t V c)
  show ?case
  proof (cases "incoming ds c")
    case None
    then show ?thesis by (rule no_incoming)
  next
    case (Some l)
    let ?p = "dl_from l"
    have pc: "(?p, c) \<in> edges ds" using Some by (rule incoming_edge)
    have pt: "?p \<noteq> t" using 1(2) Some by (auto simp: would_close_cycle.simps [of ds t V c])
    have "?p \<notin> V"
    proof
      assume "?p \<in> V"
      with 1(5) have "(c, ?p) \<in> (edges ds)\<^sup>*" by blast
      with pc have "(?p, ?p) \<in> (edges ds)\<^sup>+" by (rule rtrancl_into_trancl2)
      with 1(4) show False by (simp add: acyclic_def)
    qed
    moreover from this have "\<not> would_close_cycle ds t (insert ?p V) ?p"
      using 1(2) Some pt by (simp add: would_close_cycle.simps [of ds t V c])
    moreover have "\<forall>v \<in> insert ?p V. (?p, v) \<in> (edges ds)\<^sup>*"
      using 1(5) pc by (auto intro: converse_rtrancl_into_rtrancl)
    ultimately have "(t, ?p) \<notin> (edges ds)\<^sup>+"
      using 1(1) [OF Some pt] 1(3,4) by blast
    then show ?thesis using pt unique_incoming [OF 1(3) Some]
      by (metis tranclE)
  qed
qed

section \<open>Creating delegations\<close>

lemma create_delegation_Ok:
  assumes "create_delegation now f t sc ex rg = (Ok link, rg')"
  shows "f \<noteq> t \<and> (\<exists>p c. lookup_agent rg f = Some p \<and> ag_active p \<and> lookup_agent rg t = Some c \<and>
      ag_owner p = ag_owner c \<and> sc \<noteq> [] \<and> set sc \<subseteq> set (ag_capabilities p)) \<and>
    \<not> depth_exceeded (rg_delegations rg) 0 f \<and>
    \<not> would_close_cycle (rg_delegations rg) t {f} f \<and>
    link = \<lparr>dl_from = f, dl_to = t, dl_scope_narrowing = sc, dl_created_at = now, dl_expires_at = ex\<rparr> \<and>
    rg' = rg\<lparr>rg_delegations := rg_delegations rg @ [link]\<rparr>"
  using assms
  by (auto simp: create_delegation_def Let_def find_None_iff split: if_splits option.splits)

lemma create_delegation_not_ok: "\<not> is_ok (fst (create_delegation now f t sc ex rg)) \<Longrightarrow>
  snd (create_delegation now f t sc ex rg) = rg"
  by (auto simp: create_delegation_def Let_def split: if_splits option.splits)

section \<open>Chains\<close>

fun linked :: "uuid \<Rightarrow> delegation_link list \<Rightarrow> bool" where
  "linked c [] = True"
| "linked c (l # ls) = (dl_to l = c \<and> linked (dl_from l) ls)"

lemma chain_walk_linked: "linked c (chain_walk ds V c)"
proof (induction ds V c rule: chain_walk.induct)
  case (1 ds V c)
  then show ?case
    by (cases "incoming ds c") (auto simp: chain_walk.simps [of ds V c] dest: incoming_Some)
qed

lemma chain_walk_subset: "set (chain_walk ds V c) \<subseteq> set ds"
proof (induction ds V c rule: chain_walk.induct)
  case (1 ds V c)
  then show ?case
    by (cases "incoming ds c") (auto simp: chain_walk.simps [of ds V c] dest: incoming_Some)
qed

lemma chain_walk_length:
  "length (chain_walk ds V c) \<le> Suc (card (dl_from ` set ds - V))"
proof (induction ds V c rule: chain_walk.induct)
  case (1 ds V c)
  show ?case
  proof (cases "incoming ds c")
    case None
    then show ?thesis by (simp add: chain_walk.simps)
  next
    case (Some l)
    then show ?thesis using 1(1) [OF Some] visited_decreases [OF Some, of V]
      by (cases "dl_from l \<in> V") (simp_all add: chain_walk.simps [of ds V c])
  qed
qed

text \<open>Without a cycle the walk ends at an agent nobody delegated to.\<close>

lemma chain_walk_root:
  assumes "acyclic (edges ds)" and "\<forall>v \<in> V. (c, v) \<in> (edges ds)\<^sup>*"
  shows "incoming ds (if chain_walk ds V c = [] then c else dl_from (last (chain_walk ds V c))) = None"
  using assms
proof (induction ds V c rule: chain_walk.induct)
  case (1 ds V c)
  show ?case
  proof (cases "incoming ds c")
    case None
    then show ?thesis by (simp add: chain_walk.simps)
  next
    case (Some l)
    let ?p = "dl_from l"
    have pc: "(?p, c) \<in> edges ds" using Some by (rule incoming_edge)
    have "?p \<notin> V"
    proof
      assume "?p \<in> V"
      with 1(3) have "(c, ?p) \<in> (edges ds)\<^sup>*" by blast
      with pc have "(?p, ?p) \<in> (edges ds)\<^sup>+" by (rule rtrancl_into_trancl2)
      with 1(2) show False by (simp add: acyclic_def)
    qed
    moreover have "\<forall>v \<in> insert ?p V. (?p, v) \<in> (edges ds)\<^sup>*"
      using 1(3) pc by (auto intro: converse_rtrancl_into_rtrancl)
    ultimately show ?thesis
      using 1(1) [OF Some] 1(2) Some by (simp add: chain_walk.simps [of ds V c] split: if_splits)
  qed
qed

section \<open>Cascading deactivation\<close>

definition act :: "(uuid \<times> agent) list \<Rightarrow> uuid \<Rightarrow> bool" where
  "act ags k \<longleftrightarrow> (\<exists>a. map_of ags k = Some a \<and> ag_active a)"

lemma deactivated_idem [simp]: "\<not> ag_active a \<Longrightarrow> a\<lparr>ag_active := False\<rparr> = a"
  by (cases a) simp

lemma act_deactivated:
  assumes "map_of ags' k = map_option (\<lambda>a. if k \<in> S then a\<lparr>ag_active := False\<rparr> else a) (map_of ags k)"
  shows "act ags' k \<longleftrightarrow> act ags k \<and> k \<notin> S"
  unfolding act_def assms by (cases "map_of ags k") simp_all

lemma deactivate_children_spec:
  "deactivate_children cs ags = (ags', new) \<Longrightarrow>
   (\<forall>k. map_of ags' k =
     map_option (\<lambda>a. if k \<in> set cs then a\<lparr>ag_active := False\<rparr> else a) (map_of ags k)) \<and>
   set new = {k \<in> set cs. act ags k} \<and> distinct new"
proof (induction cs arbitrary: ags ags' new)
  case Nil
  then show ?case by (auto simp: option.map_ident)
next
  case (Cons c cs)
  show ?case
  proof (cases "act ags c")
    case True
    then obtain a where a: "map_of ags c = Some a" "ag_active a" by (auto simp: act_def)
    let ?up = "AList.update c (a\<lparr>ag_active := False\<rparr>) ags"
    obtain new' where new': "deactivate_children cs ?up = (ags', new')" "new = c # new'"
      using Cons.prems a by (auto split: prod.splits)
    have act: "act ?up k \<longleftrightarrow> act ags k \<and> k \<noteq> c" for k by (auto simp: act_def)
    show ?thesis
      using Cons.IH [OF new'(1)] a True new'(2) by (auto simp: act)
  next
    case False
    then have run': "deactivate_children cs ags = (ags', new)"
      and inact: "map_of ags c = Some a \<Longrightarrow> \<not> ag_active a" for a
      using Cons.prems by (auto simp: act_def split: option.splits if_splits)
    have "map_option (\<lambda>a. if k \<in> set (c # cs) then a\<lparr>ag_active := False\<rparr> else a) (map_of ags k) =
        map_option (\<lambda>a. if k \<in> set cs then a\<lparr>ag_active := False\<rparr> else a) (map_of ags k)" for k
      using inact by (cases "map_of ags k") auto
    then show ?thesis using Cons.IH [OF run'] False by auto
  qed
qed

text \<open>
  What the cascade from agent \<open>i\<close> maintains: \<open>D\<close> lists the agents deactivated so far and
  \<open>W\<close> those whose children are still to be visited.
\<close>

definition cascade_inv ::
  "delegation_link list \<Rightarrow> (uuid \<times> agent) list \<Rightarrow> uuid \<Rightarrow> (uuid \<times> agent) list \<Rightarrow> uuid list \<Rightarrow>
   uuid list \<Rightarrow> bool" where
  "cascade_inv ds ags0 i ags D W \<longleftrightarrow>
     set W \<subseteq> set D \<and> distinct D \<and>
     (\<forall>d \<in> set D. (i, d) \<in> (edges ds)\<^sup>* \<and> act ags0 d) \<and>
     (\<forall>d \<in> set D - set W. \<forall>l \<in> set ds. dl_from l = d \<longrightarrow> \<not> act ags (dl_to l)) \<and>
     (\<forall>k. map_of ags k = map_option (\<lambda>a. if k \<in> set D then a\<lparr>ag_active := False\<rparr> else a) (map_of ags0 k))"

lemma cascade_inv_act: "cascade_inv ds ags0 i ags D W \<Longrightarrow> act ags k \<longleftrightarrow> act ags0 k \<and> k \<notin> set D"
  by (rule act_deactivated) (simp add: cascade_inv_def)

lemma cascade_inv_step:
  assumes inv: "cascade_inv ds ags0 i ags D W" and W: "W \<noteq> []"
    and run: "deactivate_children (map dl_to (filter (\<lambda>d. dl_from d = last W) ds)) ags = (ags', new)"
  shows "cascade_inv ds ags0 i ags' (D @ new) (butlast W @ new)"
proof -
  let ?cs = "map dl_to (filter (\<lambda>d. dl_from d = last W) ds)"
  from deactivate_children_spec [OF run]
  have look: "map_of ags' k =
        map_option (\<lambda>a. if k \<in> set ?cs then a\<lparr>ag_active := False\<rparr> else a) (map_of ags k)"
    and new: "set new = {k \<in> set ?cs. act ags k}" and dist: "distinct new" for k
    by blast+
  have act': "act ags' k \<longleftrightarrow> act ags k \<and> k \<notin> set ?cs" for k
    by (rule act_deactivated [OF look])
  note act = cascade_inv_act [OF inv]
  have lastW: "last W \<in> set D" using W inv by (auto simp: cascade_inv_def)
  have edge: "k \<in> set ?cs \<Longrightarrow> (last W, k) \<in> edges ds" for k by (force simp: edges_def)
  have "set (butlast W @ new) \<subseteq> set (D @ new)"
    using inv by (auto simp: cascade_inv_def dest: in_set_butlastD)
  moreover have "distinct (D @ new)" using inv dist new act by (auto simp: cascade_inv_def)
  moreover have "(i, d) \<in> (edges ds)\<^sup>* \<and> act ags0 d" if "d \<in> set (D @ new)" for d
    using that inv new act edge lastW
    by (auto simp: cascade_inv_def intro: rtrancl_into_rtrancl)
  moreover have "\<not> act ags' (dl_to l)"
    if "d \<in> set (D @ new) - set (butlast W @ new)" "l \<in> set ds" "dl_from l = d" for d l
  proof (cases "d = last W")
    case True
    then show ?thesis using that act' by force
  next
    case False
    have "set W = insert (last W) (set (butlast W))"
      using W by (metis append_butlast_last_id list.simps(15) rotate1.simps(2) set_rotate1)
    with False that have "d \<in> set D - set W" by auto
    then show ?thesis using that inv act' by (auto simp: cascade_inv_def)
  qed
  moreover have "map_of ags' k =
      map_option (\<lambda>a. if k \<in> set (D @ new) then a\<lparr>ag_active := False\<rparr> else a) (map_of ags0 k)" for k
  proof -
    have k: "map_of ags k = map_option (\<lambda>a. if k \<in> set D then a\<lparr>ag_active := False\<rparr> else a) (map_of ags0 k)"
      using inv by (auto simp: cascade_inv_def)
    show ?thesis unfolding look k using new act [of k]
      by (cases "map_of ags0 k") (auto simp: act_def)
  qed
  ultimately show ?thesis unfolding cascade_inv_def by blast
qed

lemma cascade_loop_inv:
  assumes "cascade_inv ds ags0 i ags D W" and "cascade_loop ds ags D W = (ags', D')"
  shows "cascade_inv ds ags0 i ags' D' []"
  using assms
proof (induction ds ags D W rule: cascade_loop.induct)
  case (1 ds ags D W)
  show ?case
  proof (cases "W = []")
    case True
    with 1 show ?thesis by (simp add: cascade_loop.simps)
  next
    case False
    let ?step = "deactivate_children (map dl_to (filter (\<lambda>d. dl_from d = last W) ds)) ags"
    have "cascade_loop ds (fst ?step) (D @ snd ?step) (butlast W @ snd ?step) = (ags', D')"
      using 1(3) False by (simp add: cascade_loop.simps [of ds ags D W] Let_def)
    then show ?thesis
      using 1(1) [OF False refl refl refl cascade_inv_step [OF 1(2) False prod.collapse [symmetric]]]
      by blast
  qed
qed

lemma cascade_deactivate_Ok:
  assumes "cascade_deactivate i rg = (Ok D, rg')"
  shows "cascade_inv (rg_delegations rg) (rg_agents rg) i (rg_agents rg') D [] \<and>
    rg_delegations rg' = rg_delegations rg \<and> i \<in> set D"
proof -
  obtain a where a: "lookup_agent rg i = Some a" "ag_active a"
    using assms by (auto simp: cascade_deactivate_def deactivate_agent_def split: option.splits if_splits)
  let ?ags = "AList.update i (a\<lparr>ag_active := False\<rparr>) (rg_agents rg)"
  obtain ags D' where run: "cascade_loop (rg_delegations rg) ?ags [i] [i] = (ags, D')"
    by fastforce
  have res: "D = D'" "rg' = rg\<lparr>rg_agents := ags\<rparr>"
    using assms a run by (simp_all add: cascade_deactivate_def deactivate_agent_def)
  have "cascade_inv (rg_delegations rg) (rg_agents rg) i ?ags [i] [i]"
    using a by (auto simp: cascade_inv_def act_def option.map_ident)
  from cascade_loop_inv [OF this run]
  have inv: "cascade_inv (rg_delegations rg) (rg_agents rg) i ags D' []" .
  moreover have "i \<in> set D'"
  proof -
    have "set D0 \<subseteq> set D1" if "cascade_loop ds ags0 D0 W = (ags1, D1)" for ds ags0 D0 W ags1 D1
      using that
      by (induction ds ags0 D0 W rule: cascade_loop.induct)
        (subst (asm) cascade_loop.simps, auto simp: Let_def split: if_splits)
    from this [OF run] show ?thesis by simp
  qed
  ultimately show ?thesis using res by simp
qed

lemma cascade_deactivate_not_ok:
  "\<not> is_ok (fst (cascade_deactivate i rg)) \<Longrightarrow> snd (cascade_deactivate i rg) = rg"
  by (auto simp: cascade_deactivate_def deactivate_agent_def Let_def
      split: option.splits if_splits prod.splits)

section \<open>Runs of the registry\<close>

text \<open>
  The operations the admin API performs. A newly registered agent has a fresh identifier.
\<close>

inductive reg_step :: "registry \<Rightarrow> registry \<Rightarrow> bool" where
  reg_register: "lookup_agent rg n = None \<Longrightarrow>
    reg_step rg (snd (register_agent n now owner model caps level ex rg))"
| reg_trust: "reg_step rg (snd (update_trust_level i level rg))"
| reg_delegate: "reg_step rg (snd (create_delegation now f t sc ex rg))"
| reg_cascade: "reg_step rg (snd (cascade_deactivate i rg))"

inductive reg_reachable :: "registry \<Rightarrow> bool" where
  reg_start: "reg_reachable registry_new"
| reg_next: "reg_reachable rg \<Longrightarrow> reg_step rg rg' \<Longrightarrow> reg_reachable rg'"

definition reg_inv :: "registry \<Rightarrow> bool" where
  "reg_inv rg \<longleftrightarrow>
     (\<forall>l \<in> set (rg_delegations rg). lookup_agent rg (dl_from l) \<noteq> None \<and> lookup_agent rg (dl_to l) \<noteq> None \<and>
        (act (rg_agents rg) (dl_to l) \<longrightarrow> act (rg_agents rg) (dl_from l)))"

lemma act_update [simp]:
  "act (AList.update i a ags) k \<longleftrightarrow> (if k = i then ag_active a else act ags k)"
  by (auto simp: act_def)

lemma reg_inv_cascade:
  assumes "reg_inv rg" shows "reg_inv (snd (cascade_deactivate i rg))"
proof (cases "is_ok (fst (cascade_deactivate i rg))")
  case False
  then show ?thesis using assms by (simp add: cascade_deactivate_not_ok)
next
  case True
  then obtain D rg' where run: "cascade_deactivate i rg = (Ok D, rg')"
    by (cases "cascade_deactivate i rg") (auto simp: is_ok_iff)
  note cas = cascade_deactivate_Ok [OF run]
  note act = cascade_inv_act [OF conjunct1 [OF cas]]
  have dom: "lookup_agent rg' k = None \<longleftrightarrow> lookup_agent rg k = None" for k
    using cas by (simp add: cascade_inv_def)
  have below: "\<not> act (rg_agents rg') (dl_to l)"
    if "l \<in> set (rg_delegations rg)" "dl_from l \<in> set D" for l
    using cas that by (auto simp: cascade_inv_def)
  show ?thesis
    using assms cas dom below unfolding run reg_inv_def by (auto simp: act)
qed

lemma reg_inv_step: "reg_step rg rg' \<Longrightarrow> reg_inv rg \<Longrightarrow> reg_inv rg'"
proof (induction rule: reg_step.induct)
  case (reg_register rg n now owner model caps level ex)
  then show ?case
    by (auto simp: reg_inv_def register_agent_def Let_def act_def)
next
  case (reg_trust rg i level)
  then show ?case
    by (auto simp: reg_inv_def update_trust_level_def Let_def act_def split: option.splits)
next
  case (reg_delegate rg now f t sc ex)
  show ?case
  proof (cases "is_ok (fst (create_delegation now f t sc ex rg))")
    case False
    then show ?thesis using reg_delegate by (simp add: create_delegation_not_ok)
  next
    case True
    then obtain link rg' where run: "create_delegation now f t sc ex rg = (Ok link, rg')"
      by (cases "create_delegation now f t sc ex rg") (auto simp: is_ok_iff)
    show ?thesis using reg_delegate create_delegation_Ok [OF run]
      by (auto simp: run reg_inv_def act_def)
  qed
next
  case (reg_cascade rg i)
  then show ?case by (rule reg_inv_cascade)
qed

lemma reg_reachable_inv: "reg_reachable rg \<Longrightarrow> reg_inv rg"
proof (induction rule: reg_reachable.induct)
  case reg_start
  show ?case by (simp add: reg_inv_def registry_new_def)
next
  case (reg_next rg rg')
  then show ?case by (blast intro: reg_inv_step)
qed

lemma reg_inv_descendants:
  "(a, b) \<in> (edges (rg_delegations rg))\<^sup>* \<Longrightarrow> reg_inv rg \<Longrightarrow> act (rg_agents rg) b \<Longrightarrow>
   act (rg_agents rg) a"
  by (induction rule: rtrancl_induct) (auto simp: reg_inv_def edges_def)

section \<open>Properties\<close>

text \<open>A small registry for the witnesses: three agents of one owner.\<close>

definition demo_agent :: "uuid \<Rightarrow> agent" where
  "demo_agent i = \<lparr>ag_id = i, ag_owner = ''user:alice'', ag_model = ''m'',
     ag_capabilities = [''read'', ''write''], ag_trust_level = Basic, ag_created_at = 0,
     ag_expires_at = None, ag_active = True\<rparr>"

definition demo_registry :: registry where
  "demo_registry = \<lparr>rg_agents = [(1, demo_agent 1), (2, demo_agent 2), (3, demo_agent 3)],
     rg_delegations = []\<rparr>"

definition demo_link :: "uuid \<Rightarrow> uuid \<Rightarrow> delegation_link" where
  "demo_link f t = \<lparr>dl_from = f, dl_to = t, dl_scope_narrowing = [''read''], dl_created_at = 0,
     dl_expires_at = None\<rparr>"

lemma demo_register:
  "snd (register_agent i 0 ''user:alice'' ''m'' [''read'', ''write''] Basic None rg) =
   rg\<lparr>rg_agents := AList.update i (demo_agent i) (rg_agents rg)\<rparr>"
  by (simp add: register_agent_def demo_agent_def Let_def)

lemma demo_registry_reachable: "reg_reachable demo_registry"
proof -
  have step: "reg_step rg (rg\<lparr>rg_agents := AList.update i (demo_agent i) (rg_agents rg)\<rparr>)"
    if "lookup_agent rg i = None" for rg i
    using reg_register [OF that, of 0 "''user:alice''" "''m''" "[''read'', ''write'']" Basic None]
    by (simp only: demo_register)
  show ?thesis
    using reg_next [OF reg_next [OF reg_next [OF reg_start step [of _ 1]] step [of _ 2]] step [of _ 3]]
    by (simp add: registry_new_def demo_registry_def)
qed

lemmas demo_registry_defs = demo_registry_def demo_agent_def demo_link_def

lemmas delegation_eval = create_delegation_def demo_registry_defs depth_exceeded.simps
  MAX_CHAIN_DEPTH_def would_close_cycle.simps incoming_def Let_def

text \<open>
  C8: in every registry the admin operations can produce, an agent below a deactivated agent in the
  delegation graph is not active: deactivation always reaches all descendants.
\<close>

theorem deactivation_reaches_descendants:
  assumes "reg_reachable rg" and "(a, b) \<in> (edges (rg_delegations rg))\<^sup>*"
    and "\<not> act (rg_agents rg) a"
  shows "\<not> act (rg_agents rg) b"
  using reg_inv_descendants [OF assms(2) reg_reachable_inv [OF assms(1)]] assms(3) by blast

theorem deactivation_reaches_descendants_witness:
  "\<not> act (rg_agents (snd (cascade_deactivate 1 (snd (create_delegation 0 1 2 [''read''] None demo_registry))))) 2"
proof -
  let ?rg1 = "snd (create_delegation 0 1 2 [''read''] None demo_registry)"
  let ?rg2 = "snd (cascade_deactivate 1 ?rg1)"
  have rg1: "?rg1 = demo_registry\<lparr>rg_delegations := [demo_link 1 2]\<rparr>"
    by (simp add: delegation_eval)
  have reach: "reg_reachable ?rg2"
    by (rule reg_next [OF reg_next [OF demo_registry_reachable reg_delegate] reg_cascade])
  have rg2: "?rg2 = \<lparr>rg_agents = [(1, demo_agent 1\<lparr>ag_active := False\<rparr>),
      (2, demo_agent 2\<lparr>ag_active := False\<rparr>), (3, demo_agent 3)], rg_delegations = [demo_link 1 2]\<rparr>"
    unfolding rg1
    by (simp add: cascade_deactivate_def deactivate_agent_def demo_registry_defs cascade_loop.simps Let_def)
  have "(1, 2) \<in> (edges (rg_delegations ?rg2))\<^sup>*"
    unfolding rg2 by (simp add: edges_def demo_link_def r_into_rtrancl)
  from deactivation_reaches_descendants [OF reach this] show ?thesis
    unfolding rg2 by (simp add: act_def)
qed

text \<open>
  C21: cascading deactivation returns exactly the agents it switched off, without repetition, the
  agent it was called on among them; each of them is below that agent in the delegation graph, no
  active agent remains directly below any of them, and nothing else in the registry changes.
\<close>

theorem cascade_deactivate_exact:
  assumes "cascade_deactivate i rg = (Ok D, rg')"
  shows "i \<in> set D \<and> distinct D \<and>
    (\<forall>k. k \<in> set D \<longleftrightarrow> act (rg_agents rg) k \<and> \<not> act (rg_agents rg') k) \<and>
    (\<forall>k \<in> set D. (i, k) \<in> (edges (rg_delegations rg))\<^sup>*) \<and>
    (\<forall>l \<in> set (rg_delegations rg). dl_from l \<in> set D \<longrightarrow> \<not> act (rg_agents rg') (dl_to l)) \<and>
    (\<forall>k. lookup_agent rg' k =
       map_option (\<lambda>a. if k \<in> set D then a\<lparr>ag_active := False\<rparr> else a) (lookup_agent rg k)) \<and>
    rg_delegations rg' = rg_delegations rg"
proof -
  note cas = cascade_deactivate_Ok [OF assms]
  have "k \<in> set D \<longleftrightarrow> act (rg_agents rg) k \<and> \<not> act (rg_agents rg') k" for k
    using cascade_inv_act [OF conjunct1 [OF cas], of k] cas by (auto simp: cascade_inv_def)
  with cas show ?thesis unfolding cascade_inv_def by auto
qed

theorem cascade_deactivate_exact_witness:
  "\<exists>D rg'. cascade_deactivate 1 (demo_registry\<lparr>rg_delegations := [demo_link 1 2, demo_link 2 3]\<rparr>) = (Ok D, rg') \<and>
     D = [1, 2, 3] \<and> \<not> act (rg_agents rg') 3"
proof -
  obtain rg' where run:
    "cascade_deactivate 1 (demo_registry\<lparr>rg_delegations := [demo_link 1 2, demo_link 2 3]\<rparr>) =
     (Ok [1, 2, 3], rg')"
    by (simp add: cascade_deactivate_def deactivate_agent_def demo_registry_defs cascade_loop.simps Let_def)
  from cascade_deactivate_exact [OF run] run show ?thesis by auto
qed

text \<open>
  C22: a delegation is only created from an active agent to a registered agent of the same owner, and
  its scopes are a non-empty part of the capabilities the delegating agent holds.
\<close>

theorem create_delegation_narrows:
  assumes "create_delegation now f t sc ex rg = (Ok link, rg')"
  shows "\<exists>p c. lookup_agent rg f = Some p \<and> ag_active p \<and> lookup_agent rg t = Some c \<and> f \<noteq> t \<and>
    ag_owner p = ag_owner c \<and> dl_scope_narrowing link \<noteq> [] \<and>
    set (dl_scope_narrowing link) \<subseteq> set (ag_capabilities p) \<and>
    dl_from link = f \<and> dl_to link = t \<and> rg_delegations rg' = rg_delegations rg @ [link]"
  using create_delegation_Ok [OF assms] by auto

theorem create_delegation_narrows_witness:
  "\<exists>link rg' p. create_delegation 0 1 2 [''read''] None demo_registry = (Ok link, rg') \<and>
     lookup_agent demo_registry 1 = Some p \<and> set (dl_scope_narrowing link) \<subseteq> set (ag_capabilities p)"
proof -
  obtain link rg' where run: "create_delegation 0 1 2 [''read''] None demo_registry = (Ok link, rg')"
    by (simp add: delegation_eval)
  from create_delegation_narrows [OF run] run show ?thesis by blast
qed

text \<open>
  C23: where every agent has at most one incoming delegation, the cycle check is exact: a new
  delegation keeps an acyclic delegation graph acyclic.
\<close>

theorem delegation_keeps_acyclic:
  assumes "create_delegation now f t sc ex rg = (Ok link, rg')"
    and "acyclic (edges (rg_delegations rg))" and "distinct (map dl_to (rg_delegations rg))"
  shows "acyclic (edges (rg_delegations rg'))"
proof -
  let ?E = "edges (rg_delegations rg)"
  note ok = create_delegation_Ok [OF assms(1)]
  have "(t, f) \<notin> ?E\<^sup>+"
    using would_close_cycle_complete [of "rg_delegations rg" t "{f}" f] ok assms(2,3) by blast
  then have "(t, f) \<notin> ?E\<^sup>*" using ok by (auto simp: rtrancl_eq_or_trancl)
  then have "acyclic (insert (f, t) ?E)" using assms(2) by (simp add: acyclic_insert)
  then show ?thesis using ok by simp
qed

theorem delegation_keeps_acyclic_witness:
  "acyclic (edges (rg_delegations (snd (create_delegation 0 1 2 [''read''] None demo_registry))))"
proof -
  obtain link rg' where run: "create_delegation 0 1 2 [''read''] None demo_registry = (Ok link, rg')"
    by (simp add: delegation_eval)
  have "acyclic (edges (rg_delegations demo_registry))" "distinct (map dl_to (rg_delegations demo_registry))"
    by (simp_all add: demo_registry_def edges_def acyclic_def)
  from delegation_keeps_acyclic [OF run this] run show ?thesis by simp
qed

text \<open>
  The cycle check follows only the first incoming delegation of each agent. When an agent has two
  incoming delegations, a delegation back to its second delegator is accepted although it closes a
  cycle, and the registry with that cycle is reachable.
\<close>

theorem second_parent_cycle_accepted:
  "\<exists>rg rg' link. reg_reachable rg \<and> acyclic (edges (rg_delegations rg)) \<and>
     create_delegation 0 2 3 [''read''] None rg = (Ok link, rg') \<and>
     reg_reachable rg' \<and> \<not> acyclic (edges (rg_delegations rg'))"
proof -
  let ?rg = "demo_registry\<lparr>rg_delegations := [demo_link 1 2, demo_link 3 2]\<rparr>"
  have d1: "create_delegation 0 1 2 [''read''] None demo_registry =
      (Ok (demo_link 1 2), demo_registry\<lparr>rg_delegations := [demo_link 1 2]\<rparr>)"
    by (simp add: delegation_eval)
  have d2: "create_delegation 0 3 2 [''read''] None (demo_registry\<lparr>rg_delegations := [demo_link 1 2]\<rparr>) =
      (Ok (demo_link 3 2), ?rg)"
    by (simp add: delegation_eval)
  have d3: "create_delegation 0 2 3 [''read''] None ?rg =
      (Ok (demo_link 2 3), ?rg\<lparr>rg_delegations := [demo_link 1 2, demo_link 3 2, demo_link 2 3]\<rparr>)"
    by (simp add: delegation_eval)
  have r1: "reg_reachable ?rg"
    using reg_next [OF reg_next [OF demo_registry_reachable reg_delegate [of _ 0 1 2 "[''read'']" None]]
        reg_delegate [of _ 0 3 2 "[''read'']" None]] by (simp add: d1 d2)
  moreover have "reg_reachable (?rg\<lparr>rg_delegations := [demo_link 1 2, demo_link 3 2, demo_link 2 3]\<rparr>)"
    using reg_next [OF r1 reg_delegate [of _ 0 2 3 "[''read'']" None]] by (simp add: d3)
  moreover have "acyclic (edges (rg_delegations ?rg))"
    by (simp add: edges_def demo_link_def acyclic_insert) (simp add: acyclic_def rtrancl_insert)
  moreover have "\<not> acyclic (edges [demo_link 1 2, demo_link 3 2, demo_link 2 3])"
  proof
    let ?E = "edges [demo_link 1 2, demo_link 3 2, demo_link 2 3]"
    assume "acyclic ?E"
    moreover have "(2, 3) \<in> ?E" "(3, 2) \<in> ?E" by (auto simp: edges_def demo_link_def)
    then have "(2, 2) \<in> ?E\<^sup>+" by (rule trancl_into_trancl [OF r_into_trancl])
    ultimately show False by (auto simp: acyclic_def)
  qed
  ultimately show ?thesis using d3 by fastforce
qed

text \<open>
  The chain returned for an agent is a path of recorded delegations that ends at the agent, each
  link delegating to the source of the next; in an acyclic graph it starts at an agent nobody
  delegated to.
\<close>

theorem chain_is_path_from_root:
  assumes "acyclic (edges (rg_delegations rg))"
  shows "\<exists>chain. get_chain_for_agent a rg = Ok chain \<and> set chain \<subseteq> set (rg_delegations rg) \<and>
    linked a (rev chain) \<and>
    incoming (rg_delegations rg) (if chain = [] then a else dl_from (hd chain)) = None"
proof -
  let ?w = "chain_walk (rg_delegations rg) {a} a"
  have "incoming (rg_delegations rg) (if ?w = [] then a else dl_from (last ?w)) = None"
    by (rule chain_walk_root) (use assms in auto)
  then show ?thesis
    by (auto simp: get_chain_for_agent_def chain_walk_linked hd_rev dest: set_mp [OF chain_walk_subset])
qed

theorem chain_is_path_from_root_witness:
  "\<exists>chain. get_chain_for_agent 2 (demo_registry\<lparr>rg_delegations := [demo_link 1 2]\<rparr>) = Ok chain \<and>
     linked 2 (rev chain)"
proof -
  have "acyclic (edges (rg_delegations (demo_registry\<lparr>rg_delegations := [demo_link 1 2]\<rparr>)))"
    by (simp add: demo_registry_defs acyclic_insert) (simp add: acyclic_def)
  from chain_is_path_from_root [OF this, of 2] show ?thesis by blast
qed

lemma first_expired_None:
  "first_expired now i ls = None \<longleftrightarrow> (\<forall>j < length ls. \<not> link_is_expired (now (i + j)) (ls ! j))"
proof (induction ls arbitrary: i)
  case (Cons l ls)
  show ?case
    by (simp add: Cons.IH All_less_Suc2)
qed simp

text \<open>
  A verified chain is the agent's delegation chain, none of its links had expired when it was
  looked at, and no delegating agent in it is registered as inactive.
\<close>

theorem verify_chain_sound:
  assumes "verify_chain now a rg = Ok chain"
  shows "get_chain_for_agent a rg = Ok chain \<and>
    (\<forall>j < length chain. \<not> link_is_expired (now j) (chain ! j)) \<and>
    (\<forall>l \<in> set chain. \<forall>p. lookup_agent rg (dl_from l) = Some p \<longrightarrow> ag_active p)"
proof -
  obtain chain' where c: "get_chain_for_agent a rg = Ok chain'"
    by (simp add: get_chain_for_agent_def)
  with assms have "chain' = chain" and e: "first_expired now 0 chain = None"
    and f: "find (\<lambda>l. case lookup_agent rg (dl_from l) of Some a \<Rightarrow> \<not> ag_active a | None \<Rightarrow> False) chain = None"
    by (auto simp: verify_chain_def split: option.splits)
  moreover have "\<forall>l \<in> set chain. \<forall>p. lookup_agent rg (dl_from l) = Some p \<longrightarrow> ag_active p"
    using f by (auto simp: find_None_iff split: option.splits)
  ultimately show ?thesis using c first_expired_None [of now 0 chain] by auto
qed

theorem verify_chain_sound_witness:
  "\<exists>chain. verify_chain (\<lambda>_. 5) 2 (demo_registry\<lparr>rg_delegations := [demo_link 1 2]\<rparr>) = Ok chain \<and>
     length chain = 1 \<and> \<not> link_is_expired 5 (chain ! 0)"
proof -
  have ok: "verify_chain (\<lambda>_. 5) 2 (demo_registry\<lparr>rg_delegations := [demo_link 1 2]\<rparr>) = Ok [demo_link 1 2]"
    by (simp add: verify_chain_def get_chain_for_agent_def chain_walk.simps incoming_def
        demo_registry_defs link_is_expired_def)
  from verify_chain_sound [OF ok] ok show ?thesis by auto
qed

end
