(* ===== verification/System.thy ===== *)
theory System
  imports Lifecycle_Props Identity_Props
begin

text \<open>
  The program put together (\<open>crates/arbiter/src/server.rs\<close>): the administration API, the request
  pipeline, the policy watcher and the cleanup task share the registry, the session store, the
  policies and the audit sink. A step of the system is one handled API call, one admitted or refused
  request, one answer of the upstream, one reload or one cleanup; each runs to its end. The relation
  \<open>system_step\<close> is closed under any order of such steps.
\<close>

section \<open>Shared state\<close>

record ('b, 'd, 'r, 'p) system =
  sys_app :: "('b, 'd, 'r) app_state"
  sys_anomaly_counts :: "(uuid \<times> (32 word \<times> instant)) list"
  sys_provider :: 'p

definition gateway_view :: "('b, 'd, 'r, 'p) system \<Rightarrow> ('b, 'd, 'p) gateway_state" where
  "gateway_view s =
     \<lparr>gs_sessions = st_sessions (sys_app s), gs_registry = st_registry (sys_app s),
      gs_anomaly_counts = sys_anomaly_counts s, gs_provider = sys_provider s,
      gs_sink = st_audit_sink (sys_app s)\<rparr>"

definition gateway_update :: "('b, 'd, 'p) gateway_state \<Rightarrow> ('b, 'd, 'r, 'p) system \<Rightarrow> ('b, 'd, 'r, 'p) system" where
  "gateway_update g s =
     \<lparr>sys_app = (sys_app s)\<lparr>st_sessions := gs_sessions g, st_registry := gs_registry g, st_audit_sink := gs_sink g\<rparr>,
      sys_anomaly_counts = gs_anomaly_counts g, sys_provider = gs_provider g\<rparr>"

definition current_config ::
  "('r, 's, 'q) gateway_config \<Rightarrow> ('b, 'd, 'r, 'p) system \<Rightarrow> ('r, 's, 'q) gateway_config" where
  "current_config cfg s = cfg\<lparr>gc_policy := st_policy (sys_app s)\<rparr>"

text \<open>The background task removes sessions and lowers the gauge by their number.\<close>

definition cleanup_task ::
  "'b session_storage \<Rightarrow> (uuid \<Rightarrow> instant) \<Rightarrow> ('b, 'd, 'r) app_state \<Rightarrow> ('b, 'd, 'r) app_state" where
  "cleanup_task ops now st =
     (let (removed, ss) = any_cleanup_expired ops now (st_sessions st)
      in st\<lparr>st_sessions := ss, st_active_sessions := st_active_sessions st - int removed\<rparr>)"

inductive system_step ::
  "('b, 'd, 'r) api_env \<Rightarrow> app_config \<Rightarrow> ('b, 'd, 'r, 's, 'p, 'q) gateway_env \<Rightarrow> ('r, 's, 'q) gateway_config \<Rightarrow>
   ('b, 'd, 'r, 'p) system \<Rightarrow> ('b, 'd, 'r, 'p) system \<Rightarrow> bool"
  for aenv acfg genv gcfg where
  api: "system_step aenv acfg genv gcfg s (s\<lparr>sys_app := snd (api_handle aenv acfg rd hs c (sys_app s))\<rparr>)"
| request: "system_step aenv acfg genv gcfg s
    (gateway_update (snd (handle_admission genv (current_config gcfg s) grd req (gateway_view s))) s)"
| answer: "system_step aenv acfg genv gcfg s
    (gateway_update (snd (handle_response genv (current_config gcfg s) grd pe out (gateway_view s))) s)"
| watch: "system_step aenv acfg genv gcfg s
    (s\<lparr>sys_app := (sys_app s)\<lparr>st_policy := reload_from_file (le_text aenv) (le_parse_toml aenv) contents
        (st_policy (sys_app s))\<rparr>\<rparr>)"
| cleanup: "system_step aenv acfg genv gcfg s (s\<lparr>sys_app := cleanup_task (le_sessions aenv) now (sys_app s)\<rparr>)"

inductive system_reachable ::
  "('b, 'd, 'r) api_env \<Rightarrow> app_config \<Rightarrow> ('b, 'd, 'r, 's, 'p, 'q) gateway_env \<Rightarrow> ('r, 's, 'q) gateway_config \<Rightarrow>
   ('b, 'd, 'r, 'p) system \<Rightarrow> ('b, 'd, 'r, 'p) system \<Rightarrow> bool"
  for aenv acfg genv gcfg s0 where
  start: "system_reachable aenv acfg genv gcfg s0 s0"
| step: "system_reachable aenv acfg genv gcfg s0 s \<Longrightarrow> system_step aenv acfg genv gcfg s s' \<Longrightarrow>
    system_reachable aenv acfg genv gcfg s0 s'"

section \<open>Sessions and agents over a step\<close>

text \<open>No session becomes active or changes hands; no agent in memory becomes inactive.\<close>

definition any_distinct :: "'b any_session_store \<Rightarrow> bool" where
  "any_distinct ss \<longleftrightarrow> keys_distinct (ss_sessions (any_sessions ss))"

definition sessions_shrink :: "'b any_session_store \<Rightarrow> 'b any_session_store \<Rightarrow> bool" where
  "sessions_shrink ss ss' \<longleftrightarrow>
     (any_distinct ss \<longrightarrow> any_distinct ss' \<and>
        (\<forall>sid s'. any_look ss' sid = Some s' \<longrightarrow> ts_status s' = StActive \<longrightarrow>
           (\<exists>s. any_look ss sid = Some s \<and> ts_status s = StActive \<and> ts_agent_id s = ts_agent_id s')))"

fun active_agent :: "'d any_registry \<Rightarrow> uuid \<Rightarrow> bool" where
  "active_agent (RegInMemory rg) i = act (rg_agents rg) i"
| "active_agent (RegStorageBacked b) i = False"

fun in_memory :: "'d any_registry \<Rightarrow> bool" where
  "in_memory (RegInMemory rg) = True"
| "in_memory (RegStorageBacked b) = False"

definition agents_stay :: "'d any_registry \<Rightarrow> 'd any_registry \<Rightarrow> bool" where
  "agents_stay rg rg' \<longleftrightarrow>
     (in_memory rg \<longrightarrow> in_memory rg' \<and> (\<forall>i. active_agent rg i \<longrightarrow> active_agent rg' i))"

lemma sessions_shrink_refl [simp, intro]: "sessions_shrink ss ss"
  by (auto simp: sessions_shrink_def)

lemma sessions_shrink_trans: "sessions_shrink a b \<Longrightarrow> sessions_shrink b c \<Longrightarrow> sessions_shrink a c"
  unfolding sessions_shrink_def by metis

lemma agents_stay_refl [simp, intro]: "agents_stay rg rg"
  by (simp add: agents_stay_def)

lemma agents_stay_trans: "agents_stay a b \<Longrightarrow> agents_stay b c \<Longrightarrow> agents_stay a c"
  by (auto simp: agents_stay_def)

lemma batch_unknown:
  "any_look ss sid = None \<Longrightarrow> snd (any_use_session_batch ops sid tools ra now1 now2 now3 ss) = ss"
  by (cases ss) (simp_all add: any_look_def use_session_batch_def sb_use_session_batch_def)

lemma batch_distinct:
  assumes "any_distinct ss"
  shows "any_distinct (snd (any_use_session_batch ops sid tools ra now1 now2 now3 ss))"
proof -
  have mem: "keys_distinct (ss_sessions m) \<Longrightarrow>
      keys_distinct (ss_sessions (snd (use_session_batch sid tools ra now1 now2 now3 m)))" for m
    by (auto simp: use_session_batch_def put_session_def Let_def distinct_update split: option.split)
  show ?thesis
  proof (cases ss)
    case (StorageBacked b)
    with mem [of "sb_cache b"] sb_use_session_batch_refines_mem [of ops sid tools ra now1 now2 now3 b] assms
    show ?thesis by (simp add: any_distinct_def)
  qed (use mem assms in \<open>auto simp: any_distinct_def\<close>)
qed

lemma batch_shrinks:
  assumes run: "any_use_session_batch ops sid tools ra now1 now2 now3 ss = (r, ss')"
  shows "sessions_shrink ss ss'"
proof (cases "any_look ss sid")
  case None
  then show ?thesis using batch_unknown [of ss sid ops tools ra now1 now2 now3] run by simp
next
  case (Some s)
  obtain s' where "any_look ss' sid = Some s'" "s' \<in> {s, s\<lparr>ts_status := StExpired\<rparr>} \<or> batch_granted s tools ra now1 s'"
  proof (cases "is_ok r")
    case True
    then obtain x where "r = Ok x" by (auto simp: is_ok_iff)
    with any.batch_ok run Some that show thesis by fastforce
  next
    case False
    with any.batch_err [OF run _ Some] that show thesis by blast
  qed
  then have "ts_status s' = StActive \<Longrightarrow> ts_status s = StActive \<and> ts_agent_id s = ts_agent_id s'"
    by (auto simp: batch_granted_def same_but_window_fields)
  moreover have "any_distinct ss \<Longrightarrow> any_distinct ss'"
    using batch_distinct [of ss ops sid tools ra now1 now2 now3] run by simp
  ultimately show ?thesis
    using \<open>any_look ss' sid = Some s'\<close> Some any.batch_other [OF run]
    unfolding sessions_shrink_def by (metis option.inject)
qed

lemma session_stage_shrinks: "sessions_shrink ss (snd (session_stage env rd agent_header sid mcp ss))"
  by (auto simp: session_stage_def validate_session_tools_def Let_def intro: batch_shrinks
      split: option.split parse_result.split result.split prod.split)

lemma anyreg_get_agent_stays: "agents_stay rg (snd (anyreg_get_agent ops us now i rg))"
  by (cases rg) (auto simp: agents_stay_def)

lemma anyreg_update_trust_level_stays: "agents_stay rg (snd (anyreg_update_trust_level ops us i level rg))"
  by (cases rg) (auto simp: agents_stay_def update_trust_level_def act_def update_conv' Let_def split: option.splits)

lemma and_then_state [simp]: "snd (and_then m (\<lambda>a s. (Ok (f a), s))) = snd m"
  by (cases m rule: prod.exhaust, rename_tac r x, case_tac r) auto

lemma policy_context_stays: "agents_stay rg (snd (policy_context env rd ah ch sid session rg))"
proof -
  have "agents_stay rg (snd (agent_or_unknown agents us now1 now2 i princ rg))" for agents us now1 now2 i princ
    using anyreg_get_agent_stays [of rg agents us now1 i] by (auto simp: agent_or_unknown_def split: prod.split)
  then show ?thesis
    by (auto simp: policy_context_def build_eval_context_def build_eval_context_from_header_def Let_def
        split: option.split)
qed

lemma policy_stage_stays: "agents_stay rg (snd (policy_stage env cfg rd ah ch sid session mcp rg))"
  using policy_context_stays [of rg env rd ah ch sid session]
  by (auto simp: policy_stage_def Let_def split: parse_result.split option.split prod.split result.split)

definition gateway_keeps :: "('b, 'd, 'p) gateway_state \<Rightarrow> ('b, 'd, 'p) gateway_state \<Rightarrow> bool" where
  "gateway_keeps st st' \<longleftrightarrow>
     sessions_shrink (gs_sessions st) (gs_sessions st') \<and> agents_stay (gs_registry st) (gs_registry st')"

lemma gateway_keeps_trans: "gateway_keeps a b \<Longrightarrow> gateway_keeps b c \<Longrightarrow> gateway_keeps a c"
  unfolding gateway_keeps_def using sessions_shrink_trans agents_stay_trans by blast

lemma finish_same [simp]:
  "gs_sessions (finish env cfg rd status c st) = gs_sessions st"
  "gs_registry (finish env cfg rd status c st) = gs_registry st"
  by (auto simp: finish_def write_audit_def split: option.split)

lemma refuse_same [simp]:
  "gs_sessions (snd (refuse env cfg rd c d st)) = gs_sessions st"
  "gs_registry (snd (refuse env cfg rd c d st)) = gs_registry st"
  by (auto simp: refuse_def deny_def Let_def split: prod.split)

lemma degrade_trust_stays: "agents_stay (gs_registry st) (gs_registry (snd (degrade_trust env cfg rd aid flags st)))"
proof -
  obtain cnt counts where b: "bump_anomaly (rd_anomaly rd) flags aid (gs_anomaly_counts st) = (cnt, counts)" by fastforce
  obtain r rg where g: "anyreg_get_agent (ge_agents env) (ge_uuid_to_string env) (rd_agent rd) aid (gs_registry st) = (r, rg)"
    by fastforce
  have rg: "agents_stay (gs_registry st) rg"
    using anyreg_get_agent_stays [of "gs_registry st"] g by (metis snd_conv)
  show ?thesis
  proof (cases r)
    case (Ok a)
    obtain r' rg' where u: "anyreg_update_trust_level (ge_agents env) (ge_uuid_to_string env) aid
        (demoted (ag_trust_level a)) rg = (r', rg')" by fastforce
    have "agents_stay (gs_registry st) rg'"
      using agents_stay_trans [OF rg] anyreg_update_trust_level_stays [of rg] u by (metis snd_conv)
    with b g rg u Ok show ?thesis by (simp add: degrade_trust_def Let_def split: result.split)
  qed (use b g rg in \<open>simp_all add: degrade_trust_def Let_def\<close>)
qed

lemma anomaly_stage_registry:
  "agents_stay (gs_registry st) (gs_registry (snd (snd (anomaly_stage env cfg rd ah session mcp st))))"
proof -
  have "agents_stay (gs_registry st) (gs_registry st1)" if "degrade_trust env cfg rd aid n st = (r, st1)" for aid n r st1
    using degrade_trust_stays [of st env cfg rd aid n] that by simp
  then show ?thesis
    by (auto simp: anomaly_stage_def Let_def split: parse_result.split option.split prod.split)
qed

lemma forward_stage_same:
  "gs_sessions (snd (forward_stage env cfg rd req mcp session warnings c st)) = gs_sessions st"
  "gs_registry (snd (forward_stage env cfg rd req mcp session warnings c st)) = gs_registry st"
  by (auto simp: forward_stage_def Let_def split: prod.split stage.split)

lemma anomaly_then_forward_keeps:
  "gateway_keeps st (snd (anomaly_then_forward env cfg rd req ah mcp session warnings c st))"
proof -
  obtain r flags st1 where a: "anomaly_stage env cfg rd ah session mcp st = (r, flags, st1)"
    by (cases "anomaly_stage env cfg rd ah session mcp st") auto
  have "gateway_keeps st st1"
    using anomaly_stage_keeps [OF a] anomaly_stage_registry [of st env cfg rd ah session mcp] a
    by (simp add: gateway_keeps_def)
  then show ?thesis
    by (auto simp: anomaly_then_forward_def a gateway_keeps_def forward_stage_same Let_def split: stage.split)
qed

lemma enforce_keeps: "gateway_keeps st (snd (enforce env cfg rd req mcp c st))"
proof -
  let ?ah = "header_text env ''x-agent-id'' req" and ?ch = "header_text env ''x-delegation-chain'' req"
  let ?sid = "parsed_session_id (ge_parse_uuid env) (header_text env ''x-arbiter-session'' req)"
  obtain r store where ss: "session_stage env rd ?ah ?sid mcp (gs_sessions st) = (r, store)" by fastforce
  have store: "sessions_shrink (gs_sessions st) store"
    using session_stage_shrinks [of "gs_sessions st" env rd ?ah ?sid mcp] ss by simp
  show ?thesis
  proof (cases r)
    case (Proceed session)
    obtain r' rg where ps: "policy_stage env cfg rd ?ah ?ch ?sid session mcp (gs_registry st) = (r', rg)" by fastforce
    have "agents_stay (gs_registry st) rg"
      using policy_stage_stays [of "gs_registry st" env cfg rd ?ah ?ch ?sid session mcp] ps by simp
    with store have keep: "gateway_keeps st (st\<lparr>gs_sessions := store, gs_registry := rg\<rparr>)"
      by (simp add: gateway_keeps_def)
    show ?thesis
    proof (cases r')
      case (Proceed pid)
      with gateway_keeps_trans [OF keep anomaly_then_forward_keeps] ss ps \<open>r = _\<close> show ?thesis
        by (simp add: enforce_def Let_def)
    qed (use keep ss ps \<open>r = _\<close> in \<open>auto simp: enforce_def gateway_keeps_def Let_def\<close>)
  qed (use store ss in \<open>auto simp: enforce_def gateway_keeps_def Let_def\<close>)
qed

lemma handle_admission_keeps: "gateway_keeps st (snd (handle_admission env cfg rd req st))"
proof -
  have refl: "gateway_keeps st st" by (simp add: gateway_keeps_def)
  have "gateway_keeps st (snd (after_middleware env cfg rd req' c st))" for req' c
    using refl enforce_keeps [of st env cfg rd req']
    by (auto simp: after_middleware_def Let_def gateway_keeps_def simp del: first_denial.simps split: option.split)
  with refl show ?thesis
    by (auto simp: handle_admission_def Let_def gateway_keeps_def split: result.split)
qed

lemma handle_response_keeps: "gateway_keeps st (snd (handle_response env cfg rd pe out st))"
proof (cases out)
  case (UpstreamAnswer resp)
  then show ?thesis
    using handle_answer_finishes [of env cfg rd pe resp st] by (auto simp: gateway_keeps_def)
qed (auto simp: gateway_keeps_def)

section \<open>Sessions and agents over an API call\<close>

definition app_keeps :: "('b, 'd, 'r) app_state \<Rightarrow> ('b, 'd, 'r) app_state \<Rightarrow> bool" where
  "app_keeps st st' \<longleftrightarrow>
     sessions_shrink (st_sessions st) (st_sessions st') \<and> agents_stay (st_registry st) (st_registry st')"

text \<open>With the registry in memory, every active session belongs to an active agent.\<close>

definition sessions_owned :: "('b, 'd, 'r) app_state \<Rightarrow> bool" where
  "sessions_owned st \<longleftrightarrow>
     in_memory (st_registry st) \<and> any_distinct (st_sessions st) \<and>
     (\<forall>sid s. any_look (st_sessions st) sid = Some s \<longrightarrow> ts_status s = StActive \<longrightarrow>
        active_agent (st_registry st) (ts_agent_id s))"

lemma sessions_owned_keeps: "sessions_owned st \<Longrightarrow> app_keeps st st' \<Longrightarrow> sessions_owned st'"
  unfolding sessions_owned_def app_keeps_def sessions_shrink_def agents_stay_def by metis

lemma anyreg_register_agent_stays:
  "agents_stay rg (snd (anyreg_register_agent ops us i now ow md caps level expires rg))"
  by (cases rg) (auto simp: agents_stay_def register_agent_def act_def Let_def update_conv')

lemma anyreg_create_delegation_stays:
  "anyreg_create_delegation ops us now f t scopes expires rg = Some (r, rg') \<Longrightarrow> agents_stay rg rg'"
proof (cases rg)
  case (RegInMemory m)
  have "rg_agents (snd (create_delegation now f t scopes expires m)) = rg_agents m"
    by (simp add: create_delegation_def Let_def split: option.split)
  moreover assume "anyreg_create_delegation ops us now f t scopes expires rg = Some (r, rg')"
  ultimately show ?thesis using RegInMemory
    by (cases "create_delegation now f t scopes expires m") (auto simp: agents_stay_def)
qed (auto simp: agents_stay_def)

lemma anyreg_list_stays:
  "agents_stay rg (snd (anyreg_list_agents ops now rg))"
  "agents_stay rg (snd (anyreg_list_delegations_from ops i rg))"
  "agents_stay rg (snd (anyreg_list_delegations_to ops i rg))"
  by (cases rg; simp add: agents_stay_def)+

lemma any_close_look:
  "any_look (snd (any_close ops sid ss)) =
     (case any_look ss sid of
        Some s \<Rightarrow> if ts_status s = StClosed then any_look ss else (any_look ss)(sid \<mapsto> s\<lparr>ts_status := StClosed\<rparr>)
      | None \<Rightarrow> any_look ss)"
  by (cases ss) (auto simp: any_look_def close_def sb_close_def Let_def fun_eq_iff split: option.split)

lemma any_close_distinct: "any_distinct ss \<Longrightarrow> any_distinct (snd (any_close ops sid ss))"
  by (cases ss)
    (simp_all add: any_distinct_def close_def sb_close_def put_session_def Let_def distinct_update split: option.split)

lemma any_close_shrinks: "sessions_shrink ss (snd (any_close ops sid ss))"
  by (simp add: sessions_shrink_def any_close_look any_close_distinct split: option.split)

lemma look_filtered:
  "map_of (filter (\<lambda>(k, s). P k s) xs) sid = Some s \<Longrightarrow> keys_distinct xs \<Longrightarrow> map_of xs sid = Some s"
  by (induction xs) (auto split: if_splits simp: image_iff dest: map_of_SomeD)

lemma any_cleanup_shrinks: "sessions_shrink ss (snd (any_cleanup_expired ops now ss))"
  by (cases ss)
    (auto simp: sessions_shrink_def any_distinct_def any_look_def cleanup_expired_def sb_cleanup_expired_def Let_def
      distinct_map_filter dest!: look_filtered)

text \<open>Closing the sessions of an agent.\<close>

lemma any_close_agent_look:
  "any_look (snd (any_close_sessions_for_agent ops a ss)) sid =
     map_option (\<lambda>s. if active_for a s then s\<lparr>ts_status := StClosed\<rparr> else s) (any_look ss sid)"
proof -
  have "map_of (map (\<lambda>(k, s). (k, f s)) xs) k = map_option f (map_of xs k)" for f :: "task_session \<Rightarrow> task_session" and xs k
    by (induction xs) auto
  then show ?thesis
    by (cases ss) (simp_all add: any_look_def close_sessions_for_agent_def sb_close_sessions_for_agent_def Let_def)
qed

lemma any_close_agent_distinct:
  "any_distinct ss \<Longrightarrow> any_distinct (snd (any_close_sessions_for_agent ops a ss))"
  by (cases ss)
    (simp_all add: any_distinct_def close_sessions_for_agent_def sb_close_sessions_for_agent_def Let_def
      comp_def case_prod_unfold)

lemma close_all_look:
  "any_look (snd (close_all ops as ss)) sid =
     map_option (\<lambda>s. if ts_agent_id s \<in> set as \<and> ts_status s = StActive then s\<lparr>ts_status := StClosed\<rparr> else s)
       (any_look ss sid)"
proof (induction as arbitrary: ss)
  case (Cons a as)
  then show ?case
    by (cases "any_look ss sid")
      (simp_all add: case_prod_unfold Let_def any_close_agent_look active_for_def)
qed (simp add: option.map_ident)

lemma close_all_distinct: "any_distinct ss \<Longrightarrow> any_distinct (snd (close_all ops as ss))"
  by (induction as arbitrary: ss) (simp_all add: case_prod_unfold Let_def any_close_agent_distinct)

section \<open>The invariant\<close>

lemma guarded_state:
  assumes "\<And>rl. P (st\<lparr>st_limiter := rl\<rparr>)" and "\<And>rl. P (snd (body (st\<lparr>st_limiter := rl\<rparr>)))"
  shows "P (snd (guarded env cfg rd hs st body))"
  using assms
  by (simp add: guarded_def check_admin_rate_limit_def Let_def split: prod.split option.split)

lemma app_keeps_simps [simp]:
  "app_keeps st st" "app_keeps st (st\<lparr>st_limiter := rl\<rparr>)" "app_keeps st (st\<lparr>st_policy := pc\<rparr>)"
  "app_keeps st (st\<lparr>st_registry := rg\<rparr>) \<longleftrightarrow> agents_stay (st_registry st) rg"
  "app_keeps st (st\<lparr>st_limiter := rl, st_registry := rg\<rparr>) \<longleftrightarrow> agents_stay (st_registry st) rg"
  by (simp_all add: app_keeps_def)

lemma registry_ops_stay:
  "anyreg_register_agent ops us i now ow md caps level expires rg = (r1, rg') \<Longrightarrow> agents_stay rg rg'"
  "anyreg_get_agent ops us now i rg = (r2, rg') \<Longrightarrow> agents_stay rg rg'"
  "anyreg_list_agents ops now rg = (r3, rg') \<Longrightarrow> agents_stay rg rg'"
  "anyreg_list_delegations_from ops i rg = (r4, rg') \<Longrightarrow> agents_stay rg rg'"
  "anyreg_list_delegations_to ops i rg = (r5, rg') \<Longrightarrow> agents_stay rg rg'"
  using anyreg_register_agent_stays [of rg ops us i now ow md caps level expires]
    anyreg_get_agent_stays [of rg ops us now i] anyreg_list_stays [of rg ops]
  by (metis snd_conv)+

lemma api_register_agent_keeps: "app_keeps st (snd (api_register_agent env cfg rd hs req st))"
  unfolding api_register_agent_def
  by (rule guarded_state) (auto simp: app_keeps_def split: prod.split result.split dest: registry_ops_stay)

lemma api_get_agent_keeps: "app_keeps st (snd (api_get_agent env cfg rd hs i st))"
  unfolding api_get_agent_def
  by (rule guarded_state) (auto simp: app_keeps_def split: prod.split dest: registry_ops_stay)

lemma api_list_agents_keeps: "app_keeps st (snd (api_list_agents env cfg rd hs st))"
  unfolding api_list_agents_def
  by (rule guarded_state) (auto simp: app_keeps_def split: prod.split dest: registry_ops_stay)

lemma api_delegate_agent_keeps: "app_keeps st (snd (api_delegate_agent env cfg rd hs i req st))"
  unfolding api_delegate_agent_def
  by (rule guarded_state)
    (auto simp: app_keeps_def split: prod.split option.split dest: anyreg_create_delegation_stays)

lemma api_issue_agent_token_keeps: "app_keeps st (snd (api_issue_agent_token env cfg rd hs i body st))"
  unfolding api_issue_agent_token_def
  by (rule guarded_state) (auto simp: app_keeps_def split: prod.split dest: registry_ops_stay)

lemma api_list_delegations_keeps: "app_keeps st (snd (api_list_delegations env cfg rd hs i st))"
  unfolding api_list_delegations_def
  by (rule guarded_state)
    (auto simp: app_keeps_def split: prod.split result.split dest!: registry_ops_stay intro: agents_stay_trans)

lemma api_explain_policy_keeps: "app_keeps st (snd (api_explain_policy env cfg rd hs req st))"
  unfolding api_explain_policy_def
  by (rule guarded_state) (auto simp: app_keeps_def split: prod.split option.split dest: registry_ops_stay)

lemma api_close_session_keeps: "app_keeps st (snd (api_close_session env cfg rd hs i st))"
proof -
  obtain r ss where c: "any_close (le_sessions env) i (st_sessions st) = (r, ss)" by fastforce
  obtain d n sink where k: "take_stats (le_uuid_to_string env i) (st_audit_sink st) = ((d, n), sink)"
    by (metis prod.collapse)
  have sh: "sessions_shrink (st_sessions st) ss"
    using any_close_shrinks [of "st_sessions st" "le_sessions env" i] c by simp
  show ?thesis
    unfolding api_close_session_def
    by (rule guarded_state) (cases r; simp add: app_keeps_def c k sh)+
qed

lemma api_read_only_keeps:
  "app_keeps st (snd (api_get_session env cfg rd hs i st))"
  "app_keeps st (snd (api_validate_policy env cfg rd hs toml st))"
  "app_keeps st (snd (api_reload_policy env cfg rd hs st))"
  "app_keeps st (snd (api_policy_schema env cfg rd hs st))"
  unfolding api_get_session_def api_validate_policy_def api_reload_policy_def api_policy_schema_def
  by (rule guarded_state; simp add: app_keeps_def split: option.split result.split)+

lemma deactivated_owned:
  assumes own: "sessions_owned st" and rg: "st_registry st = RegInMemory rg"
    and run: "cascade_deactivate i rg = (Ok D, rg')"
  shows "sessions_owned (st\<lparr>st_limiter := rl, st_registry := RegInMemory rg',
    st_sessions := snd (close_all ops D (st_sessions st)), st_registered_agents := g\<rparr>)"
proof -
  note act = cascade_inv_act [OF conjunct1 [OF cascade_deactivate_Ok [OF run]]]
  let ?ss = "snd (close_all ops D (st_sessions st))"
  have "act (rg_agents rg') (ts_agent_id s)" if look: "any_look ?ss sid = Some s" and active: "ts_status s = StActive" for sid s
  proof -
    obtain s0 where s0: "any_look (st_sessions st) sid = Some s0"
      "s = (if ts_agent_id s0 \<in> set D \<and> ts_status s0 = StActive then s0\<lparr>ts_status := StClosed\<rparr> else s0)"
      using look by (auto simp: close_all_look)
    with active have "s = s0" "ts_agent_id s \<notin> set D" by (auto split: if_splits)
    then show ?thesis using own rg s0(1) active act by (auto simp: sessions_owned_def)
  qed
  moreover have "any_distinct ?ss" using own close_all_distinct by (auto simp: sessions_owned_def)
  ultimately show ?thesis by (simp add: sessions_owned_def)
qed

lemma sessions_owned_limiter [simp]: "sessions_owned (st\<lparr>st_limiter := rl\<rparr>) = sessions_owned st"
  by (simp add: sessions_owned_def)

lemma api_deactivate_agent_owned:
  assumes own: "sessions_owned st"
  shows "sessions_owned (snd (api_deactivate_agent env cfg rd hs i st))"
proof -
  obtain rg where rg: "st_registry st = RegInMemory rg"
    using own by (cases "st_registry st") (auto simp: sessions_owned_def)
  obtain r rg' where c: "cascade_deactivate i rg = (r, rg')" by fastforce
  have same: "sessions_owned (st\<lparr>st_limiter := rl, st_registry := RegInMemory rg'\<rparr>)" if "\<not> is_ok r" for rl
    using cascade_deactivate_not_ok [of i rg] c that own rg by (simp add: sessions_owned_def)
  show ?thesis
  proof (cases r)
    case (Ok D)
    obtain n ss where cl: "close_all (le_sessions env) D (st_sessions st) = (n, ss)" by fastforce
    have "sessions_owned (st\<lparr>st_limiter := rl, st_registry := RegInMemory rg', st_sessions := ss,
        st_registered_agents := g\<rparr>)" for rl g
      using deactivated_owned [where rl = rl and ops = "le_sessions env" and g = g, OF own rg c [unfolded Ok]] cl by simp
    then show ?thesis
      unfolding api_deactivate_agent_def by - (rule guarded_state; simp add: own rg c Ok cl)
  next
    case (Err e)
    then have "sessions_owned (st\<lparr>st_limiter := rl, st_registry := RegInMemory rg'\<rparr>)" for rl
      using same by simp
    then show ?thesis
      unfolding api_deactivate_agent_def by - (rule guarded_state; simp add: own rg c Err)
  next
    case Panic
    then have "sessions_owned (st\<lparr>st_limiter := rl, st_registry := RegInMemory rg'\<rparr>)" for rl
      using same by simp
    then show ?thesis
      unfolding api_deactivate_agent_def by - (rule guarded_state; simp add: own rg c Panic)
  qed
qed

lemma any_create_distinct: "any_distinct ss \<Longrightarrow> any_distinct (snd (any_create ops sid now1 now2 req ss))"
  by (cases ss)
    (simp_all add: any_distinct_def create_def sb_create_def put_session_def Let_def distinct_update)

lemma session_admission_in_memory:
  assumes "session_admission env cfg rd req st = (None, st')" and "in_memory (st_registry st)"
  shows "st' = st \<and> parameter_refusal req = None \<and> active_agent (st_registry st) (cs_agent_id req)"
proof -
  obtain rg where rg: "st_registry st = RegInMemory rg" using assms(2) by (cases "st_registry st") auto
  have active: "act (rg_agents rg) i" if "agent_refusal env rd i (get_agent now i rg) = None" for i now
    using that by (auto simp: agent_refusal_def get_agent_def act_def Let_def split: option.splits if_splits)
  show ?thesis
    using assms(1) active rg
    by (auto simp: session_admission_def Let_def split: option.splits)
qed

lemma session_commit_owned:
  assumes own: "sessions_owned st" and p: "parameter_refusal req = None"
    and a: "active_agent (st_registry st) (cs_agent_id req)"
  shows "sessions_owned (snd (session_commit env cfg rd req st))"
proof -
  obtain out st' where run: "session_commit env cfg rd req st = (out, st')" by fastforce
  obtain s where s: "any_look (st_sessions st') = (any_look (st_sessions st))(ar_new_id rd \<mapsto> s)"
    "ts_agent_id s = cs_agent_id req" "st_registry st' = st_registry st"
    using session_commit_created [OF run p] by auto
  have "any_distinct (st_sessions st')"
    using run own any_create_distinct [of "st_sessions st"]
    by (auto simp: session_commit_def sessions_owned_def Let_def case_prod_unfold split: option.splits)
  with own s a run show ?thesis by (auto simp: sessions_owned_def split: if_splits)
qed

lemma api_create_session_owned:
  assumes own: "sessions_owned st"
  shows "sessions_owned (snd (api_create_session env cfg rd hs req st))"
proof -
  have "sessions_owned (snd (case session_admission env cfg rd req st1 of
      (Some e, st) \<Rightarrow> (e, st) | (None, st) \<Rightarrow> session_commit env cfg rd req st))"
    if "sessions_owned st1" for st1
  proof -
    obtain e st2 where adm: "session_admission env cfg rd req st1 = (e, st2)" by fastforce
    have mem: "in_memory (st_registry st1)" using that by (simp add: sessions_owned_def)
    show ?thesis
    proof (cases e)
      case None
      with session_admission_in_memory [of env cfg rd req st1 st2] adm mem session_commit_owned [OF that] show ?thesis by auto
    next
      case (Some o')
      from mem have "st2 = st1"
        using adm by (cases "st_registry st1") (auto simp: session_admission_def Let_def split: option.splits)
      with Some adm that show ?thesis by simp
    qed
  qed
  then show ?thesis unfolding api_create_session_def by - (rule guarded_state; simp add: own)
qed

lemma api_handle_owned: "sessions_owned st \<Longrightarrow> sessions_owned (snd (api_handle env cfg rd hs c st))"
  by (cases c)
    (simp_all add: api_deactivate_agent_owned api_create_session_owned
      sessions_owned_keeps [OF _ api_register_agent_keeps] sessions_owned_keeps [OF _ api_get_agent_keeps]
      sessions_owned_keeps [OF _ api_list_agents_keeps] sessions_owned_keeps [OF _ api_delegate_agent_keeps]
      sessions_owned_keeps [OF _ api_issue_agent_token_keeps] sessions_owned_keeps [OF _ api_list_delegations_keeps]
      sessions_owned_keeps [OF _ api_explain_policy_keeps] sessions_owned_keeps [OF _ api_close_session_keeps]
      api_read_only_keeps [THEN [2] sessions_owned_keeps])

lemma gateway_step_owned:
  assumes "sessions_owned (sys_app s)" and "gateway_keeps (gateway_view s) g"
  shows "sessions_owned (sys_app (gateway_update g s))"
  using assms(1)
  by (rule sessions_owned_keeps)
    (use assms(2) in \<open>simp add: app_keeps_def gateway_keeps_def gateway_view_def gateway_update_def\<close>)

lemma system_step_owned:
  "system_step aenv acfg genv gcfg s s' \<Longrightarrow> sessions_owned (sys_app s) \<Longrightarrow> sessions_owned (sys_app s')"
proof (induction rule: system_step.induct)
  case (cleanup s now)
  then show ?case
    using any_cleanup_shrinks [of "st_sessions (sys_app s)" "le_sessions aenv" now]
    by (auto simp: cleanup_task_def app_keeps_def case_prod_unfold Let_def intro: sessions_owned_keeps)
qed (auto simp: sessions_owned_def [of "_\<lparr>st_policy := _\<rparr>"] sessions_owned_def [symmetric]
    intro: api_handle_owned gateway_step_owned handle_admission_keeps handle_response_keeps sessions_owned_keeps)

lemma system_reachable_owned:
  "system_reachable aenv acfg genv gcfg s0 s \<Longrightarrow> sessions_owned (sys_app s0) \<Longrightarrow> sessions_owned (sys_app s)"
  by (induction rule: system_reachable.induct) (auto dest: system_step_owned)

section \<open>Demonstration state\<close>

definition sys_demo :: "(unit, unit, string, nat) system" where
  "sys_demo = \<lparr>sys_app = lc_state\<lparr>st_sessions := gs_sessions gw_state, st_policy := gc_policy gw_config,
     st_audit_sink := gs_sink gw_state\<rparr>, sys_anomaly_counts = [], sys_provider = 0\<rparr>"

definition sys_cleaned :: "(unit, unit, string, nat) system" where
  "sys_cleaned = sys_demo\<lparr>sys_app := cleanup_task (le_sessions lc_env) (\<lambda>_. 1) (sys_app sys_demo)\<rparr>"

lemma sys_demo_owned: "sessions_owned (sys_app sys_demo)"
  by (auto simp: sessions_owned_def sys_demo_def lc_state_def gw_state_def gw_session_def gw_agent_def any_look_def
      any_distinct_def act_def split: if_splits)

lemma sys_cleaned_view: "gateway_view sys_cleaned = gw_state" "current_config gw_config sys_cleaned = gw_config"
  by (simp_all add: sys_cleaned_def sys_demo_def cleanup_task_def cleanup_expired_def gw_state_def gw_session_def
      is_expired_def gateway_view_def current_config_def lc_state_def gw_config_def Let_def)

lemma sys_cleaned_reachable: "system_reachable lc_env lc_config gw_env gw_config sys_demo sys_cleaned"
  unfolding sys_cleaned_def by (rule system_reachable.step [OF system_reachable.start system_step.cleanup])

section \<open>Properties of the system\<close>



text \<open>
  The gauge of active sessions counts a closed session twice. Creating one session, closing it through
  the API and running the cleanup task once, in a program with no other session, leaves the gauge at minus
  one: the close handler and the cleanup task both lower it.
\<close>

theorem closed_session_lowers_gauge_twice:
  "is_reply 201 (fst (api_create_session lc_env lc_config (lc_readings 1) lc_headers lc_request lc_state)) \<and>
   is_reply 200 (fst (api_close_session lc_env lc_config (lc_readings 1) lc_headers 1 lc_state1)) \<and>
   st_active_sessions lc_state = 0 \<and>
   st_active_sessions (cleanup_task (le_sessions lc_env) (\<lambda>_. 0)
     (snd (api_close_session lc_env lc_config (lc_readings 1) lc_headers 1 lc_state1))) = -1"
proof -
  define closed where "closed = api_close_session lc_env lc_config (lc_readings 1) lc_headers 1 lc_state1"
  note defs = closed_def api_close_session_def guarded_def check_admin_rate_limit_def validate_admin_key_def
    limiter_check_def client_key_def presented_key_def header_get_def constant_time_eq_def client_window_def
    evict_def Let_def lc_defs lc_state1_def lc_session_def session_api_defs close_def take_stats_def word_le_nat_alt
  have "is_reply 200 (fst closed)" by (simp add: defs is_reply_def)
  moreover have "st_active_sessions (cleanup_task (le_sessions lc_env) (\<lambda>_. 0) (snd closed)) = -1"
    by (simp add: defs cleanup_task_def cleanup_expired_def)
  moreover have "st_active_sessions lc_state = 0" by (simp add: lc_defs)
  ultimately show ?thesis by (simp add: lc_created is_reply_def closed_def)
qed

end
