(* ===== verification/Startup.thy ===== *)
theory Startup
  imports Config System
begin

text \<open>
  From the configuration to a running program (\<open>run\<close> and its builders in
  \<open>crates/arbiter/src/server.rs\<close>, \<open>ArbiterState::new\<close> in \<open>handler.rs\<close>, \<open>RedactionConfig::default\<close> in
  \<open>arbiter-audit/src/redaction.rs\<close>): what is built from which section, in which order, and what stops
  the start. Files and the database are opened by arguments.
\<close>

section \<open>Builders\<close>

datatype startup_error =
    PolicyUnreadable string string
  | PolicyInvalid string policy_error
  | InlinePoliciesInvalid policy_error
  | StorageInit string
  | SessionStoreInit string
  | UnknownBackend string

definition build_policy_config ::
  "'r text_env \<Rightarrow> (string \<Rightarrow> ('r policy_config, string) result) \<Rightarrow> (string, string) result \<Rightarrow> 'r policy_section \<Rightarrow>
   ('r policy_config option, startup_error) result" where
  "build_policy_config env parse_toml contents s =
     (case ps_file s of
        Some path \<Rightarrow>
          (case contents of
             Err e \<Rightarrow> Err (PolicyUnreadable path e)
           | Panic \<Rightarrow> Panic
           | Ok text \<Rightarrow>
               (case from_toml env parse_toml text of
                  Ok pc \<Rightarrow> Ok (Some pc)
                | Err e \<Rightarrow> Err (PolicyInvalid path e)
                | Panic \<Rightarrow> Panic))
      | None \<Rightarrow>
          if ps_policies s \<noteq> []
          then (case compile env \<lparr>cfg_policies = ps_policies s\<rparr> of
                  (Ok _, pc) \<Rightarrow> Ok (Some pc)
                | (Err e, _) \<Rightarrow> Err (InlinePoliciesInvalid e)
                | (Panic, _) \<Rightarrow> Panic)
          else Ok None)"

definition redaction_default :: "string list" where
  "redaction_default = [''password'', ''passwd'', ''pwd'', ''token'', ''access_token'', ''refresh_token'', ''secret'',
     ''client_secret'', ''key'', ''api_key'', ''apikey'', ''api-key'', ''authorization'', ''auth'', ''credential'', ''cred'',
     ''private'', ''private_key'', ''ssn'', ''social_security'', ''credit_card'', ''card_number'', ''cvv'', ''cvc'']"

definition build_audit :: "string list \<Rightarrow> audit_section \<Rightarrow> audit_sink option \<times> string list" where
  "build_audit existing s =
     (if \<not> au_enabled s then (None, redaction_default)
      else (Some (sink_new \<lparr>sk_write_stdout = True, sk_has_file = (au_file_path s \<noteq> None), sk_hash_chain = au_hash_chain s\<rparr>
                    existing),
            if au_redaction_patterns s = [] then redaction_default else au_redaction_patterns s))"

datatype cred_provider = ProvFile file_provider | ProvEnv env_provider

text \<open>Both providers behind the trait. Without a provider nothing is ever resolved.\<close>

fun provider_resolve :: "(string \<Rightarrow> string) \<Rightarrow> environment \<Rightarrow> cred_provider option provider" where
  "provider_resolve debug vars r (Some (ProvFile p)) = (file_resolve p r, Some (ProvFile p))"
| "provider_resolve debug vars r (Some (ProvEnv p)) = (env_resolve debug vars p r, Some (ProvEnv p))"
| "provider_resolve debug vars r None = (Panic, None)"

definition build_credential_provider ::
  "(string \<Rightarrow> ((string \<times> string) list, string) result) \<Rightarrow> (string, string) result \<Rightarrow> credentials_section option \<Rightarrow>
   cred_provider option" where
  "build_credential_provider parse contents section =
     Option.bind section (\<lambda>c.
       if cd_provider c = ''file''
       then Option.bind (cd_file_path c) (\<lambda>path.
              case file_from_path parse contents path of Ok p \<Rightarrow> Some (ProvFile p) | _ \<Rightarrow> None)
       else if cd_provider c = ''env'' then Some (ProvEnv (env_with_prefix (cd_env_prefix c @ ''_'')))
       else None)"

text \<open>The database is opened once; registry and sessions use tables of their own.\<close>

definition build_storage ::
  "'b session_storage \<Rightarrow> (string \<Rightarrow> ('b \<times> 'd, string) result) \<Rightarrow> storage_section \<Rightarrow>
   ('d any_registry \<times> 'b any_session_store, startup_error) result" where
  "build_storage ops open_db s =
     (if sg_backend s = ''memory'' then Ok (RegInMemory registry_new, InMemory store_new)
      else if sg_backend s = ''sqlite''
      then (case open_db (''sqlite:'' @ sg_sqlite_path s) of
              Err e \<Rightarrow> Err (StorageInit e)
            | Panic \<Rightarrow> Panic
            | Ok (b, d) \<Rightarrow>
                (case sb_new ops b of
                   Ok sb \<Rightarrow> Ok (RegStorageBacked d, StorageBacked sb)
                 | Err e \<Rightarrow> Err (SessionStoreInit e)
                 | Panic \<Rightarrow> Panic))
      else Err (UnknownBackend (sg_backend s)))"

definition anomaly_config_of :: "sessions_section \<Rightarrow> anomaly_config" where
  "anomaly_config_of s =
     \<lparr>ac_escalate_to_deny = sn_escalate_anomalies s, ac_read_intent_keywords = sn_read_intent_keywords s,
      ac_write_intent_keywords = sn_write_intent_keywords s, ac_admin_intent_keywords = sn_admin_intent_keywords s,
      ac_suspicious_arg_patterns = sn_suspicious_arg_patterns s\<rparr>"

definition middleware_config_of :: "proxy_section \<Rightarrow> middleware_config" where
  "middleware_config_of s = \<lparr>mwc_blocked_paths = px_blocked_paths s, mwc_required_headers = []\<rparr>"

section \<open>The start\<close>

record ('b, 'd, 'r, 's, 'q) start_env =
  se_text :: "'r text_env"
  se_sets :: "'s set_env"
  se_redaction :: "'q redaction_env"
  se_storage :: "'b session_storage"
  se_open_db :: "string \<Rightarrow> ('b \<times> 'd, string) result"
  se_parse_policies :: "string \<Rightarrow> ('r policy_config, string) result"
  se_parse_credentials :: "string \<Rightarrow> ((string \<times> string) list, string) result"

text \<open>What the disk holds: the policy file, the credentials file, the lines of the audit file.\<close>

record start_readings =
  sr_policy_file :: "(string, string) result"
  sr_credentials_file :: "(string, string) result"
  sr_audit_lines :: "string list"

definition app_config_of :: "'r arbiter_config \<Rightarrow> app_config" where
  "app_config_of c =
     \<lparr>ap_admin_api_key = am_api_key (ax_admin c),
      ap_token_config = \<lparr>tc_signing_secret = am_signing_secret (ax_admin c),
         tc_expiry_seconds = am_token_expiry_secs (ax_admin c), tc_issuer = ''arbiter''\<rparr>,
      ap_policy_file_path = ps_file (ax_policy c),
      ap_warning_threshold_pct = sn_warning_threshold_pct (ax_sessions c),
      ap_default_rate_limit_window_secs = sn_rate_limit_window_secs (ax_sessions c),
      ap_max_concurrent_sessions_per_agent = sn_max_concurrent_sessions_per_agent (ax_sessions c)\<rparr>"

definition gateway_config_of ::
  "'r policy_config option \<Rightarrow> 's anomaly_detector \<Rightarrow> 'q list \<Rightarrow> bool \<Rightarrow> 'r arbiter_config \<Rightarrow> ('r, 's, 'q) gateway_config" where
  "gateway_config_of policies detector redaction has_provider c =
     \<lparr>gc_upstream_url = trim_end_matches (CHR ''/'') (px_upstream_url (ax_proxy c)),
      gc_middleware = chain_from_config (middleware_config_of (ax_proxy c)),
      gc_policy = policies, gc_detector = detector, gc_redaction = redaction, gc_has_provider = has_provider,
      gc_require_session = px_require_session (ax_proxy c), gc_strict_mcp = px_strict_mcp (ax_proxy c),
      gc_deny_non_post_methods = px_deny_non_post_methods (ax_proxy c),
      gc_metrics_require_auth = me_require_auth (ax_metrics c), gc_metrics_auth_key = am_api_key (ax_admin c),
      gc_warning_threshold_pct = sn_warning_threshold_pct (ax_sessions c),
      gc_max_request_body_bytes = px_max_request_body_bytes (ax_proxy c),
      gc_max_response_body_bytes = px_max_response_body_bytes (ax_proxy c),
      gc_upstream_timeout_secs = px_upstream_timeout_secs (ax_proxy c),
      gc_require_audit_healthy = au_require_healthy (ax_audit c), gc_trust_degradation_threshold = 5\<rparr>"

definition server_run ::
  "('b, 'd, 'r, 's, 'q) start_env \<Rightarrow> start_readings \<Rightarrow> 'r arbiter_config \<Rightarrow>
   (app_config \<times> ('r, 's, 'q) gateway_config \<times> ('b, 'd, 'r, cred_provider option) system, startup_error) result" where
  "server_run env rd c =
     (case build_storage (se_storage env) (se_open_db env) (ax_storage c) of
        Err e \<Rightarrow> Err e
      | Panic \<Rightarrow> Panic
      | Ok (registry, session_store) \<Rightarrow>
          (let (sink, patterns) = build_audit (sr_audit_lines rd) (ax_audit c)
           in case build_policy_config (se_text env) (se_parse_policies env) (sr_policy_file rd) (ax_policy c) of
                Err e \<Rightarrow> Err e
              | Panic \<Rightarrow> Panic
              | Ok policies \<Rightarrow>
                  (let provider = build_credential_provider (se_parse_credentials env) (sr_credentials_file rd)
                                    (ax_credentials c)
                   in case detector_new (se_sets env) (anomaly_config_of (ax_sessions c)) of
                        None \<Rightarrow> Panic
                      | Some detector \<Rightarrow>
                          Ok (app_config_of c,
                              gateway_config_of policies detector (compile_redaction (se_redaction env) patterns)
                                (provider \<noteq> None) c,
                              \<lparr>sys_app = \<lparr>st_registry = registry, st_sessions = session_store, st_policy = policies,
                                 st_audit_sink = sink, st_limiter = limiter_new 60 (60 * 1000000000),
                                 st_active_sessions = 0, st_registered_agents = 0\<rparr>,
                               sys_anomaly_counts = [], sys_provider = provider\<rparr>))))"

end
