(* ===== verification/Startup_Props.thy ===== *)
theory Startup_Props
  imports Startup
begin

text \<open>
  What a program that has started can rely on: the checks of the configuration hold for what the
  gateway and the administration API use, the state starts within the invariant of the whole program;
  and which settings have no effect.
\<close>

section \<open>Validation\<close>

lemma bind_Some [simp]: "Option.bind m f = Some y \<longleftrightarrow> (\<exists>x. m = Some x \<and> f x = Some y)"
  by (cases m) auto

lemma config_validate_ok:
  assumes "\<not> list_ex is_error (config_validate env c)"
  shows "ce_uri_ok env (px_upstream_url (ax_proxy c))"
    and "px_listen_port (ax_proxy c) \<noteq> am_listen_port (ax_admin c) \<or> px_listen_addr (ax_proxy c) \<noteq> am_listen_addr (ax_admin c)"
    and "am_api_key (ax_admin c) \<noteq> DEFAULT_API_KEY" and "am_signing_secret (ax_admin c) \<noteq> DEFAULT_SIGNING_SECRET"
    and "px_max_request_body_bytes (ax_proxy c) \<noteq> 0" and "px_upstream_timeout_secs (ax_proxy c) \<noteq> 0"
    and "f64_less_eq (Fin 0) (sn_warning_threshold_pct (ax_sessions c))"
    and "f64_less_eq (sn_warning_threshold_pct (ax_sessions c)) (Fin 100)"
    and "sn_rate_limit_window_secs (ax_sessions c) \<noteq> 0"
    and "sg_backend (ax_storage c) \<in> {''memory'', ''sqlite''}"
proof -
  note v = assms [unfolded config_validate_def encryption_warnings_def Let_def list_ex_append de_Morgan_disj]
  show "ce_uri_ok env (px_upstream_url (ax_proxy c))"
    "px_listen_port (ax_proxy c) \<noteq> am_listen_port (ax_admin c) \<or> px_listen_addr (ax_proxy c) \<noteq> am_listen_addr (ax_admin c)"
    "am_api_key (ax_admin c) \<noteq> DEFAULT_API_KEY" "am_signing_secret (ax_admin c) \<noteq> DEFAULT_SIGNING_SECRET"
    "px_max_request_body_bytes (ax_proxy c) \<noteq> 0" "px_upstream_timeout_secs (ax_proxy c) \<noteq> 0"
    "f64_less_eq (Fin 0) (sn_warning_threshold_pct (ax_sessions c))"
    "f64_less_eq (sn_warning_threshold_pct (ax_sessions c)) (Fin 100)"
    "sn_rate_limit_window_secs (ax_sessions c) \<noteq> 0"
    using v by (auto split: if_splits)
  show "sg_backend (ax_storage c) \<in> {''memory'', ''sqlite''}"
    using v by (auto simp: storage_warnings_def split: if_splits)
qed

lemma sessions_cap_set: "sessions_from_table m = Some s \<Longrightarrow> sn_max_concurrent_sessions_per_agent s \<noteq> None"
proof -
  assume "sessions_from_table m = Some s"
  then have "field_or (some_of u64_from_value) (Some 10) ''max_concurrent_sessions_per_agent'' m =
      Some (sn_max_concurrent_sessions_per_agent s)"
    by (auto simp: sessions_from_table_def)
  then show ?thesis
    by (cases "map_of m ''max_concurrent_sessions_per_agent''") (auto simp: field_or_def some_of_def dest: sym)
qed

lemma config_cap_set: "config_from_table rp m = Some c \<Longrightarrow> sn_max_concurrent_sessions_per_agent (ax_sessions c) \<noteq> None"
proof -
  assume "config_from_table rp m = Some c"
  then have "field_or (table_of sessions_from_table) sessions_default ''sessions'' m = Some (ax_sessions c)"
    by (auto simp: config_from_table_def)
  then consider "ax_sessions c = sessions_default" | m' where "sessions_from_table m' = Some (ax_sessions c)"
    by (cases "map_of m ''sessions''"; cases "the (map_of m ''sessions'')") (auto simp: field_or_def)
  then show ?thesis using sessions_cap_set by cases (auto simp: sessions_default_def)
qed

lemma load_config_ok:
  assumes "load_config env contents path = Ok c"
  shows "\<not> list_ex is_error (config_validate env c)" and "sn_max_concurrent_sessions_per_agent (ax_sessions c) \<noteq> None"
proof -
  show "\<not> list_ex is_error (config_validate env c)"
    using assms by (auto simp: load_config_def split: result.splits if_splits)
  obtain v c0 where "table_of (config_from_table (ce_read_policy env)) v = Some c0" "c = apply_env_overrides env c0"
    using assms
    by (auto simp: load_config_def config_from_file_def config_parse_def split: result.splits if_splits option.splits)
  then show "sn_max_concurrent_sessions_per_agent (ax_sessions c) \<noteq> None"
    using config_cap_set by (cases v) (auto simp: apply_env_overrides_def)
qed

section \<open>The start\<close>

lemma server_run_ok:
  assumes "server_run env rd c = Ok (ac, gc, s)"
  shows "\<exists>registry store policies detector redaction has_provider.
    build_storage (se_storage env) (se_open_db env) (ax_storage c) = Ok (registry, store) \<and>
    build_policy_config (se_text env) (se_parse_policies env) (sr_policy_file rd) (ax_policy c) = Ok policies \<and>
    ac = app_config_of c \<and> gc = gateway_config_of policies detector redaction has_provider c \<and>
    st_registry (sys_app s) = registry \<and> st_sessions (sys_app s) = store \<and> st_policy (sys_app s) = policies"
  using assms
  by (fastforce simp: server_run_def Let_def split: result.splits option.splits prod.splits)

lemma policies_from_file:
  assumes "build_policy_config env parse contents s = Ok policies" and "ps_file s = Some path"
  shows "\<exists>text pc. contents = Ok text \<and> from_toml env parse text = Ok pc \<and> policies = Some pc"
  using assms by (auto simp: build_policy_config_def split: result.splits)

lemma memory_start_owned:
  assumes "server_run env rd c = Ok (ac, gc, s)" and "sg_backend (ax_storage c) = ''memory''"
  shows "sessions_owned (sys_app s)"
proof -
  have "st_registry (sys_app s) = RegInMemory registry_new" "st_sessions (sys_app s) = InMemory store_new"
    using server_run_ok [OF assms(1)] assms(2) by (auto simp: build_storage_def)
  then show ?thesis
    by (simp add: sessions_owned_def any_distinct_def any_look_def store_new_def)
qed

section \<open>Demonstration\<close>

definition start_config_env :: "string config_env" where
  "start_config_env = \<lparr>ce_parse_toml = (\<lambda>_. Ok (JObj [(''policy'', JObj [(''file'', JStr ''p.toml'')])])),
     ce_read_policy = (\<lambda>_. None), ce_type_error = (\<lambda>_. ''type''), ce_uri_ok = (\<lambda>_. True),
     ce_exists = (\<lambda>p. p = ''p.toml''),
     ce_vars = [(''ARBITER_ADMIN_API_KEY'', ''administration-key''), (''ARBITER_SIGNING_SECRET'', ''signing'')],
     ce_debug = id, ce_show_f64 = (\<lambda>_. ''x'')\<rparr>"

definition start_demo_config :: "string arbiter_config" where
  "start_demo_config = \<lparr>ax_proxy = proxy_default, ax_oauth = None,
     ax_policy = \<lparr>ps_file = Some ''p.toml'', ps_policies = [], ps_watch = False, ps_watch_debounce_ms = 500\<rparr>,
     ax_sessions = sessions_default, ax_audit = audit_default, ax_metrics = metrics_default,
     ax_admin = admin_default\<lparr>am_api_key := ''administration-key'', am_signing_secret := ''signing''\<rparr>,
     ax_credentials = None, ax_storage = storage_default\<rparr>"

definition start_demo_env :: "(unit, unit, string, unit, unit) start_env" where
  "start_demo_env = \<lparr>se_text = demo_text_env, se_sets = ge_sets gw_env, se_redaction = ge_redaction gw_env,
     se_storage = ge_storage gw_env, se_open_db = (\<lambda>_. Err ''no database''), se_parse_policies = (\<lambda>_. Ok \<lparr>cfg_policies = []\<rparr>),
     se_parse_credentials = (\<lambda>_. Err ''none'')\<rparr>"

definition start_demo_readings :: start_readings where
  "start_demo_readings = \<lparr>sr_policy_file = Ok ''policies'', sr_credentials_file = Err ''none'', sr_audit_lines = []\<rparr>"

lemma start_demo_vars:
  "env_var id (ce_vars start_config_env) ''ARBITER_ADMIN_API_KEY'' = Ok ''administration-key''"
  "env_var id (ce_vars start_config_env) ''ARBITER_SIGNING_SECRET'' = Ok ''signing''"
  by code_simp+

lemma start_demo_loads: "load_config start_config_env (Ok ''text'') ''arbiter.toml'' = Ok start_demo_config"
proof -
  have "config_from_file start_config_env (Ok ''text'') = Ok start_demo_config"
    using start_demo_vars
    by (simp add: config_from_file_def config_parse_def config_from_table_def policy_from_table_def field_or_def some_of_def
        apply_env_overrides_def env_override_def start_config_env_def start_demo_config_def admin_default_def)
  moreover have "\<not> list_ex is_error (config_validate start_config_env start_demo_config)"
    by (simp add: config_validate_def encryption_warnings_def start_config_env_def start_demo_config_def proxy_default_def admin_default_def
        sessions_default_def audit_default_def storage_default_def storage_warnings_def DEFAULT_API_KEY_def
        DEFAULT_SIGNING_SECRET_def default_max_body_bytes_def Let_def)
  ultimately show ?thesis by (simp add: load_config_def)
qed

lemma start_demo_runs:
  "\<exists>gc s. server_run start_demo_env start_demo_readings start_demo_config = Ok (app_config_of start_demo_config, gc, s)"
  by (simp add: server_run_def start_demo_env_def start_demo_readings_def start_demo_config_def storage_default_def
      build_storage_def build_policy_config_def from_toml_def compile_def build_credential_provider_def detector_new_def
      build_regex_set_def gw_env_def case_prod_unfold Let_def)

section \<open>Properties\<close>

text \<open>
  C14: no start on an unsafe configuration. A program that has loaded its configuration and started
  serves the administration API with a key and a signing secret that are not the published defaults and with
  a cap on the sessions of an agent; proxy and API listen on different sockets; the upstream address
  parses; request size, upstream timeout and rate window are positive and the warning threshold is a
  percentage; a configured policy file was read and its policies compiled into what the gateway enforces.
\<close>

theorem started_program_is_configured:
  assumes "load_config env contents path = Ok c" and "server_run senv rd c = Ok (ac, gc, s)"
  shows "ap_admin_api_key ac \<noteq> ''arbiter-dev-key'' \<and>
    tc_signing_secret (ap_token_config ac) \<noteq> ''arbiter-dev-secret-change-in-production'' \<and>
    ap_max_concurrent_sessions_per_agent ac \<noteq> None \<and> ap_default_rate_limit_window_secs ac \<noteq> 0 \<and>
    f64_less_eq (Fin 0) (gc_warning_threshold_pct gc) \<and> f64_less_eq (gc_warning_threshold_pct gc) (Fin 100) \<and>
    0 < gc_max_request_body_bytes gc \<and> gc_upstream_timeout_secs gc \<noteq> 0 \<and>
    ce_uri_ok env (px_upstream_url (ax_proxy c)) \<and>
    (px_listen_addr (ax_proxy c), px_listen_port (ax_proxy c)) \<noteq> (am_listen_addr (ax_admin c), am_listen_port (ax_admin c)) \<and>
    (ps_file (ax_policy c) = None \<or>
      (\<exists>text pc. sr_policy_file rd = Ok text \<and> from_toml (se_text senv) (se_parse_policies senv) text = Ok pc \<and>
         gc_policy gc = Some pc))"
proof -
  note v = config_validate_ok [OF load_config_ok(1) [OF assms(1)]]
  obtain policies detector redaction has_provider where r:
    "build_policy_config (se_text senv) (se_parse_policies senv) (sr_policy_file rd) (ax_policy c) = Ok policies"
    "ac = app_config_of c" "gc = gateway_config_of policies detector redaction has_provider c"
    using server_run_ok [OF assms(2)] by blast
  have "ps_file (ax_policy c) = None \<or>
      (\<exists>text pc. sr_policy_file rd = Ok text \<and> from_toml (se_text senv) (se_parse_policies senv) text = Ok pc \<and>
         gc_policy gc = Some pc)"
    using policies_from_file [OF r(1)] r(3) by (cases "ps_file (ax_policy c)") (auto simp: gateway_config_of_def)
  then show ?thesis
    using v r(2,3) load_config_ok(2) [OF assms(1)]
    by (auto simp: app_config_of_def gateway_config_of_def DEFAULT_API_KEY_def DEFAULT_SIGNING_SECRET_def)
qed

theorem started_program_is_configured_witness:
  "\<exists>gc s. server_run start_demo_env start_demo_readings start_demo_config = Ok (app_config_of start_demo_config, gc, s) \<and>
     0 < gc_max_request_body_bytes gc \<and> gc_policy gc \<noteq> None"
proof -
  obtain gc s where run: "server_run start_demo_env start_demo_readings start_demo_config = Ok (app_config_of start_demo_config, gc, s)"
    using start_demo_runs by blast
  have "ps_file (ax_policy start_demo_config) \<noteq> None" by (simp add: start_demo_config_def)
  with started_program_is_configured [OF start_demo_loads run] run show ?thesis by auto
qed


text \<open>A run from the start: an agent registers, then a session is created for it.\<close>

definition start_genv :: "(unit, unit, string, unit, cred_provider option, unit) gateway_env" where
  "start_genv = \<lparr>ge_storage = ge_storage gw_env, ge_agents = no_agents, ge_text = demo_text_env, ge_sets = ge_sets gw_env,
     ge_redaction = ge_redaction gw_env, ge_codec = demo_codec, ge_from_text = ge_from_text gw_env,
     ge_link_from_text = (\<lambda>_. None), ge_uuid_to_string = (\<lambda>_. ''id''), ge_parse_uuid = (\<lambda>_. Some 7), ge_lossy = id,
     ge_to_str = Some, ge_header_ok = (\<lambda>_ _. True), ge_uri_ok = (\<lambda>_. True), ge_resolve = provider_resolve id [],
     ge_pattern_match = (\<lambda>_ _. False), ge_gunzip = Some, ge_inflate = Some, ge_percent = (\<lambda>_ _. Fin 100),
     ge_show_percent = (\<lambda>_. ''100'')\<rparr>"

definition start_state :: "instant list \<Rightarrow> (uuid \<times> agent) list \<Rightarrow> (uuid \<times> task_session) list \<Rightarrow> (unit, unit, string) app_state" where
  "start_state calls agents sessions = \<lparr>st_registry = RegInMemory \<lparr>rg_agents = agents, rg_delegations = []\<rparr>,
     st_sessions = InMemory \<lparr>ss_sessions = sessions\<rparr>, st_policy = Some \<lparr>cfg_policies = []\<rparr>,
     st_audit_sink = Some (sink_new \<lparr>sk_write_stdout = True, sk_has_file = False, sk_hash_chain = True\<rparr> []),
     st_limiter = (limiter_new 60 (60 * 1000000000))
       \<lparr>rl_clients := if calls = [] then [] else [(''key:administration-key'', calls)]\<rparr>,
     st_active_sessions = int (length sessions), st_registered_agents = 0\<rparr>"

definition start_registration :: register_agent_request where
  "start_registration = \<lparr>ra_owner = ''user:alice'', ra_model = ''m'', ra_capabilities = None, ra_trust_level = Some Trusted,
     ra_expires_at = None\<rparr>"

definition start_agent :: agent where
  "start_agent = \<lparr>ag_id = 7, ag_owner = ''user:alice'', ag_model = ''m'', ag_capabilities = [], ag_trust_level = Trusted,
     ag_created_at = 0, ag_expires_at = None, ag_active = True\<rparr>"

lemma start_demo_state:
  "\<exists>gc. server_run start_demo_env start_demo_readings start_demo_config =
     Ok (app_config_of start_demo_config, gc, \<lparr>sys_app = start_state [] [] [], sys_anomaly_counts = [], sys_provider = None\<rparr>)"
  by (simp add: server_run_def start_demo_env_def start_demo_readings_def start_demo_config_def storage_default_def
      build_storage_def build_policy_config_def from_toml_def compile_def build_credential_provider_def detector_new_def
      build_regex_set_def gw_env_def case_prod_unfold Let_def start_state_def registry_new_def store_new_def
      build_audit_def audit_default_def limiter_new_def)

lemmas start_api_defs = api_register_agent_def api_create_session_def guarded_def check_admin_rate_limit_def
  validate_admin_key_def limiter_check_def client_key_def presented_key_def header_get_def constant_time_eq_def
  client_window_def evict_def limiter_new_def start_state_def app_config_of_def start_demo_config_def admin_default_def
  register_agent_def issue_token_def MIN_SIGNING_SECRET_LEN_def lc_env_def lc_readings_def lc_headers_def

lemma start_registers:
  "snd (api_register_agent lc_env (app_config_of start_demo_config) (lc_readings 7) lc_headers start_registration
     (start_state [] [] [])) = start_state [0] [(7, start_agent)] []"
  by (simp add: start_api_defs start_registration_def start_agent_def or_default_def Let_def)

lemma start_creates:
  "snd (api_create_session lc_env (app_config_of start_demo_config) (lc_readings 1) lc_headers lc_request
     (start_state [0] [(7, start_agent)] [])) = start_state [0, 0] [(7, start_agent)] [(1, lc_session 1)]"
  using lc_intent
  by (simp add: start_api_defs start_agent_def session_api_defs lc_request_def lc_session_def sessions_default_def
      word_le_nat_alt Let_def)


section \<open>Settings without effect\<close>

text \<open>
  Settings that change nothing. Whether OAuth is configured and with which issuers, the default time
  limit and call budget of sessions, and whether metrics are enabled make no difference to what is
  started: no part of the program receives them.
\<close>

theorem ignored_settings:
  "server_run env rd (c\<lparr>ax_oauth := oauth, ax_metrics := (ax_metrics c)\<lparr>me_enabled := b\<rparr>,
     ax_sessions := (ax_sessions c)\<lparr>sn_default_time_limit_secs := t, sn_default_call_budget := n\<rparr>\<rparr>) =
   server_run env rd c"
  by (simp add: server_run_def app_config_of_def gateway_config_of_def anomaly_config_of_def
      cong: result.case_cong option.case_cong)

text \<open>
  A configuration file cannot switch the session cap off: leaving the setting out gives the default, and
  a value that is present is the cap.
\<close>

theorem session_cap_cannot_be_disabled:
  "config_parse env text = Ok c \<Longrightarrow> sn_max_concurrent_sessions_per_agent (ax_sessions c) \<noteq> None"
proof -
  assume "config_parse env text = Ok c"
  then obtain v where "table_of (config_from_table (ce_read_policy env)) v = Some c"
    by (auto simp: config_parse_def split: result.splits option.splits)
  then show ?thesis using config_cap_set by (cases v) auto
qed

text \<open>
  An audit file named without a directory is refused: its parent is the empty path, which exists on no
  file system.
\<close>

theorem bare_audit_file_refused:
  assumes "\<not> ce_exists env []" and "au_file_path (ax_audit c) = Some ''audit.jsonl''"
  shows "list_ex is_error (config_validate env c)"
proof -
  have "path_parent ''audit.jsonl'' = Some []" by code_simp
  then show ?thesis using assms by (simp add: config_validate_def encryption_warnings_def Let_def)
qed

text \<open>A file without patterns for suspicious arguments starts a detector that has none.\<close>

theorem omitted_patterns_disable_scan:
  "sessions_from_table [] = Some s \<Longrightarrow> ac_suspicious_arg_patterns (anomaly_config_of s) = []"
  by (auto simp: sessions_from_table_def field_or_def anomaly_config_of_def)

text \<open>A cleanup interval of zero passes the validation.\<close>

theorem zero_cleanup_interval_accepted:
  "\<not> list_ex is_error (config_validate start_config_env
     (start_demo_config\<lparr>ax_sessions := sessions_default\<lparr>sn_cleanup_interval_secs := 0\<rparr>\<rparr>))"
  by (simp add: config_validate_def encryption_warnings_def start_config_env_def start_demo_config_def proxy_default_def admin_default_def
      sessions_default_def audit_default_def storage_default_def storage_warnings_def DEFAULT_API_KEY_def
      DEFAULT_SIGNING_SECRET_def default_max_body_bytes_def Let_def)

end
