(* ===== verification/Cli.thy ===== *)
theory Cli
  imports Startup
begin

text \<open>
  The command-line tool (\<open>crates/arbiter-cli/src/main.rs\<close>): the commands that call the administration
  API, the diagnosis of an installation, the dry run of a policy file and the update of the binaries.
  The network, the text of JSON values and statuses, the TOML and JSON readers, SHA-256 and \<open>tar\<close> are
  arguments; the directory the update writes to is an explicit store from paths to contents.
\<close>

section \<open>Calls of the administration API\<close>

record cli_request =
  cq_method :: string
  cq_url :: string
  cq_headers :: "(string \<times> string) list"
  cq_body :: "json option"

text \<open>A request is not answered, or answered with a status and a body that need not be JSON.\<close>

datatype cli_reply = SendFailed string | Replied nat "(json, string) result"

datatype cli_line = Stdout string | Stderr string

record 'r cli_env =
  cl_send :: "cli_request \<Rightarrow> cli_reply"
  cl_show_json :: "json \<Rightarrow> string"
  cl_debug_json :: "json \<Rightarrow> string"
  cl_show_status :: "nat \<Rightarrow> string"
  cl_parse_uuid :: "string \<Rightarrow> (uuid, string) result"
  cl_uuid_to_string :: "uuid \<Rightarrow> string"
  cl_exists :: "string \<Rightarrow> bool"
  cl_is_dir :: "string \<Rightarrow> bool"
  cl_read :: "string \<Rightarrow> (string, string) result"
  cl_stdin :: "(string, string) result"
  cl_parse_toml :: "string \<Rightarrow> (json, string) result"
  cl_parse_json :: "string \<Rightarrow> (json, string) result"
  cl_type_error :: "json \<Rightarrow> string"
  cl_parse_policies :: "string \<Rightarrow> ('r policy_config, string) result"
  cl_policy_error :: "policy_error \<Rightarrow> string"
  cl_text :: "'r text_env"
  cl_vars :: environment
  cl_var_debug :: "string \<Rightarrow> string"

definition is_success :: "nat \<Rightarrow> bool" where
  "is_success status \<longleftrightarrow> 200 \<le> status \<and> status < 300"

text \<open>Indexing a value: null where there is no such entry.\<close>

definition jindex :: "json \<Rightarrow> string \<Rightarrow> json" where
  "jindex v k = (case jget k v of Some x \<Rightarrow> x | None \<Rightarrow> JNull)"

definition str_or :: "string \<Rightarrow> json \<Rightarrow> string" where
  "str_or d v = (case as_str v of Some s \<Rightarrow> s | None \<Rightarrow> d)"

text \<open>What the four commands do with an answer.\<close>

definition call_api :: "'r cli_env \<Rightarrow> cli_request \<Rightarrow> (json, string) result" where
  "call_api env req =
     (case cl_send env req of
        SendFailed e \<Rightarrow> Err (''request failed: '' @ e)
      | Replied status reply \<Rightarrow>
          (case reply of
             Err e \<Rightarrow> Err (''invalid response: '' @ e)
           | Panic \<Rightarrow> Panic
           | Ok body \<Rightarrow>
               if \<not> is_success status
               then Err (''API error ('' @ cl_show_status env status @ ''): '' @ str_or ''unknown'' (jindex body ''error''))
               else Ok body))"

definition api_request :: "string \<Rightarrow> string \<Rightarrow> string \<Rightarrow> json option \<Rightarrow> cli_request" where
  "api_request meth url api_key body =
     \<lparr>cq_method = meth, cq_url = url, cq_headers = [(''x-api-key'', api_key)], cq_body = body\<rparr>"

fun report :: "(json \<Rightarrow> (unit, string) result \<times> cli_line list) \<Rightarrow> (json, string) result \<Rightarrow> (unit, string) result \<times> cli_line list" where
  "report show (Ok body) = show body"
| "report show (Err e) = (Err e, [])"
| "report show Panic = (Panic, [])"

text \<open>The shortened token; cutting inside a character panics.\<close>

definition short_token :: "string \<Rightarrow> string option" where
  "short_token t =
     (if length t > 12
      then (if not_boundary (t ! 6) \<or> not_boundary (t ! (length t - 6)) then None
            else Some (take 6 t @ ''...'' @ drop (length t - 6) t))
      else Some t)"

definition cli_register_agent ::
  "'r cli_env \<Rightarrow> string \<Rightarrow> string \<Rightarrow> string \<Rightarrow> string \<Rightarrow> string list \<Rightarrow> (unit, string) result \<times> cli_line list" where
  "cli_register_agent env base api_key owner model capabilities =
     report (\<lambda>body.
       let registered = [Stdout ''Agent registered:'', Stdout (''  ID:    '' @ cl_show_json env (jindex body ''agent_id''))];
           token = str_or [] (jindex body ''token'')
       in case short_token token of
            None \<Rightarrow> (Panic, registered)
          | Some short \<Rightarrow>
              (Ok (), registered @
                [Stderr (''  Token: '' @ short),
                 Stderr ''  WARNING: this token is a long-lived credential. Store it securely.'',
                 Stderr ''  Full token written to stdout for programmatic capture.'',
                 Stdout (''  Token: '' @ token)]))
      (call_api env (api_request ''POST'' (base @ ''/agents'') api_key
         (Some (JObj [(''capabilities'', JArr (map JStr capabilities)), (''model'', JStr model), (''owner'', JStr owner)]))))"

definition cli_create_delegation ::
  "'r cli_env \<Rightarrow> string \<Rightarrow> string \<Rightarrow> string \<Rightarrow> string \<Rightarrow> string list \<Rightarrow> (unit, string) result \<times> cli_line list" where
  "cli_create_delegation env base api_key from_agent to_agent scopes =
     (case cl_parse_uuid env from_agent of
        Ok from_id \<Rightarrow>
          (case cl_parse_uuid env to_agent of
             Ok _ \<Rightarrow>
               report (\<lambda>body.
                 (Ok (), [Stdout ''Delegation created:'',
                          Stdout (''  From: '' @ cl_show_json env (jindex body ''from'')),
                          Stdout (''  To:   '' @ cl_show_json env (jindex body ''to'')),
                          Stdout (''  Scopes: '' @ cl_debug_json env (jindex body ''scope_narrowing''))]))
                (call_api env (api_request ''POST'' (base @ ''/agents/'' @ cl_uuid_to_string env from_id @ ''/delegate'') api_key
                   (Some (JObj [(''scopes'', JArr (map JStr scopes)), (''to'', JStr to_agent)]))))
           | Err _ \<Rightarrow> (Err (''invalid agent UUID: '' @ to_agent), [])
           | Panic \<Rightarrow> (Panic, []))
      | Err _ \<Rightarrow> (Err (''invalid agent UUID: '' @ from_agent), [])
      | Panic \<Rightarrow> (Panic, []))"

definition cli_revoke_agent ::
  "'r cli_env \<Rightarrow> string \<Rightarrow> string \<Rightarrow> string \<Rightarrow> (unit, string) result \<times> cli_line list" where
  "cli_revoke_agent env base api_key agent_id =
     (case cl_parse_uuid env agent_id of
        Ok i \<Rightarrow>
          report (\<lambda>body.
            (Ok (), [Stdout (''Revoked '' @ cl_show_json env (jindex body ''count'') @ '' agent(s): '' @
                       cl_debug_json env (jindex body ''deactivated''))]))
           (call_api env (api_request ''DELETE'' (base @ ''/agents/'' @ cl_uuid_to_string env i) api_key None))
      | Err _ \<Rightarrow> (Err (''invalid agent UUID: '' @ agent_id), [])
      | Panic \<Rightarrow> (Panic, []))"

fun as_array_or_empty :: "json \<Rightarrow> json list" where
  "as_array_or_empty (JArr xs) = xs"
| "as_array_or_empty _ = []"

definition agent_line :: "'r cli_env \<Rightarrow> json \<Rightarrow> string" where
  "agent_line env a =
     ''  '' @ cl_show_json env (jindex a ''id'') @ '' | owner='' @ str_or ''?'' (jindex a ''owner'') @
     '' model='' @ str_or ''?'' (jindex a ''model'') @ '' trust='' @ str_or ''?'' (jindex a ''trust_level'') @
     '' active='' @ cl_show_json env (jindex a ''active'')"

definition cli_list_agents :: "'r cli_env \<Rightarrow> string \<Rightarrow> string \<Rightarrow> (unit, string) result \<times> cli_line list" where
  "cli_list_agents env base api_key =
     report (\<lambda>body.
       (Ok (), if as_array_or_empty body = [] then [Stdout ''No agents registered.'']
               else map (\<lambda>a. Stdout (agent_line env a)) (as_array_or_empty body)))
      (call_api env (api_request ''GET'' (base @ ''/agents'') api_key None))"

section \<open>Diagnosis\<close>

text \<open>A check is announced by its name and then passes or fails with a detail.\<close>

record check =
  ck_name :: string
  ck_pass :: bool
  ck_detail :: string

definition pass :: "string \<Rightarrow> string \<Rightarrow> check" where
  "pass name detail = \<lparr>ck_name = name, ck_pass = True, ck_detail = detail\<rparr>"

definition fail :: "string \<Rightarrow> string \<Rightarrow> check" where
  "fail name detail = \<lparr>ck_name = name, ck_pass = False, ck_detail = detail\<rparr>"

definition check_line :: "check \<Rightarrow> cli_line" where
  "check_line c = Stdout (''  '' @ ck_name c @ '' ... '' @ (if ck_pass c then ''PASS ('' else ''FAIL ('') @ ck_detail c @ '')'')"

definition check_admin_api :: "'r cli_env \<Rightarrow> string \<Rightarrow> string \<Rightarrow> check" where
  "check_admin_api env api_url api_key =
     (case cl_send env (api_request ''GET'' (api_url @ ''/agents'') api_key None) of
        Replied status _ \<Rightarrow>
          if is_success status then pass ''Proxy health endpoint'' ''admin API reachable''
          else if status = 401 \<or> status = 403
          then pass ''Proxy health endpoint'' ''admin API reachable (auth rejected, check api_key)''
          else fail ''Proxy health endpoint'' (''admin API returned unexpected status: '' @ cl_show_status env status)
      | SendFailed e \<Rightarrow> fail ''Proxy health endpoint'' (''admin API not reachable: '' @ e))"

definition check_policy_system :: "'r cli_env \<Rightarrow> string \<Rightarrow> string \<Rightarrow> check" where
  "check_policy_system env api_url api_key =
     (case cl_send env (api_request ''GET'' (api_url @ ''/policy/validate'') api_key None) of
        Replied status reply \<Rightarrow>
          (let body = (case reply of Ok v \<Rightarrow> v | _ \<Rightarrow> JNull)
           in if is_success status
              then pass ''Policy system''
                     (show_nat (case u64_from_value (jindex body ''policies_loaded'') of Some n \<Rightarrow> unat n | None \<Rightarrow> 0) @
                      '' policies loaded'')
              else if status = 400 then pass ''Policy system'' ''no policy file configured (inline or absent)''
              else fail ''Policy system''
                     (''policy reload returned '' @ cl_show_status env status @ '': '' @ cl_show_json env body))
      | SendFailed e \<Rightarrow> fail ''Policy system'' (''could not reach policy endpoint: '' @ e))"

definition path_join :: "string \<Rightarrow> string \<Rightarrow> string" where
  "path_join dir p =
     (if starts_with ''/'' p then p
      else if dir = [] \<or> last dir = CHR ''/'' then dir @ p
      else dir @ ''/'' @ p)"

definition resolve_beside :: "string \<Rightarrow> string \<Rightarrow> string" where
  "resolve_beside config_path p =
     (if starts_with ''/'' p then p
      else case path_parent config_path of Some parent \<Rightarrow> path_join parent p | None \<Rightarrow> p)"

text \<open>\<open>None\<close> is a reader that unwinds.\<close>

definition check_policy_file :: "'r cli_env \<Rightarrow> string \<Rightarrow> string \<Rightarrow> check option" where
  "check_policy_file env config_path policy_file =
     (let resolved = resolve_beside config_path policy_file
      in if \<not> cl_exists env resolved then Some (fail ''Policy file'' (resolved @ '' does not exist''))
         else case cl_read env resolved of
                Ok contents \<Rightarrow>
                  (case from_toml (cl_text env) (cl_parse_policies env) contents of
                     Ok pc \<Rightarrow>
                       Some (pass ''Policy file'' (show_nat (length (cfg_policies pc)) @ '' policies parsed from '' @ resolved))
                   | Err e \<Rightarrow> Some (fail ''Policy file'' (''parse error: '' @ cl_policy_error env e))
                   | Panic \<Rightarrow> None)
              | Err e \<Rightarrow> Some (fail ''Policy file'' (''cannot read '' @ resolved @ '': '' @ e))
              | Panic \<Rightarrow> None)"

definition check_audit_path :: "'r cli_env \<Rightarrow> string \<Rightarrow> check list" where
  "check_audit_path env audit_path =
     (case path_parent audit_path of
        None \<Rightarrow> []
      | Some parent \<Rightarrow>
          [if cl_exists env parent
           then (if cl_is_dir env parent then pass ''Audit log path'' (''parent dir '' @ parent @ '' exists'')
                 else fail ''Audit log path'' (''parent dir '' @ parent @ '' is not a directory''))
           else fail ''Audit log path'' (''parent dir '' @ parent @ '' does not exist'')])"

definition check_storage :: "'r cli_env \<Rightarrow> json \<Rightarrow> check list" where
  "check_storage env storage =
     (if str_or ''memory'' (jindex storage ''backend'') = ''sqlite''
      then (let db = str_or ''arbiter.db'' (jindex storage ''sqlite_path'')
            in [pass ''SQLite database''
                  (if cl_exists env db then db @ '' exists and is readable''
                   else db @ '' does not exist yet (will be created on startup)'')])
      else [])"

definition check_parsed :: "'r cli_env \<Rightarrow> string \<Rightarrow> json \<Rightarrow> check list option" where
  "check_parsed env path v =
     map_option (\<lambda>policy_check.
         policy_check @
         (case as_str (jindex (jindex v ''audit'') ''file_path'') of
            Some f \<Rightarrow> check_audit_path env f | None \<Rightarrow> []) @
         (case jget ''storage'' v of Some s \<Rightarrow> check_storage env s | None \<Rightarrow> []))
       (case as_str (jindex (jindex v ''policy'') ''file'') of
          Some f \<Rightarrow> map_option (\<lambda>c. [c]) (check_policy_file env path f)
        | None \<Rightarrow> Some [])"

definition check_config :: "'r cli_env \<Rightarrow> string \<Rightarrow> check list option" where
  "check_config env path =
     (if \<not> cl_exists env path then Some [fail ''Config file exists'' (path @ '' not found'')]
      else map_option (\<lambda>cs. pass ''Config file exists'' path # cs)
             (case cl_read env path of
                Ok contents \<Rightarrow>
                  (case cl_parse_toml env contents of
                     Ok v \<Rightarrow> map_option (\<lambda>cs. pass ''Config file parses'' ''valid TOML'' # cs) (check_parsed env path v)
                   | Err e \<Rightarrow> Some [fail ''Config file parses'' (''TOML parse error: '' @ e)]
                   | Panic \<Rightarrow> None)
              | Err e \<Rightarrow> Some [fail ''Config file parses'' (''cannot read file: '' @ e)]
              | Panic \<Rightarrow> None))"

definition doctor ::
  "'r cli_env \<Rightarrow> string \<Rightarrow> string \<Rightarrow> string option \<Rightarrow> (unit, string) result \<times> cli_line list" where
  "doctor env api_url api_key config_path =
     (let remote = [check_admin_api env api_url api_key, check_policy_system env api_url api_key]
      in case (case config_path of Some path \<Rightarrow> check_config env path | None \<Rightarrow> Some []) of
           None \<Rightarrow> (Panic, map check_line remote)
         | Some local_checks \<Rightarrow>
             (let lines = map check_line (remote @ local_checks) @ [Stdout []]
              in if list_all ck_pass (remote @ local_checks) then (Ok (), lines @ [Stdout ''All checks passed.''])
                 else (Err ''one or more checks failed'', lines)))"

section \<open>Dry run of a policy file\<close>

record sample_request =
  sq_agent_id :: "string option"
  sq_trust_level :: string
  sq_capabilities :: "string list"
  sq_principal_sub :: string
  sq_groups :: "string list"
  sq_declared_intent :: string
  sq_tool_name :: "string option"
  sq_arguments :: "json option"
  sq_intent_keywords :: "string list"

definition sample_default_trust_level :: string where
  "sample_default_trust_level = ''basic''"

definition default_principal :: string where
  "default_principal = ''user:test''"

definition SAMPLE_FIELDS :: "string list" where
  "SAMPLE_FIELDS = [''agent_id'', ''trust_level'', ''capabilities'', ''principal_sub'', ''groups'', ''declared_intent'',
     ''tool_name'', ''arguments'', ''intent_keywords'']"

definition sample_from_table :: "(string \<times> json) list \<Rightarrow> sample_request option" where
  "sample_from_table m =
     do {agent_id \<leftarrow> optional_field json_string (map_of m ''agent_id'');
         trust_level \<leftarrow> field_or json_string sample_default_trust_level ''trust_level'' m;
         capabilities \<leftarrow> field_or json_strings [] ''capabilities'' m;
         principal_sub \<leftarrow> field_or json_string default_principal ''principal_sub'' m;
         groups \<leftarrow> field_or json_strings [] ''groups'' m;
         declared_intent \<leftarrow> field_or json_string [] ''declared_intent'' m;
         tool_name \<leftarrow> optional_field json_string (map_of m ''tool_name'');
         arguments \<leftarrow> optional_field Some (map_of m ''arguments'');
         intent_keywords \<leftarrow> field_or json_strings [] ''intent_keywords'' m;
         Some \<lparr>sq_agent_id = agent_id, sq_trust_level = trust_level, sq_capabilities = capabilities,
               sq_principal_sub = principal_sub, sq_groups = groups, sq_declared_intent = declared_intent,
               sq_tool_name = tool_name, sq_arguments = arguments, sq_intent_keywords = intent_keywords\<rparr>}"

text \<open>A structure is read from an object, or from an array with its fields in their order.\<close>

fun sample_from_value :: "json \<Rightarrow> sample_request option" where
  "sample_from_value (JObj m) = sample_from_table m"
| "sample_from_value (JArr xs) =
     (if length xs \<le> length SAMPLE_FIELDS then sample_from_table (zip SAMPLE_FIELDS xs) else None)"
| "sample_from_value _ = None"

definition sample_trust_level :: "(string \<Rightarrow> string) \<Rightarrow> string \<Rightarrow> (trust_level, string) result" where
  "sample_trust_level unicode_lower s =
     (let t = to_lowercase unicode_lower s
      in if t = ''untrusted'' then Ok Untrusted
         else if t = ''basic'' then Ok Basic
         else if t = ''verified'' then Ok Verified
         else if t = ''trusted'' then Ok Trusted
         else Err (''unknown trust_level: '' @ quoted t))"

definition sample_context :: "uuid \<Rightarrow> instant \<Rightarrow> trust_level \<Rightarrow> sample_request \<Rightarrow> eval_context" where
  "sample_context agent_id now level s =
     \<lparr>ec_agent = \<lparr>ag_id = agent_id, ag_owner = sq_principal_sub s, ag_model = ''cli-test'',
        ag_capabilities = sq_capabilities s, ag_trust_level = level, ag_created_at = now, ag_expires_at = None,
        ag_active = True\<rparr>,
      ec_delegation_chain = [],
      ec_declared_intent =
        (if sq_declared_intent s = [] then join_str '' '' (sq_intent_keywords s) else sq_declared_intent s),
      ec_principal_sub = sq_principal_sub s, ec_principal_groups = sq_groups s\<rparr>"

definition sample_call :: "sample_request \<Rightarrow> mcp_request" where
  "sample_call s =
     \<lparr>mr_id = None, mr_method = ''tools/call'', mr_tool_name = sq_tool_name s, mr_arguments = sq_arguments s,
      mr_resource_uri = None\<rparr>"

fun show_decision :: "decision \<Rightarrow> string" where
  "show_decision (Allow pid) = ''ALLOW (matched: '' @ pid @ '')''"
| "show_decision (Deny reason) = ''DENY ('' @ reason @ '')''"
| "show_decision (Escalate reason) = ''ESCALATE ('' @ reason @ '')''"
| "show_decision (Annotate pid reason) = ''ANNOTATE (matched: '' @ pid @ '', '' @ reason @ '')''"

definition trace_line :: "policy_trace \<Rightarrow> string" where
  "trace_line t =
     ''  ['' @ (if pt_matched t then ''MATCH'' else ''SKIP '') @ ''] '' @ pt_policy_id t @ '' (effect='' @ pt_effect t @
     '', specificity='' @ show_int (sint (pt_specificity t)) @ '')'' @
     (case pt_skip_reason t of Some r \<Rightarrow> '' -- '' @ r | None \<Rightarrow> [])"

text \<open>The sample: its text from a file or from the standard input, its fields, its context.\<close>

definition read_sample :: "'r cli_env \<Rightarrow> string option \<Rightarrow> (sample_request, string) result" where
  "read_sample env request_path =
     rbind (case request_path of
              Some path \<Rightarrow> rmap_err (\<lambda>e. ''cannot read request file '' @ quoted path @ '': '' @ e) (cl_read env path)
            | None \<Rightarrow> rmap_err (\<lambda>e. ''cannot read stdin: '' @ e) (cl_stdin env)) (\<lambda>request_json.
     rmap_err (\<lambda>e. ''cannot parse request JSON: '' @ e)
       (rbind (cl_parse_json env request_json) (\<lambda>v.
          case sample_from_value v of Some s \<Rightarrow> Ok s | None \<Rightarrow> Err (cl_type_error env v))))"

definition policy_test ::
  "'r cli_env \<Rightarrow> uuid \<Rightarrow> instant \<Rightarrow> instant \<Rightarrow> string \<Rightarrow> string option \<Rightarrow> (unit, string) result \<times> cli_line list" where
  "policy_test env new_id now now_eval policy_path request_path =
     (case rbind (rmap_err (\<lambda>e. ''cannot read policy file '' @ quoted policy_path @ '': '' @ e) (cl_read env policy_path))
             (\<lambda>contents. rmap_err (\<lambda>e. ''cannot parse policy file: '' @ cl_policy_error env e)
                (from_toml (cl_text env) (cl_parse_policies env) contents)) of
        Err e \<Rightarrow> (Err e, [])
      | Panic \<Rightarrow> (Panic, [])
      | Ok policies \<Rightarrow>
          (let loaded = Stdout (''Loaded '' @ show_nat (length (cfg_policies policies)) @ '' policies from '' @ policy_path)
           in case rbind (read_sample env request_path) (\<lambda>s.
                   rbind (sample_trust_level (te_unicode_lower (cl_text env)) (sq_trust_level s)) (\<lambda>level.
                   rbind (case sq_agent_id s of
                            Some t \<Rightarrow> rmap_err (\<lambda>e. ''invalid agent_id UUID: '' @ e) (cl_parse_uuid env t)
                          | None \<Rightarrow> Ok new_id) (\<lambda>agent_id.
                   Ok (sample_context agent_id now level s, sample_call s)))) of
                Err e \<Rightarrow> (Err e, [loaded])
              | Panic \<Rightarrow> (Panic, [loaded])
              | Ok (ctx, req) \<Rightarrow>
                  (let res = evaluate_explained (cl_text env) (cl_uuid_to_string env) now_eval policies ctx req
                   in (Ok (), [loaded, Stdout [], Stdout (''Decision: '' @ show_decision (er_decision res)),
                               Stdout [], Stdout ''Trace:''] @ map (\<lambda>t. Stdout (trace_line t)) (er_trace res)))))"

end
