(* ===== verification/Self_Update.thy ===== *)
theory Self_Update
  imports Cli
begin

text \<open>
  The update of the installed binaries and the dispatch of the command-line tool
  (\<open>self_update\<close>, \<open>verify_sha256\<close>, \<open>atomic_install\<close> and \<open>main\<close> in \<open>crates/arbiter-cli/src/main.rs\<close>). The
  installation directory is a store from paths to contents; each file operation may fail, and a copy
  that fails may leave a part of the file behind. An archive is the list of its members.
\<close>

section \<open>Verification of a download\<close>

text \<open>\<open>str::lines\<close>: a carriage return before the newline belongs to the line end, as does a last newline.\<close>

definition strip_cr :: "string \<Rightarrow> string" where
  "strip_cr l = (if l \<noteq> [] \<and> last l = CHR 13 then butlast l else l)"

definition str_lines :: "string \<Rightarrow> string list" where
  "str_lines s =
     (let pieces = split_on (\<lambda>c. c = CHR 10) s
      in map strip_cr (butlast pieces) @ (if last pieces = [] then [] else [last pieces]))"

definition verify_sha256 :: "(string \<Rightarrow> string) \<Rightarrow> string \<Rightarrow> string \<Rightarrow> string \<Rightarrow> (unit, string) result" where
  "verify_sha256 sha256_hex data filename checksums =
     (case Option.bind (find (contains_str filename) (str_lines checksums))
             (\<lambda>line. case split_whitespace line of [] \<Rightarrow> None | w # _ \<Rightarrow> Some w) of
        None \<Rightarrow> Err (''no checksum found for '' @ filename)
      | Some expected \<Rightarrow>
          (let actual = sha256_hex data
           in if expected \<noteq> actual
              then Err (''checksum mismatch!'' @ [CHR 10] @ ''  expected: '' @ expected @ [CHR 10] @ ''  actual:   '' @ actual)
              else Ok ()))"

section \<open>The archive\<close>

text \<open>Members in their order: the components of the path and the contents, or no contents for a directory.\<close>

type_synonym members = "(string list \<times> string option) list"

definition strip_components :: "nat \<Rightarrow> members \<Rightarrow> members" where
  "strip_components n ms =
     filter (\<lambda>(path, _). path \<noteq> []) (map (\<lambda>(path, contents). (drop n path, contents)) ms)"

definition dir_in :: "members \<Rightarrow> string \<Rightarrow> bool" where
  "dir_in ms name \<longleftrightarrow>
     list_ex (\<lambda>(path, contents). path \<noteq> [] \<and> hd path = name \<and> (length path > 1 \<or> contents = None)) ms"

definition exists_in :: "members \<Rightarrow> string list \<Rightarrow> bool" where
  "exists_in ms p \<longleftrightarrow> list_ex (\<lambda>(path, _). take (length p) path = p) ms"

text \<open>A later member replaces an earlier one of the same path.\<close>

definition contents_in :: "members \<Rightarrow> string list \<Rightarrow> string option" where
  "contents_in ms p = Option.bind (map_of (rev ms) p) (\<lambda>c. c)"

section \<open>Environment and file operations\<close>

record update_io =
  io_tempdir :: "string option"
  io_write :: "string option"
  io_entries :: "string list \<Rightarrow> ((string, string) result list, string) result"
  io_mkdir :: "string \<Rightarrow> string option"
  io_copy :: "string \<Rightarrow> (string \<times> string option) option"
  io_chmod :: "string \<Rightarrow> string option"
  io_rename :: "string \<Rightarrow> string option"

record update_env =
  up_version :: string
  up_linux :: bool
  up_macos :: bool
  up_x86_64 :: bool
  up_aarch64 :: bool
  up_download :: "string \<Rightarrow> (string, string) result"
  up_latest :: "(json, string) result + string"
  up_sha256 :: "string \<Rightarrow> string"
  up_tar :: "string \<Rightarrow> (members option, string) result"
  up_io :: update_io
  up_vars :: environment
  up_var_debug :: "string \<Rightarrow> string"

type_synonym disk = "(string \<times> string) list"

definition REPO :: string where
  "REPO = ''vburnz/mcp-gateway-firewall''"

text \<open>The answer of the release service: \<open>Inr\<close> when there is none.\<close>

definition resolve_latest_version :: "update_env \<Rightarrow> (string, string) result" where
  "resolve_latest_version env =
     (case up_latest env of
        Inr e \<Rightarrow> Err (''cannot fetch latest release: '' @ e)
      | Inl (Err e) \<Rightarrow> Err (''invalid response: '' @ e)
      | Inl Panic \<Rightarrow> Panic
      | Inl (Ok body) \<Rightarrow>
          (case as_str (jindex body ''tag_name'') of
             Some tag \<Rightarrow> Ok tag
           | None \<Rightarrow> Err ''no tag_name in release response''))"

definition detect_platform :: "update_env \<Rightarrow> (string \<times> string, string) result" where
  "detect_platform env =
     rbind (if up_linux env then Ok ''linux'' else if up_macos env then Ok ''macos'' else Err ''unsupported OS'') (\<lambda>os.
     rbind (if up_x86_64 env then Ok ''amd64'' else if up_aarch64 env then Ok ''arm64''
            else Err ''unsupported architecture'') (\<lambda>arch.
     Ok (os, arch)))"

definition dirs_or_home :: "update_env \<Rightarrow> string" where
  "dirs_or_home env = (case env_var (up_var_debug env) (up_vars env) ''HOME'' of Ok h \<Rightarrow> h | _ \<Rightarrow> ''.'')"

definition install_dir :: "update_env \<Rightarrow> string" where
  "install_dir env =
     (case env_var (up_var_debug env) (up_vars env) ''ARBITER_INSTALL_DIR'' of
        Ok d \<Rightarrow> d
      | _ \<Rightarrow> path_join (path_join (dirs_or_home env) ''.arbiter'') ''bin'')"

definition with_extension :: "string \<Rightarrow> string \<Rightarrow> string" where
  "with_extension path ext =
     (case path_extension path of
        Some old \<Rightarrow> take (length path - length old) path @ ext
      | None \<Rightarrow> path @ ''.'' @ ext)"

text \<open>Copy beside the destination, make it executable, rename. A source that is no file cannot be copied.\<close>

definition atomic_install ::
  "update_io \<Rightarrow> string option \<Rightarrow> string \<Rightarrow> disk \<Rightarrow> (unit, string) result \<times> disk" where
  "atomic_install io src dest d =
     (let tmp = with_extension dest ''update.tmp''
      in case (src, io_copy io tmp) of
           (None, _) \<Rightarrow> (Err ''cannot copy binary: the source path is neither a regular file nor a symlink to a regular file'', d)
         | (Some c, Some (e, partial)) \<Rightarrow>
             (Err (''cannot copy binary: '' @ e), case partial of Some p \<Rightarrow> AList.update tmp p d | None \<Rightarrow> d)
         | (Some c, None) \<Rightarrow>
             (let d = AList.update tmp c d
              in case io_chmod io tmp of
                   Some e \<Rightarrow> (Err (''cannot set permissions: '' @ e), d)
                 | None \<Rightarrow>
                     (case io_rename io dest of
                        Some e \<Rightarrow> (Err (''cannot replace '' @ dest @ '': '' @ e), d)
                      | None \<Rightarrow> (Ok (), AList.update dest c (AList.delete tmp d)))))"

text \<open>The loop over the entries of the temporary directory.\<close>

fun find_binary :: "members \<Rightarrow> (string, string) result list \<Rightarrow> (string option, string) result" where
  "find_binary ms [] = Ok None"
| "find_binary ms (Err e # es) = Err (''read dir entry: '' @ e)"
| "find_binary ms (Panic # es) = Panic"
| "find_binary ms (Ok name # es) =
     (if dir_in ms name \<and> exists_in ms [name, ''arbiter''] then Ok (Some name) else find_binary ms es)"

section \<open>The update\<close>

definition tag_of :: "update_env \<Rightarrow> string option \<Rightarrow> (string, string) result" where
  "tag_of env target_version =
     (case target_version of
        Some v \<Rightarrow> Ok (if starts_with ''v'' v then v else ''v'' @ v)
      | None \<Rightarrow> resolve_latest_version env)"

definition semver_of :: "string \<Rightarrow> string" where
  "semver_of tag = (if starts_with ''v'' tag then tl tag else tag)"

definition release_url :: "string \<Rightarrow> string \<Rightarrow> string" where
  "release_url tag file = ''https://github.com/'' @ REPO @ ''/releases/download/'' @ tag @ ''/'' @ file"

definition fetch_verified :: "update_env \<Rightarrow> string \<Rightarrow> (string, string) result" where
  "fetch_verified env tag =
     rbind (detect_platform env) (\<lambda>(os, arch).
     let tarball = ''arbiter-'' @ os @ ''-'' @ arch @ ''.tar.gz''
     in rbind (rmap_err (\<lambda>e. ''download failed: '' @ e) (up_download env (release_url tag tarball))) (\<lambda>data.
        rbind (rmap_err (\<lambda>e. ''checksum download failed: '' @ e)
                 (up_download env (release_url tag ''checksums-sha256.txt''))) (\<lambda>checksums.
        rbind (verify_sha256 (up_sha256 env) data tarball checksums) (\<lambda>_. Ok data))))"

text \<open>The directory of the new binaries, and what the archive left in the temporary directory.\<close>

definition unpack :: "update_env \<Rightarrow> string \<Rightarrow> (members \<times> string, string) result" where
  "unpack env data =
     (let io = up_io env; names = (\<lambda>ms. remdups (''arbiter.tar.gz'' # map (\<lambda>(path, _). hd path) ms))
      in case io_tempdir io of
           Some e \<Rightarrow> Err (''cannot create temp dir: '' @ e)
         | None \<Rightarrow>
             (case io_write io of
                Some e \<Rightarrow> Err (''cannot write tarball: '' @ e)
              | None \<Rightarrow>
                  rbind (rmap_err (\<lambda>e. ''tar extraction failed: '' @ e) (up_tar env data)) (\<lambda>extracted.
                  case extracted of
                    None \<Rightarrow> Err ''tar extraction failed''
                  | Some archive \<Rightarrow>
                      (let ms = strip_components 1 archive
                       in rbind (rmap_err (\<lambda>e. ''read dir: '' @ e) (io_entries io (names ms))) (\<lambda>entries.
                          rbind (find_binary ms entries) (\<lambda>found.
                          case found of
                            Some name \<Rightarrow> Ok (ms, name)
                          | None \<Rightarrow> Err ''could not find arbiter binary in archive''))))))"

definition install :: "update_env \<Rightarrow> members \<Rightarrow> string \<Rightarrow> disk \<Rightarrow> (unit, string) result \<times> disk" where
  "install env ms name d =
     (let io = up_io env; dir = install_dir env
      in case io_mkdir io dir of
           Some e \<Rightarrow> (Err (''cannot create '' @ dir @ '': '' @ e), d)
         | None \<Rightarrow>
             and_then (atomic_install io (contents_in ms [name, ''arbiter'']) (path_join dir ''arbiter'') d) (\<lambda>_ d.
             if exists_in ms [name, ''arbiter-ctl'']
             then atomic_install io (contents_in ms [name, ''arbiter-ctl'']) (path_join dir ''arbiter-ctl'') d
             else (Ok (), d)))"

definition self_update ::
  "update_env \<Rightarrow> string option \<Rightarrow> bool \<Rightarrow> disk \<Rightarrow> (unit, string) result \<times> disk" where
  "self_update env target_version check_only d =
     (if is_ok (env_var (up_var_debug env) (up_vars env) ''ARBITER_NO_SELF_UPDATE'')
      then (Err ''self-update is disabled (ARBITER_NO_SELF_UPDATE is set)'', d)
      else and_then (tag_of env target_version, d) (\<lambda>tag d.
        if semver_of tag = up_version env \<or> check_only then (Ok (), d)
        else and_then (fetch_verified env tag, d) (\<lambda>data d.
             and_then (unpack env data, d) (\<lambda>(ms, name) d.
             install env ms name d))))"

section \<open>Dispatch\<close>

datatype cli_command =
    CmdRegisterAgent string string "string list"
  | CmdCreateDelegation string string "string list"
  | CmdRevoke string
  | CmdListAgents
  | CmdDoctor "string option"
  | CmdPolicyTest string "string option"
  | CmdUpdate "string option" bool

record cli =
  ci_api_url :: string
  ci_api_key :: string
  ci_command :: cli_command

definition cleartext_warning :: "string \<Rightarrow> cli_line list" where
  "cleartext_warning url =
     (if starts_with ''http://'' url \<and> \<not> contains_str ''127.0.0.1'' url \<and> \<not> contains_str ''localhost'' url \<and>
         \<not> contains_str ''[::1]'' url
      then [Stderr (''WARNING: using http:// for non-loopback target '' @ quoted url @
              ''. API key will be sent in cleartext. Use https:// for production.'')]
      else [])"

definition run_command ::
  "'r cli_env \<Rightarrow> update_env \<Rightarrow> uuid \<Rightarrow> instant \<Rightarrow> instant \<Rightarrow> cli \<Rightarrow> disk \<Rightarrow>
   ((unit, string) result \<times> cli_line list) \<times> disk" where
  "run_command env up new_id now now_eval c d =
     (let url = ci_api_url c; key = ci_api_key c
      in case ci_command c of
           CmdRegisterAgent owner model capabilities \<Rightarrow> (cli_register_agent env url key owner model capabilities, d)
         | CmdCreateDelegation from_agent to_agent scopes \<Rightarrow> (cli_create_delegation env url key from_agent to_agent scopes, d)
         | CmdRevoke agent \<Rightarrow> (cli_revoke_agent env url key agent, d)
         | CmdListAgents \<Rightarrow> (cli_list_agents env url key, d)
         | CmdDoctor config \<Rightarrow> (doctor env url key config, d)
         | CmdPolicyTest policy request \<Rightarrow> (policy_test env new_id now now_eval policy request, d)
         | CmdUpdate version check_only \<Rightarrow>
             (let (res, d') = self_update up version check_only d in ((res, []), d')))"

text \<open>The exit code, what is printed, and the disk; \<open>None\<close> for a panic.\<close>

definition cli_main ::
  "'r cli_env \<Rightarrow> update_env \<Rightarrow> uuid \<Rightarrow> instant \<Rightarrow> instant \<Rightarrow> cli \<Rightarrow> disk \<Rightarrow> nat option \<times> cli_line list \<times> disk" where
  "cli_main env up new_id now now_eval c d =
     (let ((res, lines), d') = run_command env up new_id now now_eval c d;
          warning = cleartext_warning (ci_api_url c)
      in case res of
           Ok _ \<Rightarrow> (Some 0, warning @ lines, d')
         | Err e \<Rightarrow> (Some 1, warning @ lines @ [Stderr (''Error: '' @ e)], d')
         | Panic \<Rightarrow> (None, warning @ lines, d'))"

end
