(* ===== verification/Cli_Props.thy ===== *)
theory Cli_Props
  imports Self_Update
begin

text \<open>
  What the command-line tool promises: an update changes an installed binary only to contents of an
  archive whose digest the release lists, at once or not at all; the dry run of a policy file reports
  what the pipeline would decide. And two ways in which it fails: the release archives are unpacked so
  that no binary is found, and the diagnosis asks the API for a route that it does not have.
\<close>

section \<open>Paths\<close>

lemma split_on_append: "P c \<Longrightarrow> split_on P (s @ c # t) = split_on P s @ split_on P t"
proof (induction s)
  case (Cons d s)
  then show ?case by (cases "split_on P s") (auto split: list.splits)
qed simp

lemma path_join_cases:
  obtains "path_join dir p = p" | pre where "path_join dir p = pre @ CHR ''/'' # p"
proof (cases "starts_with ''/'' p \<or> dir = []")
  case True
  then show ?thesis using that(1) by (auto simp: path_join_def)
next
  case False
  then show ?thesis
    using that(2) [of "butlast dir"] that(2) [of dir] append_butlast_last_id [of dir]
    by (cases "last dir = CHR ''/''") (auto simp: path_join_def)
qed

definition plain_name :: "string \<Rightarrow> bool" where
  "plain_name n \<longleftrightarrow> n \<noteq> [] \<and> CHR ''/'' \<notin> set n \<and> CHR ''.'' \<notin> set n"

lemma file_name_join: "plain_name n \<Longrightarrow> file_name (path_join dir n) = Some n"
proof -
  assume n: "plain_name n"
  then have one: "split_on (\<lambda>c. c = CHR ''/'') n = [n]"
    by (intro split_on_none) (auto simp: plain_name_def)
  have ok: "n \<noteq> []" "n \<noteq> ''.''" "n \<noteq> ''..''" using n by (auto simp: plain_name_def)
  have named: "file_name path = Some n"
    if "filter (\<lambda>c. c \<noteq> [] \<and> c \<noteq> ''.'') (split_on (\<lambda>c. c = CHR ''/'') path) = cs @ [n]" for path cs
    using that ok by (cases cs) (auto simp: file_name_def)
  show ?thesis
    by (rule path_join_cases [of dir n]) (auto intro!: named [of _ "[]"] named simp: split_on_append one ok)
qed

lemma temporary_name: "plain_name n \<Longrightarrow> with_extension (path_join dir n) ext = path_join dir n @ ''.'' @ ext"
proof -
  assume n: "plain_name n"
  then have "dropWhile (\<lambda>c. c \<noteq> CHR ''.'') (rev n) = []" by (auto simp: plain_name_def dropWhile_eq_Nil_conv)
  note no_stem = this
  show ?thesis by (simp add: with_extension_def path_extension_def file_name_join [OF n] no_stem)
qed

lemma last_join: "n \<noteq> [] \<Longrightarrow> last (path_join dir n) = last n"
  by (rule path_join_cases [of dir n]) auto

abbreviation arbiter_path :: "update_env \<Rightarrow> string" where
  "arbiter_path env \<equiv> path_join (install_dir env) ''arbiter''"

abbreviation ctl_path :: "update_env \<Rightarrow> string" where
  "ctl_path env \<equiv> path_join (install_dir env) ''arbiter-ctl''"

lemma names_differ:
  "arbiter_path env \<noteq> ctl_path env"
  "with_extension (arbiter_path env) ''update.tmp'' \<notin> {arbiter_path env, ctl_path env}"
  "with_extension (ctl_path env) ''update.tmp'' \<notin> {arbiter_path env, ctl_path env}"
proof -
  have l: "last (arbiter_path env) = CHR ''r''" "last (ctl_path env) = CHR ''l''"
    by (simp_all add: last_join)
  then show "arbiter_path env \<noteq> ctl_path env" by force
  have t: "last (with_extension (arbiter_path env) ''update.tmp'') = CHR ''p''"
      "last (with_extension (ctl_path env) ''update.tmp'') = CHR ''p''"
    by (simp_all add: temporary_name plain_name_def)
  show "with_extension (arbiter_path env) ''update.tmp'' \<notin> {arbiter_path env, ctl_path env}"
      "with_extension (ctl_path env) ''update.tmp'' \<notin> {arbiter_path env, ctl_path env}"
    using l t by force+
qed

section \<open>Installing\<close>

text \<open>Whatever fails on the way, a file is untouched or replaced by the whole source.\<close>

lemma atomic_install_lookup:
  assumes "atomic_install io src dest d = (res, d')" and "p \<noteq> with_extension dest ''update.tmp''"
  shows "map_of d' p = map_of d p \<or> p = dest \<and> src \<noteq> None \<and> map_of d' p = src"
  using assms
  by (auto simp: atomic_install_def Let_def update_conv' delete_conv' split: option.splits prod.splits if_splits)

lemma contents_in_member: "contents_in ms p = Some c \<Longrightarrow> (p, Some c) \<in> set ms"
  by (auto simp: contents_in_def bind_eq_Some_conv dest: map_of_SomeD)

lemma install_lookup:
  assumes "install env ms name d = (res, d')" and "p \<in> {arbiter_path env, ctl_path env}"
  shows "map_of d' p = map_of d p \<or> (\<exists>path c. (path, Some c) \<in> set ms \<and> map_of d' p = Some c)"
proof (cases "io_mkdir (up_io env) (install_dir env)")
  case None
  obtain r1 d1 where
    a: "atomic_install (up_io env) (contents_in ms [name, ''arbiter'']) (arbiter_path env) d = (r1, d1)" by fastforce
  have "p \<noteq> with_extension (arbiter_path env) ''update.tmp''" "p \<noteq> with_extension (ctl_path env) ''update.tmp''"
    using assms(2) names_differ [of env] by auto
  note keep = atomic_install_lookup [OF a this(1)] and tmp = this(2)
  then have first: "map_of d1 p = map_of d p \<or> (\<exists>path c. (path, Some c) \<in> set ms \<and> map_of d1 p = Some c)"
    using contents_in_member by fastforce
  obtain r2 d2 where
    b: "atomic_install (up_io env) (contents_in ms [name, ''arbiter-ctl'']) (ctl_path env) d1 = (r2, d2)" by fastforce
  have "d' = d1 \<or> d' = d2"
    using assms(1) None a b by (cases r1) (auto simp: install_def Let_def split: if_splits)
  then show ?thesis
    using first atomic_install_lookup [OF b tmp] contents_in_member by fastforce
next
  case (Some e)
  then show ?thesis using assms(1) by (auto simp: install_def Let_def)
qed

lemma strip_member: "(path, c) \<in> set (strip_components n ms) \<Longrightarrow> \<exists>full. (full, c) \<in> set ms \<and> path = drop n full"
  by (auto simp: strip_components_def)

lemma unpack_Ok:
  assumes "unpack env data = Ok (ms, name)"
  shows "\<exists>archive. up_tar env data = Ok (Some archive) \<and> ms = strip_components 1 archive \<and>
    dir_in ms name \<and> exists_in ms [name, ''arbiter'']"
proof -
  have found: "find_binary ms' es = Ok (Some n) \<Longrightarrow> dir_in ms' n \<and> exists_in ms' [n, ''arbiter'']" for ms' es n
    by (induction ms' es rule: find_binary.induct) (auto split: if_splits)
  from assms show ?thesis
    by (auto simp: unpack_def Let_def rbind_Ok rmap_err_Ok dest!: found split: option.splits)
qed

lemma verify_sha256_Ok:
  assumes "verify_sha256 sha data file checksums = Ok u"
  shows "\<exists>line ws. line \<in> set (str_lines checksums) \<and> contains_str file line \<and> split_whitespace line = sha data # ws"
proof -
  obtain line ws where "find (contains_str file) (str_lines checksums) = Some line" "split_whitespace line = sha data # ws"
    using assms
    by (auto simp: verify_sha256_def Let_def bind_eq_Some_conv split: option.splits if_splits list.splits)
  then show ?thesis by (auto simp: find_Some_iff) (metis nth_mem)
qed

text \<open>What a release lists as the digest of an archive for a platform.\<close>

definition listed_digest :: "update_env \<Rightarrow> string \<Rightarrow> string \<Rightarrow> string \<Rightarrow> bool" where
  "listed_digest env tag tarball digest \<longleftrightarrow>
     (\<exists>checksums line ws. up_download env (release_url tag ''checksums-sha256.txt'') = Ok checksums \<and>
        line \<in> set (str_lines checksums) \<and> contains_str tarball line \<and> split_whitespace line = digest # ws)"

lemma fetch_verified_Ok:
  assumes "fetch_verified env tag = Ok data"
  shows "\<exists>tarball. up_download env (release_url tag tarball) = Ok data \<and>
    listed_digest env tag tarball (up_sha256 env data)"
  using assms
  by (auto simp: fetch_verified_def rbind_Ok Let_def listed_digest_def dest!: verify_sha256_Ok split: prod.splits)

lemma self_update_cases:
  assumes "self_update env v check_only d = (res, d')"
  obtains "d' = d"
  | tag data ms name where "tag_of env v = Ok tag" "fetch_verified env tag = Ok data" "unpack env data = Ok (ms, name)"
      "install env ms name d = (res, d')" "semver_of tag \<noteq> up_version env" "\<not> check_only"
proof (cases "tag_of env v")
  case (Ok tag)
  note t = this
  show ?thesis
  proof (cases "fetch_verified env tag")
    case (Ok data)
    then show ?thesis
      using assms that t by (cases "unpack env data") (auto simp: self_update_def split: if_splits)
  qed (use assms that t in \<open>auto simp: self_update_def split: if_splits\<close>)
qed (use assms that in \<open>auto simp: self_update_def split: if_splits\<close>)

text \<open>
  C16: When an update changes what an installed binary holds, whatever fails during the update, the new
  contents are those of a file of an archive that was downloaded from the release of the target, and
  the list of checksums of that release has a line naming the archive whose first word is its digest.
  Hence a binary is replaced as a whole or left alone, and only by verified contents.
\<close>

theorem update_installs_only_verified:
  assumes "self_update env v check_only d = (res, d')"
    and "p \<in> {path_join (install_dir env) ''arbiter'', path_join (install_dir env) ''arbiter-ctl''}"
    and "map_of d' p \<noteq> map_of d p"
  shows "\<exists>tag tarball data archive path c. tag_of env v = Ok tag \<and>
    up_download env (release_url tag tarball) = Ok data \<and>
    listed_digest env tag tarball (up_sha256 env data) \<and>
    up_tar env data = Ok (Some archive) \<and> (path, Some c) \<in> set archive \<and> map_of d' p = Some c"
  using assms(1)
proof (cases rule: self_update_cases)
  case 1
  then show ?thesis using assms(3) by simp
next
  case (2 tag data ms name)
  obtain path c where c: "(path, Some c) \<in> set ms" "map_of d' p = Some c"
    using install_lookup [OF 2(4) assms(2)] assms(3) by blast
  obtain archive where a: "up_tar env data = Ok (Some archive)" "ms = strip_components 1 archive"
    using unpack_Ok [OF 2(3)] by blast
  obtain full where "(full, Some c) \<in> set archive" using strip_member c(1) a(2) by blast
  then show ?thesis using fetch_verified_Ok [OF 2(2)] 2(1) a(1) c(2) by blast
qed

section \<open>The archives of the releases\<close>

text \<open>The packing step of the release workflow: one directory with files in it.\<close>

definition release_layout :: "string \<Rightarrow> members \<Rightarrow> bool" where
  "release_layout staging archive \<longleftrightarrow>
     list_all (\<lambda>(path, contents). path = [staging] \<and> contents = None \<or> (\<exists>file. path = [staging, file]) \<and> contents \<noteq> None) archive"

lemma release_layout_no_dir: "release_layout staging archive \<Longrightarrow> \<not> dir_in (strip_components 1 archive) name"
  by (fastforce simp: release_layout_def dir_in_def strip_components_def list_ex_iff list_all_iff)

text \<open>
  C40: An archive packed as the release workflow packs it cannot be installed. The update strips the
  leading directory when it unpacks the archive and then looks for the binary inside a directory: it
  finds none, changes nothing, and succeeds only when there was nothing to do.
\<close>

theorem release_archive_never_installs:
  assumes "\<And>data archive. up_tar env data = Ok (Some archive) \<Longrightarrow> \<exists>staging. release_layout staging archive"
  shows "snd (self_update env v check_only d) = d \<and>
    (fst (self_update env v check_only d) = Ok () \<longrightarrow>
       (\<exists>tag. tag_of env v = Ok tag \<and> (semver_of tag = up_version env \<or> check_only)))"
proof -
  have no: "unpack env data \<noteq> Ok (ms, name)" for data ms name
    using assms unpack_Ok release_layout_no_dir by metis
  have keeps: "snd (self_update env v check_only d) = d"
    using no by (cases rule: self_update_cases [OF surjective_pairing]) auto
  have "fst (and_then (unpack env data, d) f) \<noteq> Ok ()"
    for data and f :: "members \<times> string \<Rightarrow> disk \<Rightarrow> (unit, string) result \<times> disk"
    using no by (cases "unpack env data") auto
  then have "fst (self_update env v check_only d) = Ok () \<Longrightarrow>
      \<exists>tag. tag_of env v = Ok tag \<and> (semver_of tag = up_version env \<or> check_only)"
    by (cases "tag_of env v"; cases "fetch_verified env (case tag_of env v of Ok t \<Rightarrow> t)")
       (auto simp: self_update_def split: if_splits)
  then show ?thesis using keeps by blast
qed

section \<open>The diagnosis against the router\<close>

text \<open>
  What the router of the administration API does with a path it has and a method it does not have for
  it: the status is 405. The paths with a parameter are left out.
\<close>

definition answered_by_router :: "'r cli_env \<Rightarrow> string \<Rightarrow> bool" where
  "answered_by_router env base \<longleftrightarrow>
     (\<forall>meth path hs body status reply. CHR ''{'' \<notin> set path \<and> (\<exists>c. path \<in> set (snd (route c))) \<and>
        (\<forall>c. path \<in> set (snd (route c)) \<longrightarrow> fst (route c) \<noteq> meth) \<and>
        cl_send env \<lparr>cq_method = meth, cq_url = base @ path, cq_headers = hs, cq_body = body\<rparr> = Replied status reply \<longrightarrow>
        status = 405)"

lemma validate_is_posted: "''/policy/validate'' \<in> set (snd (route c)) \<Longrightarrow> fst (route c) = ''POST''"
  by (cases c) (simp_all add: route_def)

lemma policy_check_fails:
  assumes "answered_by_router env base"
  shows "\<not> ck_pass (check_policy_system env base key)"
proof (cases "cl_send env (api_request ''GET'' (base @ ''/policy/validate'') key None)")
  case (Replied status reply)
  have "\<exists>c. ''/policy/validate'' \<in> set (snd (route c))"
    by (rule exI [of _ "ValidatePolicy []"]) (simp add: route_def)
  moreover have "\<forall>c. ''/policy/validate'' \<in> set (snd (route c)) \<longrightarrow> fst (route c) \<noteq> ''GET''"
    using validate_is_posted by fastforce
  moreover have "CHR ''{'' \<notin> set ''/policy/validate''" by simp
  ultimately have "status = 405"
    using assms Replied unfolding answered_by_router_def api_request_def by blast
  then show ?thesis using Replied by (simp add: check_policy_system_def is_success_def fail_def Let_def)
qed (simp add: check_policy_system_def fail_def)

text \<open>
  The diagnosis never passes against a running instance. It asks for the state of the policies with
  a GET request to a path that the administration API serves for POST only, is refused with status 405
  and reports a failure.
\<close>

theorem doctor_never_passes:
  assumes "answered_by_router env api_url"
  shows "fst (doctor env api_url api_key config_path) \<noteq> Ok ()"
  using policy_check_fails [OF assms, of api_key]
  by (auto simp: doctor_def Let_def split: option.splits)

section \<open>The dry run and the pipeline\<close>

lemma evaluate_any_time:
  "er_decision (evaluate_explained env us now cfg ctx req) = er_decision (evaluate_explained env us now' cfg ctx req)"
  by (simp add: evaluate_explained_def collect_matching_eq by_specificity_map split: option.splits list.splits)

lemma single_call_continues:
  "fst (evaluate_mcp_policies env us clock cfg ctx [req]) = Continue \<longleftrightarrow>
   (\<exists>pid. evaluate env us now cfg ctx req = Allow pid) \<or>
   (\<exists>pid reason. evaluate env us now cfg ctx req = Annotate pid reason)"
proof -
  have "er_decision (evaluate_explained env us (clock 0) cfg ctx req) = evaluate env us now cfg ctx req"
    unfolding evaluate_def by (rule evaluate_any_time)
  then show ?thesis by (auto simp: evaluate_mcp_policies_def split: decision.splits)
qed

lemma show_decision_admits:
  "starts_with ''A'' (show_decision dec) \<longleftrightarrow> (\<exists>pid. dec = Allow pid) \<or> (\<exists>pid reason. dec = Annotate pid reason)"
  by (cases dec) (simp_all add: starts_with_def)

definition sample_agent :: "'r cli_env \<Rightarrow> uuid \<Rightarrow> sample_request \<Rightarrow> (uuid, string) result" where
  "sample_agent env new_id s =
     (case sq_agent_id s of
        Some t \<Rightarrow> rmap_err (\<lambda>e. ''invalid agent_id UUID: '' @ e) (cl_parse_uuid env t)
      | None \<Rightarrow> Ok new_id)"

lemma policy_test_Ok:
  assumes "policy_test env new_id now now_eval policy_path request_path = (Ok (), lines)"
  shows "\<exists>contents policies s level agent_id.
    cl_read env policy_path = Ok contents \<and>
    from_toml (cl_text env) (cl_parse_policies env) contents = Ok policies \<and>
    read_sample env request_path = Ok s \<and>
    sample_trust_level (te_unicode_lower (cl_text env)) (sq_trust_level s) = Ok level \<and>
    sample_agent env new_id s = Ok agent_id \<and>
    lines ! 2 = Stdout (''Decision: '' @ show_decision (evaluate (cl_text env) (cl_uuid_to_string env) now_eval policies
      (sample_context agent_id now level s) (sample_call s)))"
  using assms unfolding policy_test_def Let_def sample_agent_def [symmetric]
  by (fastforce simp: rbind_Ok evaluate_def split: result.splits prod.splits)

text \<open>
  C39: A dry run that succeeds prints on its third line the decision of the policy file for the sample
  request, and the decision printed is an admission (\<open>ALLOW\<close> or \<open>ANNOTATE\<close>, the two that begin with an A)
  exactly when the policy stage of the pipeline, at whatever time, lets a request of this one call pass
  in the context of the sample: an active agent with no delegation chain and the groups of the sample.
\<close>

theorem policy_test_predicts_pipeline:
  assumes "policy_test env new_id now now_eval policy_path request_path = (Ok (), lines)"
  shows "\<exists>contents policies s level agent_id decision.
    cl_read env policy_path = Ok contents \<and>
    from_toml (cl_text env) (cl_parse_policies env) contents = Ok policies \<and>
    read_sample env request_path = Ok s \<and>
    sample_trust_level (te_unicode_lower (cl_text env)) (sq_trust_level s) = Ok level \<and>
    sample_agent env new_id s = Ok agent_id \<and>
    lines ! 2 = Stdout (''Decision: '' @ show_decision decision) \<and>
    decision = evaluate (cl_text env) (cl_uuid_to_string env) now_eval policies
      (sample_context agent_id now level s) (sample_call s) \<and>
    (\<forall>clock. starts_with ''A'' (show_decision decision) \<longleftrightarrow>
       fst (evaluate_mcp_policies (cl_text env) (cl_uuid_to_string env) clock policies
              (sample_context agent_id now level s) [sample_call s]) = Continue)"
proof -
  obtain contents policies s level agent_id where
    ok: "cl_read env policy_path = Ok contents" "from_toml (cl_text env) (cl_parse_policies env) contents = Ok policies"
      "read_sample env request_path = Ok s" "sample_trust_level (te_unicode_lower (cl_text env)) (sq_trust_level s) = Ok level"
      "sample_agent env new_id s = Ok agent_id"
      "lines ! 2 = Stdout (''Decision: '' @ show_decision (evaluate (cl_text env) (cl_uuid_to_string env) now_eval policies
        (sample_context agent_id now level s) (sample_call s)))"
    using policy_test_Ok [OF assms] by blast
  have "starts_with ''A'' (show_decision (evaluate (cl_text env) (cl_uuid_to_string env) now_eval policies
        (sample_context agent_id now level s) (sample_call s))) \<longleftrightarrow>
      fst (evaluate_mcp_policies (cl_text env) (cl_uuid_to_string env) clock policies
        (sample_context agent_id now level s) [sample_call s]) = Continue" for clock
    unfolding show_decision_admits single_call_continues [where now = now_eval] ..
  then show ?thesis using ok by blast
qed

section \<open>Concrete runs\<close>

definition io_demo :: update_io where
  "io_demo = \<lparr>io_tempdir = None, io_write = None, io_entries = (\<lambda>names. Ok (map Ok names)), io_mkdir = (\<lambda>_. None),
     io_copy = (\<lambda>_. None), io_chmod = (\<lambda>_. None), io_rename = (\<lambda>_. None)\<rparr>"

definition up_demo :: "members \<Rightarrow> update_env" where
  "up_demo archive =
     \<lparr>up_version = ''1'', up_linux = True, up_macos = False, up_x86_64 = True, up_aarch64 = False,
      up_download = (\<lambda>url. if url = release_url ''v2'' ''checksums-sha256.txt'' then Ok ''d arbiter-linux-amd64.tar.gz'' else Ok ''z''),
      up_latest = Inr ''offline'', up_sha256 = (\<lambda>_. ''d''), up_tar = (\<lambda>_. Ok (Some archive)), up_io = io_demo,
      up_vars = [(''ARBITER_INSTALL_DIR'', ''/opt'')], up_var_debug = (\<lambda>s. s)\<rparr>"

lemmas up_demo_defs = up_demo_def io_demo_def

lemma split_words_letter:
  assumes "c \<notin> set (map hd WHITE_SPACE)"
  shows "split_words word (c # s) = split_words (word @ [c]) s"
proof -
  have "find (\<lambda>w. w \<noteq> [] \<and> starts_with w (c # s)) WHITE_SPACE = None"
    using assms by (auto simp: find_None_iff starts_with_iff Cons_eq_append_conv) (metis image_eqI list.sel(1))
  then show ?thesis by (simp add: split_words.simps [of word "c # s"])
qed

lemma split_words_space: "split_words word (CHR '' '' # s) = (if word = [] then [] else [word]) @ split_words [] s"
proof -
  have first: "list_all (\<lambda>x. \<not> Q x) xs \<Longrightarrow> Q y \<Longrightarrow> find Q (xs @ y # ys) = Some y" for Q xs and y :: string and ys
    by (induction xs) auto
  have "WHITE_SPACE = [[CHR 9], [CHR 10], [CHR 11], [CHR 12], [CHR 13]] @ '' '' # drop 6 WHITE_SPACE"
    by code_simp
  then have "find (\<lambda>w. w \<noteq> [] \<and> starts_with w (CHR '' '' # s)) WHITE_SPACE = Some '' ''"
    by (rule ssubst, intro first) (simp_all add: starts_with_def)
  then show ?thesis by (simp add: split_words.simps [of word "CHR '' '' # s"])
qed

lemma split_words_Nil: "split_words word [] = (if word = [] then [] else [word])"
proof -
  have "find (\<lambda>w. w \<noteq> [] \<and> starts_with w []) WHITE_SPACE = None"
    by (auto simp: find_None_iff starts_with_def)
  then show ?thesis by (simp add: split_words.simps [of word "[]"])
qed

lemma split_words_graphic: "set s \<inter> set (map hd WHITE_SPACE) = {} \<Longrightarrow> split_words word (s @ t) = split_words (word @ s) t"
  by (induction s arbitrary: word) (auto simp: split_words_letter)

lemma demo_line: "split_whitespace ''d arbiter-linux-amd64.tar.gz'' = [''d'', ''arbiter-linux-amd64.tar.gz'']"
proof -
  have "set ''arbiter-linux-amd64.tar.gz'' \<inter> set (map hd WHITE_SPACE) = {}" "CHR ''d'' \<notin> set (map hd WHITE_SPACE)"
    by code_simp+
  then show ?thesis
    using split_words_graphic [of "''arbiter-linux-amd64.tar.gz''" "[]" "[]"]
    by (simp add: split_whitespace_def split_words_letter split_words_space split_words_Nil)
qed

definition nested_archive :: members where
  "nested_archive = [([''s''], None), ([''s'', ''bin''], None), ([''s'', ''bin'', ''arbiter''], Some ''new'')]"

definition release_archive :: members where
  "release_archive = [([''s''], None), ([''s'', ''arbiter''], Some ''new''), ([''s'', ''README.md''], Some ''doc'')]"

lemma demo_vars:
  "env_var (\<lambda>s. s) [(''ARBITER_INSTALL_DIR'', ''/opt'')] ''ARBITER_INSTALL_DIR'' = Ok ''/opt''"
  "env_var (\<lambda>s. s) [(''ARBITER_INSTALL_DIR'', ''/opt'')] ''ARBITER_NO_SELF_UPDATE'' = Err ''environment variable not found''"
  by code_simp+

lemma demo_install_dir: "install_dir (up_demo archive) = ''/opt''"
  by (simp add: install_dir_def up_demo_def demo_vars)

lemma demo_fetch: "fetch_verified (up_demo archive) ''v2'' = Ok ''z''"
proof -
  have "str_lines ''d arbiter-linux-amd64.tar.gz'' = [''d arbiter-linux-amd64.tar.gz'']" by code_simp
  moreover have "contains_str ''arbiter-linux-amd64.tar.gz'' ''d arbiter-linux-amd64.tar.gz''" by code_simp
  moreover have "release_url ''v2'' ''arbiter-linux-amd64.tar.gz'' \<noteq> release_url ''v2'' ''checksums-sha256.txt''"
    by (simp add: release_url_def)
  ultimately show ?thesis
    by (simp add: fetch_verified_def detect_platform_def up_demo_def verify_sha256_def demo_line Let_def del: contains_str.simps)
qed

lemma demo_unpack: "unpack (up_demo nested_archive) ''z'' = Ok ([([''bin''], None), ([''bin'', ''arbiter''], Some ''new'')], ''bin'')"
  by (simp add: unpack_def up_demo_defs nested_archive_def strip_components_def dir_in_def exists_in_def Let_def)

lemma demo_update:
  "self_update (up_demo nested_archive) (Some ''2'') False [] = (Ok (), [(''/opt/arbiter'', ''new'')])"
proof -
  have start: "tag_of (up_demo nested_archive) (Some ''2'') = Ok ''v2''" "semver_of ''v2'' = ''2''"
      "up_version (up_demo nested_archive) = ''1''"
      "\<not> is_ok (env_var (up_var_debug (up_demo nested_archive)) (up_vars (up_demo nested_archive)) ''ARBITER_NO_SELF_UPDATE'')"
    by (simp_all add: tag_of_def starts_with_def semver_of_def up_demo_def demo_vars)
  have "path_join ''/opt'' ''arbiter'' = ''/opt/arbiter''" by (simp add: path_join_def starts_with_def)
  moreover have "with_extension ''/opt/arbiter'' ''update.tmp'' = ''/opt/arbiter.update.tmp''" by code_simp
  ultimately have "install (up_demo nested_archive) [([''bin''], None), ([''bin'', ''arbiter''], Some ''new'')] ''bin'' [] =
      (Ok (), [(''/opt/arbiter'', ''new'')])"
    by (simp add: install_def demo_install_dir) (simp add: up_demo_defs contents_in_def exists_in_def atomic_install_def)
  then show ?thesis by (simp add: self_update_def start demo_fetch demo_unpack)
qed

theorem update_installs_only_verified_witness:
  "self_update (up_demo nested_archive) (Some ''2'') False [] = (Ok (), [(''/opt/arbiter'', ''new'')]) \<and>
   (\<exists>tag tarball data archive path c. tag_of (up_demo nested_archive) (Some ''2'') = Ok tag \<and>
     up_download (up_demo nested_archive) (release_url tag tarball) = Ok data \<and>
     listed_digest (up_demo nested_archive) tag tarball (up_sha256 (up_demo nested_archive) data) \<and>
     up_tar (up_demo nested_archive) data = Ok (Some archive) \<and> (path, Some c) \<in> set archive \<and>
     map_of [(''/opt/arbiter'', ''new'')] ''/opt/arbiter'' = Some c)"
proof -
  have "''/opt/arbiter'' \<in> {path_join (install_dir (up_demo nested_archive)) ''arbiter'',
      path_join (install_dir (up_demo nested_archive)) ''arbiter-ctl''}"
    by (simp add: demo_install_dir path_join_def starts_with_def)
  moreover have "map_of [(''/opt/arbiter'', ''new'')] ''/opt/arbiter'' \<noteq> map_of ([] :: disk) ''/opt/arbiter''" by simp
  ultimately show ?thesis using update_installs_only_verified [OF demo_update] demo_update by blast
qed

theorem release_archive_never_installs_witness:
  "release_layout ''s'' release_archive \<and>
   snd (self_update (up_demo release_archive) (Some ''v2'') False [(''/opt/arbiter'', ''old'')]) = [(''/opt/arbiter'', ''old'')] \<and>
   fst (self_update (up_demo release_archive) (Some ''v2'') False [(''/opt/arbiter'', ''old'')]) \<noteq> Ok ()"
proof -
  have layout: "release_layout ''s'' release_archive" by (simp add: release_layout_def release_archive_def)
  have tar: "\<exists>staging. release_layout staging a" if "up_tar (up_demo release_archive) data = Ok (Some a)" for data a
    using that layout by (auto simp: up_demo_def)
  have "tag_of (up_demo release_archive) (Some ''v2'') = Ok ''v2''" "semver_of ''v2'' \<noteq> up_version (up_demo release_archive)"
    by (simp_all add: tag_of_def starts_with_def semver_of_def up_demo_def)
  then show ?thesis
    using release_archive_never_installs [of "up_demo release_archive" "Some ''v2''" False "[(''/opt/arbiter'', ''old'')]", OF tar] layout
    by auto
qed

definition cli_demo :: "string cli_env" where
  "cli_demo =
     \<lparr>cl_send = (\<lambda>q. Replied (if cq_method q = ''GET'' \<and> cq_url q = ''http://h/agents'' then 200 else 405) (Ok (JArr []))),
      cl_show_json = (\<lambda>_. ''null''), cl_debug_json = (\<lambda>_. ''Null''), cl_show_status = show_nat,
      cl_parse_uuid = (\<lambda>_. Ok 1), cl_uuid_to_string = (\<lambda>_. ''1''), cl_exists = (\<lambda>_. True), cl_is_dir = (\<lambda>_. True),
      cl_read = (\<lambda>p. Ok p), cl_stdin = Ok ''{}'', cl_parse_toml = (\<lambda>_. Ok (JObj [])),
      cl_parse_json = (\<lambda>_. Ok (JObj [(''tool_name'', JStr ''read_file''), (''trust_level'', JStr ''Verified''),
        (''principal_sub'', JStr ''user:alice''), (''declared_intent'', JStr ''read the logs'')])),
      cl_type_error = (\<lambda>_. ''invalid type''), cl_parse_policies = (\<lambda>_. Ok demo_config), cl_policy_error = (\<lambda>_. ''policy''),
      cl_text = demo_text_env, cl_vars = [], cl_var_debug = (\<lambda>s. s)\<rparr>"

theorem doctor_never_passes_witness:
  "answered_by_router cli_demo ''http://h'' \<and> ck_pass (check_admin_api cli_demo ''http://h'' ''key'') \<and>
   fst (doctor cli_demo ''http://h'' ''key'' None) \<noteq> Ok ()"
proof -
  have listed: "''/agents'' \<in> set (snd (route ListAgents)) \<and> fst (route ListAgents) = ''GET''" by (simp add: route_def)
  have router: "answered_by_router cli_demo ''http://h''"
    using listed by (auto simp: answered_by_router_def cli_demo_def split: if_splits)
  have "ck_pass (check_admin_api cli_demo ''http://h'' ''key'')"
    by (simp add: check_admin_api_def cli_demo_def api_request_def is_success_def pass_def)
  then show ?thesis using router doctor_never_passes [OF router] by blast
qed

lemma demo_dry_run: "fst (policy_test cli_demo 7 0 0 ''p.toml'' None) = Ok ()"
  by code_simp

theorem policy_test_predicts_pipeline_witness:
  "fst (policy_test cli_demo 7 0 0 ''p.toml'' None) = Ok () \<and>
   (\<exists>contents policies s level agent_id decision.
     cl_read cli_demo ''p.toml'' = Ok contents \<and>
     from_toml (cl_text cli_demo) (cl_parse_policies cli_demo) contents = Ok policies \<and>
     read_sample cli_demo None = Ok s \<and>
     sample_trust_level (te_unicode_lower (cl_text cli_demo)) (sq_trust_level s) = Ok level \<and>
     sample_agent cli_demo 7 s = Ok agent_id \<and>
     snd (policy_test cli_demo 7 0 0 ''p.toml'' None) ! 2 = Stdout (''Decision: '' @ show_decision decision) \<and>
     decision = evaluate (cl_text cli_demo) (cl_uuid_to_string cli_demo) 0 policies
       (sample_context agent_id 0 level s) (sample_call s) \<and>
     (\<forall>clock. starts_with ''A'' (show_decision decision) \<longleftrightarrow>
        fst (evaluate_mcp_policies (cl_text cli_demo) (cl_uuid_to_string cli_demo) clock policies
               (sample_context agent_id 0 level s) [sample_call s]) = Continue))"
proof -
  have "policy_test cli_demo 7 0 0 ''p.toml'' None = (Ok (), snd (policy_test cli_demo 7 0 0 ''p.toml'' None))"
    using demo_dry_run by (simp add: prod_eq_iff)
  from policy_test_predicts_pipeline [OF this] demo_dry_run show ?thesis by blast
qed

end
