(* ===== verification/Metrics.thy ===== *)
theory Metrics
  imports Mcp
begin

text \<open>
  The metrics (\<open>crates/arbiter-metrics/src/lib.rs\<close>): counters with labels, durations and gauges. A
  family of counters is the association list of its children, each a 64 bit counter that wraps; a
  histogram is the list of what was observed. The text encoder is an argument.
\<close>

section \<open>State\<close>

definition MAX_TOOL_LABEL_CARDINALITY :: nat where
  "MAX_TOOL_LABEL_CARDINALITY = 1000"

record metrics =
  mt_requests_total :: "(string \<times> u64) list"
  mt_tool_calls_total :: "(string \<times> u64) list"
  mt_anomalies_total :: u64
  mt_request_durations :: "f64 list"
  mt_upstream_durations :: "f64 list"
  mt_active_sessions :: int
  mt_registered_agents :: int
  mt_known_tools :: "string list"

definition metrics_new :: metrics where
  "metrics_new =
     \<lparr>mt_requests_total = [], mt_tool_calls_total = [], mt_anomalies_total = 0, mt_request_durations = [],
      mt_upstream_durations = [], mt_active_sessions = 0, mt_registered_agents = 0, mt_known_tools = []\<rparr>"

text \<open>\<open>with_label_values(label).inc()\<close>: a child is created with its first use.\<close>

definition inc_label :: "string \<Rightarrow> (string \<times> u64) list \<Rightarrow> (string \<times> u64) list" where
  "inc_label l m = AList.update l ((case map_of m l of Some n \<Rightarrow> n | None \<Rightarrow> 0) + 1) m"

section \<open>Recording\<close>

definition decision_label :: "string \<Rightarrow> string" where
  "decision_label decision =
     (if decision \<in> {''allow'', ''deny'', ''escalate'', ''error''} then decision else ''__unknown__'')"

definition record_request :: "string \<Rightarrow> metrics \<Rightarrow> metrics" where
  "record_request decision m =
     m\<lparr>mt_requests_total := inc_label (decision_label decision) (mt_requests_total m)\<rparr>"

definition label_char :: "char \<Rightarrow> bool" where
  "label_char c \<longleftrightarrow> is_ascii_alphanumeric c \<or> c = CHR ''_'' \<or> c = CHR ''/''"

text \<open>
  The characters of a text are counted by their first bytes; every character outside ASCII becomes an
  underscore, so its first byte decides.
\<close>

definition sanitize_tool :: "string \<Rightarrow> string" where
  "sanitize_tool tool =
     map (\<lambda>c. if label_char c then c else CHR ''_'')
       (take 64 (filter (\<lambda>c. \<not> utf8_continuation (of_char c)) tool))"

definition record_tool_call :: "string \<Rightarrow> metrics \<Rightarrow> metrics" where
  "record_tool_call tool m =
     (let sanitized = sanitize_tool tool; known = mt_known_tools m;
          (label, known) =
            (if sanitized \<in> set known \<or> length known < MAX_TOOL_LABEL_CARDINALITY
             then (sanitized, List.insert sanitized known)
             else (''__other__'', known))
      in m\<lparr>mt_known_tools := known, mt_tool_calls_total := inc_label label (mt_tool_calls_total m)\<rparr>)"

definition record_anomaly :: "metrics \<Rightarrow> metrics" where
  "record_anomaly m = m\<lparr>mt_anomalies_total := mt_anomalies_total m + 1\<rparr>"

fun clamp_duration :: "f64 \<Rightarrow> f64" where
  "clamp_duration (Fin x) = (if x \<ge> 0 then Fin x else Fin 0)"
| "clamp_duration _ = Fin 0"

definition observe_request_duration :: "f64 \<Rightarrow> metrics \<Rightarrow> metrics" where
  "observe_request_duration seconds m =
     m\<lparr>mt_request_durations := mt_request_durations m @ [clamp_duration seconds]\<rparr>"

definition observe_upstream_duration :: "f64 \<Rightarrow> metrics \<Rightarrow> metrics" where
  "observe_upstream_duration seconds m =
     m\<lparr>mt_upstream_durations := mt_upstream_durations m @ [clamp_duration seconds]\<rparr>"

text \<open>The encoder fails or returns bytes that have to be text.\<close>

definition render :: "(metrics \<Rightarrow> (string, string) result) \<Rightarrow> metrics \<Rightarrow> (string, string) result" where
  "render encode m =
     (case encode m of
        Ok bytes \<Rightarrow>
          (case from_utf8 bytes of Some t \<Rightarrow> Ok t | None \<Rightarrow> Err ''metrics encoding produced invalid UTF-8'')
      | Err e \<Rightarrow> Err e
      | Panic \<Rightarrow> Panic)"

section \<open>Runs\<close>

datatype metrics_op =
    OpRequest string
  | OpToolCall string
  | OpAnomaly
  | OpRequestDuration f64
  | OpUpstreamDuration f64

fun metrics_step :: "metrics_op \<Rightarrow> metrics \<Rightarrow> metrics" where
  "metrics_step (OpRequest d) = record_request d"
| "metrics_step (OpToolCall t) = record_tool_call t"
| "metrics_step OpAnomaly = record_anomaly"
| "metrics_step (OpRequestDuration s) = observe_request_duration s"
| "metrics_step (OpUpstreamDuration s) = observe_upstream_duration s"

fun is_tool_call :: "metrics_op \<Rightarrow> bool" where
  "is_tool_call (OpToolCall _) = True"
| "is_tool_call _ = False"

definition label_ok :: "string \<Rightarrow> bool" where
  "label_ok l \<longleftrightarrow> length l \<le> 64 \<and> list_all label_char l"

text \<open>The labels in use: those of the known tools and the one for all others.\<close>

definition metrics_inv :: "metrics \<Rightarrow> bool" where
  "metrics_inv m \<longleftrightarrow>
     distinct (mt_known_tools m) \<and> length (mt_known_tools m) \<le> MAX_TOOL_LABEL_CARDINALITY \<and>
     list_all label_ok (mt_known_tools m) \<and>
     keys_distinct (mt_tool_calls_total m) \<and> keys_distinct (mt_requests_total m) \<and>
     fst ` set (mt_tool_calls_total m) \<subseteq> insert ''__other__'' (set (mt_known_tools m)) \<and>
     fst ` set (mt_requests_total m) \<subseteq> {''allow'', ''deny'', ''escalate'', ''error'', ''__unknown__''}"

lemma label_underscore: "label_char (CHR ''_'')"
  by (simp add: label_char_def)

lemma sanitize_ok: "label_ok (sanitize_tool tool)"
  by (auto simp: label_ok_def sanitize_tool_def list_all_iff label_underscore)

lemma inc_label_keys: "fst ` set (inc_label l m) = insert l (fst ` set m)"
  by (simp add: inc_label_def update_conv' flip: dom_map_of_conv_image_fst)

lemma inc_label_distinct: "keys_distinct m \<Longrightarrow> keys_distinct (inc_label l m)"
  by (simp add: inc_label_def distinct_update)

lemma inc_label_total: "keys_distinct m \<Longrightarrow> sum_list (map snd (inc_label l m)) = sum_list (map snd m) + 1"
proof -
  assume d: "keys_distinct m"
  have s: "sum_list (map snd xs) = sum_mset (mset (map snd xs))" for xs :: "(string \<times> u64) list"
    by (simp only: sum_mset_sum_list)
  show ?thesis
  proof (cases "map_of m l")
    case None
    then show ?thesis by (simp add: inc_label_def s mset_vals_update_new del: mset_map)
  next
    case (Some n)
    from arg_cong [OF mset_vals_update_old [OF d Some, of "n + 1"], of sum_mset]
    show ?thesis using Some by (simp add: inc_label_def s del: mset_map)
  qed
qed

lemma metrics_inv_step: "metrics_inv m \<Longrightarrow> metrics_inv (metrics_step op m)"
proof (cases op)
  case (OpToolCall t)
  assume "metrics_inv m"
  then show ?thesis
    using sanitize_ok [of t]
    by (auto simp: metrics_inv_def OpToolCall record_tool_call_def Let_def inc_label_keys inc_label_distinct
        List.insert_def split: if_splits)
qed (auto simp: metrics_inv_def record_request_def record_anomaly_def observe_request_duration_def
    observe_upstream_duration_def inc_label_keys inc_label_distinct decision_label_def)

lemma metrics_step_total:
  "metrics_inv m \<Longrightarrow> sum_list (map snd (mt_tool_calls_total (metrics_step op m))) =
     sum_list (map snd (mt_tool_calls_total m)) + of_bool (is_tool_call op)"
  by (cases op) (auto simp: metrics_inv_def record_request_def record_tool_call_def record_anomaly_def
      observe_request_duration_def observe_upstream_duration_def inc_label_total Let_def)

lemma metrics_run:
  "metrics_inv m \<Longrightarrow> metrics_inv (fold metrics_step ops m) \<and>
     sum_list (map snd (mt_tool_calls_total (fold metrics_step ops m))) =
       sum_list (map snd (mt_tool_calls_total m)) + of_nat (length (filter is_tool_call ops))"
  by (induction ops arbitrary: m) (auto simp: metrics_inv_step metrics_step_total)

lemma metrics_new_inv: "metrics_inv metrics_new"
  by (simp add: metrics_inv_def metrics_new_def)

text \<open>
  C34: Labels stay few and harmless whatever the callers record. After any operations the
  tool counters have at most 1001 children and the request counters at most five; every tool label
  consists of at most 64 letters, digits, underscores and slashes, so that no name can break out of
  the text format; and no call is lost: the tool counters add up to the number of calls, modulo the
  width of a counter.
\<close>

theorem metric_labels_bounded:
  "let m = fold metrics_step ops metrics_new in
     length (mt_tool_calls_total m) \<le> 1001 \<and> length (mt_requests_total m) \<le> 5 \<and>
     list_all (\<lambda>(l, n). length l \<le> 64 \<and> list_all label_char l) (mt_tool_calls_total m) \<and>
     sum_list (map snd (mt_tool_calls_total m)) = of_nat (length (filter is_tool_call ops))"
proof -
  define m where "m = fold metrics_step ops metrics_new"
  note run = metrics_run [OF metrics_new_inv, of ops, folded m_def]
  then have inv: "metrics_inv m" by blast
  have keys: "length xs \<le> card S" if "keys_distinct xs" "fst ` set xs \<subseteq> S" "finite S" for xs :: "(string \<times> u64) list" and S
    using card_mono [OF that(3,2)] distinct_card [OF that(1)] by simp
  have "card (insert ''__other__'' (set (mt_known_tools m))) \<le> 1001"
    using inv by (simp add: metrics_inv_def MAX_TOOL_LABEL_CARDINALITY_def card_insert_if distinct_card)
  then have tools: "length (mt_tool_calls_total m) \<le> 1001"
    using keys [of "mt_tool_calls_total m" "insert ''__other__'' (set (mt_known_tools m))"] inv
    by (simp add: metrics_inv_def)
  have requests: "length (mt_requests_total m) \<le> 5"
    using keys [of "mt_requests_total m" "{''allow'', ''deny'', ''escalate'', ''error'', ''__unknown__''}"] inv
    by (simp add: metrics_inv_def)
  have "label_ok ''__other__''" by code_simp
  then have "label_ok l" if "(l, n) \<in> set (mt_tool_calls_total m)" for l n
    using inv that by (force simp: metrics_inv_def list_all_iff)
  then show ?thesis
    using tools requests run unfolding m_def [symmetric] Let_def
    by (auto simp: list_all_iff label_ok_def metrics_new_def)
qed

end
