(* ===== verification/Plain_Proxy.thy ===== *)
theory Plain_Proxy
  imports Startup Metrics
begin

text \<open>
  The proxy of \<open>crates/arbiter-proxy\<close> on its own: its configuration (\<open>config.rs\<close>), the checks and the
  construction at the start (\<open>server.rs\<close>), the capture of audit entries
  (\<open>arbiter-audit/src/middleware.rs\<close>) and the handler (\<open>proxy.rs\<close>). What the upstream does with a request is an
  argument of the handler.
\<close>

section \<open>Configuration\<close>

record plain_audit_config =
  ca_enabled :: bool
  ca_file_path :: "string option"
  ca_redaction_patterns :: "string list"

definition plain_audit_default :: plain_audit_config where
  "plain_audit_default = \<lparr>ca_enabled = True, ca_file_path = None, ca_redaction_patterns = []\<rparr>"

record server_config =
  sv_listen_addr :: string
  sv_listen_port :: "16 word"
  sv_max_body_bytes :: nat
  sv_upstream_timeout_secs :: u64
  sv_header_read_timeout_secs :: u64
  sv_max_connections :: nat

record plain_config =
  pc_server :: server_config
  pc_upstream_url :: string
  pc_middleware :: middleware_config
  pc_audit :: plain_audit_config

definition plain_audit_from_table :: "(string \<times> json) list \<Rightarrow> plain_audit_config option" where
  "plain_audit_from_table m =
     do {enabled \<leftarrow> field_or json_bool True ''enabled'' m;
         file_path \<leftarrow> field_or (some_of json_string) None ''file_path'' m;
         redaction_patterns \<leftarrow> field_or json_strings [] ''redaction_patterns'' m;
         Some \<lparr>ca_enabled = enabled, ca_file_path = file_path, ca_redaction_patterns = redaction_patterns\<rparr>}"

definition server_from_table :: "(string \<times> json) list \<Rightarrow> server_config option" where
  "server_from_table m =
     do {listen_addr \<leftarrow> field_or json_string ''127.0.0.1'' ''listen_addr'' m;
         listen_port \<leftarrow> field_or u16_from_value 8080 ''listen_port'' m;
         max_body_bytes \<leftarrow> field_or usize_from_value (10 * 1024 * 1024) ''max_body_bytes'' m;
         upstream_timeout_secs \<leftarrow> field_or u64_from_value 30 ''upstream_timeout_secs'' m;
         header_read_timeout_secs \<leftarrow> field_or u64_from_value 10 ''header_read_timeout_secs'' m;
         max_connections \<leftarrow> field_or usize_from_value 1024 ''max_connections'' m;
         Some \<lparr>sv_listen_addr = listen_addr, sv_listen_port = listen_port, sv_max_body_bytes = max_body_bytes,
               sv_upstream_timeout_secs = upstream_timeout_secs, sv_header_read_timeout_secs = header_read_timeout_secs,
               sv_max_connections = max_connections\<rparr>}"

definition middleware_from_table :: "(string \<times> json) list \<Rightarrow> middleware_config option" where
  "middleware_from_table m =
     do {blocked_paths \<leftarrow> field_or json_strings [] ''blocked_paths'' m;
         required_headers \<leftarrow> field_or json_strings [] ''required_headers'' m;
         Some \<lparr>mwc_blocked_paths = blocked_paths, mwc_required_headers = required_headers\<rparr>}"

definition plain_from_table :: "(string \<times> json) list \<Rightarrow> plain_config option" where
  "plain_from_table m =
     do {server \<leftarrow> field_required (table_of server_from_table) ''server'' m;
         upstream \<leftarrow> field_required (table_of (field_required json_string ''url'')) ''upstream'' m;
         middleware \<leftarrow> field_or (table_of middleware_from_table) \<lparr>mwc_blocked_paths = [], mwc_required_headers = []\<rparr>
                        ''middleware'' m;
         audit \<leftarrow> field_or (table_of plain_audit_from_table) plain_audit_default ''audit'' m;
         Some \<lparr>pc_server = server, pc_upstream_url = upstream, pc_middleware = middleware, pc_audit = audit\<rparr>}"

definition plain_parse :: "(string \<Rightarrow> (json, string) result) \<Rightarrow> (json \<Rightarrow> string) \<Rightarrow> string \<Rightarrow> (plain_config, string) result" where
  "plain_parse parse_toml type_error text =
     rbind (parse_toml text) (\<lambda>v.
       case table_of plain_from_table v of Some c \<Rightarrow> Ok c | None \<Rightarrow> Err (type_error v))"

definition plain_from_file ::
  "(string \<Rightarrow> (json, string) result) \<Rightarrow> (json \<Rightarrow> string) \<Rightarrow> (string, string) result \<Rightarrow> (plain_config, string) result" where
  "plain_from_file parse_toml type_error contents = rbind contents (plain_parse parse_toml type_error)"

section \<open>Capture of an audit entry\<close>

record 'q audit_capture =
  ac_entry :: audit_entry
  ac_compiled_redaction :: "'q list"

definition begin_with_id_compiled :: "uuid \<Rightarrow> instant \<Rightarrow> 'q list \<Rightarrow> 'q audit_capture" where
  "begin_with_id_compiled request_id now compiled =
     \<lparr>ac_entry = audit_entry_new now request_id, ac_compiled_redaction = compiled\<rparr>"

definition begin_with_id :: "'q redaction_env \<Rightarrow> uuid \<Rightarrow> instant \<Rightarrow> string list \<Rightarrow> 'q audit_capture" where
  "begin_with_id env request_id now patterns = begin_with_id_compiled request_id now (compile_redaction env patterns)"

definition set_agent_id :: "string \<Rightarrow> 'q audit_capture \<Rightarrow> 'q audit_capture" where
  "set_agent_id v c = c\<lparr>ac_entry := (ac_entry c)\<lparr>au_agent_id := v\<rparr>\<rparr>"

definition set_delegation_chain :: "string \<Rightarrow> 'q audit_capture \<Rightarrow> 'q audit_capture" where
  "set_delegation_chain v c = c\<lparr>ac_entry := (ac_entry c)\<lparr>au_delegation_chain := v\<rparr>\<rparr>"

definition set_task_session_id :: "string \<Rightarrow> 'q audit_capture \<Rightarrow> 'q audit_capture" where
  "set_task_session_id v c = c\<lparr>ac_entry := (ac_entry c)\<lparr>au_task_session_id := v\<rparr>\<rparr>"

definition set_tool_called :: "string \<Rightarrow> 'q audit_capture \<Rightarrow> 'q audit_capture" where
  "set_tool_called v c = c\<lparr>ac_entry := (ac_entry c)\<lparr>au_tool_called := v\<rparr>\<rparr>"

definition set_arguments :: "json \<Rightarrow> 'q audit_capture \<Rightarrow> 'q audit_capture" where
  "set_arguments v c = c\<lparr>ac_entry := (ac_entry c)\<lparr>au_arguments := v\<rparr>\<rparr>"

definition set_policy_matched :: "string \<Rightarrow> 'q audit_capture \<Rightarrow> 'q audit_capture" where
  "set_policy_matched v c = c\<lparr>ac_entry := (ac_entry c)\<lparr>au_policy_matched := Some v\<rparr>\<rparr>"

definition set_anomaly_flags :: "string list \<Rightarrow> 'q audit_capture \<Rightarrow> 'q audit_capture" where
  "set_anomaly_flags v c = c\<lparr>ac_entry := (ac_entry c)\<lparr>au_anomaly_flags := v\<rparr>\<rparr>"

definition set_failure_category :: "string \<Rightarrow> 'q audit_capture \<Rightarrow> 'q audit_capture" where
  "set_failure_category v c = c\<lparr>ac_entry := (ac_entry c)\<lparr>au_failure_category := Some v\<rparr>\<rparr>"

definition add_inspection_findings :: "string list \<Rightarrow> 'q audit_capture \<Rightarrow> 'q audit_capture" where
  "add_inspection_findings v c = c\<lparr>ac_entry := (ac_entry c)\<lparr>au_inspection_findings := v\<rparr>\<rparr>"

text \<open>A decision that is none of the three valid ones is only logged.\<close>

definition set_authorization_decision :: "string \<Rightarrow> 'q audit_capture \<Rightarrow> 'q audit_capture" where
  "set_authorization_decision v c = c\<lparr>ac_entry := (ac_entry c)\<lparr>au_authorization_decision := v\<rparr>\<rparr>"

definition capture_finalize :: "'q redaction_env \<Rightarrow> u64 \<Rightarrow> nat option \<Rightarrow> 'q audit_capture \<Rightarrow> audit_entry" where
  "capture_finalize env latency status c = finalize env (ac_compiled_redaction c) latency status (ac_entry c)"

section \<open>State and construction\<close>

record plain_proxy =
  pp_upstream_url :: string
  pp_middleware :: "middleware list"
  pp_redaction_patterns :: "string list"
  pp_max_body_bytes :: nat
  pp_upstream_timeout :: span

record plain_state =
  pz_metrics :: metrics
  pz_sink :: "audit_sink option"

definition plain_build_audit :: "string list \<Rightarrow> plain_audit_config \<Rightarrow> audit_sink option \<times> string list" where
  "plain_build_audit existing c =
     (if \<not> ca_enabled c then (None, redaction_default)
      else (Some (sink_new \<lparr>sk_write_stdout = True, sk_has_file = (ca_file_path c \<noteq> None), sk_hash_chain = True\<rparr> existing),
            if ca_redaction_patterns c = [] then redaction_default else ca_redaction_patterns c))"

definition plain_proxy_new ::
  "string \<Rightarrow> middleware list \<Rightarrow> string list \<Rightarrow> nat \<Rightarrow> span \<Rightarrow> plain_proxy" where
  "plain_proxy_new url middleware patterns max_body_bytes timeout =
     \<lparr>pp_upstream_url = trim_end_matches (CHR ''/'') url, pp_middleware = middleware, pp_redaction_patterns = patterns,
      pp_max_body_bytes = max_body_bytes, pp_upstream_timeout = timeout\<rparr>"

definition check_scheme :: "string \<Rightarrow> string option \<Rightarrow> (unit, string) result" where
  "check_scheme url scheme =
     (case scheme of
        Some s \<Rightarrow> if s = ''http'' \<or> s = ''https'' then Ok ()
          else Err (''upstream URL scheme '' @ quoted s @ '' is not supported; use http or https'')
      | None \<Rightarrow> Err (''upstream URL '' @ quoted url @ '' has no scheme; use http:// or https://''))"

text \<open>
  The start up to the listener. The URI parser gives the scheme, if there is one; the address of the
  listener has to parse as well.
\<close>

definition plain_run ::
  "(string \<Rightarrow> (string option, string) result) \<Rightarrow> (string \<Rightarrow> (unit, string) result) \<Rightarrow> string list \<Rightarrow> plain_config \<Rightarrow>
   (plain_proxy \<times> plain_state, string) result" where
  "plain_run uri_scheme addr existing c =
     rbind (rmap_err (\<lambda>e. ''invalid upstream URL '' @ quoted (pc_upstream_url c) @ '': '' @ e) (uri_scheme (pc_upstream_url c)))
       (\<lambda>scheme.
     rbind (check_scheme (pc_upstream_url c) scheme) (\<lambda>_.
     rbind (addr (sv_listen_addr (pc_server c) @ '':'' @ show_nat (unat (sv_listen_port (pc_server c))))) (\<lambda>_.
     let (sink, patterns) = plain_build_audit existing (pc_audit c)
     in Ok (plain_proxy_new (pc_upstream_url c) (chain_from_config (pc_middleware c)) patterns
              (sv_max_body_bytes (pc_server c)) (uint (sv_upstream_timeout_secs (pc_server c)) * 1000000000),
            \<lparr>pz_metrics = metrics_new, pz_sink = sink\<rparr>))))"

section \<open>The handler\<close>

record 'q plain_env =
  xe_redaction :: "'q redaction_env"
  xe_codec :: entry_codec
  xe_lossy :: "string \<Rightarrow> string"
  xe_to_str :: "string \<Rightarrow> string option"
  xe_uri_ok :: "string \<Rightarrow> bool"
  xe_encode :: "metrics \<Rightarrow> (string, string) result"

record plain_readings =
  xr_request_id :: uuid
  xr_timestamp :: instant
  xr_latency :: u64
  xr_duration :: f64
  xr_upstream_duration :: f64
  xr_write :: write_outcome

text \<open>
  The upstream does not answer in time, fails, or answers; the body of an answer arrives whole or not.
\<close>

datatype plain_outcome =
    NoAnswer
  | Unreachable
  | Answer nat "(string \<times> string) list" "string option"

text \<open>\<open>Limited\<close> fails when the body is longer than the limit, as it does when the body breaks off.\<close>

definition limited_body :: "nat \<Rightarrow> string option \<Rightarrow> string option" where
  "limited_body limit body = Option.bind body (\<lambda>b. if length b \<le> limit then Some b else None)"

definition STRIPPED_HEADERS :: "string list" where
  "STRIPPED_HEADERS = [''x-agent-id'', ''x-session-id'', ''x-delegation-chain'', ''x-forwarded-for'', ''x-real-ip'',
     ''x-arbiter-session'']"

definition plain_upstream_request :: "plain_proxy \<Rightarrow> http_request \<Rightarrow> upstream_request" where
  "plain_upstream_request pp req =
     \<lparr>uq_method = hq_method req, uq_uri = pp_upstream_url pp @ hq_path_and_query req,
      uq_headers = fold header_remove STRIPPED_HEADERS (header_remove ''host'' (hq_headers req)), uq_body = hq_body req\<rparr>"

definition plain_capture :: "'q plain_env \<Rightarrow> plain_proxy \<Rightarrow> plain_readings \<Rightarrow> http_request \<Rightarrow> 'q audit_capture" where
  "plain_capture env pp rd req =
     (let text = (\<lambda>name. Option.bind (header_get name (hq_headers req)) (xe_to_str env));
          c = begin_with_id (xe_redaction env) (xr_request_id rd) (xr_timestamp rd) (pp_redaction_patterns pp);
          c = (case text ''x-agent-id'' of Some v \<Rightarrow> set_agent_id v c | None \<Rightarrow> c);
          c = (case text ''x-session-id'' of Some v \<Rightarrow> set_task_session_id v c | None \<Rightarrow> c);
          c = (case text ''x-delegation-chain'' of Some v \<Rightarrow> set_delegation_chain v c | None \<Rightarrow> c)
      in set_tool_called (hq_method req @ '' '' @ hq_path req) c)"

definition plain_audit ::
  "'q plain_env \<Rightarrow> plain_readings \<Rightarrow> nat option \<Rightarrow> 'q audit_capture \<Rightarrow> plain_state \<Rightarrow> plain_state" where
  "plain_audit env rd status c st =
     (case pz_sink st of
        None \<Rightarrow> st
      | Some sink \<Rightarrow>
          st\<lparr>pz_sink := Some (snd (sink_write (xe_codec env) (xr_write rd)
                           (capture_finalize (xe_redaction env) (xr_latency rd) status c) sink))\<rparr>)"

definition count_request :: "plain_readings \<Rightarrow> string \<Rightarrow> plain_state \<Rightarrow> plain_state" where
  "count_request rd decision st =
     st\<lparr>pz_metrics := observe_request_duration (xr_duration rd) (record_request decision (pz_metrics st))\<rparr>"

definition plain_answer ::
  "'q plain_env \<Rightarrow> plain_proxy \<Rightarrow> plain_readings \<Rightarrow> 'q audit_capture \<Rightarrow> plain_outcome \<Rightarrow> plain_state \<Rightarrow>
   http_response \<times> plain_state" where
  "plain_answer env pp rd c outcome st =
     (let st = st\<lparr>pz_metrics := observe_upstream_duration (xr_upstream_duration rd) (pz_metrics st)\<rparr>
      in case outcome of
           NoAnswer \<Rightarrow> (plain_response 504 ''Gateway Timeout'', plain_audit env rd (Some 504) c (count_request rd ''allow'' st))
         | Unreachable \<Rightarrow> (plain_response 502 ''Bad Gateway'', plain_audit env rd None c (count_request rd ''allow'' st))
         | Answer status headers body \<Rightarrow>
             (case limited_body (pp_max_body_bytes pp) body of
                None \<Rightarrow> (plain_response 502 ''Response body too large'', plain_audit env rd (Some 502) c st)
              | Some b \<Rightarrow>
                  (\<lparr>hs_status = status, hs_headers = headers, hs_body = b\<rparr>,
                   plain_audit env rd (Some status) c (count_request rd ''allow'' st))))"

text \<open>What is answered, what was sent upstream, and the state; an error ends the connection.\<close>

definition plain_handle ::
  "'q plain_env \<Rightarrow> plain_proxy \<Rightarrow> plain_readings \<Rightarrow> (upstream_request \<Rightarrow> plain_outcome) \<Rightarrow> http_request \<Rightarrow> plain_state \<Rightarrow>
   (http_response, string) result \<times> upstream_request option \<times> plain_state" where
  "plain_handle env pp rd upstream req st =
     (if hq_method req = ''GET'' \<and> hq_path req = ''/health'' then (Ok (plain_response 200 ''OK''), None, st)
      else if hq_method req = ''GET'' \<and> hq_path req = ''/metrics''
      then (case render (xe_encode env) (pz_metrics st) of
              Ok body \<Rightarrow>
                (Ok \<lparr>hs_status = 200, hs_headers = [(''content-type'', ''text/plain; version=0.0.4; charset=utf-8'')],
                     hs_body = body\<rparr>, None, st)
            | Err _ \<Rightarrow> (Ok (plain_response 500 ''Internal Server Error''), None, st)
            | Panic \<Rightarrow> (Panic, None, st))
      else
        let c = plain_capture env pp rd req
        in case chain_execute (xe_lossy env) (pp_middleware pp) req of
             Err rejection \<Rightarrow>
               (Ok rejection, None,
                plain_audit env rd (Some (hs_status rejection)) (set_authorization_decision ''deny'' c)
                  (count_request rd ''deny'' st))
           | Panic \<Rightarrow> (Panic, None, st)
           | Ok req \<Rightarrow>
               (let c = set_authorization_decision ''allow'' c; uq = plain_upstream_request pp req
                in if \<not> xe_uri_ok env (uq_uri uq) then (Err ''invalid uri'', None, st)
                   else let st = st\<lparr>pz_metrics := record_tool_call (hq_path req) (pz_metrics st)\<rparr>;
                            (resp, st) = plain_answer env pp rd c (upstream uq) st
                        in (Ok resp, Some uq, st)))"

section \<open>What is forwarded and answered\<close>

lemma fold_header_remove: "fold header_remove names hs = filter (\<lambda>h. fst h \<notin> set names) hs"
  by (induction names arbitrary: hs) (auto simp: header_remove_def intro!: filter_cong)

lemma plain_upstream_headers:
  "uq_headers (plain_upstream_request pp req) =
     filter (\<lambda>h. fst h \<notin> insert ''host'' (set STRIPPED_HEADERS)) (hq_headers req)"
  unfolding plain_upstream_request_def
  by (auto simp: fold_header_remove header_remove_def intro!: filter_cong)

lemma limited_body_length: "limited_body limit body = Some b \<Longrightarrow> length b \<le> limit"
  by (auto simp: limited_body_def bind_eq_Some_conv split: if_splits)

lemma plain_answer_body:
  "hs_body (fst (plain_answer env pp rd c outcome st)) \<in> {''Gateway Timeout'', ''Bad Gateway'', ''Response body too large''} \<or>
   length (hs_body (fst (plain_answer env pp rd c outcome st))) \<le> pp_max_body_bytes pp"
  by (auto simp: plain_answer_def plain_response_def Let_def dest: limited_body_length
      split: plain_outcome.splits option.splits)

lemma check_scheme_Ok: "check_scheme url scheme = Ok u \<longleftrightarrow> scheme \<in> {Some ''http'', Some ''https''}"
  by (auto simp: check_scheme_def split: option.splits)

lemma plain_run_Ok:
  assumes "plain_run uri_scheme addr existing c = Ok (pp, st)"
  shows "uri_scheme (pc_upstream_url c) \<in> {Ok (Some ''http''), Ok (Some ''https'')}"
    and "pp_upstream_url pp = trim_end_matches (CHR ''/'') (pc_upstream_url c)"
    and "pp_middleware pp = chain_from_config (pc_middleware c)"
    and "pp_max_body_bytes pp = sv_max_body_bytes (pc_server c)"
proof -
  obtain scheme u where "uri_scheme (pc_upstream_url c) = Ok scheme" "check_scheme (pc_upstream_url c) scheme = Ok u"
    and pp: "pp = plain_proxy_new (pc_upstream_url c) (chain_from_config (pc_middleware c))
        (snd (plain_build_audit existing (pc_audit c))) (sv_max_body_bytes (pc_server c))
        (uint (sv_upstream_timeout_secs (pc_server c)) * 1000000000)"
    using assms by (auto simp: plain_run_def rbind_Ok Let_def case_prod_beta)
  then show "uri_scheme (pc_upstream_url c) \<in> {Ok (Some ''http''), Ok (Some ''https'')}"
    unfolding check_scheme_Ok by blast
  show "pp_upstream_url pp = trim_end_matches (CHR ''/'') (pc_upstream_url c)"
      "pp_middleware pp = chain_from_config (pc_middleware c)" "pp_max_body_bytes pp = sv_max_body_bytes (pc_server c)"
    by (simp_all add: pp plain_proxy_new_def)
qed

lemma plain_handle_forwards:
  assumes "plain_handle env pp rd upstream req st = (r, Some uq, st')"
  shows "chain_execute (xe_lossy env) (pp_middleware pp) req = Ok req \<and> uq = plain_upstream_request pp req \<and>
    (\<exists>c st0. r = Ok (fst (plain_answer env pp rd c (upstream uq) st0)))"
proof -
  obtain req' where c: "chain_execute (xe_lossy env) (pp_middleware pp) req = Ok req'"
    and uq: "uq = plain_upstream_request pp req'"
    and r: "\<exists>c st0. r = Ok (fst (plain_answer env pp rd c (upstream uq) st0))"
    using assms
    by (cases "chain_execute (xe_lossy env) (pp_middleware pp) req")
       (auto simp: plain_handle_def Let_def split: if_splits result.splits prod.splits, (metis fst_conv)+)
  moreover have "req' = req" using chain_execute_Ok [OF c] by blast
  ultimately show ?thesis by blast
qed

text \<open>
  C35: What the proxy sends upstream and gives back. A proxy that has started has an upstream with
  scheme http or https. What it forwards is a request of one of the seven safe methods whose path, as
  written and normalized, is not blocked and that has the required headers; it goes to the configured
  upstream with the path, method and body of the client and exactly those of its headers that do not
  claim an identity, a route or a host. The answer is one of three fixed texts or has a body within the
  configured limit.
\<close>

theorem proxied_request_is_safe:
  assumes "plain_run uri_scheme addr existing c = Ok (pp, st0)"
    and "plain_handle env pp rd upstream req st = (r, Some uq, st')"
  shows "uri_scheme (pc_upstream_url c) \<in> {Ok (Some ''http''), Ok (Some ''https'')} \<and>
    hq_method req \<in> {''GET'', ''POST'', ''PUT'', ''DELETE'', ''PATCH'', ''HEAD'', ''OPTIONS''} \<and>
    (mwc_blocked_paths (pc_middleware c) = [] \<or>
      hq_path req \<notin> set (mwc_blocked_paths (pc_middleware c)) \<and>
      (\<exists>p. normalize_path (xe_lossy env) (hq_path req) = Some p \<and> p \<notin> set (mwc_blocked_paths (pc_middleware c)))) \<and>
    list_all (\<lambda>h. header_contains_key h (hq_headers req)) (mwc_required_headers (pc_middleware c)) \<and>
    uq_uri uq = trim_end_matches (CHR ''/'') (pc_upstream_url c) @ hq_path_and_query req \<and>
    uq_method uq = hq_method req \<and> uq_body uq = hq_body req \<and>
    uq_headers uq = filter (\<lambda>h. fst h \<notin> {''host'', ''x-agent-id'', ''x-session-id'', ''x-delegation-chain'',
      ''x-forwarded-for'', ''x-real-ip'', ''x-arbiter-session''}) (hq_headers req) \<and>
    (\<exists>resp. r = Ok resp \<and>
       (hs_body resp \<in> {''Gateway Timeout'', ''Bad Gateway'', ''Response body too large''} \<or>
        length (hs_body resp) \<le> sv_max_body_bytes (pc_server c)))"
proof -
  note built = plain_run_Ok [OF assms(1)]
  have fwd: "chain_execute (xe_lossy env) (chain_from_config (pc_middleware c)) req = Ok req"
    and uq: "uq = plain_upstream_request pp req"
    using plain_handle_forwards [OF assms(2)] built(3) by auto
  obtain cp st1 where r: "r = Ok (fst (plain_answer env pp rd cp (upstream uq) st1))"
    using plain_handle_forwards [OF assms(2)] by blast
  have "uq_headers uq = filter (\<lambda>h. fst h \<notin> {''host'', ''x-agent-id'', ''x-session-id'', ''x-delegation-chain'',
      ''x-forwarded-for'', ''x-real-ip'', ''x-arbiter-session''}) (hq_headers req)"
    unfolding uq plain_upstream_headers by (simp add: STRIPPED_HEADERS_def)
  moreover have "uq_uri uq = trim_end_matches (CHR ''/'') (pc_upstream_url c) @ hq_path_and_query req"
      "uq_method uq = hq_method req" "uq_body uq = hq_body req"
    using built(2) by (simp_all add: uq plain_upstream_request_def)
  moreover have "\<exists>resp. r = Ok resp \<and>
       (hs_body resp \<in> {''Gateway Timeout'', ''Bad Gateway'', ''Response body too large''} \<or>
        length (hs_body resp) \<le> sv_max_body_bytes (pc_server c))"
    using r plain_answer_body [of env pp rd cp "upstream uq" st1] built(4) by auto
  ultimately show ?thesis
    using built(1) middleware_admits_only_safe [OF fwd] by (auto simp: list_all_iff)
qed

definition plain_demo_config :: plain_config where
  "plain_demo_config =
     \<lparr>pc_server = \<lparr>sv_listen_addr = ''127.0.0.1'', sv_listen_port = 8080, sv_max_body_bytes = 4, sv_upstream_timeout_secs = 30,
        sv_header_read_timeout_secs = 10, sv_max_connections = 1\<rparr>,
      pc_upstream_url = ''http://u/'', pc_middleware = \<lparr>mwc_blocked_paths = [''/admin''], mwc_required_headers = []\<rparr>,
      pc_audit = \<lparr>ca_enabled = False, ca_file_path = None, ca_redaction_patterns = []\<rparr>\<rparr>"

definition plain_demo_env :: "string plain_env" where
  "plain_demo_env =
     \<lparr>xe_redaction = \<lparr>re_new = Some, re_escape = id, re_find_iter = (\<lambda>p k. [])\<rparr>,
      xe_codec = \<lparr>cd_to_text = (\<lambda>_. []), cd_hash = id\<rparr>, xe_lossy = id, xe_to_str = Some,
      xe_uri_ok = (\<lambda>_. True), xe_encode = (\<lambda>_. Ok [])\<rparr>"

definition plain_demo_readings :: plain_readings where
  "plain_demo_readings =
     \<lparr>xr_request_id = 1, xr_timestamp = 0, xr_latency = 0, xr_duration = Fin 0, xr_upstream_duration = Fin 0,
      xr_write = Written\<rparr>"

definition plain_demo_proxy :: plain_proxy where
  "plain_demo_proxy =
     \<lparr>pp_upstream_url = ''http://u'', pp_middleware = chain_from_config (pc_middleware plain_demo_config),
      pp_redaction_patterns = redaction_default, pp_max_body_bytes = 4, pp_upstream_timeout = 30000000000\<rparr>"

definition plain_demo_state :: plain_state where
  "plain_demo_state = \<lparr>pz_metrics = metrics_new, pz_sink = None\<rparr>"

lemmas plain_demo_defs = plain_demo_config_def plain_demo_env_def plain_demo_readings_def plain_demo_proxy_def
  plain_demo_state_def

lemma plain_demo_runs:
  "plain_run (\<lambda>_. Ok (Some ''http'')) (\<lambda>_. Ok ()) [] plain_demo_config = Ok (plain_demo_proxy, plain_demo_state)"
  by (simp add: plain_run_def plain_demo_defs plain_build_audit_def plain_proxy_new_def trim_end_matches_def check_scheme_def)

lemma plain_demo_forwards:
  "\<exists>r st'. plain_handle plain_demo_env plain_demo_proxy plain_demo_readings (\<lambda>_. Answer 200 [] (Some ''pong!''))
     demo_http_request plain_demo_state = (r, Some (plain_upstream_request plain_demo_proxy demo_http_request), st')"
proof -
  have "chain_execute id (chain_from_config (pc_middleware plain_demo_config)) demo_http_request = Ok demo_http_request"
    by code_simp
  moreover have "hq_method demo_http_request = ''POST''" by (simp add: demo_http_request_def)
  ultimately show ?thesis
    by (simp add: plain_handle_def plain_demo_env_def plain_demo_proxy_def Let_def split: prod.splits)
qed

theorem proxied_request_is_safe_witness:
  "uq_headers (plain_upstream_request plain_demo_proxy demo_http_request) = [] \<and>
   (\<exists>resp. fst (plain_handle plain_demo_env plain_demo_proxy plain_demo_readings (\<lambda>_. Answer 200 [] (Some ''pong!''))
       demo_http_request plain_demo_state) = Ok resp \<and>
     (hs_body resp \<in> {''Gateway Timeout'', ''Bad Gateway'', ''Response body too large''} \<or> length (hs_body resp) \<le> 4))"
proof -
  obtain r st' where f: "plain_handle plain_demo_env plain_demo_proxy plain_demo_readings (\<lambda>_. Answer 200 [] (Some ''pong!''))
      demo_http_request plain_demo_state = (r, Some (plain_upstream_request plain_demo_proxy demo_http_request), st')"
    using plain_demo_forwards by blast
  have "sv_max_body_bytes (pc_server plain_demo_config) = 4" by (simp add: plain_demo_config_def)
  moreover have "hq_headers demo_http_request = [(''x-agent-id'', ''a'')]" by (simp add: demo_http_request_def)
  ultimately show ?thesis using proxied_request_is_safe [OF plain_demo_runs f] f by simp
qed

text \<open>
  An answer that is too large is audited and refused, and is the only answer to a forwarded request that
  the counter of requests misses.
\<close>

theorem oversized_answer_not_counted:
  "mt_requests_total (pz_metrics (snd (plain_answer env pp rd c outcome st))) = mt_requests_total (pz_metrics st) \<longleftrightarrow>
   (\<exists>status headers body. outcome = Answer status headers body \<and> limited_body (pp_max_body_bytes pp) body = None)"
proof -
  have audit: "pz_metrics (plain_audit env rd s c st) = pz_metrics st" for s st
    by (simp add: plain_audit_def split: option.splits)
  have inc: "inc_label l m \<noteq> m" for l m
  proof
    assume "inc_label l m = m"
    then have "map_of (inc_label l m) l = map_of m l" by simp
    then show False by (auto simp: inc_label_def update_conv' split: option.splits)
  qed
  show ?thesis
    by (cases outcome)
       (auto simp: plain_answer_def Let_def audit count_request_def observe_request_duration_def
         observe_upstream_duration_def record_request_def inc split: option.splits)
qed

end
