(* ===== verification/Watcher.thy ===== *)
theory Watcher
  imports Startup Reach
begin

text \<open>
  The policy watcher (\<open>crates/arbiter-policy/src/watcher.rs\<close>): the callback for file system events, the
  bounded channel, the background task that debounces and reloads, the start of the watcher and the
  place in \<open>run\<close> (\<open>arbiter/src/server.rs\<close>) that starts it. Notifications are delivered some time after the
  file has changed and in any interleaving with the task.
\<close>

section \<open>The channel\<close>

datatype event_kind = EvModify | EvCreate | EvRemove | EvAccess | EvOther

definition CHANNEL_CAPACITY :: nat where
  "CHANNEL_CAPACITY = 16"

text \<open>\<open>try_send\<close>: an event that finds the channel full is dropped.\<close>

definition on_event :: "event_kind \<Rightarrow> nat \<Rightarrow> nat" where
  "on_event kind queued =
     (if kind = EvModify \<or> kind = EvCreate
      then (if queued < CHANNEL_CAPACITY then queued + 1 else queued)
      else queued)"

section \<open>The background task\<close>

text \<open>
  Where the task stands: waiting in \<open>recv\<close>, asleep or draining after the first event, about to reload.
\<close>

datatype watch_phase = Waiting | Debouncing | Reloading

record 'r watcher =
  wt_disk :: "(string, string) result"
  wt_notes :: nat
  wt_channel :: nat
  wt_phase :: watch_phase
  wt_shared :: "'r policy_config option"

text \<open>One action of \<open>reload_loop\<close>; \<open>None\<close> while it waits for an event.\<close>

definition task_step ::
  "'r text_env \<Rightarrow> (string \<Rightarrow> ('r policy_config, string) result) \<Rightarrow> 'r watcher \<Rightarrow> 'r watcher option" where
  "task_step env parse_toml w =
     (case wt_phase w of
        Waiting \<Rightarrow>
          if wt_channel w = 0 then None
          else Some (w\<lparr>wt_channel := wt_channel w - 1, wt_phase := Debouncing\<rparr>)
      | Debouncing \<Rightarrow>
          if wt_channel w = 0 then Some (w\<lparr>wt_phase := Reloading\<rparr>)
          else Some (w\<lparr>wt_channel := wt_channel w - 1\<rparr>)
      | Reloading \<Rightarrow>
          Some (w\<lparr>wt_shared := reload_from_file env parse_toml (wt_disk w) (wt_shared w), wt_phase := Waiting\<rparr>))"

text \<open>
  The task and its surroundings. A change of the file leaves a notification to be delivered, several
  may be merged into one, and other events in the directory may be reported at any time.
\<close>

inductive watcher_step ::
  "'r text_env \<Rightarrow> (string \<Rightarrow> ('r policy_config, string) result) \<Rightarrow> 'r watcher \<Rightarrow> 'r watcher \<Rightarrow> bool"
  for env parse_toml where
  file_changes: "watcher_step env parse_toml w (w\<lparr>wt_disk := contents, wt_notes := wt_notes w + 1\<rparr>)"
| delivered: "wt_notes w > 0 \<Longrightarrow> kind = EvModify \<or> kind = EvCreate \<Longrightarrow>
    watcher_step env parse_toml w (w\<lparr>wt_notes := wt_notes w - 1, wt_channel := on_event kind (wt_channel w)\<rparr>)"
| merged: "wt_notes w > 1 \<Longrightarrow> watcher_step env parse_toml w (w\<lparr>wt_notes := wt_notes w - 1\<rparr>)"
| other_event: "watcher_step env parse_toml w (w\<lparr>wt_channel := on_event kind (wt_channel w)\<rparr>)"
| task: "task_step env parse_toml w = Some w' \<Longrightarrow> watcher_step env parse_toml w w'"

section \<open>Starting\<close>

definition watch_dir :: "string \<Rightarrow> string" where
  "watch_dir path = (case path_parent path of Some d \<Rightarrow> d | None \<Rightarrow> ''.'')"

text \<open>
  Registering the directory may fail; then the first load does not happen either. Changes between the
  registration and the load are notified.
\<close>

definition watcher_start ::
  "'r text_env \<Rightarrow> (string \<Rightarrow> ('r policy_config, string) result) \<Rightarrow> (string \<Rightarrow> (unit, string) result) \<Rightarrow> string \<Rightarrow>
   (string, string) result \<Rightarrow> 'r policy_config option \<Rightarrow> ('r watcher, string) result" where
  "watcher_start env parse_toml register path contents shared =
     rbind (register (watch_dir path)) (\<lambda>_.
       Ok \<lparr>wt_disk = contents, wt_notes = 0, wt_channel = 0, wt_phase = Waiting,
           wt_shared = reload_from_file env parse_toml contents shared\<rparr>)"

text \<open>What \<open>run\<close> does with the \<open>watch\<close> setting: without a file, or when the start fails, there is no watcher.\<close>

definition start_policy_watcher ::
  "'r text_env \<Rightarrow> (string \<Rightarrow> ('r policy_config, string) result) \<Rightarrow> (string \<Rightarrow> (unit, string) result) \<Rightarrow>
   (string, string) result \<Rightarrow> 'r policy_section \<Rightarrow> 'r policy_config option \<Rightarrow> 'r watcher option" where
  "start_policy_watcher env parse_toml register contents s shared =
     (if ps_watch s
      then Option.bind (ps_file s) (\<lambda>path.
             case watcher_start env parse_toml register path contents shared of Ok w \<Rightarrow> Some w | _ \<Rightarrow> None)
      else None)"

text \<open>\<open>stop\<close> consumes the watcher: the task is aborted and what it has published stays.\<close>

definition watcher_stop :: "'r watcher \<Rightarrow> 'r policy_config option" where
  "watcher_stop w = wt_shared w"

section \<open>Convergence\<close>

text \<open>A configuration agrees with a file when it is what the file says, provided the file loads.\<close>

definition agrees ::
  "'r text_env \<Rightarrow> (string \<Rightarrow> ('r policy_config, string) result) \<Rightarrow> (string, string) result \<Rightarrow> 'r policy_config option \<Rightarrow> bool" where
  "agrees env parse_toml contents shared \<longleftrightarrow>
     (case contents of
        Ok text \<Rightarrow>
          text = [] \<or>
          (case from_toml env parse_toml text of Ok cfg \<Rightarrow> shared = Some cfg | _ \<Rightarrow> True)
      | _ \<Rightarrow> True)"

lemma reload_agrees: "agrees env parse_toml contents (reload_from_file env parse_toml contents shared)"
  by (auto simp: agrees_def reload_from_file_def split: result.splits)

text \<open>A change that has not reached the shared configuration is still on its way.\<close>

definition watch_inv :: "'r text_env \<Rightarrow> (string \<Rightarrow> ('r policy_config, string) result) \<Rightarrow> 'r watcher \<Rightarrow> bool" where
  "watch_inv env parse_toml w \<longleftrightarrow>
     wt_channel w \<le> CHANNEL_CAPACITY \<and>
     (wt_notes w > 0 \<or> wt_channel w > 0 \<or> wt_phase w \<noteq> Waiting \<or> agrees env parse_toml (wt_disk w) (wt_shared w))"

lemma on_event_bounds:
  "queued \<le> CHANNEL_CAPACITY \<Longrightarrow> on_event kind queued \<le> CHANNEL_CAPACITY" "on_event kind queued \<ge> queued"
  by (simp_all add: on_event_def)

lemma on_event_arrives: "kind = EvModify \<or> kind = EvCreate \<Longrightarrow> on_event kind queued > 0"
  by (auto simp: on_event_def CHANNEL_CAPACITY_def)

lemma task_step_inv: "task_step env parse_toml w = Some w' \<Longrightarrow> watch_inv env parse_toml w \<Longrightarrow> watch_inv env parse_toml w'"
  by (auto simp: task_step_def watch_inv_def reload_agrees split: watch_phase.splits if_splits)

lemma watcher_step_inv:
  assumes "watcher_step env parse_toml w w'" and "watch_inv env parse_toml w"
  shows "watch_inv env parse_toml w'"
  using assms(1)
proof cases
  case (delivered kind)
  then show ?thesis
    using assms(2) on_event_bounds on_event_arrives [of kind "wt_channel w"] by (simp add: watch_inv_def)
next
  case (other_event kind)
  then show ?thesis
    using assms(2) on_event_bounds [of "wt_channel w" kind] by (auto simp: watch_inv_def)
next
  case task
  then show ?thesis using assms(2) by (rule task_step_inv)
qed (use assms(2) in \<open>auto simp: watch_inv_def\<close>)

abbreviation started ::
  "'r text_env \<Rightarrow> (string \<Rightarrow> ('r policy_config, string) result) \<Rightarrow> 'r watcher \<Rightarrow> bool" where
  "started env parse_toml w \<equiv>
     \<exists>register path contents shared. watcher_start env parse_toml register path contents shared = Ok w"

lemma started_inv: "started env parse_toml w \<Longrightarrow> watch_inv env parse_toml w"
  by (auto simp: watcher_start_def rbind_Ok watch_inv_def reload_agrees)

interpretation watch: kept_invariant "started env parse_toml" "watcher_step env parse_toml" "watch_inv env parse_toml"
  for env parse_toml
  by unfold_locales (fact started_inv, fact watcher_step_inv)

text \<open>Left alone, the task comes to rest.\<close>

definition task_measure :: "'r watcher \<Rightarrow> nat" where
  "task_measure w =
     4 * wt_channel w + (case wt_phase w of Waiting \<Rightarrow> 0 | Reloading \<Rightarrow> 1 | Debouncing \<Rightarrow> 2)"

lemma task_step_measure: "task_step env parse_toml w = Some w' \<Longrightarrow> task_measure w' < task_measure w"
  by (auto simp: task_step_def task_measure_def split: watch_phase.splits if_splits)

function settle ::
  "'r text_env \<Rightarrow> (string \<Rightarrow> ('r policy_config, string) result) \<Rightarrow> 'r watcher \<Rightarrow> 'r watcher" where
  "settle env parse_toml w = (case task_step env parse_toml w of Some w' \<Rightarrow> settle env parse_toml w' | None \<Rightarrow> w)"
  by pat_completeness auto
termination
  by (relation "measure (\<lambda>(env, parse_toml, w). task_measure w)") (auto dest: task_step_measure)

declare settle.simps [simp del]

lemma settle_None: "task_step env parse_toml w = None \<Longrightarrow> settle env parse_toml w = w"
  by (subst settle.simps) simp

lemma settle_Some: "task_step env parse_toml w = Some w' \<Longrightarrow> settle env parse_toml w = settle env parse_toml w'"
  by (subst settle.simps) simp

lemma settle_rests: "task_step env parse_toml (settle env parse_toml w) = None"
proof (induction env parse_toml w rule: settle.induct)
  case (1 env parse_toml w)
  then show ?case by (cases "task_step env parse_toml w") (simp_all add: settle_None settle_Some)
qed

lemma settle_steps: "(watcher_step env parse_toml)\<^sup>*\<^sup>* w (settle env parse_toml w)"
proof (induction env parse_toml w rule: settle.induct)
  case (1 env parse_toml w)
  show ?case
  proof (cases "task_step env parse_toml w")
    case (Some w')
    then have "watcher_step env parse_toml w w'" by (rule watcher_step.task)
    with 1 Some show ?thesis by (auto simp: settle_Some intro: converse_rtranclp_into_rtranclp)
  qed (simp add: settle_None)
qed

lemma task_step_keeps:
  "task_step env parse_toml w = Some w' \<Longrightarrow> wt_disk w' = wt_disk w \<and> wt_notes w' = wt_notes w"
  by (auto simp: task_step_def split: watch_phase.splits if_splits)

lemma settle_keeps: "wt_disk (settle env parse_toml w) = wt_disk w \<and> wt_notes (settle env parse_toml w) = wt_notes w"
proof (induction env parse_toml w rule: settle.induct)
  case (1 env parse_toml w)
  then show ?case
    by (cases "task_step env parse_toml w") (simp_all add: settle_None settle_Some task_step_keeps)
qed

text \<open>
  C17: Every change of the policy file takes effect. However file changes, deliveries of
  notifications, other events in the directory and actions of the task interleave, and although a
  full channel drops events: once all notifications are delivered, the task comes to rest after
  finitely many actions of its own, and what the pipeline then enforces is what the file says, provided
  the file can be read, is not empty and loads.
\<close>

theorem policy_changes_take_effect:
  assumes "reach (started env parse_toml) (watcher_step env parse_toml) w" and "wt_notes w = 0"
    and "wt_disk w = Ok text" and "text \<noteq> []" and "from_toml env parse_toml text = Ok cfg"
  shows "task_step env parse_toml (settle env parse_toml w) = None \<and> wt_channel (settle env parse_toml w) = 0 \<and>
    wt_shared (settle env parse_toml w) = Some cfg"
proof -
  let ?w = "settle env parse_toml w"
  have rest: "task_step env parse_toml ?w = None" by (rule settle_rests)
  then have idle: "wt_phase ?w = Waiting" "wt_channel ?w = 0"
    by (auto simp: task_step_def split: watch_phase.splits if_splits)
  have "watch_inv env parse_toml ?w"
    using watch.always_later [OF settle_steps watch.always [OF assms(1)]] .
  then have "agrees env parse_toml (Ok text) (wt_shared ?w)"
    using idle assms(2,3) settle_keeps [of env parse_toml w] by (simp add: watch_inv_def)
  then show ?thesis using rest idle assms(4,5) by (simp add: agrees_def)
qed

definition watch_demo :: "string watcher" where
  "watch_demo = \<lparr>wt_disk = Ok ''p'', wt_notes = 0, wt_channel = 1, wt_phase = Waiting, wt_shared = None\<rparr>"

lemma watch_demo_reached:
  "reach (started demo_text_env (\<lambda>_. Ok demo_config)) (watcher_step demo_text_env (\<lambda>_. Ok demo_config)) watch_demo"
proof -
  let ?r = "reach (started demo_text_env (\<lambda>_. Ok demo_config)) (watcher_step demo_text_env (\<lambda>_. Ok demo_config))"
  let ?w = "\<lparr>wt_disk = Err ''gone'', wt_notes = 0, wt_channel = 0, wt_phase = Waiting, wt_shared = None\<rparr> :: string watcher"
  have "watcher_start demo_text_env (\<lambda>_. Ok demo_config) (\<lambda>_. Ok ()) ''p'' (Err ''gone'') None = Ok ?w"
    by (simp add: watcher_start_def reload_from_file_def)
  then have "?r ?w" by (intro reach_start) blast
  from reach_step [OF this watcher_step.file_changes [where contents = "Ok ''p''"]]
  have "?r (?w\<lparr>wt_disk := Ok ''p'', wt_notes := 1\<rparr>)" by simp
  from reach_step [OF this watcher_step.delivered [where kind = EvModify]]
  show ?thesis by (simp add: watch_demo_def on_event_def CHANNEL_CAPACITY_def)
qed

theorem policy_changes_take_effect_witness:
  "\<exists>cfg. from_toml demo_text_env (\<lambda>_. Ok demo_config) ''p'' = Ok cfg \<and>
     wt_shared (settle demo_text_env (\<lambda>_. Ok demo_config) watch_demo) = Some cfg"
proof -
  have "is_ok (from_toml demo_text_env (\<lambda>_. Ok demo_config) ''p'')" by code_simp
  then obtain cfg where "from_toml demo_text_env (\<lambda>_. Ok demo_config) ''p'' = Ok cfg" by (auto simp: is_ok_iff)
  then show ?thesis
    using policy_changes_take_effect [OF watch_demo_reached, of "''p''" cfg] by (simp add: watch_demo_def)
qed

text \<open>
  For a file given by its name alone, the directory to watch is the empty path, not the current
  directory: the default of a dot is for paths without a parent, and the parent of a name is empty.
\<close>

theorem bare_policy_file_watches_nothing: "watch_dir ''policies.toml'' = [] \<and> watch_dir ''/'' = ''.''"
  by code_simp

end
