(* ===== verification/Serving.thy ===== *)
theory Serving
  imports Plain_Proxy Reach
begin

text \<open>
  The accepting loops: \<open>run\<close> of the gateway (\<open>crates/arbiter/src/server.rs\<close>) with its set of connection
  tasks and the draining at shutdown, and \<open>run\<close> of the plain proxy (\<open>crates/arbiter-proxy/src/server.rs\<close>) with
  its semaphore. A connection is a number; what its task does with requests is modelled by the handlers.
  The answers of \<open>accept\<close>, the ends of connections, the signal and the timer are steps in any order.
\<close>

section \<open>The gateway\<close>

datatype serve_phase = Accepting | Draining | Returned "(unit, string) result"

text \<open>
  The join set holds the running tasks and those that ended and were not collected by \<open>join_next\<close>. The
  last four fields record what has happened. The two other tasks are those \<open>run\<close> spawned before the loop;
  they are alive until \<open>run\<close> aborts them.
\<close>

record gateway_loop =
  gl_phase :: serve_phase
  gl_running :: "nat list"
  gl_uncollected :: "nat list"
  gl_admin_alive :: bool
  gl_cleanup_alive :: bool
  gl_accepted :: "nat list"
  gl_served :: "nat list"
  gl_aborted :: "nat list"
  gl_timed_out :: bool

definition gateway_loop_start :: gateway_loop where
  "gateway_loop_start =
     \<lparr>gl_phase = Accepting, gl_running = [], gl_uncollected = [], gl_admin_alive = True, gl_cleanup_alive = True,
      gl_accepted = [], gl_served = [], gl_aborted = [], gl_timed_out = False\<rparr>"

text \<open>Returning drops the join set, which aborts what still runs.\<close>

definition return_with :: "(unit, string) result \<Rightarrow> gateway_loop \<Rightarrow> gateway_loop" where
  "return_with r g =
     g\<lparr>gl_phase := Returned r, gl_running := [], gl_uncollected := [], gl_aborted := gl_aborted g @ gl_running g\<rparr>"

text \<open>\<open>result?\<close>: an error of \<open>accept\<close> ends \<open>run\<close>; the two other tasks are not stopped by that.\<close>

definition on_accept :: "(nat, string) result \<Rightarrow> gateway_loop \<Rightarrow> gateway_loop" where
  "on_accept answer g =
     (case answer of
        Ok c \<Rightarrow> g\<lparr>gl_running := gl_running g @ [c], gl_accepted := gl_accepted g @ [c]\<rparr>
      | Err e \<Rightarrow> return_with (Err e) g
      | Panic \<Rightarrow> return_with Panic g)"

definition on_finish :: "nat \<Rightarrow> gateway_loop \<Rightarrow> gateway_loop" where
  "on_finish c g =
     g\<lparr>gl_running := remove1 c (gl_running g), gl_uncollected := gl_uncollected g @ [c], gl_served := gl_served g @ [c]\<rparr>"

text \<open>\<open>join_next\<close>, which only the draining calls.\<close>

definition collect_ended :: "nat \<Rightarrow> gateway_loop \<Rightarrow> gateway_loop" where
  "collect_ended c g = g\<lparr>gl_uncollected := remove1 c (gl_uncollected g)\<rparr>"

definition stop_tasks :: "gateway_loop \<Rightarrow> gateway_loop" where
  "stop_tasks g = return_with (Ok ()) (g\<lparr>gl_admin_alive := False, gl_cleanup_alive := False\<rparr>)"

definition on_shutdown :: "gateway_loop \<Rightarrow> gateway_loop" where
  "on_shutdown g = (if length (gl_running g) + length (gl_uncollected g) > 0 then g\<lparr>gl_phase := Draining\<rparr> else stop_tasks g)"

inductive gateway_loop_step :: "gateway_loop \<Rightarrow> gateway_loop \<Rightarrow> bool" where
  accept: "gl_phase g = Accepting \<Longrightarrow> gateway_loop_step g (on_accept answer g)"
| finish: "c \<in> set (gl_running g) \<Longrightarrow> gateway_loop_step g (on_finish c g)"
| signal: "gl_phase g = Accepting \<Longrightarrow> gateway_loop_step g (on_shutdown g)"
| collected: "gl_phase g = Draining \<Longrightarrow> c \<in> set (gl_uncollected g) \<Longrightarrow> gateway_loop_step g (collect_ended c g)"
| drained: "gl_phase g = Draining \<Longrightarrow> gl_running g = [] \<Longrightarrow> gl_uncollected g = [] \<Longrightarrow> gateway_loop_step g (stop_tasks g)"
| drain_timeout: "gl_phase g = Draining \<Longrightarrow> gateway_loop_step g (stop_tasks (g\<lparr>gl_timed_out := True\<rparr>))"

inductive_cases gateway_loop_stepE: "gateway_loop_step g g'"

text \<open>Every accepted connection runs, was served or was cut; cutting has one of two reasons.\<close>

definition gateway_loop_inv :: "gateway_loop \<Rightarrow> bool" where
  "gateway_loop_inv g \<longleftrightarrow>
     mset (gl_accepted g) = mset (gl_running g) + mset (gl_served g) + mset (gl_aborted g) \<and>
     (case gl_phase g of
        Returned r \<Rightarrow> gl_running g = [] \<and> (r = Ok () \<longrightarrow> gl_timed_out g \<or> gl_aborted g = []) \<and>
          (gl_admin_alive g \<longleftrightarrow> r \<noteq> Ok ()) \<and> (gl_cleanup_alive g \<longleftrightarrow> r \<noteq> Ok ())
      | _ \<Rightarrow> gl_aborted g = [] \<and> \<not> gl_timed_out g \<and> gl_admin_alive g \<and> gl_cleanup_alive g) \<and>
     (gl_phase g = Accepting \<longrightarrow> mset (gl_uncollected g) = mset (gl_served g))"

lemmas gateway_loop_defs = gateway_loop_inv_def on_accept_def on_finish_def collect_ended_def on_shutdown_def stop_tasks_def return_with_def

lemma gateway_loop_step_inv: "gateway_loop_step g g' \<Longrightarrow> gateway_loop_inv g \<Longrightarrow> gateway_loop_inv g'"
proof (erule gateway_loop_stepE)
  fix answer
  assume "gateway_loop_inv g" "gl_phase g = Accepting" "g' = on_accept answer g"
  then show "gateway_loop_inv g'" by (cases answer) (simp_all add: gateway_loop_defs)
next
  fix c
  assume "gateway_loop_inv g" "c \<in> set (gl_running g)" "g' = on_finish c g"
  then show "gateway_loop_inv g'" by (auto simp: gateway_loop_defs split: serve_phase.splits)
qed (auto simp: gateway_loop_defs)

interpretation gateway_serving: kept_invariant "\<lambda>g. g = gateway_loop_start" gateway_loop_step gateway_loop_inv
  by unfold_locales (simp add: gateway_loop_inv_def gateway_loop_start_def, fact gateway_loop_step_inv)


lemma demo_shutdown:
  "reach (\<lambda>g. g = gateway_loop_start) gateway_loop_step
     (stop_tasks (collect_ended 7 (on_finish 7 (on_shutdown (on_accept (Ok 7) gateway_loop_start)))))"
proof -
  let ?r = "reach (\<lambda>g. g = gateway_loop_start) gateway_loop_step"
  have "?r gateway_loop_start" by (rule reach_start) simp
  from reach_step [OF this gateway_loop_step.accept [where answer = "Ok 7"]]
  have "?r (on_accept (Ok 7) gateway_loop_start)" by (simp add: gateway_loop_start_def)
  from reach_step [OF this gateway_loop_step.signal]
  have "?r (on_shutdown (on_accept (Ok 7) gateway_loop_start))"
    by (simp add: gateway_loop_start_def gateway_loop_defs)
  from reach_step [OF this gateway_loop_step.finish [where c = 7]]
  have "?r (on_finish 7 (on_shutdown (on_accept (Ok 7) gateway_loop_start)))"
    by (simp add: gateway_loop_start_def gateway_loop_defs)
  from reach_step [OF this gateway_loop_step.collected [where c = 7]]
  have "?r (collect_ended 7 (on_finish 7 (on_shutdown (on_accept (Ok 7) gateway_loop_start))))"
    by (simp add: gateway_loop_start_def gateway_loop_defs)
  from reach_step [OF this gateway_loop_step.drained]
  show ?thesis by (simp add: gateway_loop_start_def gateway_loop_defs)
qed


text \<open>
  One failing \<open>accept\<close>, for instance for want of file descriptors, ends the gateway: all connections are
  cut without draining, while the administration API keeps running.
\<close>

theorem accept_error_ends_gateway:
  "gl_phase (on_accept (Err e) g) = Returned (Err e) \<and>
   gl_aborted (on_accept (Err e) g) = gl_aborted g @ gl_running g \<and>
   gl_admin_alive (on_accept (Err e) g) = gl_admin_alive g"
  by (simp add: on_accept_def return_with_def)

section \<open>The plain proxy\<close>

text \<open>Tasks that wait for a permit, tasks that hold one, and the permits left.\<close>

record proxy_loop =
  pl_phase :: serve_phase
  pl_waiting :: "nat list"
  pl_serving :: "nat list"
  pl_permits :: nat

definition proxy_loop_start :: "server_config \<Rightarrow> proxy_loop" where
  "proxy_loop_start s = \<lparr>pl_phase = Accepting, pl_waiting = [], pl_serving = [], pl_permits = sv_max_connections s\<rparr>"

definition proxy_accept :: "(nat, string) result \<Rightarrow> proxy_loop \<Rightarrow> proxy_loop" where
  "proxy_accept answer p =
     (case answer of
        Ok c \<Rightarrow> p\<lparr>pl_waiting := pl_waiting p @ [c]\<rparr>
      | Err e \<Rightarrow> p\<lparr>pl_phase := Returned (Err e)\<rparr>
      | Panic \<Rightarrow> p\<lparr>pl_phase := Returned Panic\<rparr>)"

definition acquire :: "nat \<Rightarrow> proxy_loop \<Rightarrow> proxy_loop" where
  "acquire c p =
     p\<lparr>pl_waiting := remove1 c (pl_waiting p), pl_serving := pl_serving p @ [c], pl_permits := pl_permits p - 1\<rparr>"

definition release :: "nat \<Rightarrow> proxy_loop \<Rightarrow> proxy_loop" where
  "release c p = p\<lparr>pl_serving := remove1 c (pl_serving p), pl_permits := pl_permits p + 1\<rparr>"

inductive proxy_loop_step :: "proxy_loop \<Rightarrow> proxy_loop \<Rightarrow> bool" where
  proxy_accepts: "pl_phase p = Accepting \<Longrightarrow> proxy_loop_step p (proxy_accept answer p)"
| proxy_acquires: "c \<in> set (pl_waiting p) \<Longrightarrow> pl_permits p > 0 \<Longrightarrow> proxy_loop_step p (acquire c p)"
| proxy_releases: "c \<in> set (pl_serving p) \<Longrightarrow> proxy_loop_step p (release c p)"
| proxy_stops: "pl_phase p = Accepting \<Longrightarrow> proxy_loop_step p (p\<lparr>pl_phase := Returned (Ok ())\<rparr>)"

inductive_cases proxy_loop_stepE: "proxy_loop_step p p'"

definition permits_inv :: "nat \<Rightarrow> proxy_loop \<Rightarrow> bool" where
  "permits_inv limit p \<longleftrightarrow> length (pl_serving p) + pl_permits p = limit"

lemma proxy_loop_step_inv: "proxy_loop_step p p' \<Longrightarrow> permits_inv limit p \<Longrightarrow> permits_inv limit p'"
  by (erule proxy_loop_stepE)
     (auto simp: permits_inv_def proxy_accept_def acquire_def release_def length_remove1 dest: length_pos_if_in_set
       split: result.splits)

interpretation proxy_serving: kept_invariant "\<lambda>p. p = proxy_loop_start s" proxy_loop_step "permits_inv (sv_max_connections s)"
  for s
  by unfold_locales (simp add: permits_inv_def proxy_loop_start_def, fact proxy_loop_step_inv)

text \<open>
  C33: The connection limit of the plain proxy. In every state at most the configured number of
  connections is served, and a connection waits without being able to start only while exactly that many
  are served: no permit is lost. The limit does not bound what is accepted: any number of connections
  can be waiting.
\<close>

theorem served_connections_limited:
  "(reach (\<lambda>p. p = proxy_loop_start s) proxy_loop_step p \<longrightarrow>
      length (pl_serving p) \<le> sv_max_connections s \<and>
      (pl_permits p = 0 \<longrightarrow> length (pl_serving p) = sv_max_connections s)) \<and>
   (\<exists>p. reach (\<lambda>p. p = proxy_loop_start s) proxy_loop_step p \<and> length (pl_waiting p) = n)"
proof (intro conjI impI)
  assume r: "reach (\<lambda>p. p = proxy_loop_start s) proxy_loop_step p"
  show "length (pl_serving p) \<le> sv_max_connections s"
    using proxy_serving.always [OF r] by (simp add: permits_inv_def)
  show "length (pl_serving p) = sv_max_connections s" if "pl_permits p = 0"
    using proxy_serving.always [OF r] that by (simp add: permits_inv_def)
next
  have "\<exists>p. reach (\<lambda>p. p = proxy_loop_start s) proxy_loop_step p \<and> pl_phase p = Accepting \<and> length (pl_waiting p) = n"
  proof (induction n)
    case 0
    show ?case by (rule exI [of _ "proxy_loop_start s"]) (simp add: reach_start, simp add: proxy_loop_start_def)
  next
    case (Suc n)
    then obtain p where "reach (\<lambda>p. p = proxy_loop_start s) proxy_loop_step p" "pl_phase p = Accepting"
      "length (pl_waiting p) = n" by blast
    then have "reach (\<lambda>p. p = proxy_loop_start s) proxy_loop_step (proxy_accept (Ok 0) p)"
      by (auto intro: reach_step proxy_accepts)
    then show ?case
      using \<open>pl_phase p = Accepting\<close> \<open>length (pl_waiting p) = n\<close>
      by (intro exI [of _ "proxy_accept (Ok 0) p"]) (simp add: proxy_accept_def)
  qed
  then show "\<exists>p. reach (\<lambda>p. p = proxy_loop_start s) proxy_loop_step p \<and> length (pl_waiting p) = n" by blast
qed

definition demo_server :: server_config where
  "demo_server =
     \<lparr>sv_listen_addr = ''127.0.0.1'', sv_listen_port = 8080, sv_max_body_bytes = 4, sv_upstream_timeout_secs = 30,
      sv_header_read_timeout_secs = 10, sv_max_connections = 1\<rparr>"

theorem served_connections_limited_witness:
  "let p = acquire 3 (proxy_accept (Ok 3) (proxy_loop_start demo_server))
   in pl_permits p = 0 \<and> length (pl_serving p) = sv_max_connections demo_server"
proof -
  let ?r = "reach (\<lambda>p. p = proxy_loop_start demo_server) proxy_loop_step"
  have "?r (proxy_loop_start demo_server)" by (rule reach_start) simp
  from reach_step [OF this proxy_loop_step.proxy_accepts [where answer = "Ok 3"]]
  have "?r (proxy_accept (Ok 3) (proxy_loop_start demo_server))" by (simp add: proxy_loop_start_def)
  from reach_step [OF this proxy_loop_step.proxy_acquires [where c = 3]]
  have "?r (acquire 3 (proxy_accept (Ok 3) (proxy_loop_start demo_server)))"
    by (simp add: proxy_loop_start_def demo_server_def proxy_accept_def)
  moreover have "pl_permits (acquire 3 (proxy_accept (Ok 3) (proxy_loop_start demo_server))) = 0"
    by (simp add: acquire_def proxy_accept_def proxy_loop_start_def demo_server_def)
  ultimately show ?thesis
    using served_connections_limited [of demo_server "acquire 3 (proxy_accept (Ok 3) (proxy_loop_start demo_server))"]
    by simp
qed

end
