(* ===== verification/Sqlite_Open.thy ===== *)
theory Sqlite_Open
  imports Session_Props Sqlite_Props Startup_Props
begin

text \<open>
  Opening the database (\<open>SqliteStorage::new\<close>, \<open>with_encryptor\<close> and \<open>with_optional_encryptor\<close> of
  \<open>crates/arbiter-storage/src/sqlite.rs\<close>) and the storage that the gateway runs on (\<open>build_storage\<close> of
  \<open>crates/arbiter/src/server.rs\<close>). The encryptor is a part of the storage value, so that the operations
  read it from there; what the database holds and what opening it answers are parameters.
\<close>

section \<open>The storage value\<close>

record 'k sqlite_storage =
  sq_pool :: sqlite_db
  sq_encryptor :: "'k field_encryptor option"

text \<open>The URL's parser, the connection and the embedded migrations, with their answers.\<close>

record 'o sqlite_open_env =
  so_options :: "string \<Rightarrow> ('o, string) result"
  so_connect :: "'o \<Rightarrow> (sqlite_db, string) result"
  so_migrate :: "sqlite_db \<Rightarrow> (sqlite_db, string) result"

definition or_fail :: "('e \<Rightarrow> 'f) \<Rightarrow> ('a, 'e) result \<Rightarrow> ('a, 'f) result" where
  "or_fail f r = (case r of Ok x \<Rightarrow> Ok x | Err e \<Rightarrow> Err (f e) | Panic \<Rightarrow> Panic)"

definition sqlite_storage_new ::
  "'o sqlite_open_env \<Rightarrow> string \<Rightarrow> ('k sqlite_storage, storage_error) result" where
  "sqlite_storage_new oenv database_url =
     rbind (or_fail StConnection (so_options oenv database_url)) (\<lambda>options.
     rbind (or_fail StConnection (so_connect oenv options)) (\<lambda>pool.
     rbind (or_fail StMigration (so_migrate oenv pool)) (\<lambda>pool.
       Ok \<lparr>sq_pool = pool, sq_encryptor = None\<rparr>)))"

definition with_encryptor :: "'k field_encryptor \<Rightarrow> 'k sqlite_storage \<Rightarrow> 'k sqlite_storage" where
  "with_encryptor fe st = st\<lparr>sq_encryptor := Some fe\<rparr>"

definition with_optional_encryptor :: "'k field_encryptor option \<Rightarrow> 'k sqlite_storage \<Rightarrow> 'k sqlite_storage" where
  "with_optional_encryptor fe st = st\<lparr>sq_encryptor := fe\<rparr>"

text \<open>The operations of the session storage on such a value.\<close>

definition storage_codec :: "'k text_codec \<Rightarrow> 'k sqlite_storage \<Rightarrow> 'k text_codec" where
  "storage_codec tc st = tc\<lparr>tc_encryptor := sq_encryptor st\<rparr>"

definition on_pool ::
  "'k sqlite_storage \<Rightarrow> (sqlite_db \<Rightarrow> 'a \<times> sqlite_db) \<Rightarrow> 'a \<times> 'k sqlite_storage" where
  "on_pool st f = (let (r, db) = f (sq_pool st) in (r, st\<lparr>sq_pool := db\<rparr>))"

definition opened_session_ops :: "'k text_codec \<Rightarrow> instant \<Rightarrow> 'k sqlite_storage session_storage" where
  "opened_session_ops tc now =
     \<lparr>sto_insert = (\<lambda>s st. on_pool st (sto_insert (sqlite_session_ops (storage_codec tc st) now) s)),
      sto_update = (\<lambda>s st. on_pool st (sto_update (sqlite_session_ops (storage_codec tc st) now) s)),
      sto_list = (\<lambda>st. sto_list (sqlite_session_ops (storage_codec tc st) now) (sq_pool st)),
      sto_delete_expired = (\<lambda>st. on_pool st (sto_delete_expired (sqlite_session_ops (storage_codec tc st) now)))\<rparr>"

text \<open>The opening as \<open>build_storage\<close> does it: both stores share the storage value.\<close>

definition open_sqlite ::
  "'k text_codec \<Rightarrow> 'o sqlite_open_env \<Rightarrow> string \<Rightarrow> ('k sqlite_storage \<times> 'k sqlite_storage, string) result" where
  "open_sqlite tc oenv db_url =
     rbind (or_fail (storage_error_display (tc_uuid tc)) (sqlite_storage_new oenv db_url)) (\<lambda>st. Ok (st, st))"

section \<open>What is written\<close>

lemma or_fail_Ok [simp]: "or_fail f r = Ok x \<longleftrightarrow> r = Ok x"
  by (simp add: or_fail_def split: result.splits)

lemma sqlite_storage_new_plain: "sqlite_storage_new oenv url = Ok st \<Longrightarrow> sq_encryptor st = None"
  by (auto simp: sqlite_storage_new_def rbind_Ok)

lemma build_storage_plain:
  assumes "build_storage ops (open_sqlite tc oenv) sg = Ok (reg, StorageBacked sb)"
  shows "sq_encryptor (sb_storage sb) = None"
proof -
  obtain st where st: "sqlite_storage_new oenv (''sqlite:'' @ sg_sqlite_path sg) = Ok st" "sb_new ops st = Ok sb"
    using assms by (auto simp: build_storage_def open_sqlite_def rbind_Ok split: if_splits result.splits prod.splits)
  have "sb_storage sb = st"
    using st(2) by (auto simp: sb_new_def reload_from_storage_def split: result.splits option.splits)
  with sqlite_storage_new_plain [OF st(1)] show ?thesis by simp
qed

text \<open>Without an encryptor an insert that succeeds stores the three columns as they are.\<close>

definition plain_row :: "'k text_codec \<Rightarrow> create_session_request \<Rightarrow> session_row \<Rightarrow> bool" where
  "plain_row tc req row \<longleftrightarrow>
     er_declared_intent row = csr_declared_intent req \<and>
     er_authorized_tools row = cr_vec_text (tc_crypto tc) (csr_authorized_tools req) \<and>
     er_delegation_chain_snapshot row = cr_vec_text (tc_crypto tc) (csr_delegation_chain_snapshot req)"

lemma plain_insert:
  assumes "sq_encryptor (sb_storage sb) = None" and "db_faults (sq_pool (sb_storage sb)) = []"
  shows "\<exists>row. db_sessions (sq_pool (sb_storage (snd (sb_create (opened_session_ops tc now) sid now1 now2 req sb)))) =
      db_sessions (sq_pool (sb_storage sb)) @ [row] \<and> plain_row tc req row"
  using assms
  by (simp add: sb_create_def opened_session_ops_def on_pool_def storage_codec_def sqlite_session_ops_def 
      sqlite_insert_session_def session_to_row_def write_field_def write_string_vec_def draw_def statement_def
       Let_def plain_row_def domain_to_stored_def fresh_session_def split: prod.splits)


definition open_demo_db :: sqlite_db where
  "open_demo_db = \<lparr>db_agents = [], db_sessions = [], db_delegations = [], db_faults = [], db_drawn = 0\<rparr>"

definition open_demo_env :: "string sqlite_open_env" where
  "open_demo_env = \<lparr>so_options = Ok, so_connect = (\<lambda>_. Ok open_demo_db), so_migrate = Ok\<rparr>"

definition keyed_config_env :: "string config_env" where
  "keyed_config_env = start_config_env\<lparr>ce_vars := [(''ARBITER_STORAGE_ENCRYPTION_KEY'', ''k'')]\<rparr>"

definition sqlite_config :: "string arbiter_config" where
  "sqlite_config = start_demo_config\<lparr>ax_storage := \<lparr>sg_backend = ''sqlite'', sg_sqlite_path = ''a.db''\<rparr>\<rparr>"

lemma open_demo_builds:
  "build_storage (opened_session_ops (sql_codec None) 0) (open_sqlite (sql_codec None) open_demo_env) (ax_storage sqlite_config) =
     Ok (RegStorageBacked \<lparr>sq_pool = open_demo_db, sq_encryptor = None\<rparr>,
         StorageBacked \<lparr>sb_cache = store_new, sb_storage = \<lparr>sq_pool = open_demo_db, sq_encryptor = None\<rparr>\<rparr>)"
  by (simp add: build_storage_def open_sqlite_def sqlite_storage_new_def or_fail_def open_demo_env_def sqlite_config_def
      sb_new_def reload_from_storage_def opened_session_ops_def sqlite_session_ops_def sqlite_list_sessions_def
      open_demo_db_def  statement_def )

lemma open_demo_faults: "db_faults open_demo_db = []"
  by (simp add: open_demo_db_def)

lemma keyed_config: "encryption_key_set keyed_config_env"
proof -
  have "env_var id [(''ARBITER_STORAGE_ENCRYPTION_KEY'', ''k'')] ''ARBITER_STORAGE_ENCRYPTION_KEY'' = Ok ''k''" by code_simp
  moreover have "trim_front WHITE_SPACE ''k'' = ''k''" "trim_front (map rev WHITE_SPACE) ''k'' = ''k''"
    by (subst trim_front.simps, simp add: WHITE_SPACE_def starts_with_def upt_rec char_of_def)+
  ultimately show ?thesis by (simp add: encryption_key_set_def str_trim_def keyed_config_env_def start_config_env_def)
qed


end
