(* ===== verification/Policy_Schema.thy ===== *)
theory Policy_Schema
  imports Policy_Model
begin

text \<open>
  The JSON Schema that \<open>GET /policy/schema\<close> returns (\<open>policy_schema\<close> of
  \<open>crates/arbiter-lifecycle/src/api.rs\<close>) as a value, and what it says about the fields of a rule
  (\<open>crates/arbiter-policy/src/model.rs\<close>). The entries of an object are in key order.
\<close>

section \<open>The schema\<close>

definition schema_ref :: "string \<Rightarrow> json" where
  "schema_ref name = JObj [(''$ref'', JStr (''#/$defs/'' @ name))]"

definition schema_policy :: json where
  "schema_policy = JObj
    [(''description'', JStr ''A single authorization policy rule.''),
     (''properties'', JObj
        [(''agent_match'', schema_ref ''AgentMatch''),
         (''allowed_tools'', JObj
            [(''description'', JStr ''Tools this policy applies to. Empty array means 'all tools'.''),
             (''items'', JObj [(''type'', JStr ''string'')]),
             (''type'', JStr ''array'')]),
         (''effect'', schema_ref ''Effect''),
         (''id'', JObj
            [(''description'', JStr ''Unique identifier for this policy. Used in audit logs and policy traces.''),
             (''type'', JStr ''string'')]),
         (''intent_match'', schema_ref ''IntentMatch''),
         (''parameter_constraints'', JObj
            [(''description'', JStr ''Per-parameter bounds on tool arguments.''),
             (''items'', schema_ref ''ParameterConstraint''),
             (''type'', JStr ''array'')]),
         (''principal_match'', schema_ref ''PrincipalMatch''),
         (''priority'', JObj
            [(''default'', JNum (NumInt 0)),
             (''description'', JStr (''Manual priority override. 0 = auto-computed from match specificity. Higher wins '' @
            ''ties.'')),
             (''type'', JStr ''integer'')])]),
     (''required'', JArr [JStr ''id'', JStr ''effect'']),
     (''type'', JStr ''object'')]"

definition schema_effect :: json where
  "schema_effect = JObj
    [(''description'', JStr (''allow = permit the request. deny = block it. escalate = require '' @
            ''human-in-the-loop approval.'')),
     (''enum'', JArr [JStr ''allow'', JStr ''deny'', JStr ''escalate'']),
     (''type'', JStr ''string'')]"

definition schema_agent_match :: json where
  "schema_agent_match = JObj
    [(''description'', JStr ''Criteria for matching the requesting agent. All specified fields must match.''),
     (''properties'', JObj
        [(''agent_id'', JObj
            [(''description'', JStr ''Match a specific agent by UUID. Specificity: +100.''),
             (''format'', JStr ''uuid''),
             (''type'', JStr ''string'')]),
         (''capabilities'', JObj
            [(''description'', JStr ''Agent must have all listed capabilities. Specificity: +25 each.''),
             (''items'', JObj [(''type'', JStr ''string'')]),
             (''type'', JStr ''array'')]),
         (''trust_level'', schema_ref ''TrustLevel'')]),
     (''type'', JStr ''object'')]"

definition schema_trust_level :: json where
  "schema_trust_level = JObj
    [(''description'', JStr (''Agent trust tier. untrusted < basic < verified < trusted. Matches agents at or '' @
            ''above the specified level. Specificity: +50.'')),
     (''enum'', JArr [JStr ''untrusted'', JStr ''basic'', JStr ''verified'', JStr ''trusted'']),
     (''type'', JStr ''string'')]"

definition schema_principal_match :: json where
  "schema_principal_match = JObj
    [(''description'', JStr ''Criteria for matching the human principal on whose behalf the agent acts.''),
     (''properties'', JObj
        [(''groups'', JObj
            [(''description'', JStr ''Principal must belong to at least one of these groups. Specificity: +20 each.''),
             (''items'', JObj [(''type'', JStr ''string'')]),
             (''type'', JStr ''array'')]),
         (''sub'', JObj
            [(''description'', JStr ''Exact principal subject identifier (e.g., 'user:alice'). Specificity: +40.''),
             (''type'', JStr ''string'')])]),
     (''type'', JStr ''object'')]"

definition schema_intent_match :: json where
  "schema_intent_match = JObj
    [(''description'', JStr ''Criteria for matching the session's declared intent.''),
     (''properties'', JObj
        [(''keywords'', JObj
            [(''description'', JStr (''Case-insensitive substrings that must appear in the declared intent. '' @
            ''Specificity: +10 each.'')),
             (''items'', JObj [(''type'', JStr ''string'')]),
             (''type'', JStr ''array'')]),
         (''regex'', JObj
            [(''description'', JStr (''Regex pattern the declared intent must match. Compiled at config load time. '' @
            ''Specificity: +30.'')),
             (''type'', JStr ''string'')])]),
     (''type'', JStr ''object'')]"

definition schema_parameter_constraint :: json where
  "schema_parameter_constraint = JObj
    [(''description'', JStr ''A constraint on a tool call parameter.''),
     (''properties'', JObj
        [(''allowed_values'', JObj
            [(''description'', JStr ''Whitelist of allowed string values.''),
             (''items'', JObj [(''type'', JStr ''string'')]),
             (''type'', JStr ''array'')]),
         (''key'', JObj
            [(''description'', JStr ''Dotted path to the parameter (e.g., 'arguments.max_tokens').''),
             (''type'', JStr ''string'')]),
         (''max_value'', JObj
            [(''description'', JStr ''Maximum numeric value allowed.''),
             (''type'', JStr ''number'')]),
         (''min_value'', JObj
            [(''description'', JStr ''Minimum numeric value allowed.''),
             (''type'', JStr ''number'')])]),
     (''required'', JArr [JStr ''key'']),
     (''type'', JStr ''object'')]"

definition schema_data_sensitivity :: json where
  "schema_data_sensitivity = JObj
    [(''description'', JStr (''Data sensitivity ceiling for sessions. public < internal < confidential < '' @
            ''restricted.'')),
     (''enum'', JArr [JStr ''public'', JStr ''internal'', JStr ''confidential'', JStr ''restricted'']),
     (''type'', JStr ''string'')]"

definition policy_schema_json :: json where
  "policy_schema_json = JObj
   [(''$defs'', JObj
    [(''AgentMatch'', schema_agent_match),
     (''DataSensitivity'', schema_data_sensitivity),
     (''Effect'', schema_effect),
     (''IntentMatch'', schema_intent_match),
     (''ParameterConstraint'', schema_parameter_constraint),
     (''Policy'', schema_policy),
     (''PrincipalMatch'', schema_principal_match),
     (''TrustLevel'', schema_trust_level)]),
    (''$schema'', JStr ''https://json-schema.org/draft/2020-12/schema''),
    (''description'', JStr (''Defines authorization policies for the Arbiter MCP gateway. Policies are '' @
            ''evaluated top-to-bottom; the most specific match wins. If no policy matches, '' @
            ''the request is denied (deny-by-default).'')),
    (''properties'', JObj
     [(''policies'', JObj
         [(''description'', JStr (''Ordered list of authorization policies. Evaluated by specificity score; the '' @
            ''most specific matching policy's effect applies.'')),
          (''items'', schema_ref ''Policy''),
          (''type'', JStr ''array'')])]),
    (''title'', JStr ''Arbiter Policy Configuration''),
    (''type'', JStr ''object'')]"

section \<open>References and fields\<close>

text \<open>The names that a schema refers to, the names it defines, and the fields it lists for a type.\<close>

fun refs_of :: "json \<Rightarrow> string list" where
  "refs_of (JObj m) =
     concat (map (\<lambda>(k, v). case v of JStr s \<Rightarrow> if k = ''$ref'' then [s] else [] | _ \<Rightarrow> refs_of v) m)"
| "refs_of (JArr vs) = concat (map refs_of vs)"
| "refs_of _ = []"

definition keys_of :: "json option \<Rightarrow> string list" where
  "keys_of v = (case v of Some (JObj m) \<Rightarrow> map fst m | _ \<Rightarrow> [])"

definition schema_definitions :: "string list" where
  "schema_definitions = keys_of (jget ''$defs'' policy_schema_json)"

definition schema_fields :: "string \<Rightarrow> string list" where
  "schema_fields name =
     keys_of (Option.bind (jget ''$defs'' policy_schema_json) (\<lambda>ds. Option.bind (jget name ds) (jget ''properties'')))"

text \<open>The fields that the deserializer of each type of a rule reads.\<close>

definition rule_fields :: "(string \<times> string list) list" where
  "rule_fields =
     [(''Policy'', [''id'', ''agent_match'', ''principal_match'', ''intent_match'', ''allowed_tools'', ''resource_match'',
         ''parameter_constraints'', ''effect'', ''disposition'', ''priority'']),
      (''AgentMatch'', [''agent_id'', ''trust_level'', ''capabilities'']),
      (''PrincipalMatch'', [''sub'', ''groups'']),
      (''IntentMatch'', [''keywords'', ''regex'']),
      (''ParameterConstraint'', [''key'', ''max_value'', ''min_value'', ''allowed_values''])]"

lemmas schema_defs = policy_schema_json_def schema_policy_def schema_effect_def schema_agent_match_def
  schema_trust_level_def schema_principal_match_def schema_intent_match_def schema_parameter_constraint_def
  schema_data_sensitivity_def schema_ref_def

text \<open>Every reference of the schema leads to one of its definitions.\<close>

theorem schema_references_resolve:
  "\<forall>r \<in> set (refs_of policy_schema_json). \<exists>name \<in> set schema_definitions. r = ''#/$defs/'' @ name"
  by (simp add: schema_defs schema_definitions_def keys_of_def)

text \<open>
  The schema lists no field that is not read; of the fields of a rule it leaves out the resource
  prefixes and the disposition, and of the other types none.
\<close>

theorem schema_fields_against_rules:
  "list_all (\<lambda>(t, fs). list_all (\<lambda>f. f \<in> set fs) (schema_fields t)) rule_fields \<and>
   map (\<lambda>(t, fs). (t, filter (\<lambda>f. f \<notin> set (schema_fields t)) fs)) rule_fields =
     [(''Policy'', [''resource_match'', ''disposition'']), (''AgentMatch'', []), (''PrincipalMatch'', []),
      (''IntentMatch'', []), (''ParameterConstraint'', [])]"
  by (simp add: schema_defs rule_fields_def schema_fields_def keys_of_def)

end
