(* ===== verification/Spec2Isabelle.thy ===== *)
theory Spec2Isabelle
  imports Session_Props Sqlite_Props Oauth_Props Startup_Props Cli_Props Plain_Proxy Watcher Serving
    Sqlite_Open Policy_Schema
begin

text \<open>
  Arbiter is a gateway between AI agents and MCP tool servers. A request of an agent runs through a
  pipeline that enforces a task session with a budget, a set of
  tools and a time limit; policies written by an operator; a comparison of what a call does with the
  intent the session declared; the resolution of credential references that agents never see; and an
  audit trail chained by hashes. An administration API manages agents, delegations, sessions and
  policies. This library models the Rust crates under \<open>src/crates\<close> and proves what they promise.

  \<^bold>\<open>Theories and sources\<close>

  \<^descr>[Prelude] machine integers (\<open>u64\<close>, \<open>u32\<close> as words), instants and spans in nanoseconds, the
    type \<open>result\<close> with a third outcome for a panic, hash maps as association lists behind the locale
    \<open>hash_map\<close>, JSON values.
  \<^descr>[Json] what the sources use of Rust strings (bytes of UTF-8), floating point numbers and
    \<open>serde_json\<close>.
  \<^descr>[Session] \<open>arbiter-session\<close>: \<open>model.rs\<close>, \<open>error.rs\<close>, \<open>store.rs\<close>, \<open>middleware.rs\<close>. The store is a record
    with an association list; \<open>create\<close>, \<open>create_if_under_cap\<close>, \<open>use_session\<close>, \<open>use_session_batch\<close>, \<open>close\<close>,
    \<open>close_sessions_for_agent\<close> and \<open>cleanup_expired\<close> are functions on it.
  \<^descr>[Session_Iface] the locale \<open>session_backend\<close>, the contract of a store that charges batches; its
    lemmas give budgets and refusals for every implementation. It is interpreted on the in-memory store
    (\<open>mem\<close> in Session_Run), on the storage-backed one (\<open>sb\<close> in Session_Storage) and on the dispatch
    between them (\<open>any\<close> in Any_Store), which is the one the pipeline calls.
  \<^descr>[Session_Run, Session_Props] runs of the store as an inductive step relation, with the cap, the
    budgets, the finality of closing and the equivalence of single calls and batches.
  \<^descr>[Session_Storage, Any_Store] \<open>storage_store.rs\<close> and \<open>any_store.rs\<close>: a cache written through to a
    backend that may fail at any call.
  \<^descr>[Identity, Identity_Props] \<open>arbiter-identity\<close>: agents, delegation links, chains, the cascade of
    deactivation with its termination.
  \<^descr>[Registry_Storage, Any_Registry] \<open>storage_registry.rs\<close> and \<open>any_registry.rs\<close>: the same operations over a
    backend. The locale \<open>agent_tables\<close> says what tables promise; it is interpreted on SQLite (\<open>sq\<close> in
    Sqlite). The loops over a backend are partial functions: a backend may keep them running.
  \<^descr>[Encryption, Sqlite, Sqlite_Props] \<open>arbiter-storage\<close>: field encryption, the rows of the three
    tables, every statement, and the refinement of the in-memory registry by the SQLite one.
  \<^descr>[Mcp] \<open>arbiter-mcp\<close>: JSON-RPC envelopes, batches, the canonical body that is sent upstream.
  \<^descr>[Sqlite_Open] \<open>SqliteStorage::new\<close> with its errors, the encryptor as a part of the storage value, and
    the storage that \<open>build_storage\<close> opens from the configuration.
  \<^descr>[Policy_Model, Policy_Eval, Policy_Props] \<open>arbiter-policy\<close>: rules, specificity, compilation,
    validation, matching, evaluation with its trace, reloading.
  \<^descr>[Policy_Schema] the JSON Schema that the administration API serves, as a value, against the fields of a rule.
  \<^descr>[Reach] reachable states of a step relation and the locale \<open>kept_invariant\<close>: what holds at the start and is
    kept by each step holds always. It is interpreted on the three event loops below (\<open>watch\<close>,
    \<open>gateway_serving\<close>, \<open>proxy_serving\<close>).
  \<^descr>[Watcher] \<open>watcher.rs\<close> and its start in \<open>server.rs\<close>: the callback, the channel of 16 that drops what does
    not fit, the task that debounces and reloads; file changes, notifications and the task are steps in any order.
  \<^descr>[Behavior] \<open>arbiter-behavior\<close>: operation classes, intent tiers, the detector, the tracker.
  \<^descr>[Credential] \<open>arbiter-credential\<close>: references, injection, scrubbing of answers, classification.
  \<^descr>[Audit_Log] \<open>arbiter-audit\<close>: entries, redaction, statistics, the hash chain, the sink with its
    degraded mode.
  \<^descr>[Proxy] the middleware of \<open>arbiter-proxy\<close>.
  \<^descr>[Stages, Gateway, Gateway_Props] \<open>arbiter/src/stages\<close> and \<open>arbiter/src/handler.rs\<close>: the pipeline from
    the endpoints to the answer. \<open>handle_admission\<close> runs up to the request for the upstream;
    \<open>handle_response\<close> takes what the upstream did.
  \<^descr>[Lifecycle, Lifecycle_Props] \<open>arbiter-lifecycle\<close>: tokens, rate limiter and all handlers of the
    administration API.
  \<^descr>[System] \<open>arbiter/src/server.rs\<close>: the parts over one shared state, as a step relation.
  \<^descr>[Oauth, Oauth_Props] \<open>arbiter-oauth\<close>: claims, issuers, key caches, the validator with its refresh on an
    unknown key, introspection, the middleware. The gateway links this crate and does not call it.
  \<^descr>[Providers] \<open>file_provider.rs\<close> and \<open>env_provider.rs\<close>. The locale \<open>read_only_provider\<close> says that resolving
    changes nothing and succeeds on what is listed; it is interpreted on both (\<open>filep\<close>, \<open>envp\<close>).
  \<^descr>[Config] \<open>arbiter/src/config.rs\<close> and \<open>main.rs\<close>: the sections, their defaults and their reading, the secrets of the
    environment, the validation.
  \<^descr>[Startup, Startup_Props] the builders and \<open>run\<close> of \<open>server.rs\<close>, \<open>ArbiterState::new\<close> of \<open>handler.rs\<close>: from the
    configuration to the state in which System starts.
  \<^descr>[Metrics] \<open>arbiter-metrics\<close>: counters with labels, durations, gauges. The gateway model keeps two gauges of it.
  \<^descr>[Plain_Proxy] the proxy of \<open>arbiter-proxy\<close> without the pipeline (\<open>config.rs\<close>, \<open>server.rs\<close>, \<open>proxy.rs\<close>) and the
    capture of audit entries (\<open>arbiter-audit/src/middleware.rs\<close>); it records in Metrics and in Audit_Log.
  \<^descr>[Serving] the accepting loops of \<open>arbiter/src/server.rs\<close> (join set, draining, timeout) and of
    \<open>arbiter-proxy/src/server.rs\<close> (semaphore). A connection is a number; its requests are what the handlers model.
  \<^descr>[Cli, Self_Update, Cli_Props] \<open>arbiter-cli\<close>: the calls of the API, the diagnosis, the dry run of a policy
    file, the update of the binaries on an explicit disk whose operations may fail.

  \<^bold>\<open>How state and effects correspond\<close>

  A structure behind a lock is a record; a method that takes the lock is a function from the record to
  an answer and a new record, so that one application is one critical section. Each reading of a clock,
  each UUID and each nonce is an argument of the operation, hence unconstrained in a theorem unless it
  says so. A handler that releases a lock between two steps is split there (\<open>session_admission\<close> and
  \<open>session_commit\<close> for the creation of a session), and the steps are interleaved where a theorem is
  about interleaving. Integers keep their width and wrap, or saturate, as the source has it. A panic is
  the outcome \<open>Panic\<close>, \<open>Aborted\<close> for a handler; a loop that need not end is a \<open>partial_function\<close> with
  \<open>None\<close> for not returning. No fuel is used.

  Code outside the repository is a parameter: regular expressions, AES-GCM, base64, the
  JSON text codec, BLAKE3 and SHA-256, the JWT library, the UUID parser, the TOML reader, the file system, the network and the
  database engine (a schedule says which statements fail). A theorem that relies on them names the
  documented law as a hypothesis (a decoder that inverts its
  encoder, say) and its witness instantiates the parameter with a concrete function.

  \<^bold>\<open>What is shown\<close>

  \<^item> Composition: a request is forwarded only when the session, the policies, the detector and the
    credential whitelist admitted it; in every reachable state of the whole program only for an active
    agent; each decision leaves one audit entry.
  \<^item> Sessions: the cap, the budget, batches charged wholly or not at all, finality of closing; the storage-backed
    store refines the in-memory one whatever its backend does.
  \<^item> Agents: delegations narrow scopes and stay acyclic, the cascade terminates and reaches
    exactly the descendants, on SQLite too.
  \<^item> Policies: the deciding rule is the first of the most specific ones; what an allow rests on;
    compiled and uncompiled patterns decide alike.
  \<^item> Data: round trips of the canonical body, of encrypted fields and of stored sessions; redaction
    and scrubbing leave no secret; the audit file verifies; the sink recovers.
  \<^item> Administration: no call without the key, the rate limit holds in every window, sessions and tokens are bounded.
  \<^item> Start: a program that starts has safe secrets and limits, and every state it reaches owns its
    sessions; which settings have no effect.
  \<^item> Tokens and credentials: what an accepted bearer token is, how often keys are fetched; the values of a
    credential file are injected and scrubbed.
  \<^item> Event loops: every change of the policy file takes effect once its notification is delivered, in every
    interleaving; the shutdown serves each accepted connection or cuts it by its timeout; the plain
    proxy serves no more connections than configured.
  \<^item> Plain proxy and metrics: what is forwarded and how large an answer is; labels stay few and harmless.
  \<^item> Tool: an update replaces a binary as a whole, by verified contents; the dry run predicts the policy stage.
  \<^item> Deviations: behaviour that contradicts a comment or another part is stated as a theorem about
    the code as it is, on a concrete state.

  \<^bold>\<open>Not modelled\<close>

  Sockets, TLS and HTTP framing, timers as such (a sleep or a timeout is a step that may happen), logging, the
  registration and the text encoding of Prometheus metrics (and their counters inside the gateway), argument
  parsing and the SQL of the migrations: input and output, or code of libraries that the sources only call.
\<close>

end
